(* ===== verification/Prelude.thy ===== *)
theory Prelude
  imports Main "HOL-Library.List_Lexorder" "HOL-Library.Char_ord"
begin

section \<open>Prelude: effects, tables and shared proof automation\<close>

text \<open>
  The services of the repository are \<^verbatim>\<open>async\<close> methods that read and write tables and may
  throw. A method is modelled as a function from the state to a result and the state after the
  call; a thrown error is \<open>Inl\<close>, and the writes made before it are kept, as they are in the
  code (each D1 statement commits on its own). This theory holds that type, the rules that carry
  an invariant through it, and the table operations the SQL of the repositories is made of.
\<close>

type_synonym ('s, 'e, 'a) eff = "'s \<Rightarrow> ('e + 'a) \<times> 's"

definition ret :: "'a \<Rightarrow> ('s, 'e, 'a) eff" where
  "ret x = (\<lambda>s. (Inr x, s))"

definition throw :: "'e \<Rightarrow> ('s, 'e, 'a) eff" where
  "throw e = (\<lambda>s. (Inl e, s))"

definition bnd :: "('s, 'e, 'a) eff \<Rightarrow> ('a \<Rightarrow> ('s, 'e, 'b) eff) \<Rightarrow> ('s, 'e, 'b) eff" where
  "bnd m f = (\<lambda>s. case m s of (Inl e, s') \<Rightarrow> (Inl e, s') | (Inr x, s') \<Rightarrow> f x s')"

definition thn :: "('s, 'e, 'a) eff \<Rightarrow> ('s, 'e, 'b) eff \<Rightarrow> ('s, 'e, 'b) eff" where
  "thn m k = bnd m (\<lambda>_. k)"

definition catch :: "('s, 'e, 'a) eff \<Rightarrow> ('e \<Rightarrow> ('s, 'e, 'a) eff) \<Rightarrow> ('s, 'e, 'a) eff" where
  "catch m h = (\<lambda>s. case m s of (Inl e, s') \<Rightarrow> h e s' | (Inr x, s') \<Rightarrow> (Inr x, s'))"

definition finally_do :: "('s, 'e, 'a) eff \<Rightarrow> ('s, 'e, unit) eff \<Rightarrow> ('s, 'e, 'a) eff" where
  "finally_do m k = (\<lambda>s. case m s of (r, s') \<Rightarrow>
     (case k s' of (Inl e, s'') \<Rightarrow> (Inl e, s'') | (Inr _, s'') \<Rightarrow> (r, s'')))"

definition gets :: "('s \<Rightarrow> 'a) \<Rightarrow> ('s, 'e, 'a) eff" where
  "gets f = (\<lambda>s. (Inr (f s), s))"

definition modify :: "('s \<Rightarrow> 's) \<Rightarrow> ('s, 'e, unit) eff" where
  "modify f = (\<lambda>s. (Inr (), f s))"

definition whenM :: "bool \<Rightarrow> ('s, 'e, unit) eff \<Rightarrow> ('s, 'e, unit) eff" where
  "whenM b m = (if b then m else ret ())"

fun mapM :: "('a \<Rightarrow> ('s, 'e, 'b) eff) \<Rightarrow> 'a list \<Rightarrow> ('s, 'e, 'b list) eff" where
  "mapM f [] = ret []"
| "mapM f (x # xs) = bnd (f x) (\<lambda>y. bnd (mapM f xs) (\<lambda>ys. ret (y # ys)))"

fun foldM :: "('b \<Rightarrow> 'a \<Rightarrow> ('s, 'e, 'b) eff) \<Rightarrow> 'b \<Rightarrow> 'a list \<Rightarrow> ('s, 'e, 'b) eff" where
  "foldM f b [] = ret b"
| "foldM f b (x # xs) = bnd (f b x) (\<lambda>b'. foldM f b' xs)"

named_theorems eff_defs "definitions of the effect combinators"

lemmas eff_basic [eff_defs] =
  ret_def throw_def bnd_def thn_def catch_def finally_do_def gets_def modify_def whenM_def

lemma ret_app [simp]: "ret x s = (Inr x, s)"
  by (simp add: ret_def)

lemma throw_app [simp]: "throw e s = (Inl e, s)"
  by (simp add: throw_def)

lemma gets_app [simp]: "gets f s = (Inr (f s), s)"
  by (simp add: gets_def)

lemma modify_app [simp]: "modify f s = (Inr (), f s)"
  by (simp add: modify_def)

lemma whenM_app [simp]: "whenM b m s = (if b then m s else (Inr (), s))"
  by (simp add: whenM_def)

lemma bnd_app: "bnd m f s = (case m s of (Inl e, s') \<Rightarrow> (Inl e, s') | (Inr x, s') \<Rightarrow> f x s')"
  by (simp add: bnd_def)

lemma bnd_Inr [simp]: "m s = (Inr x, s') \<Longrightarrow> bnd m f s = f x s'"
  by (simp add: bnd_def)

lemma bnd_Inl [simp]: "m s = (Inl e, s') \<Longrightarrow> bnd m f s = (Inl e, s')"
  by (simp add: bnd_def)

lemma bnd_InrE:
  assumes "bnd m f s = (Inr r, s')"
  obtains x s1 where "m s = (Inr x, s1)" "f x s1 = (Inr r, s')"
  using assms by (auto simp: bnd_def split: prod.splits sum.splits)

lemma thn_InrE:
  assumes "thn m k s = (Inr r, s')"
  obtains x s1 where "m s = (Inr x, s1)" "k s1 = (Inr r, s')"
  using assms by (auto simp: thn_def elim: bnd_InrE)

lemmas inrE = bnd_InrE thn_InrE

lemma bnd_ret [simp]: "bnd (ret x) f = f x"
  by (simp add: bnd_def ret_def fun_eq_iff)

lemma bnd_gets [simp]: "bnd (gets g) f = (\<lambda>s. f (g s) s)"
  by (simp add: bnd_def gets_def fun_eq_iff)

lemma bnd_throw [simp]: "bnd (throw e) f = throw e"
  by (simp add: bnd_def throw_def fun_eq_iff)

lemma bnd_assoc: "bnd (bnd m f) g = bnd m (\<lambda>x. bnd (f x) g)"
  by (auto simp: bnd_def fun_eq_iff split: prod.splits sum.splits)

subsection \<open>Invariants of effects\<close>

text \<open>
  \<open>keeps P m\<close>: whatever \<open>m\<close> returns or throws, a state that satisfies \<open>P\<close> before the call
  satisfies it afterwards. The rules below are in the collection \<open>keeps_intros\<close>; each component
  adds one rule per operation, and the invariant of a handler is then one line.
\<close>

definition keeps :: "('s \<Rightarrow> bool) \<Rightarrow> ('s, 'e, 'a) eff \<Rightarrow> bool" where
  "keeps P m \<longleftrightarrow> (\<forall>s. P s \<longrightarrow> P (snd (m s)))"

named_theorems keeps_intros "an effect keeps an invariant"

lemma keepsI: "(\<And>s. P s \<Longrightarrow> P (snd (m s))) \<Longrightarrow> keeps P m"
  by (simp add: keeps_def)

lemma keepsD: "keeps P m \<Longrightarrow> P s \<Longrightarrow> m s = (r, s') \<Longrightarrow> P s'"
  by (auto simp: keeps_def dest: spec[of _ s])

lemma keeps_snd: "keeps P m \<Longrightarrow> P s \<Longrightarrow> P (snd (m s))"
  by (simp add: keeps_def)

lemma keeps_ret [keeps_intros]: "keeps P (ret x)"
  by (simp add: keeps_def)

lemma keeps_throw [keeps_intros]: "keeps P (throw e)"
  by (simp add: keeps_def)

lemma keeps_gets [keeps_intros]: "keeps P (gets f)"
  by (simp add: keeps_def)

lemma keeps_modify: "(\<And>s. P s \<Longrightarrow> P (f s)) \<Longrightarrow> keeps P (modify f)"
  by (simp add: keeps_def)

lemma keeps_bnd [keeps_intros]:
  assumes "keeps P m" and "\<And>x. keeps P (f x)"
  shows "keeps P (bnd m f)"
proof (rule keepsI)
  fix s assume "P s"
  with assms(1) have "P (snd (m s))" by (rule keeps_snd)
  then show "P (snd (bnd m f s))"
    using assms(2) by (auto simp: bnd_def keeps_def split: prod.splits sum.splits)
qed

lemma keeps_thn [keeps_intros]: "keeps P m \<Longrightarrow> keeps P k \<Longrightarrow> keeps P (thn m k)"
  by (simp add: thn_def keeps_bnd)

lemma keeps_catch [keeps_intros]:
  assumes "keeps P m" and "\<And>e. keeps P (h e)"
  shows "keeps P (catch m h)"
proof (rule keepsI)
  fix s assume "P s"
  with assms(1) have "P (snd (m s))" by (rule keeps_snd)
  then show "P (snd (catch m h s))"
    using assms(2) by (auto simp: catch_def keeps_def split: prod.splits sum.splits)
qed

lemma keeps_finally [keeps_intros]:
  assumes "keeps P m" and "keeps P k"
  shows "keeps P (finally_do m k)"
proof (rule keepsI)
  fix s assume "P s"
  with assms(1) have "P (snd (m s))" by (rule keeps_snd)
  with assms(2) have "P (snd (k (snd (m s))))" by (rule keeps_snd)
  then show "P (snd (finally_do m k s))"
    by (auto simp: finally_do_def split: prod.splits sum.splits)
qed

lemma keeps_whenM [keeps_intros]: "(b \<Longrightarrow> keeps P m) \<Longrightarrow> keeps P (whenM b m)"
  by (simp add: keeps_def)

lemma keeps_if [keeps_intros]:
  "(b \<Longrightarrow> keeps P m) \<Longrightarrow> (\<not> b \<Longrightarrow> keeps P k) \<Longrightarrow> keeps P (if b then m else k)"
  by simp

lemma keeps_case_option [keeps_intros]:
  "(x = None \<Longrightarrow> keeps P m) \<Longrightarrow> (\<And>y. x = Some y \<Longrightarrow> keeps P (f y)) \<Longrightarrow>
   keeps P (case x of None \<Rightarrow> m | Some y \<Rightarrow> f y)"
  by (cases x) simp_all

lemma keeps_mapM [keeps_intros]: "(\<And>x. keeps P (f x)) \<Longrightarrow> keeps P (mapM f xs)"
  by (induction xs) (auto intro!: keeps_intros)

lemma keeps_foldM [keeps_intros]: "(\<And>b x. keeps P (f b x)) \<Longrightarrow> keeps P (foldM f b xs)"
  by (induction xs arbitrary: b) (auto intro!: keeps_intros)

subsection \<open>Tables\<close>

text \<open>
  A table is the list of its rows. The statements of the repositories are \<open>WHERE\<close> filters,
  updates of the matching rows (\<open>upd\<close>, with \<open>changes()\<close> the number of matches), keyed lookups
  (\<open>sel1\<close>) and \<open>ORDER BY ... LIMIT\<close> (a stable sort and \<open>take\<close>).
\<close>

definition sel1 :: "('r \<Rightarrow> bool) \<Rightarrow> 'r list \<Rightarrow> 'r option" where
  "sel1 p t = find p t"

definition upd :: "('r \<Rightarrow> bool) \<Rightarrow> ('r \<Rightarrow> 'r) \<Rightarrow> 'r list \<Rightarrow> 'r list" where
  "upd p f t = map (\<lambda>r. if p r then f r else r) t"

definition hits :: "('r \<Rightarrow> bool) \<Rightarrow> 'r list \<Rightarrow> nat" where
  "hits p t = length (filter p t)"

definition del :: "('r \<Rightarrow> bool) \<Rightarrow> 'r list \<Rightarrow> 'r list" where
  "del p t = filter (\<lambda>r. \<not> p r) t"

definition keyed :: "('r \<Rightarrow> 'k) \<Rightarrow> 'r list \<Rightarrow> bool" where
  "keyed k t \<longleftrightarrow> distinct (map k t)"

lemma sel1_Some: "sel1 p t = Some r \<Longrightarrow> r \<in> set t \<and> p r"
  by (auto simp: sel1_def find_Some_iff)

lemma sel1_None: "sel1 p t = None \<longleftrightarrow> (\<forall>r \<in> set t. \<not> p r)"
  by (auto simp: sel1_def find_None_iff)

lemma sel1_Nil [simp]: "sel1 p [] = None"
  by (simp add: sel1_def)

lemma sel1_Cons [simp]: "sel1 p (r # t) = (if p r then Some r else sel1 p t)"
  by (simp add: sel1_def)

lemma sel1_append: "sel1 p (t @ u) = (case sel1 p t of None \<Rightarrow> sel1 p u | Some r \<Rightarrow> Some r)"
  by (induction t) auto

lemma set_del [simp]: "set (del p t) = {r \<in> set t. \<not> p r}"
  by (auto simp: del_def)

lemma set_upd: "set (upd p f t) = (\<lambda>r. if p r then f r else r) ` set t"
  by (auto simp: upd_def)

lemma length_upd [simp]: "length (upd p f t) = length t"
  by (simp add: upd_def)

lemma upd_Nil [simp]: "upd p f [] = []"
  by (simp add: upd_def)

lemma upd_Cons [simp]: "upd p f (r # t) = (if p r then f r else r) # upd p f t"
  by (simp add: upd_def)

lemma del_Nil [simp]: "del p [] = []"
  by (simp add: del_def)

lemma del_Cons [simp]: "del p (r # t) = (if p r then del p t else r # del p t)"
  by (simp add: del_def)

lemma hits_Nil [simp]: "hits p [] = 0"
  by (simp add: hits_def)

lemma hits_Cons [simp]: "hits p (r # t) = (if p r then Suc (hits p t) else hits p t)"
  by (simp add: hits_def)

lemma hits_0: "hits p t = 0 \<longleftrightarrow> (\<forall>r \<in> set t. \<not> p r)"
  by (auto simp: hits_def filter_empty_conv)

lemma upd_id: "hits p t = 0 \<Longrightarrow> upd p f t = t"
  by (auto simp: upd_def hits_0 intro: map_idI)

lemma map_upd_same: "(\<And>r. k (f r) = k r) \<Longrightarrow> map k (upd p f t) = map k t"
  by (induction t) auto

lemma keyed_upd [simp]: "(\<And>r. k (f r) = k r) \<Longrightarrow> keyed k (upd p f t) = keyed k t"
  by (simp add: keyed_def map_upd_same)

lemma keyed_del [simp]: "keyed k t \<Longrightarrow> keyed k (del p t)"
  by (simp add: keyed_def del_def distinct_map_filter)

lemma keyed_filter: "keyed k t \<Longrightarrow> keyed k (filter p t)"
  by (simp add: keyed_def distinct_map_filter)

lemma keyed_Cons [simp]: "keyed k (r # t) \<longleftrightarrow> k r \<notin> k ` set t \<and> keyed k t"
  by (auto simp: keyed_def)

lemma keyed_Nil [simp]: "keyed k []"
  by (simp add: keyed_def)

lemma keyed_append: "keyed k (t @ [r]) \<longleftrightarrow> k r \<notin> k ` set t \<and> keyed k t"
  by (auto simp: keyed_def)

lemma keyed_eqD: "keyed k t \<Longrightarrow> r \<in> set t \<Longrightarrow> r' \<in> set t \<Longrightarrow> k r = k r' \<Longrightarrow> r = r'"
  by (auto simp: keyed_def distinct_map inj_on_def)

lemma keyed_sel1: "keyed k t \<Longrightarrow> r \<in> set t \<Longrightarrow> sel1 (\<lambda>q. k q = k r) t = Some r"
  by (induction t) (auto simp: keyed_def image_iff)

lemma keyed_hits_le1: "keyed k t \<Longrightarrow> hits (\<lambda>r. k r = x \<and> p r) t \<le> 1"
proof (induction t)
  case (Cons r t)
  show ?case
  proof (cases "k r = x \<and> p r")
    case True
    have "\<forall>q \<in> set t. k q \<noteq> x"
    proof
      fix q assume "q \<in> set t"
      then have "k q \<in> k ` set t" by (rule imageI)
      moreover from Cons.prems have "k r \<notin> k ` set t" by simp
      ultimately show "k q \<noteq> x" using True by metis
    qed
    then have "hits (\<lambda>r. k r = x \<and> p r) t = 0" by (simp add: hits_0)
    with True show ?thesis by simp
  next
    case False
    with Cons show ?thesis by auto
  qed
qed simp

lemma sel1_del_other: "(\<And>r. r \<in> set t \<Longrightarrow> p r \<Longrightarrow> \<not> q r) \<Longrightarrow> sel1 p (del q t) = sel1 p t"
  by (induction t) auto

lemma sel1_upd: "(\<And>r. q (f r) = q r) \<Longrightarrow>
  sel1 q (upd p f t) = map_option (\<lambda>r. if p r then f r else r) (sel1 q t)"
  by (induction t) auto

text \<open>
  The two facts behind every conditional update \<^verbatim>\<open>UPDATE ... WHERE key = ? AND guard\<close>: how many
  rows it changes, and what each key reads afterwards.
\<close>

lemma hits_key:
  "keyed k t \<Longrightarrow> hits (\<lambda>r. k r = x \<and> p r) t
     = (case sel1 (\<lambda>r. k r = x) t of None \<Rightarrow> 0 | Some r \<Rightarrow> if p r then 1 else 0)"
proof (induction t)
  case (Cons r t)
  show ?case
  proof (cases "k r = x")
    case True
    with Cons.prems have "hits (\<lambda>q. k q = x \<and> p q) t = 0" by (auto simp: hits_0 image_iff)
    with True show ?thesis by simp
  next
    case False
    with Cons show ?thesis by simp
  qed
qed simp

lemma hits_key_only: "keyed k t \<Longrightarrow> hits (\<lambda>r. k r = x) t = (case sel1 (\<lambda>r. k r = x) t of None \<Rightarrow> 0 | Some r \<Rightarrow> 1)"
  using hits_key [of k t x "\<lambda>_. True"] by simp

lemma sel1_upd_key:
  assumes "\<And>r. k (f r) = k r"
  shows "sel1 (\<lambda>r. k r = y) (upd (\<lambda>r. k r = x \<and> p r) f t)
    = (if y = x then map_option (\<lambda>r. if p r then f r else r) (sel1 (\<lambda>r. k r = x) t)
       else sel1 (\<lambda>r. k r = y) t)"
  by (induction t) (auto simp: assms)

lemma sel1_upd_key_only:
  assumes "\<And>r. k (f r) = k r"
  shows "sel1 (\<lambda>r. k r = y) (upd (\<lambda>r. k r = x) f t)
    = (if y = x then map_option f (sel1 (\<lambda>r. k r = x) t) else sel1 (\<lambda>r. k r = y) t)"
  by (induction t) (auto simp: assms)

lemma sel1_del_key:
  "sel1 (\<lambda>r. k r = y) (del (\<lambda>r. k r = x) t) = (if y = x then None else sel1 (\<lambda>r. k r = y) t)"
  by (induction t) auto

lemma keyed_snoc_None: "keyed k t \<Longrightarrow> sel1 (\<lambda>q. k q = k r) t = None \<Longrightarrow> keyed k (t @ [r])"
  by (auto simp: keyed_append sel1_None)

lemma keyed_sel1_in: "keyed k t \<Longrightarrow> sel1 (\<lambda>r. k r = x) t = Some r \<longleftrightarrow> r \<in> set t \<and> k r = x"
  using keyed_sel1 [of k t r] sel1_Some [of "\<lambda>r. k r = x" t r] by auto

text \<open>\<^verbatim>\<open>ORDER BY ... LIMIT n\<close>.\<close>

definition order_by :: "('r \<Rightarrow> 'k :: linorder) \<Rightarrow> nat \<Rightarrow> 'r list \<Rightarrow> 'r list" where
  "order_by k n t = take n (sort_key k t)"

definition order_desc :: "('r \<Rightarrow> 'k :: linorder) \<Rightarrow> nat \<Rightarrow> 'r list \<Rightarrow> 'r list" where
  "order_desc k n t = take n (rev (sort_key k t))"

lemma order_by_subset: "set (order_by k n t) \<subseteq> set t"
  unfolding order_by_def by (metis set_sort set_take_subset)

lemma order_desc_subset: "set (order_desc k n t) \<subseteq> set t"
  unfolding order_desc_def by (metis set_rev set_sort set_take_subset)

lemma length_order_by [simp]: "length (order_by k n t) = min n (length t)"
  by (simp add: order_by_def min.commute)

lemma length_order_desc [simp]: "length (order_desc k n t) = min n (length t)"
  by (simp add: order_desc_def min.commute)

end
