(* ===== verification/Text.thy ===== *)
theory Text
  imports Prelude Complex_Main
begin

section \<open>Strings and numbers of the language\<close>

text \<open>
  The JavaScript string and number operations the code uses. A string is the list of its UTF-8
  bytes: \<^verbatim>\<open>utf8(s).byteLength\<close> is \<open>length\<close>, and splitting, prefixes, suffixes and
  concatenation agree with the code's. \<^verbatim>\<open>trim\<close>, \<^verbatim>\<open>toLowerCase\<close> and
  \<^verbatim>\<open>toUpperCase\<close> are the ASCII part. Decimal printing and parsing, \<^verbatim>\<open>padStart\<close> and the
  UTC calendar of \<^verbatim>\<open>Date\<close> are here too.
\<close>

definition code :: "char \<Rightarrow> nat" where
  "code c = of_char c"

fun split_on :: "char \<Rightarrow> string \<Rightarrow> string list" where
  "split_on c [] = [[]]"
| "split_on c (x # xs) =
     (if x = c then [] # split_on c xs
      else (case split_on c xs of [] \<Rightarrow> [[x]] | y # ys \<Rightarrow> (x # y) # ys))"

fun join :: "string \<Rightarrow> string list \<Rightarrow> string" where
  "join sep [] = []"
| "join sep [x] = x"
| "join sep (x # y # ys) = x @ sep @ join sep (y # ys)"

definition starts_with :: "string \<Rightarrow> string \<Rightarrow> bool" where
  "starts_with p s \<longleftrightarrow> take (length p) s = p"

definition ends_with :: "string \<Rightarrow> string \<Rightarrow> bool" where
  "ends_with p s \<longleftrightarrow> length p \<le> length s \<and> drop (length s - length p) s = p"

fun find_sub :: "string \<Rightarrow> string \<Rightarrow> nat option" where
  "find_sub p [] = (if p = [] then Some 0 else None)"
| "find_sub p (x # xs) =
     (if starts_with p (x # xs) then Some 0 else map_option Suc (find_sub p xs))"

definition has_sub :: "string \<Rightarrow> string \<Rightarrow> bool" where
  "has_sub p s \<longleftrightarrow> find_sub p s \<noteq> None"

definition is_space :: "char \<Rightarrow> bool" where
  "is_space c \<longleftrightarrow> code c = 32 \<or> (9 \<le> code c \<and> code c \<le> 13)"

definition trim :: "string \<Rightarrow> string" where
  "trim s = rev (dropWhile is_space (rev (dropWhile is_space s)))"

definition is_digit :: "char \<Rightarrow> bool" where
  "is_digit c \<longleftrightarrow> 48 \<le> code c \<and> code c \<le> 57"

definition is_upper :: "char \<Rightarrow> bool" where
  "is_upper c \<longleftrightarrow> 65 \<le> code c \<and> code c \<le> 90"

definition is_lower :: "char \<Rightarrow> bool" where
  "is_lower c \<longleftrightarrow> 97 \<le> code c \<and> code c \<le> 122"

definition lower_char :: "char \<Rightarrow> char" where
  "lower_char c = (if is_upper c then char_of (code c + 32) else c)"

definition upper_char :: "char \<Rightarrow> char" where
  "upper_char c = (if is_lower c then char_of (code c - 32) else c)"

definition to_lower :: "string \<Rightarrow> string" where
  "to_lower s = map lower_char s"

definition to_upper :: "string \<Rightarrow> string" where
  "to_upper s = map upper_char s"

definition digit :: "nat \<Rightarrow> char" where
  "digit n = char_of (48 + n)"

fun nat_str :: "nat \<Rightarrow> string" where
  "nat_str n = (if n < 10 then [digit n] else nat_str (n div 10) @ [digit (n mod 10)])"

declare nat_str.simps [simp del]

definition int_str :: "int \<Rightarrow> string" where
  "int_str i = (if i < 0 then ''-'' @ nat_str (nat (- i)) else nat_str (nat i))"

definition nat_of_digits :: "string \<Rightarrow> nat" where
  "nat_of_digits s = foldl (\<lambda>a c. a * 10 + (code c - 48)) 0 s"

definition pad_start :: "nat \<Rightarrow> char \<Rightarrow> string \<Rightarrow> string" where
  "pad_start n c s = replicate (n - length s) c @ s"

definition zpad :: "nat \<Rightarrow> nat \<Rightarrow> string" where
  "zpad w n = pad_start w CHR ''0'' (nat_str n)"

subsection \<open>Facts\<close>

lemma join_split_on: "join [c] (split_on c s) = s"
proof (induction s)
  case (Cons x xs)
  then show ?case
    by (cases "split_on c xs" rule: list.exhaust; cases "tl (split_on c xs)") auto
qed simp

lemma split_on_not_Nil [simp]: "split_on c s \<noteq> []"
  by (cases s) (auto split: list.splits)

lemma split_on_notin: "c \<notin> set s \<Longrightarrow> split_on c s = [s]"
  by (induction s) auto

lemma split_on_append: "c \<notin> set s \<Longrightarrow> split_on c (s @ c # t) = s # split_on c t"
  by (induction s) auto

lemma split_on_parts: "p \<in> set (split_on c s) \<Longrightarrow> c \<notin> set p"
proof (induction s arbitrary: p)
  case (Cons x xs)
  show ?case
  proof (cases "x = c")
    case True
    with Cons show ?thesis by auto
  next
    case False
    obtain y ys where sp: "split_on c xs = y # ys"
      by (cases "split_on c xs") auto
    with Cons.IH have "\<forall>q \<in> set (y # ys). c \<notin> set q" by metis
    with False Cons.prems sp show ?thesis by auto
  qed
qed simp

lemma starts_with_append [simp]: "starts_with p (p @ s)"
  by (simp add: starts_with_def)

lemma ends_with_append [simp]: "ends_with p (s @ p)"
  by (simp add: ends_with_def)

lemma code_digit: "n < 10 \<Longrightarrow> code (digit n) = 48 + n"
  by (simp add: code_def digit_def)

lemma is_digit_digit: "n < 10 \<Longrightarrow> is_digit (digit n)"
  by (simp add: is_digit_def code_digit)

lemma nat_str_digits: "\<forall>c \<in> set (nat_str n). is_digit c"
proof (induction n rule: nat_str.induct)
  case (1 n)
  show ?case
  proof (cases "n < 10")
    case True
    then show ?thesis by (subst nat_str.simps) (simp add: is_digit_digit)
  next
    case False
    with 1 have "\<forall>c \<in> set (nat_str (n div 10)). is_digit c" by simp
    moreover from False have "nat_str n = nat_str (n div 10) @ [digit (n mod 10)]"
      by (subst nat_str.simps) simp
    ultimately show ?thesis by (auto simp: is_digit_digit)
  qed
qed

lemma nat_str_not_Nil [simp]: "nat_str n \<noteq> []"
  by (subst nat_str.simps) simp

lemma nat_of_digits_snoc: "nat_of_digits (s @ [c]) = nat_of_digits s * 10 + (code c - 48)"
  by (simp add: nat_of_digits_def)

lemma nat_of_digits_nat_str [simp]: "nat_of_digits (nat_str n) = n"
proof (induction n rule: nat_str.induct)
  case (1 n)
  show ?case
  proof (cases "n < 10")
    case True
    then show ?thesis
      by (subst nat_str.simps) (simp add: nat_of_digits_def code_digit)
  next
    case False
    with 1 have ih: "nat_of_digits (nat_str (n div 10)) = n div 10" by simp
    from False have eq: "nat_str n = nat_str (n div 10) @ [digit (n mod 10)]"
      by (subst nat_str.simps) simp
    show ?thesis
      by (simp add: eq nat_of_digits_snoc ih code_digit)
  qed
qed

lemma nat_str_inject: "nat_str m = nat_str n \<longleftrightarrow> m = n"
  by (metis nat_of_digits_nat_str)

lemma length_nat_str: "n < 10 ^ Suc k \<Longrightarrow> length (nat_str n) \<le> Suc k"
proof (induction k arbitrary: n)
  case 0
  then show ?case by (subst nat_str.simps) simp
next
  case (Suc k)
  show ?case
  proof (cases "n < 10")
    case True
    then show ?thesis by (subst nat_str.simps) simp
  next
    case False
    from Suc.prems have "n div 10 < 10 ^ Suc k" by (simp add: div_less_iff_less_mult mult.commute)
    then have "length (nat_str (n div 10)) \<le> Suc k" by (rule Suc.IH)
    with False show ?thesis by (subst nat_str.simps) simp
  qed
qed

lemma length_pad_start: "length s \<le> n \<Longrightarrow> length (pad_start n c s) = n"
  by (simp add: pad_start_def)

lemma length_zpad: "n < 10 ^ Suc k \<Longrightarrow> length (zpad (Suc k) n) = Suc k"
  by (simp add: zpad_def length_pad_start length_nat_str)

lemma zpad_digits: "c \<in> set (zpad w n) \<Longrightarrow> is_digit c"
  using nat_str_digits[of n] by (auto simp: zpad_def pad_start_def is_digit_def code_def split: if_splits)

subsection \<open>The UTC calendar\<close>

text \<open>
  Year, month and day of a day number (days since 1970-01-01), as \<^verbatim>\<open>Date\<close> computes them in the
  proleptic Gregorian calendar: the 400-year era, the year of the era, and months counted from
  March.
\<close>

definition civil :: "int \<Rightarrow> int \<times> int \<times> int" where
  "civil days =
     (let z = days + 719468;
          era = z div 146097;
          doe = z mod 146097;
          yoe = (doe - doe div 1460 + doe div 36524 - doe div 146096) div 365;
          doy = doe - (365 * yoe + yoe div 4 - yoe div 100);
          mp = (5 * doy + 2) div 153;
          d = doy - (153 * mp + 2) div 5 + 1;
          m = (if mp < 10 then mp + 3 else mp - 9);
          y = yoe + era * 400 + (if m \<le> 2 then 1 else 0)
      in (y, m, d))"

text \<open>\<^verbatim>\<open>toISOString\<close> for the years 0 to 9999 (\<open>t\<close> in milliseconds).\<close>

definition iso_date :: "int \<Rightarrow> string" where
  "iso_date t = (case civil (t div 86400000) of (y, m, d) \<Rightarrow>
     zpad 4 (nat y) @ ''-'' @ zpad 2 (nat m) @ ''-'' @ zpad 2 (nat d))"

definition toISOString :: "int \<Rightarrow> string" where
  "toISOString t =
     (let ms = nat (t mod 86400000)
      in iso_date t @ ''T'' @ zpad 2 (ms div 3600000) @ '':'' @ zpad 2 (ms div 60000 mod 60)
         @ '':'' @ zpad 2 (ms div 1000 mod 60) @ ''.'' @ zpad 3 (ms mod 1000) @ ''Z'')"

end
