(* ===== verification/Kernel.thy ===== *)
theory Kernel
  imports Text
begin

section \<open>The shared kernel: errors, contexts, identifiers, limits, paging, quotas\<close>

text \<open>
  \<^verbatim>\<open>packages/shared-kernel\<close>: error codes with their HTTP status and the Problem Details body
  (\<^verbatim>\<open>errors.ts\<close>), the call context (\<^verbatim>\<open>call_ctx.ts\<close>), ULIDs and RIDs (\<^verbatim>\<open>ids.ts\<close>), limits
  (\<^verbatim>\<open>limits.ts\<close>), cursor paging (\<^verbatim>\<open>page.ts\<close>), quotas (\<^verbatim>\<open>quota.ts\<close>), queue names and
  backoff (\<^verbatim>\<open>queue.ts\<close>), display text (\<^verbatim>\<open>i18n.ts\<close>), ETags and idempotency keys
  (\<^verbatim>\<open>http.ts\<close>), the clock (\<^verbatim>\<open>clock.ts\<close>) and the lifecycle constants
  (\<^verbatim>\<open>lifecycle.ts\<close>).
\<close>

subsection \<open>clock.ts\<close>

definition MINUTE_MS :: int where "MINUTE_MS = 60000"
definition HOUR_MS :: int where "HOUR_MS = 3600000"
definition DAY_MS :: int where "DAY_MS = 86400000"

lemmas time_units = MINUTE_MS_def HOUR_MS_def DAY_MS_def

definition utcDay :: "int \<Rightarrow> string" where
  "utcDay t = take 10 (toISOString t)"

subsection \<open>JSON values\<close>

text \<open>The values \<^verbatim>\<open>JSON.stringify\<close> is applied to: numbers are integers here.\<close>

datatype json =
    JNull
  | JBool bool
  | JNum int
  | JStr string
  | JArr "json list"
  | JObj "(string \<times> json) list"

definition hex_digit :: "nat \<Rightarrow> char" where
  "hex_digit n = (if n < 10 then char_of (48 + n) else char_of (87 + n))"

definition escape_char :: "char \<Rightarrow> string" where
  "escape_char c =
     (let n = code c in
      if n = 34 then [char_of (92::nat), c]
      else if n = 92 then [c, c]
      else if n = 8 then [char_of (92::nat), CHR ''b'']
      else if n = 12 then [char_of (92::nat), CHR ''f'']
      else if n = 10 then [char_of (92::nat), CHR ''n'']
      else if n = 13 then [char_of (92::nat), CHR ''r'']
      else if n = 9 then [char_of (92::nat), CHR ''t'']
      else if n < 32 then [char_of (92::nat), CHR ''u'', CHR ''0'', CHR ''0'', hex_digit (n div 16), hex_digit (n mod 16)]
      else [c])"

definition quote_str :: "string \<Rightarrow> string" where
  "quote_str s = [char_of (34::nat)] @ concat (map escape_char s) @ [char_of (34::nat)]"

fun stringify :: "json \<Rightarrow> string" where
  "stringify JNull = ''null''"
| "stringify (JBool b) = (if b then ''true'' else ''false'')"
| "stringify (JNum n) = int_str n"
| "stringify (JStr s) = quote_str s"
| "stringify (JArr vs) = ''['' @ join '','' (map stringify vs) @ '']''"
| "stringify (JObj kvs) =
     ''{'' @ join '','' (map (\<lambda>kv. quote_str (fst kv) @ '':'' @ stringify (snd kv)) kvs) @ ''}''"

text \<open>\<^verbatim>\<open>json.ts\<close>: \<^verbatim>\<open>canonicalJson\<close> sorts the keys of every object.\<close>

fun sortKeys :: "json \<Rightarrow> json" where
  "sortKeys (JArr vs) = JArr (map sortKeys vs)"
| "sortKeys (JObj kvs) = JObj (sort_key fst (map (\<lambda>kv. (fst kv, sortKeys (snd kv))) kvs))"
| "sortKeys v = v"

definition canonicalJson :: "json \<Rightarrow> string" where
  "canonicalJson v = stringify (sortKeys v)"

subsection \<open>errors.ts\<close>

datatype ErrorCode =
    VALIDATION_FAILED | CODE_INVALID | UNAUTHENTICATED | TRIAL_EXPIRED | FORBIDDEN | NOT_FOUND
  | CONFLICT | PRECONDITION_FAILED | RATE_LIMITED | QUOTA_EXCEEDED | INTERNAL | UNAVAILABLE
  | SIGNUP_CLOSED

fun ERROR_STATUS :: "ErrorCode \<Rightarrow> nat" where
  "ERROR_STATUS VALIDATION_FAILED = 400"
| "ERROR_STATUS CODE_INVALID = 400"
| "ERROR_STATUS UNAUTHENTICATED = 401"
| "ERROR_STATUS TRIAL_EXPIRED = 401"
| "ERROR_STATUS FORBIDDEN = 403"
| "ERROR_STATUS NOT_FOUND = 404"
| "ERROR_STATUS CONFLICT = 409"
| "ERROR_STATUS PRECONDITION_FAILED = 412"
| "ERROR_STATUS RATE_LIMITED = 429"
| "ERROR_STATUS QUOTA_EXCEEDED = 429"
| "ERROR_STATUS INTERNAL = 500"
| "ERROR_STATUS UNAVAILABLE = 503"
| "ERROR_STATUS SIGNUP_CLOSED = 503"

fun error_code_name :: "ErrorCode \<Rightarrow> string" where
  "error_code_name VALIDATION_FAILED = ''VALIDATION_FAILED''"
| "error_code_name CODE_INVALID = ''CODE_INVALID''"
| "error_code_name UNAUTHENTICATED = ''UNAUTHENTICATED''"
| "error_code_name TRIAL_EXPIRED = ''TRIAL_EXPIRED''"
| "error_code_name FORBIDDEN = ''FORBIDDEN''"
| "error_code_name NOT_FOUND = ''NOT_FOUND''"
| "error_code_name CONFLICT = ''CONFLICT''"
| "error_code_name PRECONDITION_FAILED = ''PRECONDITION_FAILED''"
| "error_code_name RATE_LIMITED = ''RATE_LIMITED''"
| "error_code_name QUOTA_EXCEEDED = ''QUOTA_EXCEEDED''"
| "error_code_name INTERNAL = ''INTERNAL''"
| "error_code_name UNAVAILABLE = ''UNAVAILABLE''"
| "error_code_name SIGNUP_CLOSED = ''SIGNUP_CLOSED''"

record AppError =
  err_code :: ErrorCode
  err_status :: nat
  err_detail :: "string option"
  err_extras :: "(string \<times> json) list"

definition AppError_new ::
  "ErrorCode \<Rightarrow> string option \<Rightarrow> nat option \<Rightarrow> (string \<times> json) list option \<Rightarrow> AppError" where
  "AppError_new c detail status extras =
     \<lparr>err_code = c,
      err_status = (case status of Some s \<Rightarrow> s | None \<Rightarrow> ERROR_STATUS c),
      err_detail = detail,
      err_extras = (case extras of Some x \<Rightarrow> x | None \<Rightarrow> [])\<rparr>"

abbreviation app_error :: "ErrorCode \<Rightarrow> AppError" where
  "app_error c \<equiv> AppError_new c None None None"

abbreviation app_error_d :: "ErrorCode \<Rightarrow> string \<Rightarrow> AppError" where
  "app_error_d c d \<equiv> AppError_new c (Some d) None None"

text \<open>
  Object spread: a later key replaces the value of an earlier one in place, a new key goes last.
\<close>

definition obj_set :: "(string \<times> json) list \<Rightarrow> string \<times> json \<Rightarrow> (string \<times> json) list" where
  "obj_set kvs kv =
     (if fst kv \<in> fst ` set kvs then map (\<lambda>e. if fst e = fst kv then kv else e) kvs else kvs @ [kv])"

definition toProblem :: "AppError \<Rightarrow> string option \<Rightarrow> json" where
  "toProblem e traceId =
     (let base = [(''type'', JStr (''about:blank#'' @ to_lower (error_code_name (err_code e)))),
                  (''title'', JStr (error_code_name (err_code e))),
                  (''status'', JNum (int (err_status e))),
                  (''code'', JStr (error_code_name (err_code e)))];
          d = (case err_detail e of Some x \<Rightarrow> (if x = [] then [] else [(''detail'', JStr x)]) | None \<Rightarrow> []);
          t = (case traceId of Some x \<Rightarrow> (if x = [] then [] else [(''traceId'', JStr x)]) | None \<Rightarrow> [])
      in JObj (foldl obj_set (base @ d @ t) (err_extras e)))"

definition notFound :: "string option \<Rightarrow> ('s, AppError, 'a) eff" where
  "notFound detail = throw (AppError_new NOT_FOUND detail None None)"

definition ensure :: "bool \<Rightarrow> ErrorCode \<Rightarrow> string option \<Rightarrow> ('s, AppError, unit) eff" where
  "ensure cond c detail = (if \<not> cond then throw (AppError_new c detail None None) else ret ())"

lemma AppError_new_sel [simp]:
  "err_code (AppError_new c d s x) = c"
  "err_detail (AppError_new c d s x) = d"
  by (simp_all add: AppError_new_def)

subsection \<open>call_ctx.ts\<close>

datatype UserRole = Owner | Admin

datatype ActorRole = Human UserRole | ServiceRole

datatype Locale = ZhCN | EnUS

fun role_name :: "UserRole \<Rightarrow> string" where
  "role_name Owner = ''owner''"
| "role_name Admin = ''admin''"

record Actor =
  act_role :: ActorRole
  act_userId :: "string option"
  act_actingAs :: bool

record CallCtx =
  ctx_tid :: string
  ctx_sub :: string
  ctx_actor :: Actor
  ctx_requestId :: string
  ctx_locale :: Locale
  ctx_sid :: "string option"

definition isUserRole :: "ActorRole \<Rightarrow> bool" where
  "isUserRole r = (case r of Human _ \<Rightarrow> True | ServiceRole \<Rightarrow> False)"

definition serviceCtx :: "string \<Rightarrow> string \<Rightarrow> string option \<Rightarrow> Locale option \<Rightarrow> CallCtx" where
  "serviceCtx tid worker requestId locale =
     \<lparr>ctx_tid = tid,
      ctx_sub = ''svc:'' @ worker,
      ctx_actor = \<lparr>act_role = ServiceRole, act_userId = None, act_actingAs = False\<rparr>,
      ctx_requestId = (case requestId of Some r \<Rightarrow> r | None \<Rightarrow> ''svc-'' @ worker),
      ctx_locale = (case locale of Some l \<Rightarrow> l | None \<Rightarrow> ZhCN),
      ctx_sid = None\<rparr>"

definition isServiceCtx :: "CallCtx \<Rightarrow> bool" where
  "isServiceCtx ctx \<longleftrightarrow> act_role (ctx_actor ctx) = ServiceRole"

definition actorLabel :: "CallCtx \<Rightarrow> string" where
  "actorLabel ctx =
     (case act_role (ctx_actor ctx) of ServiceRole \<Rightarrow> ctx_sub ctx | Human r \<Rightarrow> role_name r)"

text \<open>\<^verbatim>\<open>ctx.actor.userId ?? ctx.sub\<close>, the caller's user id.\<close>

definition caller_id :: "CallCtx \<Rightarrow> string" where
  "caller_id ctx = (case act_userId (ctx_actor ctx) of Some u \<Rightarrow> u | None \<Rightarrow> ctx_sub ctx)"

subsection \<open>ids.ts\<close>

definition CROCKFORD :: string where
  "CROCKFORD = ''0123456789ABCDEFGHJKMNPQRSTVWXYZ''"

fun ulid_time :: "nat \<Rightarrow> nat \<Rightarrow> string \<Rightarrow> string" where
  "ulid_time 0 t acc = acc"
| "ulid_time (Suc i) t acc = ulid_time i (t div 32) ((CROCKFORD ! (t mod 32)) # acc)"

definition ulid :: "nat \<Rightarrow> nat list \<Rightarrow> string" where
  "ulid now bytes =
     ulid_time 10 now [] @ map (\<lambda>i. CROCKFORD ! ((bytes ! i) mod 32)) [0..<16]"

definition newRid :: "string \<Rightarrow> nat \<Rightarrow> nat list \<Rightarrow> string" where
  "newRid objectType now bytes = ''ri.'' @ objectType @ ''.'' @ ulid now bytes"

record RidParts =
  rid_objectType :: string
  rid_id :: string

definition parseRid :: "string \<Rightarrow> RidParts option" where
  "parseRid value =
     (case split_on CHR ''.'' value of
        [p, t, i] \<Rightarrow>
          (if p \<noteq> ''ri'' then None
           else if t = [] \<or> i = [] then None
           else Some \<lparr>rid_objectType = t, rid_id = i\<rparr>)
      | _ \<Rightarrow> None)"

definition isRid :: "string \<Rightarrow> bool" where
  "isRid value \<longleftrightarrow> parseRid value \<noteq> None"

definition isUlid :: "string \<Rightarrow> bool" where
  "isUlid value \<longleftrightarrow>
     length value = 26 \<and>
     list_all (\<lambda>c. let n = code c in
       (48 \<le> n \<and> n \<le> 57) \<or> (65 \<le> n \<and> n \<le> 72) \<or> n = 74 \<or> n = 75 \<or> n = 77 \<or> n = 78
       \<or> (80 \<le> n \<and> n \<le> 84) \<or> (86 \<le> n \<and> n \<le> 90)) value"

end
