(* ===== verification/KernelLimits.thy ===== *)
theory KernelLimits
  imports Kernel
begin

section \<open>Limits, paging, quotas, queues, display text, HTTP values and lifecycle order\<close>

text \<open>
  The remaining value-level modules of \<^verbatim>\<open>packages/shared-kernel\<close>. A JavaScript number that may
  be fractional or not finite is a \<open>jsnum\<close>; counts and times are integers.
\<close>

subsection \<open>limits.ts\<close>

record ce_limits =
  lim_objects :: int
  lim_links :: int
  lim_importRowsDaily :: int
  lim_batchRows :: int
  lim_aiRecsDaily :: int
  lim_mappingDraftsDaily :: int
  lim_sessions :: int
  lim_streams :: int
  lim_maxBodyBytes :: int
  lim_maxFileBytes :: int
  lim_maxDepth :: int
  lim_maxSimulationNodes :: int
  lim_maxPerturbations :: int
  lim_maxScheduledAutomations :: int
  lim_minScheduleHours :: int
  lim_cooldownDefaultSec :: int
  lim_cooldownMaxSec :: int
  lim_recExpireHours :: int
  lim_idempotencyKeyMin :: int
  lim_idempotencyKeyMax :: int
  lim_maxEventBytes :: int

definition CE_LIMITS :: ce_limits where
  "CE_LIMITS =
     \<lparr>lim_objects = 300, lim_links = 900, lim_importRowsDaily = 2000, lim_batchRows = 100,
      lim_aiRecsDaily = 3, lim_mappingDraftsDaily = 2, lim_sessions = 3, lim_streams = 3,
      lim_maxBodyBytes = 512 * 1024, lim_maxFileBytes = 5 * 1024 * 1024, lim_maxDepth = 2,
      lim_maxSimulationNodes = 300, lim_maxPerturbations = 10, lim_maxScheduledAutomations = 3,
      lim_minScheduleHours = 1, lim_cooldownDefaultSec = 3600, lim_cooldownMaxSec = 86400,
      lim_recExpireHours = 24, lim_idempotencyKeyMin = 16, lim_idempotencyKeyMax = 64,
      lim_maxEventBytes = 64 * 1024\<rparr>"

record lifecycle =
  lc_trialHours :: int
  lc_reminderAfterHours :: int
  lc_archiveDelayMin :: int
  lc_archiveDays :: int
  lc_tombstoneHours :: int
  lc_accessTokenMin :: int
  lc_adminSessionHours :: int
  lc_streamTicketSec :: int
  lc_purgeBatchRows :: int
  lc_exportPageRows :: int
  lc_exportPageBytes :: int
  lc_maxArchiveBytes :: int

definition LIFECYCLE :: lifecycle where
  "LIFECYCLE =
     \<lparr>lc_trialHours = 72, lc_reminderAfterHours = 48, lc_archiveDelayMin = 16, lc_archiveDays = 7,
      lc_tombstoneHours = 48, lc_accessTokenMin = 15, lc_adminSessionHours = 8,
      lc_streamTicketSec = 30, lc_purgeBatchRows = 500, lc_exportPageRows = 2000,
      lc_exportPageBytes = 900 * 1024, lc_maxArchiveBytes = 2 * 1024 * 1024\<rparr>"

subsection \<open>page.ts\<close>

datatype jsnum = Fin rat | NaN | PosInf | NegInf

definition PAGE_LIMIT_DEFAULT :: int where "PAGE_LIMIT_DEFAULT = 50"
definition PAGE_LIMIT_MAX :: int where "PAGE_LIMIT_MAX = 100"

definition clampLimit :: "jsnum option \<Rightarrow> int" where
  "clampLimit limit =
     (case limit of
        Some (Fin r) \<Rightarrow>
          (if r = 0 then PAGE_LIMIT_DEFAULT else min PAGE_LIMIT_MAX (max 1 \<lfloor>r\<rfloor>))
      | _ \<Rightarrow> PAGE_LIMIT_DEFAULT)"

subsection \<open>quota.ts\<close>

datatype QuotaKey = Q_objects | Q_links | Q_importRowsToday | Q_aiRecsToday | Q_mappingDraftsToday | Q_sessions

definition QUOTA_KEYS :: "QuotaKey list" where
  "QUOTA_KEYS = [Q_objects, Q_links, Q_importRowsToday, Q_aiRecsToday, Q_mappingDraftsToday, Q_sessions]"

record Used =
  q_used :: int
  q_limit :: int

record Quotas =
  q_of :: "QuotaKey \<Rightarrow> Used option"
  q_resetsAt :: string

definition nextUtcMidnight :: "int \<Rightarrow> string" where
  "nextUtcMidnight now = toISOString ((now div DAY_MS + 1) * DAY_MS)"

definition mergeQuotas :: "(QuotaKey \<times> Used) list \<Rightarrow> int \<Rightarrow> Quotas" where
  "mergeQuotas items now =
     \<lparr>q_of = foldl (\<lambda>m i. m(fst i \<mapsto> snd i))
              (foldl (\<lambda>m k. m(k \<mapsto> \<lparr>q_used = 0, q_limit = 0\<rparr>)) Map.empty QUOTA_KEYS) items,
      q_resetsAt = nextUtcMidnight now\<rparr>"

subsection \<open>queue.ts\<close>

definition QUEUES :: "string list" where
  "QUEUES = [''domain-events'', ''dead-letter'']"

definition baseQueueName :: "string \<Rightarrow> string" where
  "baseQueueName name =
     (case find (\<lambda>q. name = q \<or> ends_with (''-'' @ q) name) QUEUES of
        Some q \<Rightarrow> q | None \<Rightarrow> name)"

definition backoffSeconds :: "nat \<Rightarrow> nat" where
  "backoffSeconds attempts = min 60 (2 ^ max 1 attempts)"

subsection \<open>i18n.ts\<close>

datatype I18nText = Plain string | PerLocale "string option" "string option" \<comment> \<open>zh-CN, en-US\<close>

definition resolveText :: "I18nText option \<Rightarrow> string \<Rightarrow> string \<Rightarrow> string" where
  "resolveText text locale fallback =
     (case text of
        None \<Rightarrow> fallback
      | Some (Plain s) \<Rightarrow> s
      | Some (PerLocale zh en) \<Rightarrow>
          (let exact = (if locale = ''zh-CN'' then zh else if locale = ''en-US'' then en else None) in
           case exact of
             Some (c # cs) \<Rightarrow> c # cs
           | _ \<Rightarrow> (case zh of Some z \<Rightarrow> z | None \<Rightarrow> (case en of Some e \<Rightarrow> e | None \<Rightarrow> fallback))))"

subsection \<open>http.ts\<close>

definition toEtag :: "nat \<Rightarrow> string" where
  "toEtag version = [char_of (34::nat), CHR ''v''] @ nat_str version @ [char_of (34::nat)]"

definition skip_char :: "nat \<Rightarrow> string \<Rightarrow> string" where
  "skip_char n s = (case s of c # cs \<Rightarrow> (if code c = n then cs else s) | [] \<Rightarrow> [])"

text \<open>
  \<^verbatim>\<open>parseEtag\<close>: the pattern is anchored and its optional parts start with characters that are not
  digits, so matching it is a left-to-right scan.
\<close>

definition parseEtag :: "string \<Rightarrow> nat option" where
  "parseEtag value =
     (if value = [] then None
      else
        let s = trim value;
            s1 = (if starts_with ''W/'' s then drop 2 s else s);
            s2 = skip_char 34 s1;
            s3 = skip_char 118 s2;
            ds = takeWhile is_digit s3;
            rest = dropWhile is_digit s3
        in if ds \<noteq> [] \<and> (rest = [] \<or> rest = [char_of (34::nat)]) then Some (nat_of_digits ds) else None)"

definition isIdempotencyKey :: "string \<Rightarrow> bool" where
  "isIdempotencyKey value \<longleftrightarrow>
     16 \<le> length value \<and> length value \<le> 64 \<and>
     list_all (\<lambda>c. is_upper c \<or> is_lower c \<or> is_digit c \<or> code c \<in> {46, 95, 58, 45}) value"

subsection \<open>lifecycle.ts\<close>

type_synonym ArchiveFile = string

definition ARCHIVE_FILES :: "ArchiveFile list" where
  "ARCHIVE_FILES =
     [''ontology.json'', ''imports.json'', ''objects.jsonl'', ''links.jsonl'', ''audit.jsonl'',
      ''situation.json'', ''decisions.json'']"

definition isJsonLines :: "ArchiveFile \<Rightarrow> bool" where
  "isJsonLines file = ends_with ''.jsonl'' file"

record ExportPage =
  page_file :: ArchiveFile
  page_text :: string
  page_nextCursor :: "string option"

record PurgeResult =
  purge_deleted :: int
  purge_done :: bool

definition STREAM_CLOSE_EXPIRED :: nat where "STREAM_CLOSE_EXPIRED = 4401"

datatype LifecycleService = Ontology | Integration | Objects | Situation | Decision

definition EXPORT_ORDER :: "LifecycleService list" where
  "EXPORT_ORDER = [Ontology, Integration, Objects, Situation, Decision]"

definition PURGE_ORDER :: "LifecycleService list" where
  "PURGE_ORDER = [Situation, Decision, Objects, Integration, Ontology]"

text \<open>JavaScript's \<^verbatim>\<open>indexOf\<close> (\<open>-1\<close> when absent) and \<^verbatim>\<open>xs[i]\<close> (\<^verbatim>\<open>undefined\<close> out of range).\<close>

fun index_of :: "'a \<Rightarrow> 'a list \<Rightarrow> int" where
  "index_of x [] = -1"
| "index_of x (y # ys) = (if x = y then 0 else (let i = index_of x ys in if i < 0 then -1 else i + 1))"

definition at_index :: "'a list \<Rightarrow> int \<Rightarrow> 'a option" where
  "at_index xs i = (if 0 \<le> i \<and> i < int (length xs) then Some (xs ! nat i) else None)"

subsection \<open>Facts\<close>

lemma nth_CROCKFORD_Ulid: "n < 32 \<Longrightarrow> CROCKFORD ! n \<in> set CROCKFORD"
  by (rule nth_mem) (simp add: CROCKFORD_def)

lemma CROCKFORD_chars: "list_all (\<lambda>c. let n = code c in
       (48 \<le> n \<and> n \<le> 57) \<or> (65 \<le> n \<and> n \<le> 72) \<or> n = 74 \<or> n = 75 \<or> n = 77 \<or> n = 78
       \<or> (80 \<le> n \<and> n \<le> 84) \<or> (86 \<le> n \<and> n \<le> 90)) CROCKFORD"
  by (simp add: CROCKFORD_def code_def Let_def)

lemma length_ulid_time: "length (ulid_time k t acc) = k + length acc"
  by (induction k t acc rule: ulid_time.induct) auto

lemma set_ulid_time: "set (ulid_time k t acc) \<subseteq> set CROCKFORD \<union> set acc"
  by (induction k t acc rule: ulid_time.induct) (auto simp: nth_CROCKFORD_Ulid)

lemma set_ulid: "set (ulid now bytes) \<subseteq> set CROCKFORD"
  using set_ulid_time[of 10 now "[]"] by (auto simp: ulid_def nth_CROCKFORD_Ulid)

lemma length_ulid [simp]: "length (ulid now bytes) = 26"
  by (simp add: ulid_def length_ulid_time)

lemma ulid_no_dot: "CHR ''.'' \<notin> set (ulid now bytes)"
  using set_ulid[of now bytes] by (auto simp: CROCKFORD_def)

lemma ulid_time_append: "ulid_time k t acc = ulid_time k t [] @ acc"
proof (induction k arbitrary: t acc)
  case (Suc k)
  from Suc[of "t div 32" "(CROCKFORD ! (t mod 32)) # acc"] Suc[of "t div 32" "[CROCKFORD ! (t mod 32)]"]
  show ?case by simp
qed simp

lemma CROCKFORD_mono: "i < j \<Longrightarrow> j < 32 \<Longrightarrow> CROCKFORD ! i < CROCKFORD ! j"
proof -
  have "sorted_wrt (<) CROCKFORD"
    by (simp add: CROCKFORD_def less_char_def)
  moreover have "length CROCKFORD = 32" by (simp add: CROCKFORD_def)
  ultimately show "i < j \<Longrightarrow> j < 32 \<Longrightarrow> CROCKFORD ! i < CROCKFORD ! j"
    by (simp add: sorted_wrt_iff_nth_less)
qed

lemma lex_append_less: "length u = length v \<Longrightarrow> (u :: string) < v \<Longrightarrow> u @ x < v @ y"
proof (induction u arbitrary: v)
  case (Cons a u)
  then show ?case by (cases v) auto
qed simp

lemma lex_append_same: "(u :: string) @ x < u @ y \<longleftrightarrow> x < y"
  by (induction u) auto

lemma ulid_time_less:
  "t < t' \<Longrightarrow> t' < 32 ^ k \<Longrightarrow> ulid_time k t [] < ulid_time k t' []"
proof (induction k arbitrary: t t')
  case (Suc k)
  show ?case
  proof (cases "t div 32 = t' div 32")
    case True
    with Suc.prems have "t mod 32 < t' mod 32"
      by (metis mult_div_mod_eq nat_add_left_cancel_less)
    then have "CROCKFORD ! (t mod 32) < CROCKFORD ! (t' mod 32)"
      by (simp add: CROCKFORD_mono)
    with True show ?thesis
      by (simp add: ulid_time_append[of k _ "[_]"] lex_append_same)
  next
    case False
    with Suc.prems have "t div 32 < t' div 32"
      by (metis div_le_mono le_neq_implies_less less_imp_le)
    moreover from Suc.prems have "t' div 32 < 32 ^ k"
      by (simp add: div_less_iff_less_mult mult.commute)
    ultimately have "ulid_time k (t div 32) [] < ulid_time k (t' div 32) []"
      by (rule Suc.IH)
    then show ?thesis
      by (simp add: ulid_time_append[of k _ "[_]"] lex_append_less length_ulid_time)
  qed
qed simp

subsection \<open>What identifiers and entity tags promise\<close>

text \<open>Every ULID the kernel mints is accepted by its own recogniser: 26 characters of the
Crockford alphabet, whatever the clock and the random bytes are.\<close>

theorem ulid_isUlid: "isUlid (ulid now bytes)"
proof -
  have "list_all (\<lambda>c. let n = code c in
       (48 \<le> n \<and> n \<le> 57) \<or> (65 \<le> n \<and> n \<le> 72) \<or> n = 74 \<or> n = 75 \<or> n = 77 \<or> n = 78
       \<or> (80 \<le> n \<and> n \<le> 84) \<or> (86 \<le> n \<and> n \<le> 90)) (ulid now bytes)"
    using CROCKFORD_chars set_ulid [of now bytes] unfolding list_all_iff by blast
  then show ?thesis by (simp add: isUlid_def)
qed

text \<open>ULIDs sort by creation time: an identifier minted at an earlier millisecond is smaller
in string order than one minted later, whatever random bytes either of them drew (up to the
48-bit-plus range of ten base-32 digits, about 35,700 years).\<close>

theorem ulid_sortable:
  assumes "t < t'" "t' < 32 ^ 10"
  shows "ulid t bytes < ulid t' bytes'"
  unfolding ulid_def
proof (rule lex_append_less)
  show "ulid_time 10 t [] < ulid_time 10 t' []" using assms by (rule ulid_time_less)
qed (simp add: length_ulid_time)

theorem ulid_sortable_witness:
  "ulid 1700000000000 (replicate 16 255) < ulid 1700000000001 (replicate 16 0)"
  by (rule ulid_sortable) simp_all

text \<open>A resource identifier splits back into the object type and the ULID it was built from,
provided the object type is a non-empty name without a dot.\<close>

theorem newRid_parseRid:
  assumes "objectType \<noteq> []" "CHR ''.'' \<notin> set objectType"
  shows "parseRid (newRid objectType now bytes)
    = Some \<lparr>rid_objectType = objectType, rid_id = ulid now bytes\<rparr>"
proof -
  have u: "ulid now bytes \<noteq> []" using length_ulid [of now bytes] by force
  have "newRid objectType now bytes
      = ''ri'' @ CHR ''.'' # (objectType @ CHR ''.'' # ulid now bytes)"
    by (simp add: newRid_def)
  moreover have "split_on CHR ''.'' (''ri'' @ CHR ''.'' # (objectType @ CHR ''.'' # ulid now bytes))
      = [''ri'', objectType, ulid now bytes]"
    using assms(2) by (subst split_on_append, simp)
      (simp add: split_on_append split_on_notin ulid_no_dot)
  ultimately show ?thesis using assms(1) u by (simp add: parseRid_def)
qed

theorem newRid_parseRid_witness:
  "parseRid (newRid ''Supplier'' 0 (replicate 16 7))
    = Some \<lparr>rid_objectType = ''Supplier'', rid_id = ulid 0 (replicate 16 7)\<rparr>"
  by (rule newRid_parseRid) simp_all

text \<open>the entity tag of a version parses back to that version.\<close>

theorem toEtag_parseEtag: "parseEtag (toEtag version) = Some version"
proof -
  let ?q = "char_of (34::nat) :: char" and ?d = "nat_str version"
  have q: "\<not> is_space ?q" "\<not> is_digit ?q" by (simp_all add: is_space_def is_digit_def code_def)
  obtain c cs where d: "?d = c # cs" using nat_str_not_Nil by (meson neq_Nil_conv)
  have "trim (toEtag version) = toEtag version"
    using q by (simp add: trim_def toEtag_def)
  moreover have "\<not> starts_with ''W/'' (toEtag version)"
    by (simp add: starts_with_def toEtag_def)
  moreover have "takeWhile is_digit (?d @ [?q]) = ?d" "dropWhile is_digit (?d @ [?q]) = [?q]"
    using q nat_str_digits by (simp_all add: takeWhile_append2 dropWhile_append2)
  ultimately show ?thesis
    by (simp add: parseEtag_def toEtag_def skip_char_def Let_def code_def)
qed

end
