(* ===== verification/IdTypes.thy ===== *)
theory IdTypes
  imports KernelLimits "HOL-Library.Product_Lexorder"
begin

section \<open>Identity and tenancy: the rows and the database\<close>

text \<open>
  The types of \<^verbatim>\<open>packages/identity\<close>: the row types of \<^verbatim>\<open>application/ports.ts\<close>, the contract
  enumerations, the saga ledger of \<^verbatim>\<open>domain/archive_saga.ts\<close> and the audit row of
  \<^verbatim>\<open>domain/audit_chain.ts\<close>. A table of the D1 database (migration
  \<^verbatim>\<open>identity-access/0001\<close>) is the list of its rows; \<open>idb\<close> is the whole database. Times are
  Unix milliseconds, \<open>null\<close> is \<open>None\<close>; the JSON column \<^verbatim>\<open>amr\<close> is kept as the list it encodes,
  and \<^verbatim>\<open>export_svc\<close> as the service or the \<^verbatim>\<open>DONE\<close> mark.
\<close>

type_synonym time = int

datatype WorkspaceKind = Trial | AdminWs
datatype WorkspaceStatus = ACTIVE | EXPIRED | ARCHIVING
datatype AuthMethod = AmrOtp | AmrPasskey | AmrRecovery
datatype CodePurpose = PSignup | PLogin | PTerminate
datatype DeleteMode = DelArchive | DelNoArchive

subsection \<open>Identity tables\<close>

record AccountRecord =
  ac_userId :: string
  ac_tenantId :: string
  ac_role :: UserRole
  ac_emailHmac :: string
  ac_emailEnc :: string
  ac_locale :: Locale
  ac_timeZone :: string
  ac_verifiedAt :: time
  ac_remindedAt :: "time option"
  ac_bannedAt :: "time option"

record SignupCommand =
  su_day :: string
  su_ipKey :: string
  su_userId :: string
  su_tenantId :: string
  su_emailHmac :: string
  su_emailEnc :: string
  su_locale :: Locale
  su_now :: time
  su_trialExpiresAt :: time
  su_purgeBacklogLimit :: int

datatype SignupOutcome = Created | Closed | Duplicate

record PendingCode =
  pc_codeHmac :: string
  pc_attempts :: int
  pc_expiresAt :: time
  pc_emailEnc :: "string option"
  pc_locale :: "Locale option"

record pending_row =
  pr_emailHmac :: string
  pr_purpose :: CodePurpose
  pr_code :: PendingCode

record otp_limit_row =
  ol_emailHmac :: string
  ol_day :: string
  ol_sends :: int
  ol_failures :: int
  ol_lockedUntil :: "time option"

record SessionRecord =
  ss_id :: string
  ss_userId :: string
  ss_familyId :: string
  ss_refreshHash :: string
  ss_amr :: "AuthMethod list"
  ss_client :: "string option"
  ss_createdAt :: time
  ss_expiresAt :: time

record rotated_row =
  rt_refreshHash :: string
  rt_familyId :: string
  rt_expiresAt :: time

record PasskeyRecord =
  pk_credentialId :: string
  pk_userId :: string
  pk_publicKey :: string
  pk_signCount :: int
  pk_transports :: "string list"
  pk_label :: "string option"
  pk_createdAt :: time
  pk_lastUsedAt :: "time option"

datatype ChallengePurpose = ChRegister | ChAssert | ChStepUp

record challenge_row =
  ch_challenge :: string
  ch_userId :: string
  ch_purpose :: ChallengePurpose
  ch_expiresAt :: time

record recovery_row =
  rc_hash :: string
  rc_usedAt :: "time option"

subsection \<open>Tenancy tables\<close>

record WorkspaceRecord =
  ws_tenantId :: string
  ws_kind :: WorkspaceKind
  ws_ownerUserId :: string
  ws_status :: WorkspaceStatus
  ws_trialExpiresAt :: "time option"
  ws_expiredAt :: "time option"
  ws_deleteMode :: "DeleteMode option"
  ws_createdAt :: time

datatype LedgerPhase = Exporting | Exported | Mailed | Purging | Purged | AccountDeleted
datatype LedgerMode = ModeArchive | ModeNoArchive | ModeEmpty
datatype ExportSvc = Svc LifecycleService | ExportDone

record Ledger =
  led_tenantId :: string
  led_phase :: LedgerPhase
  led_mode :: LedgerMode
  led_objectKey :: "string option"
  led_exportSvc :: "ExportSvc option"
  led_exportCursor :: "string option"
  led_parts :: nat
  led_sizeBytes :: "int option"
  led_sha256 :: "string option"
  led_purgeSvc :: "LifecycleService option"
  led_locale :: "Locale option"
  led_timeZone :: "string option"
  led_expiredAt :: time
  led_mailed :: "time option"
  led_attempts :: int
  led_updatedAt :: time

record ArchiveIndexRecord =
  ar_tenantId :: string
  ar_objectKey :: string
  ar_sizeBytes :: int
  ar_sha256 :: string
  ar_deletionTokenHash :: string
  ar_createdAt :: time
  ar_expiresAt :: time

record usage_row =
  us_day :: string
  us_key :: string
  us_value :: int

record tombstone_row =
  tb_tenantId :: string
  tb_deletedAt :: time

record SystemFlag =
  fl_key :: string
  fl_value :: int
  fl_at :: time

subsection \<open>Platform administration tables\<close>

record SettingsValues =
  sv_signupEnabled :: bool
  sv_signupDailyLimit :: int
  sv_activeWorkspaceLimit :: int
  sv_version :: time

datatype SettingKey = KSignupEnabled | KSignupDailyLimit | KActiveWorkspaceLimit

record setting_row =
  st_key :: SettingKey
  st_value :: int
  st_updatedAt :: time

record AuditRow =
  au_id :: string
  au_at :: time
  au_action :: string
  au_targetTenantId :: "string option"
  au_targetUserId :: "string option"
  au_reason :: "string option"
  au_idempotencyKey :: "string option"
  au_result :: "string option"
  au_prevHash :: string
  au_rowHash :: string

datatype ChangeKind = ChangeEmail | ChangePasskeyReset

record PendingChange =
  cg_id :: string
  cg_kind :: ChangeKind
  cg_payload :: "string option"
  cg_requestedAt :: time
  cg_effectiveAt :: time
  cg_notifiedAt :: "time option"
  cg_appliedAt :: "time option"

subsection \<open>The database\<close>

record idb =
  db_workspace :: "WorkspaceRecord list"
  db_account :: "AccountRecord list"
  db_pending :: "pending_row list"
  db_otp :: "otp_limit_row list"
  db_session :: "SessionRecord list"
  db_rotated :: "rotated_row list"
  db_ledger :: "Ledger list"
  db_archive :: "ArchiveIndexRecord list"
  db_tombstone :: "tombstone_row list"
  db_usage :: "usage_row list"
  db_passkey :: "PasskeyRecord list"
  db_recovery :: "recovery_row list"
  db_challenge :: "challenge_row list"
  db_change :: "PendingChange list"
  db_flag :: "SystemFlag list"
  db_setting :: "setting_row list"
  db_domain :: "(string \<times> time) list"
  db_email :: "(string \<times> time) list"
  db_audit :: "AuditRow list"

text \<open>
  A batch that breaks a constraint of the schema is rolled back and throws: a \<open>UNIQUE\<close> or primary
  key violation, a foreign key or \<open>CHECK\<close> violation, or the abort of a trigger.
\<close>

datatype db_error = UniqueViolation | ForeignKey | CheckFailed | TriggerAbort

definition isUniqueViolation :: "db_error \<Rightarrow> bool" where
  "isUniqueViolation e \<longleftrightarrow> e = UniqueViolation"

text \<open>The rows the migration inserts, and the database it leaves.\<close>

definition initial_settings :: "setting_row list" where
  "initial_settings =
     [\<lparr>st_key = KSignupEnabled, st_value = 1, st_updatedAt = 0\<rparr>,
      \<lparr>st_key = KSignupDailyLimit, st_value = 20, st_updatedAt = 0\<rparr>,
      \<lparr>st_key = KActiveWorkspaceLimit, st_value = 60, st_updatedAt = 0\<rparr>]"

definition empty_db :: idb where
  "empty_db =
     \<lparr>db_workspace = [], db_account = [], db_pending = [], db_otp = [], db_session = [],
      db_rotated = [], db_ledger = [], db_archive = [], db_tombstone = [], db_usage = [],
      db_passkey = [], db_recovery = [], db_challenge = [], db_change = [], db_flag = [],
      db_setting = initial_settings, db_domain = [], db_email = [], db_audit = []\<rparr>"

text \<open>Phases and services are ordered as the saga visits them.\<close>

fun phase_rank :: "LedgerPhase \<Rightarrow> nat" where
  "phase_rank Exporting = 0"
| "phase_rank Exported = 1"
| "phase_rank Mailed = 2"
| "phase_rank Purging = 3"
| "phase_rank Purged = 4"
| "phase_rank AccountDeleted = 5"

lemma phase_rank_inject: "phase_rank p = phase_rank q \<longleftrightarrow> p = q"
  by (cases p; cases q) simp_all

instantiation LedgerPhase :: linorder
begin

definition less_eq_LedgerPhase :: "LedgerPhase \<Rightarrow> LedgerPhase \<Rightarrow> bool" where
  "less_eq_LedgerPhase p q \<longleftrightarrow> phase_rank p \<le> phase_rank q"

definition less_LedgerPhase :: "LedgerPhase \<Rightarrow> LedgerPhase \<Rightarrow> bool" where
  "less_LedgerPhase p q \<longleftrightarrow> phase_rank p < phase_rank q"

instance
  by standard (auto simp: less_eq_LedgerPhase_def less_LedgerPhase_def phase_rank_inject)

end

lemmas phase_order = less_eq_LedgerPhase_def less_LedgerPhase_def

end
