(* ===== verification/Encoding.thy ===== *)
theory Encoding
  imports KernelLimits
begin

section \<open>Byte encodings and constant-time comparison\<close>

text \<open>
  \<^verbatim>\<open>packages/shared-kernel/crypto.ts\<close> without the WebCrypto calls: base64url over \<^verbatim>\<open>btoa\<close> and
  \<^verbatim>\<open>atob\<close>, hex, and \<^verbatim>\<open>constantTimeEqual\<close>. A byte is a \<open>char\<close>. \<^verbatim>\<open>btoa\<close> and
  \<^verbatim>\<open>atob\<close> are the platform's base64 (RFC 4648 with padding; \<^verbatim>\<open>atob\<close> throws, here \<open>None\<close>, on
  a character outside the alphabet or a length that no encoding has).
\<close>

unbundle bit_operations_syntax

definition b64_alphabet :: string where
  "b64_alphabet = ''ABCDEFGHIJKLMNOPQRSTUVWXYZabcdefghijklmnopqrstuvwxyz0123456789+/''"

definition b64_char :: "nat \<Rightarrow> char" where
  "b64_char n = b64_alphabet ! n"

definition b64_val :: "char \<Rightarrow> nat option" where
  "b64_val c =
     (let n = code c in
      if 65 \<le> n \<and> n \<le> 90 then Some (n - 65)
      else if 97 \<le> n \<and> n \<le> 122 then Some (n - 71)
      else if 48 \<le> n \<and> n \<le> 57 then Some (n + 4)
      else if n = 43 then Some 62
      else if n = 47 then Some 63
      else None)"

fun btoa :: "string \<Rightarrow> string" where
  "btoa [] = []"
| "btoa [a] =
     [b64_char (code a div 4), b64_char (code a mod 4 * 16), CHR ''='', CHR ''='']"
| "btoa [a, b] =
     [b64_char (code a div 4), b64_char (code a mod 4 * 16 + code b div 16),
      b64_char (code b mod 16 * 4), CHR ''='']"
| "btoa (a # b # c # rest) =
     b64_char (code a div 4) # b64_char (code a mod 4 * 16 + code b div 16)
     # b64_char (code b mod 16 * 4 + code c div 64) # b64_char (code c mod 64) # btoa rest"

text \<open>Decoding of the digits once the padding is gone: a last group has two or three digits.\<close>

fun b64_digits :: "nat list \<Rightarrow> string option" where
  "b64_digits [] = Some []"
| "b64_digits [p] = None"
| "b64_digits [p, q] = Some [char_of (p * 4 + q div 16)]"
| "b64_digits [p, q, r] = Some [char_of (p * 4 + q div 16), char_of (q mod 16 * 16 + r div 4)]"
| "b64_digits (p # q # r # s # rest) =
     map_option (\<lambda>t. char_of (p * 4 + q div 16) # char_of (q mod 16 * 16 + r div 4)
                      # char_of (r mod 4 * 64 + s) # t) (b64_digits rest)"

fun all_vals :: "string \<Rightarrow> nat list option" where
  "all_vals [] = Some []"
| "all_vals (c # cs) =
     (case b64_val c of None \<Rightarrow> None | Some v \<Rightarrow> map_option ((#) v) (all_vals cs))"

definition strip_padding :: "string \<Rightarrow> string" where
  "strip_padding s =
     (if length s mod 4 = 0 \<and> ends_with ''=='' s then take (length s - 2) s
      else if length s mod 4 = 0 \<and> ends_with ''='' s then take (length s - 1) s
      else s)"

definition atob :: "string \<Rightarrow> string option" where
  "atob s =
     (case all_vals (strip_padding (filter (\<lambda>c. \<not> is_space c) s)) of
        None \<Rightarrow> None | Some vs \<Rightarrow> b64_digits vs)"

definition replace_char :: "char \<Rightarrow> char \<Rightarrow> string \<Rightarrow> string" where
  "replace_char a b s = map (\<lambda>c. if c = a then b else c) s"

definition base64url :: "string \<Rightarrow> string" where
  "base64url bytes =
     rev (dropWhile (\<lambda>c. c = CHR ''='')
       (rev (replace_char CHR ''/'' CHR ''_'' (replace_char CHR ''+'' CHR ''-'' (btoa bytes)))))"

definition base64urlDecode :: "string \<Rightarrow> string option" where
  "base64urlDecode input =
     (let b64 = replace_char CHR ''_'' CHR ''/'' (replace_char CHR ''-'' CHR ''+'' input);
          padded = b64 @ replicate ((4 - length b64 mod 4) mod 4) CHR ''=''
      in atob padded)"

definition toHex :: "string \<Rightarrow> string" where
  "toHex bytes = concat (map (\<lambda>b. [hex_digit (code b div 16), hex_digit (code b mod 16)]) bytes)"

fun ct_diff :: "nat \<Rightarrow> string \<Rightarrow> string \<Rightarrow> nat" where
  "ct_diff diff (x # xs) (y # ys) = ct_diff (diff OR (code x XOR code y)) xs ys"
| "ct_diff diff _ _ = diff"

definition constantTimeEqual :: "string \<Rightarrow> string \<Rightarrow> bool" where
  "constantTimeEqual a b = (if length a \<noteq> length b then False else ct_diff 0 a b = 0)"

subsection \<open>Facts\<close>

lemma code_less [simp]: "code c < 256"
  by (simp add: code_def)

lemma char_of_code [simp]: "char_of (code c) = c"
  by (simp add: code_def)

lemma code_inject [simp]: "code a = code b \<longleftrightarrow> a = b"
  by (metis char_of_code)

lemma or_eq_0: "(a :: nat) OR b = 0 \<longleftrightarrow> a = 0 \<and> b = 0"
  by (auto simp: bit_eq_iff bit_or_iff)

lemma xor_eq_0: "(a :: nat) XOR b = 0 \<longleftrightarrow> a = b"
  by (auto simp: bit_eq_iff bit_xor_iff)

lemma ct_diff_0: "length a = length b \<Longrightarrow> ct_diff d a b = 0 \<longleftrightarrow> d = 0 \<and> a = b"
proof (induction d a b rule: ct_diff.induct)
  case (1 diff x xs y ys)
  have "code x XOR code y = 0 \<longleftrightarrow> x = y"
    by (simp add: xor_eq_0)
  with 1 show ?case by (auto simp: or_eq_0)
qed auto

text \<open>The digits of a decoded alphabet character and of its base64url spelling.\<close>

definition url_char :: "nat \<Rightarrow> char" where
  "url_char n = (let c = b64_char n in if c = CHR ''+'' then CHR ''-'' else if c = CHR ''/'' then CHR ''_'' else c)"

definition unurl :: "char \<Rightarrow> char" where
  "unurl c = (let d = (if c = CHR ''-'' then CHR ''+'' else c) in if d = CHR ''_'' then CHR ''/'' else d)"

lemma b64_table:
  "list_all (\<lambda>n. unurl (url_char n) = b64_char n \<and> b64_val (b64_char n) = Some n
     \<and> \<not> is_space (b64_char n) \<and> b64_char n \<noteq> CHR ''='' \<and> url_char n \<noteq> CHR ''='') [0..<64]"
  by code_simp

lemma b64_facts:
  assumes "n < 64"
  shows "unurl (url_char n) = b64_char n" "b64_val (b64_char n) = Some n"
    "\<not> is_space (b64_char n)" "b64_char n \<noteq> CHR ''=''" "url_char n \<noteq> CHR ''=''"
  using b64_table assms by (auto simp: list_all_iff)

lemma unurl_map:
  "replace_char CHR ''_'' CHR ''/'' (replace_char CHR ''-'' CHR ''+'' s) = map unurl s"
  by (simp add: replace_char_def unurl_def Let_def)

lemma unurl_pad: "unurl CHR ''='' = CHR ''=''"
  by (simp add: unurl_def)

text \<open>
  The base64 text of a byte string as digits: \<open>b64_nums\<close> is \<open>btoa\<close> before the alphabet, without
  the padding. The round trip is proved on the digits and carried over by the tables.
\<close>

fun b64_nums :: "string \<Rightarrow> nat list" where
  "b64_nums [] = []"
| "b64_nums [a] = [code a div 4, code a mod 4 * 16]"
| "b64_nums [a, b] = [code a div 4, code a mod 4 * 16 + code b div 16, code b mod 16 * 4]"
| "b64_nums (a # b # c # rest) =
     [code a div 4, code a mod 4 * 16 + code b div 16, code b mod 16 * 4 + code c div 64,
      code c mod 64] @ b64_nums rest"

lemma sextets:
  assumes "b < 256"
  shows "a mod 4 * 16 < (64 :: nat)" "a mod 4 * 16 + b div 16 < (64 :: nat)"
    "b mod 16 * 4 < 64" "a mod 16 * 4 + b div 64 < (64 :: nat)" "b div 4 < 64" "a mod 64 < (64 :: nat)"
proof -
  have "b div 16 < 16" "b div 64 < 4" "b div 4 < 64" using assms by (simp_all add: less_mult_imp_div_less)
  moreover have "a mod 4 < 4" "a mod 16 < 16" "b mod 16 < 16" by simp_all
  ultimately show "a mod 4 * 16 < 64" "a mod 4 * 16 + b div 16 < 64" "b mod 16 * 4 < 64"
    "a mod 16 * 4 + b div 64 < 64" "b div 4 < 64" "a mod 64 < 64" by linarith+
qed

lemma b64_nums_bound: "n \<in> set (b64_nums bs) \<Longrightarrow> n < 64"
  by (induction bs rule: b64_nums.induct) (auto simp: sextets)

lemma btoa_nums:
  "btoa bs = map b64_char (b64_nums bs) @ replicate ((4 - length (b64_nums bs) mod 4) mod 4) CHR ''=''"
  by (induction bs rule: btoa.induct) (auto simp: numeral_2_eq_2)

lemma length_b64_nums: "length (b64_nums bs) mod 4 \<noteq> 1"
  by (induction bs rule: b64_nums.induct) auto

lemma join_bytes1: "b < 256 \<Longrightarrow> a div 4 * 4 + (a mod 4 * 16 + b div 16) div 16 = (a :: nat)"
proof -
  assume "b < 256"
  then have "b div 16 < 16" by (simp add: less_mult_imp_div_less)
  then have "(a mod 4 * 16 + b div 16) div 16 = a mod 4" by simp
  then show ?thesis by simp
qed

lemma join_bytes2:
  "b < 256 \<Longrightarrow> c < 256 \<Longrightarrow>
   (a mod 4 * 16 + b div 16) mod 16 * 16 + (b mod 16 * 4 + c div 64) div 4 = (b :: nat)"
proof -
  assume "b < 256" "c < 256"
  then have h: "b div 16 < 16" "c div 64 < 4" by (simp_all add: less_mult_imp_div_less)
  have "(a mod 4 * 16 + b div 16) mod 16 = b div 16"
    using h(1) by (metis mod_less mod_mult_self3)
  moreover have "(b mod 16 * 4 + c div 64) div 4 = b mod 16" using h(2) by simp
  ultimately show ?thesis by simp
qed

lemma join_bytes3: "c < 256 \<Longrightarrow> (b mod 16 * 4 + c div 64) mod 4 * 64 + c mod 64 = (c :: nat)"
proof -
  assume "c < 256"
  then have h: "c div 64 < 4" by (simp add: less_mult_imp_div_less)
  have "(b mod 16 * 4 + c div 64) mod 4 = c div 64"
    using h by (metis mod_less mod_mult_self3)
  then show ?thesis by simp
qed

lemmas join_bytes = join_bytes1 join_bytes2 join_bytes3

lemma b64_digits_nums: "b64_digits (b64_nums bs) = Some bs"
proof (induction bs rule: b64_nums.induct)
  case (2 a)
  then show ?case using join_bytes1 [of 0 "code a"] by simp
next
  case (3 a b)
  then show ?case
    using join_bytes1 [of "code b" "code a"] join_bytes2 [of "code b" 0 "code a"] by simp
next
  case (4 a b c rest)
  then show ?case
    by (simp only: b64_nums.simps append.simps b64_digits.simps join_bytes code_less char_of_code
        option.map)
qed simp

lemma all_vals_chars: "\<forall>n \<in> set ns. n < 64 \<Longrightarrow> all_vals (map b64_char ns) = Some ns"
  by (induction ns) (auto simp: b64_facts)

lemma base64url_nums: "base64url bs = map url_char (b64_nums bs)"
proof -
  let ?ns = "b64_nums bs" and ?k = "(4 - length (b64_nums bs) mod 4) mod 4"
  have "replace_char CHR ''/'' CHR ''_'' (replace_char CHR ''+'' CHR ''-'' (btoa bs))
      = map url_char ?ns @ replicate ?k CHR ''=''"
    by (auto simp: btoa_nums replace_char_def url_char_def Let_def)
  moreover have "dropWhile (\<lambda>c. c = CHR ''='') (rev (map url_char ?ns)) = rev (map url_char ?ns)"
  proof -
    have "\<forall>c \<in> set (rev (map url_char ?ns)). c \<noteq> CHR ''=''"
      using b64_facts(5) b64_nums_bound by auto
    then show ?thesis by (cases "rev (map url_char ?ns)") auto
  qed
  moreover have "dropWhile (\<lambda>c. c = CHR ''='') (replicate ?k CHR ''='' @ w)
      = dropWhile (\<lambda>c. c = CHR ''='') w" for w
    by (rule dropWhile_append2) auto
  ultimately show ?thesis by (simp add: base64url_def)
qed

lemma strip_padding_pad:
  assumes "CHR ''='' \<notin> set s" "length s mod 4 \<noteq> 1"
  shows "strip_padding (s @ replicate ((4 - length s mod 4) mod 4) CHR ''='') = s"
proof -
  have no: "\<not> ends_with w s" if "CHR ''='' \<in> set w" for w
    using assms(1) that by (metis ends_with_def in_set_dropD)
  have two: "replicate 2 CHR ''='' = ''==''" by (simp add: numeral_2_eq_2)
  have "length s mod 4 = 0 \<or> length s mod 4 = 2 \<or> length s mod 4 = 3"
    using assms(2) by linarith
  then show ?thesis
  proof (elim disjE)
    assume "length s mod 4 = 0"
    then show ?thesis by (simp add: strip_padding_def no)
  next
    assume h: "length s mod 4 = 2"
    then have "(length s + 2) mod 4 = 0" by presburger
    with h show ?thesis by (simp add: strip_padding_def ends_with_def two)
  next
    assume h: "length s mod 4 = 3"
    then have e: "(length s + 1) mod 4 = 0" by presburger
    have "last s \<noteq> CHR ''=''" using assms(1) h by (cases s rule: rev_cases) auto
    with h e show ?thesis
      by (cases s rule: rev_cases) (auto simp: strip_padding_def ends_with_def)
  qed
qed

lemma base64_round_trip: "base64urlDecode (base64url bs) = Some bs"
proof -
  let ?ns = "b64_nums bs" and ?k = "(4 - length (b64_nums bs) mod 4) mod 4"
  let ?t = "map b64_char ?ns"
  have b: "\<forall>n \<in> set ?ns. n < 64" using b64_nums_bound by blast
  then have "replace_char CHR ''_'' CHR ''/'' (replace_char CHR ''-'' CHR ''+'' (base64url bs)) = ?t"
    by (auto simp: base64url_nums unurl_map b64_facts)
  moreover have "filter (\<lambda>c. \<not> is_space c) (?t @ replicate ?k CHR ''='') = ?t @ replicate ?k CHR ''=''"
  proof (rule filter_True, rule ballI)
    fix c assume "c \<in> set (?t @ replicate ?k CHR ''='')"
    then consider n where "n < 64" "c = b64_char n" | "c = CHR ''=''" using b by auto
    then show "\<not> is_space c"
      by cases (simp_all add: b64_facts(3), simp add: is_space_def code_def)
  qed
  moreover have "strip_padding (?t @ replicate ?k CHR ''='') = ?t"
  proof -
    have "CHR ''='' \<notin> set ?t" using b b64_facts(4) by fastforce
    then show ?thesis using strip_padding_pad [of ?t] length_b64_nums [of bs] by simp
  qed
  ultimately show ?thesis
    using all_vals_chars [OF b] by (simp add: base64urlDecode_def atob_def b64_digits_nums Let_def)
qed

subsection \<open>What the encodings promise\<close>

text \<open>\<^verbatim>\<open>base64url\<close> loses nothing: decoding the unpadded, URL-safe spelling of any byte
string with \<^verbatim>\<open>base64urlDecode\<close> gives the bytes back.\<close>

theorem base64url_roundtrip: "base64urlDecode (base64url bs) = Some bs"
  by (rule base64_round_trip)

lemma constantTimeEqual_same: "constantTimeEqual a b \<longleftrightarrow> a = b"
  by (auto simp: constantTimeEqual_def ct_diff_0)

text \<open>\<^verbatim>\<open>constantTimeEqual\<close>, which inspects every byte and has no early exit on a
difference, decides equality of byte strings.\<close>

theorem constantTimeEqual_iff: "constantTimeEqual a b \<longleftrightarrow> a = b"
  by (rule constantTimeEqual_same)

end
