(* ===== verification/Policies.thy ===== *)
theory Policies
  imports IdTypes Encoding
begin

section \<open>Identity: the domain rules\<close>

text \<open>
  The pure rules of \<^verbatim>\<open>packages/identity/domain\<close>: one-time codes (\<^verbatim>\<open>otp.ts\<close>), sign-up
  admission and the trial life cycle (\<^verbatim>\<open>workspace.ts\<close>), session lifetimes
  (\<^verbatim>\<open>session_policy.ts\<close>), mail routing (\<^verbatim>\<open>mail_routing.ts\<close>), platform limits
  (\<^verbatim>\<open>platform.ts\<close>), passkeys and recovery codes (\<^verbatim>\<open>passkey.ts\<close>), e-mail addresses
  (\<^verbatim>\<open>email_address.ts\<close>) and the audit chain (\<^verbatim>\<open>audit_chain.ts\<close>).

  Random bytes are read from a stream, a function from positions to bytes; a routine returns the
  position after the bytes it has drawn. SHA-256 and \<^verbatim>\<open>JSON.parse\<close> are arguments.
\<close>

subsection \<open>otp.ts\<close>

definition OTP_digits :: nat where "OTP_digits = 6"
definition OTP_ttlMs :: int where "OTP_ttlMs = 10 * MINUTE_MS"
definition OTP_retentionMs :: int where "OTP_retentionMs = 30 * MINUTE_MS"
definition OTP_resendThrottleMs :: int where "OTP_resendThrottleMs = 60000"
definition OTP_maxAttemptsPerCode :: int where "OTP_maxAttemptsPerCode = 5"
definition OTP_maxSendsPerDay :: int where "OTP_maxSendsPerDay = 5"
definition OTP_maxFailuresPerDay :: int where "OTP_maxFailuresPerDay = 10"
definition OTP_lockMs :: int where "OTP_lockMs = DAY_MS"

lemmas OTP_defs = OTP_digits_def OTP_ttlMs_def OTP_retentionMs_def OTP_resendThrottleMs_def
  OTP_maxAttemptsPerCode_def OTP_maxSendsPerDay_def OTP_maxFailuresPerDay_def OTP_lockMs_def

text \<open>
  \<^verbatim>\<open>generateCode\<close> draws four bytes until their big-endian value is below the largest multiple
  of \<open>10^6\<close> under \<open>2^32\<close>. It returns for no fixed number of draws, so not returning is \<open>None\<close>.
\<close>

definition draw32 :: "(nat \<Rightarrow> nat) \<Rightarrow> nat \<Rightarrow> nat" where
  "draw32 rnd p = rnd p mod 256 * 16777216 + rnd (p + 1) mod 256 * 65536
                + rnd (p + 2) mod 256 * 256 + rnd (p + 3) mod 256"

partial_function (option) generateCode :: "(nat \<Rightarrow> nat) \<Rightarrow> nat \<Rightarrow> (string \<times> nat) option" where
  "generateCode rnd p =
     (let v = draw32 rnd p in
      if v < 4294000000 then Some (zpad OTP_digits (v mod 1000000), p + 4)
      else generateCode rnd (p + 4))"

definition issuedAt :: "time \<Rightarrow> time" where
  "issuedAt expiresAt = expiresAt - OTP_ttlMs"

definition canResend :: "time option \<Rightarrow> time \<Rightarrow> bool" where
  "canResend existingExpiresAt now =
     (case existingExpiresAt of
        None \<Rightarrow> True
      | Some e \<Rightarrow> now - issuedAt e \<ge> OTP_resendThrottleMs)"

record FailureOutcome =
  fo_dropCode :: bool
  fo_lockUntil :: "time option"

definition onFailure :: "int \<Rightarrow> int \<Rightarrow> time \<Rightarrow> FailureOutcome" where
  "onFailure codeAttempts dayFailures now =
     \<lparr>fo_dropCode = codeAttempts \<ge> OTP_maxAttemptsPerCode,
      fo_lockUntil = (if dayFailures \<ge> OTP_maxFailuresPerDay then Some (now + OTP_lockMs) else None)\<rparr>"

subsection \<open>workspace.ts\<close>

definition SIGNUPS_PER_IP_DAILY :: int where "SIGNUPS_PER_IP_DAILY = 2"
definition REMINDER_AFTER_MS :: int where "REMINDER_AFTER_MS = 48 * HOUR_MS"

record AdmissionSnapshot =
  as_signupEnabled :: bool
  as_signupDailyLimit :: int
  as_signupsToday :: int
  as_activeWorkspaceLimit :: int
  as_activeTrials :: int
  as_purgeBacklog :: int
  as_purgeBacklogLimit :: int
  as_autoClosed :: bool
  as_signupsFromIpToday :: int

datatype AdmissionRefusal = Paused | DailyLimit | ActiveLimit | PurgeBacklog | AutoClosed | IpLimit

definition admissionRefusal :: "AdmissionSnapshot \<Rightarrow> AdmissionRefusal option" where
  "admissionRefusal s =
     (if \<not> as_signupEnabled s then Some Paused
      else if as_autoClosed s then Some AutoClosed
      else if as_signupsToday s \<ge> as_signupDailyLimit s then Some DailyLimit
      else if as_activeTrials s \<ge> as_activeWorkspaceLimit s then Some ActiveLimit
      else if as_purgeBacklog s \<ge> as_purgeBacklogLimit s then Some PurgeBacklog
      else if as_signupsFromIpToday s \<ge> SIGNUPS_PER_IP_DAILY then Some IpLimit
      else None)"

datatype SignupState = Open | StatePaused | StateAutoClosed

definition signupState :: "bool \<Rightarrow> bool \<Rightarrow> SignupState" where
  "signupState enabled autoClosed =
     (if \<not> enabled then StatePaused else if autoClosed then StateAutoClosed else Open)"

definition archiveDue :: "time \<Rightarrow> time \<Rightarrow> int \<Rightarrow> bool" where
  "archiveDue expiredAt now delayMin \<longleftrightarrow> now \<ge> expiredAt + delayMin * MINUTE_MS"

subsection \<open>session_policy.ts\<close>

definition TTL_accessS :: int where "TTL_accessS = 900"
definition TTL_preAuthS :: int where "TTL_preAuthS = 300"
definition TTL_stepUpS :: int where "TTL_stepUpS = 300"
definition TTL_challengeMs :: int where "TTL_challengeMs = 5 * MINUTE_MS"

record SessionExpiryInput =
  se_role :: UserRole
  se_now :: time
  se_trialExpiresAt :: "time option"
  se_trialHours :: int
  se_adminSessionHours :: int

definition sessionExpiry :: "SessionExpiryInput \<Rightarrow> time" where
  "sessionExpiry i =
     (if se_role i = Admin then se_now i + se_adminSessionHours i * HOUR_MS
      else
        let cap = se_now i + se_trialHours i * HOUR_MS in
        (case se_trialExpiresAt i of None \<Rightarrow> cap | Some t \<Rightarrow> min cap t))"

definition trialUsable :: "WorkspaceStatus \<Rightarrow> time option \<Rightarrow> time \<Rightarrow> bool" where
  "trialUsable status trialExpiresAt now \<longleftrightarrow>
     status = ACTIVE \<and> (case trialExpiresAt of None \<Rightarrow> True | Some t \<Rightarrow> t > now)"

subsection \<open>mail_routing.ts\<close>

datatype MailPriority = PrioOtp | PrioNormal

definition OTP_RESERVE :: int where "OTP_RESERVE = 15"

definition effectiveCap :: "int \<Rightarrow> MailPriority \<Rightarrow> int" where
  "effectiveCap cap priority = (if priority = PrioOtp then cap else max 0 (cap - OTP_RESERVE))"

definition shouldSwitch :: "nat \<Rightarrow> bool" where
  "shouldSwitch status \<longleftrightarrow> status = 429 \<or> status \<ge> 500"

record channel_keys =
  ck_day :: string
  ck_key :: string
  ck_month :: string
  ck_monthKey :: string

definition channelKeys :: "string \<Rightarrow> time \<Rightarrow> channel_keys" where
  "channelKeys name now =
     (let day = take 10 (toISOString now); month = take 7 day in
      \<lparr>ck_day = day, ck_key = ''email:'' @ name, ck_month = month,
       ck_monthKey = ''email:'' @ name @ '':month:'' @ month\<rparr>)"

subsection \<open>platform.ts\<close>

definition ARCHIVE_CAPACITY :: int where "ARCHIVE_CAPACITY = 140"

datatype AnalyticsMetric = MWorkers | MD1Writes | MNeurons | MQueues

definition FREE_TIER_DAILY :: "(AnalyticsMetric \<times> int) list" where
  "FREE_TIER_DAILY = [(MWorkers, 100000), (MD1Writes, 100000), (MNeurons, 10000), (MQueues, 10000)]"

text \<open>
  The ratio 0.8 times a limit is an integer that a double holds exactly, so the comparison is
  \<open>5 * v \<ge> 4 * limit\<close> on integers.
\<close>

definition crossesAutoClose :: "(AnalyticsMetric \<Rightarrow> int option) \<Rightarrow> bool" where
  "crossesAutoClose snapshot =
     list_ex (\<lambda>(k, lim). 5 * (case snapshot k of None \<Rightarrow> 0 | Some v \<Rightarrow> v) \<ge> 4 * lim) FREE_TIER_DAILY"

subsection \<open>passkey.ts\<close>

definition minPasskeys :: nat where "minPasskeys = 2"
definition recoveryCodes :: nat where "recoveryCodes = 10"

definition recoveryPending :: "AuthMethod list \<Rightarrow> bool" where
  "recoveryPending amr \<longleftrightarrow> AmrRecovery \<in> set amr \<and> AmrPasskey \<notin> set amr"

definition passkeySetupIncomplete :: "nat \<Rightarrow> nat \<Rightarrow> bool" where
  "passkeySetupIncomplete passkeys recoveryCodesIssued \<longleftrightarrow>
     passkeys < minPasskeys \<or> recoveryCodesIssued = 0"

definition UPGRADED_RECOVERY_AMR :: "AuthMethod list" where
  "UPGRADED_RECOVERY_AMR = [AmrOtp, AmrPasskey]"

definition SETUP_CODE_USED_FLAG :: string where "SETUP_CODE_USED_FLAG = ''setup_code_used''"

definition generateRecoveryCode :: "(nat \<Rightarrow> nat) \<Rightarrow> nat \<Rightarrow> string \<times> nat" where
  "generateRecoveryCode rnd p =
     (let s = map (\<lambda>i. CROCKFORD ! (rnd (p + i) mod 32)) [0..<12] in
      (take 4 s @ ''-'' @ take 4 (drop 4 s) @ ''-'' @ drop 8 s, p + 12))"

definition normalizeRecoveryCode :: "string \<Rightarrow> string" where
  "normalizeRecoveryCode c =
     map (\<lambda>x. if x = CHR ''I'' \<or> x = CHR ''L'' then CHR ''1'' else x)
       (map (\<lambda>x. if x = CHR ''O'' then CHR ''0'' else x)
         (filter (\<lambda>x. \<not> (is_space x \<or> x = CHR ''-'')) (to_upper c)))"

definition obj_get :: "json \<Rightarrow> string \<Rightarrow> json option" where
  "obj_get v k = (case v of JObj kvs \<Rightarrow> map_of (rev kvs) k | _ \<Rightarrow> None)"

definition challengeOf :: "(string \<Rightarrow> json option) \<Rightarrow> json \<Rightarrow> string option" where
  "challengeOf parse credential =
     (case obj_get credential ''response'' of
        None \<Rightarrow> None
      | Some response \<Rightarrow>
          (case obj_get response ''clientDataJSON'' of
             Some (JStr raw) \<Rightarrow>
               (case base64urlDecode raw of
                  None \<Rightarrow> None
                | Some bytes \<Rightarrow>
                    (case parse bytes of
                       None \<Rightarrow> None
                     | Some data \<Rightarrow>
                         (case obj_get data ''challenge'' of Some (JStr c) \<Rightarrow> Some c | _ \<Rightarrow> None)))
           | _ \<Rightarrow> None))"

definition credentialIdOf :: "json \<Rightarrow> string option" where
  "credentialIdOf credential =
     (case obj_get credential ''id'' of
        Some (JStr i) \<Rightarrow> (if length i > 0 then Some i else None)
      | _ \<Rightarrow> None)"

definition signCountOk :: "int \<Rightarrow> int \<Rightarrow> bool" where
  "signCountOk stored next_count = (if stored = 0 \<and> next_count = 0 then True else next_count > stored)"

subsection \<open>email_address.ts\<close>

definition DISPOSABLE_DOMAINS :: "string list" where
  "DISPOSABLE_DOMAINS =
     [''10minutemail.com'', ''20minutemail.com'', ''dispostable.com'', ''discard.email'',
      ''dropmail.me'', ''emailondeck.com'', ''fakeinbox.com'', ''getairmail.com'', ''getnada.com'',
      ''guerrillamail.com'', ''guerrillamail.net'', ''guerrillamail.org'',
      ''guerrillamailblock.com'', ''maildrop.cc'', ''mailinator.com'', ''mailnesia.com'',
      ''mintemail.com'', ''moakt.com'', ''mohmal.com'', ''mytemp.email'', ''sharklasers.com'',
      ''spamgourmet.com'', ''temp-mail.org'', ''tempail.com'', ''tempmail.com'', ''tempmail.dev'',
      ''tempmailo.com'', ''tempr.email'', ''throwawaymail.com'', ''trashmail.com'',
      ''trashmail.de'', ''yopmail.com'', ''yopmail.fr'', ''yopmail.net'', ''1secmail.com'',
      ''33mail.com'', ''burnermail.io'', ''mailpoof.com'', ''inboxkitten.com'', ''emailfake.com'']"

definition normalizeEmail :: "string \<Rightarrow> string" where
  "normalizeEmail email = to_lower (trim email)"

text \<open>The part after the last at sign, empty when there is none.\<close>

definition emailDomain :: "string \<Rightarrow> string" where
  "emailDomain email =
     (if CHR 0x40 \<in> set email then rev (takeWhile (\<lambda>c. c \<noteq> CHR 0x40) (rev email)) else [])"

definition domainCandidates :: "string \<Rightarrow> string list" where
  "domainCandidates domain =
     (let labels = filter (\<lambda>l. l \<noteq> []) (split_on CHR ''.'' domain) in
      map (\<lambda>i. join ''.'' (drop i labels)) [0..<length labels - 1])"

definition isDisposableDomain :: "string \<Rightarrow> bool" where
  "isDisposableDomain domain = list_ex (\<lambda>d. d \<in> set DISPOSABLE_DOMAINS) (domainCandidates domain)"

subsection \<open>audit_chain.ts\<close>

definition GENESIS_HASH :: string where
  "GENESIS_HASH = replicate 64 CHR ''0''"

definition AUDIT_RETENTION_DAYS :: int where "AUDIT_RETENTION_DAYS = 90"

fun json_opt :: "string option \<Rightarrow> json" where
  "json_opt None = JNull"
| "json_opt (Some s) = JStr s"

definition audit_content :: "AuditRow \<Rightarrow> json" where
  "audit_content row =
     JObj [(''id'', JStr (au_id row)), (''at'', JNum (au_at row)), (''action'', JStr (au_action row)),
           (''targetTenantId'', json_opt (au_targetTenantId row)),
           (''targetUserId'', json_opt (au_targetUserId row)),
           (''reason'', json_opt (au_reason row)),
           (''idempotencyKey'', json_opt (au_idempotencyKey row)),
           (''result'', json_opt (au_result row))]"

definition computeRowHash :: "(string \<Rightarrow> string) \<Rightarrow> string \<Rightarrow> AuditRow \<Rightarrow> string" where
  "computeRowHash sha256Hex prevHash row = sha256Hex (prevHash @ canonicalJson (audit_content row))"

fun verify_from :: "(string \<Rightarrow> string) \<Rightarrow> string option \<Rightarrow> AuditRow list \<Rightarrow> bool" where
  "verify_from sha256Hex prev [] = True"
| "verify_from sha256Hex prev (r # rs) =
     (if prev \<noteq> None \<and> au_prevHash r \<noteq> the prev then False
      else if computeRowHash sha256Hex (au_prevHash r) r \<noteq> au_rowHash r then False
      else verify_from sha256Hex (Some (au_rowHash r)) rs)"

definition verifyChain :: "(string \<Rightarrow> string) \<Rightarrow> AuditRow list \<Rightarrow> bool" where
  "verifyChain sha256Hex rows = verify_from sha256Hex None rows"

datatype AuditKind = Modify | Delete | Enter | View

definition auditKind :: "string \<Rightarrow> AuditKind" where
  "auditKind action =
     (if action = ''act_as.enter'' \<or> action = ''admin.login'' then Enter
      else if action = ''email.view'' \<or> action = ''archive.download'' then View
      else if ends_with ''.delete'' action then Delete
      else Modify)"

subsection \<open>Facts: codes\<close>

declare generateCode.simps [code]

lemma generateCode_accept:
  "draw32 rnd p < 4294000000 \<Longrightarrow>
   generateCode rnd p = Some (zpad OTP_digits (draw32 rnd p mod 1000000), p + 4)"
  by (simp add: generateCode.simps [of rnd p])

lemma generateCode_reject:
  "\<not> draw32 rnd p < 4294000000 \<Longrightarrow> generateCode rnd p = generateCode rnd (p + 4)"
  by (simp add: generateCode.simps [of rnd p])

lemma otp_text: "v < 1000000 \<Longrightarrow> length (zpad OTP_digits v) = 6 \<and> (\<forall>x \<in> set (zpad OTP_digits v). is_digit x)"
  using length_nat_str [of v 5] zpad_digits [of _ OTP_digits v]
  by (auto simp: OTP_digits_def zpad_def pad_start_def)

text \<open>The one-time code generator returns as soon as the random source yields a draw below the
rejection limit: the code has exactly six decimal digits, and no draw after the accepted one is
consumed.\<close>

theorem generateCode_returns:
  assumes "draw32 rnd (p + 4 * k) < 4294000000"
  shows "\<exists>c q. generateCode rnd p = Some (c, q) \<and> length c = 6 \<and> (\<forall>x \<in> set c. is_digit x)
    \<and> p < q \<and> q \<le> p + 4 * k + 4"
  using assms
proof (induction k arbitrary: p)
  case 0
  then show ?case using otp_text [of "draw32 rnd p mod 1000000"] by (simp add: generateCode_accept)
next
  case (Suc k)
  show ?case
  proof (cases "draw32 rnd p < 4294000000")
    case True
    then show ?thesis using otp_text [of "draw32 rnd p mod 1000000"] by (simp add: generateCode_accept)
  next
    case False
    have "draw32 rnd ((p + 4) + 4 * k) < 4294000000" using Suc.prems by (simp add: algebra_simps)
    from Suc.IH [OF this] show ?thesis
      by (auto simp: generateCode_reject [OF False] algebra_simps)
  qed
qed

theorem generateCode_returns_witness:
  "\<exists>c q. generateCode (\<lambda>i. if i < 4 then 255 else 7) 0 = Some (c, q) \<and> length c = 6
    \<and> (\<forall>x \<in> set c. is_digit x) \<and> 0 < q \<and> q \<le> 0 + 4 * 1 + 4"
  by (rule generateCode_returns) (simp add: draw32_def)

subsection \<open>Facts: sessions and domains\<close>

lemma sessionExpiry_le_trial:
  "se_role i = Owner \<Longrightarrow> se_trialExpiresAt i = Some t \<Longrightarrow> sessionExpiry i \<le> t"
  by (simp add: sessionExpiry_def Let_def)

lemma split_on_dot_append:
  "split_on c (s @ c # t) = split_on c s @ split_on c t"
proof (induction s)
  case (Cons x s)
  then show ?case by (cases "split_on c s") auto
qed simp

lemma domainCandidates_subdomain:
  "set (domainCandidates d) \<subseteq> set (domainCandidates (sub @ ''.'' @ d))"
proof
  fix x assume "x \<in> set (domainCandidates d)"
  let ?L = "filter (\<lambda>l. l \<noteq> []) (split_on CHR ''.'' d)"
  let ?S = "filter (\<lambda>l. l \<noteq> []) (split_on CHR ''.'' sub)"
  obtain i where i: "i < length ?L - 1" "x = join ''.'' (drop i ?L)"
    using \<open>x \<in> set (domainCandidates d)\<close> by (auto simp: domainCandidates_def Let_def)
  have e: "filter (\<lambda>l. l \<noteq> []) (split_on CHR ''.'' (sub @ ''.'' @ d)) = ?S @ ?L"
    using split_on_dot_append [of "CHR ''.''" sub d] by simp
  have "x = join ''.'' (drop (length ?S + i) (?S @ ?L))" using i by simp
  moreover have "length ?S + i \<in> set [0..<length (?S @ ?L) - 1]" using i(1) by auto
  ultimately show "x \<in> set (domainCandidates (sub @ ''.'' @ d))"
    unfolding domainCandidates_def Let_def e set_map by (rule image_eqI)
qed

text \<open>Blocking a domain blocks its sub-domains: if the built-in list blocks a domain then it
blocks every name below it, at any depth.\<close>

theorem disposable_subdomain:
  assumes "isDisposableDomain d"
  shows "isDisposableDomain (sub @ ''.'' @ d)"
  using assms domainCandidates_subdomain [of d sub] by (auto simp: isDisposableDomain_def list_ex_iff)

theorem disposable_subdomain_witness:
  "isDisposableDomain (''mail.eu'' @ ''.'' @ ''yopmail.com'')"
proof (rule disposable_subdomain)
  have "split_on CHR ''.'' ''yopmail.com'' = [''yopmail'', ''com'']" by simp
  then have "domainCandidates ''yopmail.com'' = [''yopmail.com'']" by (simp add: domainCandidates_def)
  moreover have "''yopmail.com'' \<in> set DISPOSABLE_DOMAINS" by (simp add: DISPOSABLE_DOMAINS_def)
  ultimately show "isDisposableDomain ''yopmail.com''" by (simp add: isDisposableDomain_def)
qed

subsection \<open>Facts: the audit chain\<close>

definition chain_head :: "string \<Rightarrow> AuditRow list \<Rightarrow> string" where
  "chain_head anchor rows = (if rows = [] then anchor else au_rowHash (last rows))"

lemma verify_from_append:
  "verify_from h prev (rs @ [r]) \<longleftrightarrow>
     verify_from h prev rs \<and> au_rowHash r = computeRowHash h (au_prevHash r) r \<and>
     (if rs = [] then prev = None \<or> the prev = au_prevHash r
      else au_prevHash r = au_rowHash (last rs))"
  by (induction rs arbitrary: prev) auto

lemma verifyChain_append:
  assumes "verifyChain h rs" "rs \<noteq> [] \<Longrightarrow> au_prevHash r = au_rowHash (last rs)"
    "au_rowHash r = computeRowHash h (au_prevHash r) r"
  shows "verifyChain h (rs @ [r])"
  using assms by (auto simp: verifyChain_def verify_from_append)

lemma verify_from_weaken: "verify_from h prev rs \<Longrightarrow> verify_from h None rs"
  by (cases rs) (auto split: if_splits)

lemma verify_from_drop: "verify_from h prev (r # rs) \<Longrightarrow> verify_from h None rs"
  by (auto split: if_splits intro: verify_from_weaken)

end
