(* ===== verification/ArchiveRules.thy ===== *)
theory ArchiveRules
  imports Policies "HOL-Library.AList"
begin

section \<open>The archive saga: the pure transitions and the archive's files\<close>

text \<open>
  \<^verbatim>\<open>packages/identity/domain/archive_saga.ts\<close>. A \<^verbatim>\<open>Map\<close> is an association list in insertion
  order (\<^verbatim>\<open>set\<close> is \<open>AList.update\<close>, which replaces in place and appends a new key), and a
  \<^verbatim>\<open>Set\<close> of names is a set. \<^verbatim>\<open>utf8(text).byteLength\<close> is the length of a byte string.
\<close>

definition bytes :: "nat list \<Rightarrow> string" where
  "bytes ns = map char_of ns"

definition ARCHIVE_FORMAT_VERSION :: int where "ARCHIVE_FORMAT_VERSION = 1"
definition PURGE_STEP_ROWS :: int where "PURGE_STEP_ROWS = 500"
definition MAX_STAGING_PARTS :: nat where "MAX_STAGING_PARTS = 20"
definition MAX_ARCHIVE_BYTES :: int where "MAX_ARCHIVE_BYTES = lc_maxArchiveBytes LIFECYCLE"
definition ZIP_OVERHEAD_BYTES :: int where "ZIP_OVERHEAD_BYTES = 64 * 1024"

definition TRUNCATED_JSON :: string where
  "TRUNCATED_JSON = [CHR 0x7B, CHR 0x22] @ ''truncated'' @ [CHR 0x22] @ '':true'' @ [CHR 0x7D]"

definition TRUNCATION_NOTE :: string where
  "TRUNCATION_NOTE =
     ''Some files were truncated to keep the archive within the 2 MB limit (files marked '' @ bytes [34] @ ''truncated'' @ bytes [34] @ '': true). / '' @ bytes [228,184,186,228,189,191,229,189,146,230,161,163,228,184,141,232,182,133,232,191,
       135] @ '' 2 MB'' @ bytes [239,188,140,233,131,168,229,136,134,230,150,135,228,187,182,229,183,178,230,136,
       170,230,150,173,239,188,136,230,160,135,232,174,176,228,184,186] @ '' '' @ bytes [34] @ ''truncated'' @ bytes [34] @ '': true'' @ bytes [239,188,137,227,128,130]"

definition ARCHIVE_README :: string where
  "ARCHIVE_README = join [CHR 0x0A]
     [''OntoDecide CE '' @ bytes [226,128,148] @ '' workspace archive / '' @ bytes [229,183,165,228,189,156,229,140,186,229,189,146,230,161,163],
      ''=============================================='',
      [],
      ''['' @ bytes [228,184,173,230,150,135] @ '']'',
      bytes [230,156,172] @ '' ZIP '' @ bytes [229,140,133,229,144,171,228,189,160,231,154,132,232,175,149,231,148,168,229,183,
       165,228,189,156,229,140,186,229,156,168,232,175,149,231,148,168,231,187,147,230,
       157,159,230,151,182,231,154,132,229,133,168,233,131,168,230,149,176,230,141,174,
       239,188,154],
      ''  ontology.json   '' @ bytes [229,183,165,228,189,156,229,140,186,230,156,172,228,189,147,239,188,136,229,175,
       185,232,177,161,231,177,187,229,158,139,227,128,129,229,177,158,230,128,167,227,
       128,129,229,133,179,231,179,187,231,177,187,229,158,139,227,128,129,229,138,168,
       228,189,156,231,177,187,229,158,139,239,188,137,239,188,155,230,156,170,228,191,
       174,230,148,185,232,191,135,229,136,153,229,143,170,232,174,176,229,189,149,230,
       168,161,230,157,191,231,137,136,230,156,172],
      ''  imports.json    '' @ bytes [229,175,188,229,133,165,228,189,156,228,184,154,228,184,142,229,173,151,230,174,
       181,230,152,160,229,176,132,229,174,154,228,185,137,239,188,136,228,184,141,229,
       144,171,229,142,159,229,167,139,230,150,135,228,187,182,239,188,137],
      ''  objects.jsonl   '' @ bytes [229,175,185,232,177,161,228,184,142,229,177,158,230,128,167,229,128,188,227,128,
       129,229,177,158,230,128,167,232,161,128,231,188,152,239,188,136,230,175,143,232,
       161,140,228,184,128,228,184,170,229,175,185,232,177,161,239,188,137],
      ''  links.jsonl     '' @ bytes [229,133,179,231,179,187,229,143,138,230,157,131,233,135,141,239,188,136,230,175,
       143,232,161,140,228,184,128,230,157,161,229,133,179,231,179,187,239,188,137],
      ''  audit.jsonl     '' @ bytes [229,138,168,228,189,156,230,137,167,232,161,140,229,174,161,232,174,161,230,151,
       165,229,191,151],
      ''  situation.json  '' @ bytes [229,145,138,232,173,166,229,142,134,229,143,178,228,184,142,232,135,170,229,138,
       168,229,140,150,232,167,132,229,136,153],
      ''  decisions.json  '' @ bytes [230,131,133,230,153,175,227,128,129,229,187,186,232,174,174,227,128,129] @ ''AI '' @ bytes [231,144,134,231,148,177,227,128,129,231,161,174,232,174,164,230,136,150,233,169,
       179,229,155,158,232,174,176,229,189,149],
      ''  manifest.json   '' @ bytes [230,150,135,228,187,182,230,184,133,229,141,149,227,128,129,230,157,161,230,149,
       176,227,128,129] @ ''SHA-256'' @ bytes [227,128,129,230,160,188,229,188,143,231,137,136,230,156,172,228,184,142,229,175,
       188,229,135,186,230,151,182,233,151,180],
      bytes [229,166,130,228,189,149,230,129,162,229,164,141,239,188,154,230,179,168,229,134,
       140,230,150,176,231,154,132,232,175,149,231,148,168,229,144,142,239,188,140,229,
       156,168,227,128,140,230,149,176,230,141,174,229,175,188,229,133,165,227,128,141,
       228,184,173,228,184,138,228,188,160] @ '' objects.jsonl '' @ bytes [228,184,142] @ '' links.jsonl'' @ bytes [239,188,136,230,136,150,231,148,177,229,133,182,232,189,172,230,141,162,231,154,
       132] @ '' CSV'' @ bytes [239,188,137,239,188,140],
      bytes [229,185,182,229,143,130,231,133,167] @ '' ontology.json '' @ bytes [233,135,141,229,187,186,232,135,170,229,174,154,228,185,137,231,154,132,229,175,
       185,232,177,161,231,177,187,229,158,139,227,128,130],
      bytes [228,189,160,231,154,132,232,180,166,230,136,183,228,191,161,230,129,175,239,188,
       136,229,140,133,230,139,172,233,130,174,231,174,177,239,188,137,229,183,178,228,
       187,142,231,179,187,231,187,159,228,184,173,229,136,160,233,153,164,239,188,155,
       230,156,172,229,189,146,230,161,163,229,176,134,229,156,168,228,184,139,232,189,
       189,233,147,190,230,142,165,229,136,176,230,156,159,230,151,182,230,176,184,228,
       185,133,229,136,160,233,153,164,227,128,130],
      [],
      ''[English]'',
      ''This ZIP contains all data of your trial workspace at the end of the trial:'',
      ''  ontology.json   the workspace ontology (object, property, link and action types);'',
      ''                  only the template version when it was never modified'',
      ''  imports.json    import jobs and field mappings (no raw files)'',
      ''  objects.jsonl   objects, property values and lineage (one object per line)'',
      ''  links.jsonl     links and weights (one link per line)'',
      ''  audit.jsonl     the action execution audit log'',
      ''  situation.json  alert history and automation rules'',
      ''  decisions.json  scenarios, recommendations, AI rationales, confirmations and rejections'',
      ''  manifest.json   file list, record counts, SHA-256, format version and export time'',
      ''To restore: sign up for a new trial and upload objects.jsonl and links.jsonl (or CSV'',
      ''converted from them) under '' @ bytes [34] @ ''Data import'' @ bytes [34] @ ''; use ontology.json to recreate custom types.'',
      ''Your account information, including your e-mail address, has been deleted. This archive'',
      ''is permanently deleted when the download link expires.'',
      []]"


definition TRUNCATED_MARK :: string where
  "TRUNCATED_MARK = CHR 0x09 # ''truncated''"

subsection \<open>Keys and the mode\<close>

definition archiveObjectKey :: "string \<Rightarrow> string \<Rightarrow> string" where
  "archiveObjectKey tenantId randomHex = ''archives/'' @ tenantId @ ''/'' @ randomHex @ ''.zip''"

definition stagingPrefix :: "string \<Rightarrow> string" where
  "stagingPrefix tenantId = ''staging/'' @ tenantId @ ''/''"

definition stagingPartKey :: "string \<Rightarrow> nat \<Rightarrow> string" where
  "stagingPartKey tenantId n = stagingPrefix tenantId @ nat_str n @ ''.part''"

definition chooseMode :: "DeleteMode option \<Rightarrow> int \<Rightarrow> LedgerMode" where
  "chooseMode deleteMode totalRows =
     (if deleteMode = Some DelNoArchive then ModeNoArchive
      else if totalRows = 0 then ModeEmpty else ModeArchive)"

subsection \<open>The export and purge cursors\<close>

definition currentExportService :: "Ledger \<Rightarrow> LifecycleService option" where
  "currentExportService led =
     (case led_exportSvc led of
        Some ExportDone \<Rightarrow> None
      | Some (Svc s) \<Rightarrow> Some s
      | None \<Rightarrow> Some (EXPORT_ORDER ! 0))"

definition advanceExport ::
  "LifecycleService \<Rightarrow> string option \<Rightarrow> ExportSvc \<times> string option" where
  "advanceExport svc nextCursor =
     (case nextCursor of
        Some c \<Rightarrow> (Svc svc, Some c)
      | None \<Rightarrow>
          (case at_index EXPORT_ORDER (index_of svc EXPORT_ORDER + 1) of
             Some n \<Rightarrow> (Svc n, None)
           | None \<Rightarrow> (ExportDone, None)))"

definition currentPurgeService :: "Ledger \<Rightarrow> LifecycleService" where
  "currentPurgeService led =
     (case led_purgeSvc led of Some s \<Rightarrow> s | None \<Rightarrow> PURGE_ORDER ! 0)"

definition advancePurge :: "LifecycleService \<Rightarrow> bool \<Rightarrow> LedgerPhase \<times> LifecycleService" where
  "advancePurge svc done =
     (if \<not> done then (Purging, svc)
      else (case at_index PURGE_ORDER (index_of svc PURGE_ORDER + 1) of
              Some n \<Rightarrow> (Purging, n)
            | None \<Rightarrow> (Purged, svc)))"

definition isLastAllowedPart :: "LifecycleService \<Rightarrow> nat \<Rightarrow> bool" where
  "isLastAllowedPart svc parts \<longleftrightarrow>
     (let later = int (length EXPORT_ORDER) - 1 - index_of svc EXPORT_ORDER in
      int parts + 1 + later \<ge> int MAX_STAGING_PARTS)"

subsection \<open>Staging parts\<close>

definition encodePart :: "ArchiveFile \<Rightarrow> string \<Rightarrow> bool \<Rightarrow> string" where
  "encodePart file body truncated =
     file @ (if truncated then TRUNCATED_MARK else []) @ [CHR 0x0A] @ body"

record StagedPart =
  sp_file :: ArchiveFile
  sp_text :: string
  sp_truncated :: bool

definition decodePart :: "string \<Rightarrow> StagedPart" where
  "decodePart part =
     (let nl = CHR 0x0A;
          head = takeWhile (\<lambda>c. c \<noteq> nl) part;
          rest = (if nl \<in> set part then drop (length head + 1) part else [])
      in if ends_with TRUNCATED_MARK head
         then \<lparr>sp_file = take (length head - length TRUNCATED_MARK) head, sp_text = rest,
               sp_truncated = True\<rparr>
         else \<lparr>sp_file = head, sp_text = rest, sp_truncated = False\<rparr>)"

subsection \<open>Fitting the files to the archive limit\<close>

fun take_lines :: "int \<Rightarrow> string list \<Rightarrow> string \<Rightarrow> int \<Rightarrow> string" where
  "take_lines maxBytes [] out used = out"
| "take_lines maxBytes (line # ls) out used =
     (if line = [] then take_lines maxBytes ls out used
      else let n = int (length line) + 1 in
        if used + n > maxBytes then out
        else take_lines maxBytes ls (out @ line @ [CHR 0x0A]) (used + n))"

definition truncateText :: "ArchiveFile \<Rightarrow> string \<Rightarrow> int \<Rightarrow> string" where
  "truncateText file body maxBytes =
     (if int (length body) \<le> maxBytes then body
      else if \<not> isJsonLines file then TRUNCATED_JSON
      else take_lines maxBytes (split_on (CHR 0x0A) body) [] 0)"

type_synonym files = "(ArchiveFile \<times> string) list"

definition largest_file ::
  "(ArchiveFile \<times> nat) list \<Rightarrow> ArchiveFile set \<Rightarrow> ArchiveFile option" where
  "largest_file sizes stuck =
     foldl (\<lambda>largest (name, n).
        if name \<in> stuck then largest
        else case largest of
               None \<Rightarrow> Some name
             | Some l \<Rightarrow> if n > the (map_of sizes l) then Some name else largest)
       None sizes"

lemma largest_file_None_iff: "largest_file sizes stuck = None \<longleftrightarrow> fst ` set sizes \<subseteq> stuck"
proof -
  let ?f = "\<lambda>largest (name, n). if name \<in> stuck then largest
        else case largest of None \<Rightarrow> Some name
             | Some l \<Rightarrow> if n > the (map_of sizes l) then Some name else largest"
  have some: "foldl ?f (Some l) xs \<noteq> None" for l xs
    by (induction xs arbitrary: l) (auto split: prod.splits)
  have "foldl ?f None xs = None \<longleftrightarrow> fst ` set xs \<subseteq> stuck" for xs
    using some by (induction xs) (auto split: prod.splits)
  then show ?thesis by (simp add: largest_file_def)
qed

lemma largest_file_Some: "largest_file sizes stuck = Some l \<Longrightarrow> l \<in> fst ` set sizes - stuck"
proof -
  let ?f = "\<lambda>largest (name, n). if name \<in> stuck then largest
        else case largest of None \<Rightarrow> Some name
             | Some l \<Rightarrow> if n > the (map_of sizes l) then Some name else largest"
  have "foldl ?f acc xs = Some l \<Longrightarrow> acc = Some l \<or> l \<in> fst ` set xs - stuck" for acc xs
  proof (induction xs arbitrary: acc)
    case (Cons x xs)
    from Cons.prems have "foldl ?f (?f acc x) xs = Some l" by simp
    from Cons.IH [OF this] show ?case by (cases x) (auto split: if_splits option.splits)
  qed simp
  then show "largest_file sizes stuck = Some l \<Longrightarrow> l \<in> fst ` set sizes - stuck"
    unfolding largest_file_def by blast
qed

lemma sum_update_less:
  "map_of xs k = Some v \<Longrightarrow> n < v \<Longrightarrow>
   sum_list (map snd (AList.update k (n :: nat) xs)) < sum_list (map snd xs)"
  by (induction xs) (auto split: if_splits)

lemma length_stuck_less:
  "l \<in> fst ` set xs - stuck \<Longrightarrow>
   length (filter (\<lambda>p. fst p \<notin> insert l stuck) xs) < length (filter (\<lambda>p. fst p \<notin> stuck) xs)"
proof (induction xs)
  case (Cons x xs)
  have le: "length (filter (\<lambda>p. fst p \<notin> insert l stuck) xs) \<le> length (filter (\<lambda>p. fst p \<notin> stuck) xs)"
    by (induction xs) auto
  show ?case
  proof (cases "fst x = l")
    case True
    with Cons.prems le show ?thesis by simp
  next
    case False
    with Cons show ?thesis by auto
  qed
qed simp

lemma length_stuck_less':
  "(l, b) \<in> set xs \<Longrightarrow> l \<notin> stuck \<Longrightarrow>
   length (filter (\<lambda>p. fst p \<noteq> l \<and> fst p \<notin> stuck) xs) < length (filter (\<lambda>p. fst p \<notin> stuck) xs)"
  using length_stuck_less [of l xs stuck] by force

text \<open>
  The loop of \<^verbatim>\<open>fitToBudget\<close>. Every turn either shrinks the largest file or adds it to the stuck
  names, so it ends.
\<close>

function fit_loop ::
  "files \<Rightarrow> (ArchiveFile \<times> nat) list \<Rightarrow> int \<Rightarrow> int \<Rightarrow> ArchiveFile set \<Rightarrow> ArchiveFile set
   \<Rightarrow> files \<times> ArchiveFile set" where
  "fit_loop out sizes tot budget truncated stuck =
     (if \<not> tot > budget then (out, truncated)
      else case largest_file sizes stuck of
             None \<Rightarrow> (out, truncated)
           | Some largest \<Rightarrow>
               (let size = the (map_of sizes largest);
                    next_text = truncateText largest (the (map_of out largest))
                                  (max 0 (int size - (tot - budget)));
                    n = length next_text
                in if n \<ge> size then fit_loop out sizes tot budget truncated (insert largest stuck)
                   else fit_loop (AList.update largest next_text out) (AList.update largest n sizes)
                          (tot - (int size - int n)) budget (insert largest truncated) stuck))"
  by pat_completeness auto

termination
proof (relation "measures [\<lambda>(out, sizes, tot, budget, truncated, stuck). sum_list (map snd sizes),
    \<lambda>(out, sizes, tot, budget, truncated, stuck). length (filter (\<lambda>p. fst p \<notin> stuck) sizes)]")
  fix out :: files and sizes and tot budget :: int and truncated stuck largest size next_text n
  assume l: "largest_file sizes stuck = Some largest" and s: "size = the (map_of sizes largest)"
    and n: "\<not> size \<le> n"
  from largest_file_Some [OF l] obtain v where "map_of sizes largest = Some v"
    by (metis DiffD1 map_of_eq_None_iff not_None_eq)
  with s n sum_update_less [of sizes largest v n]
  show "((AList.update largest next_text out, AList.update largest n sizes,
      tot - (int size - int n), budget, insert largest truncated, stuck),
     out, sizes, tot, budget, truncated, stuck)
    \<in> measures [\<lambda>(out, sizes, tot, budget, truncated, stuck). sum_list (map snd sizes),
    \<lambda>(out, sizes, tot, budget, truncated, stuck). length (filter (\<lambda>p. fst p \<notin> stuck) sizes)]"
    by simp
qed (auto dest!: largest_file_Some intro: length_stuck_less')

declare fit_loop.simps [simp del]

definition fitToBudget :: "files \<Rightarrow> int \<Rightarrow> files \<times> ArchiveFile set" where
  "fitToBudget files budget =
     (let sizes = map (\<lambda>(name, t). (name, length t)) files in
      fit_loop files sizes (int (sum_list (map snd sizes))) budget {} {})"

subsection \<open>Assembling, counting and the manifest\<close>

definition assemble_step :: "files \<Rightarrow> StagedPart \<Rightarrow> files" where
  "assemble_step out p =
     (case map_of out (sp_file p) of
        None \<Rightarrow> AList.update (sp_file p) (sp_text p) out
      | Some prev \<Rightarrow>
          if \<not> isJsonLines (sp_file p) then AList.update (sp_file p) (sp_text p) out
          else if sp_text p = [] then out
          else let sep = (if prev = [] \<or> ends_with [CHR 0x0A] prev then [] else [CHR 0x0A])
               in AList.update (sp_file p) (prev @ sep @ sp_text p) out)"

definition assembleFiles :: "StagedPart list \<Rightarrow> files" where
  "assembleFiles parts = foldl assemble_step [] parts"

definition countRecords :: "(string \<Rightarrow> json option) \<Rightarrow> ArchiveFile \<Rightarrow> string \<Rightarrow> nat" where
  "countRecords parse file body =
     (if isJsonLines file
      then length (filter (\<lambda>l. trim l \<noteq> []) (split_on (CHR 0x0A) body))
      else if trim body = [] then 0
      else case parse body of Some (JArr vs) \<Rightarrow> length vs | _ \<Rightarrow> 1)"

record ManifestFile =
  mf_name :: string
  mf_records :: nat
  mf_bytes :: nat
  mf_sha256 :: string
  mf_truncated :: bool

record Manifest =
  mn_formatVersion :: int
  mn_product :: string
  mn_exportedAt :: string
  mn_files :: "ManifestFile list"
  mn_notes :: "string list option"

definition buildManifest :: "ManifestFile list \<Rightarrow> time \<Rightarrow> Manifest" where
  "buildManifest files exportedAt =
     \<lparr>mn_formatVersion = ARCHIVE_FORMAT_VERSION, mn_product = ''OntoDecide CE'',
      mn_exportedAt = toISOString exportedAt, mn_files = files,
      mn_notes = (if list_ex mf_truncated files then Some [TRUNCATION_NOTE] else None)\<rparr>"

subsection \<open>Facts: the cursors\<close>

lemma export_positions [simp]:
  "index_of Ontology EXPORT_ORDER = 0" "index_of Integration EXPORT_ORDER = 1"
  "index_of Objects EXPORT_ORDER = 2" "index_of Situation EXPORT_ORDER = 3"
  "index_of Decision EXPORT_ORDER = 4" "length EXPORT_ORDER = 5"
  by (simp_all add: EXPORT_ORDER_def Let_def)

lemma purge_positions [simp]:
  "index_of Situation PURGE_ORDER = 0" "index_of Decision PURGE_ORDER = 1"
  "index_of Objects PURGE_ORDER = 2" "index_of Integration PURGE_ORDER = 3"
  "index_of Ontology PURGE_ORDER = 4"
  by (simp_all add: PURGE_ORDER_def Let_def)

lemma advanceExport_done [simp]:
  "advanceExport Ontology None = (Svc Integration, None)"
  "advanceExport Integration None = (Svc Objects, None)"
  "advanceExport Objects None = (Svc Situation, None)"
  "advanceExport Situation None = (Svc Decision, None)"
  "advanceExport Decision None = (ExportDone, None)"
  "advanceExport svc (Some c) = (Svc svc, Some c)"
  by (simp_all add: advanceExport_def at_index_def) (simp_all add: EXPORT_ORDER_def)

lemma advancePurge_done [simp]:
  "advancePurge Situation True = (Purging, Decision)"
  "advancePurge Decision True = (Purging, Objects)"
  "advancePurge Objects True = (Purging, Integration)"
  "advancePurge Integration True = (Purging, Ontology)"
  "advancePurge Ontology True = (Purged, Ontology)"
  "advancePurge svc False = (Purging, svc)"
  by (simp_all add: advancePurge_def at_index_def) (simp_all add: PURGE_ORDER_def)

text \<open>How many services are still to be exported, the current one included.\<close>

fun exports_left :: "ExportSvc option \<Rightarrow> nat" where
  "exports_left (Some ExportDone) = 0"
| "exports_left (Some (Svc s)) = 5 - nat (index_of s EXPORT_ORDER)"
| "exports_left None = 5"

lemma exports_left_current:
  "currentExportService led = Some s \<Longrightarrow> exports_left (led_exportSvc led) = exports_left (Some (Svc s))"
  by (auto simp: currentExportService_def EXPORT_ORDER_def Let_def split: option.splits ExportSvc.splits)

lemma exports_left_advance:
  "exports_left (Some (fst (advanceExport s None))) + 1 = exports_left (Some (Svc s))"
  by (cases s) simp_all

lemma isLastAllowedPart_iff:
  "isLastAllowedPart s parts \<longleftrightarrow> parts + exports_left (Some (Svc s)) \<ge> MAX_STAGING_PARTS"
  by (cases s) (auto simp: isLastAllowedPart_def Let_def)

subsection \<open>Facts: staging parts\<close>

lemma takeWhile_ne: "c \<notin> set s \<Longrightarrow> takeWhile (\<lambda>x. x \<noteq> c) (s @ c # t) = s"
  by (induction s) auto

lemma part_round_trip:
  assumes "CHR 0x0A \<notin> set file" "\<not> ends_with TRUNCATED_MARK file"
  shows "decodePart (encodePart file body truncated)
    = \<lparr>sp_file = file, sp_text = body, sp_truncated = truncated\<rparr>"
proof -
  let ?h = "file @ (if truncated then TRUNCATED_MARK else [])"
  have "CHR 0x0A \<notin> set ?h" using assms(1) by (auto simp: TRUNCATED_MARK_def)
  then have "takeWhile (\<lambda>c. c \<noteq> CHR 0x0A) (?h @ CHR 0x0A # body) = ?h" by (rule takeWhile_ne)
  moreover have "ends_with TRUNCATED_MARK ?h \<longleftrightarrow> truncated" using assms(2) by simp
  ultimately show ?thesis by (auto simp: decodePart_def encodePart_def Let_def)
qed

text \<open>C18: a staging part decodes to what was encoded: for each of the seven archive files, the name,
the text and the truncation mark all survive the trip through object storage.\<close>

theorem encodePart_decodePart:
  assumes "file \<in> set ARCHIVE_FILES"
  shows "decodePart (encodePart file body truncated)
    = \<lparr>sp_file = file, sp_text = body, sp_truncated = truncated\<rparr>"
proof (rule part_round_trip)
  have "list_all (\<lambda>f. CHR 0x0A \<notin> set f \<and> \<not> ends_with TRUNCATED_MARK f) ARCHIVE_FILES"
    by (simp add: ARCHIVE_FILES_def ends_with_def TRUNCATED_MARK_def)
  with assms show "CHR 0x0A \<notin> set file" "\<not> ends_with TRUNCATED_MARK file"
    by (auto simp: list_all_iff)
qed

theorem encodePart_decodePart_witness:
  "decodePart (encodePart ''links.jsonl'' [CHR 0x0A] True)
    = \<lparr>sp_file = ''links.jsonl'', sp_text = [CHR 0x0A], sp_truncated = True\<rparr>"
  by (rule encodePart_decodePart) (simp add: ARCHIVE_FILES_def)

subsection \<open>Facts: fitting to the budget\<close>

lemma take_lines_bound:
  "int (length out) = used \<Longrightarrow> used \<le> m \<Longrightarrow> int (length (take_lines m ls out used)) \<le> m"
  by (induction m ls out used rule: take_lines.induct) (auto simp: Let_def)

lemma length_TRUNCATED_JSON: "length TRUNCATED_JSON = 18"
  by (simp add: TRUNCATED_JSON_def)

lemma truncateText_bound:
  "0 \<le> m \<Longrightarrow> int (length (truncateText f t m)) \<le> m \<or> length (truncateText f t m) = 18"
  by (simp add: truncateText_def length_TRUNCATED_JSON take_lines_bound)

lemma map_of_update: "map_of (AList.update k v xs) = (map_of xs)(k \<mapsto> v)"
  by (rule update_conv')

lemma map_fst_update: "k \<in> fst ` set xs \<Longrightarrow> map fst (AList.update k v xs) = map fst xs"
  by (induction xs) auto

lemma sizes_update:
  "k \<in> fst ` set out \<Longrightarrow> sizes = map (\<lambda>(n, t). (n, length t)) out \<Longrightarrow>
   AList.update k (length t) sizes = map (\<lambda>(n, t). (n, length t)) (AList.update k t out)"
  by (induction out arbitrary: sizes) auto

lemma sum_update_diff:
  "map_of xs k = Some v \<Longrightarrow>
   int (sum_list (map snd (AList.update k (n :: nat) xs))) = int (sum_list (map snd xs)) - (int v - int n)"
  by (induction xs) (auto split: if_splits)

definition fit_inv ::
  "files \<Rightarrow> (ArchiveFile \<times> nat) list \<Rightarrow> int \<Rightarrow> ArchiveFile set \<Rightarrow> bool" where
  "fit_inv out sizes tot stuck \<longleftrightarrow>
     distinct (map fst out) \<and> sizes = map (\<lambda>(n, t). (n, length t)) out \<and>
     tot = int (sum_list (map snd sizes)) \<and>
     (\<forall>(n, k) \<in> set sizes. n \<in> stuck \<longrightarrow> k \<le> 18)"

lemma sum_le_18: "\<forall>(n, k) \<in> set xs. k \<le> (18 :: nat) \<Longrightarrow> sum_list (map snd xs) \<le> 18 * length xs"
  by (induction xs) auto

lemma fit_loop_budget:
  "fit_inv out sizes tot stuck \<Longrightarrow> 18 * int (length out) \<le> budget \<Longrightarrow>
   fit_loop out sizes tot budget tr stuck = (res, tr') \<Longrightarrow>
   map fst res = map fst out \<and> int (sum_list (map (length \<circ> snd) res)) \<le> budget
   \<and> tr \<subseteq> tr' \<and> (\<forall>n. n \<notin> tr' \<longrightarrow> map_of res n = map_of out n)"
proof (induction out sizes tot budget tr stuck rule: fit_loop.induct)
  case (1 out sizes tot budget tr stuck)
  from "1.prems"(1) have di: "distinct (map fst out)"
    and sz: "sizes = map (\<lambda>(n, t). (n, length t)) out"
    and tt: "tot = int (sum_list (map snd sizes))"
    and st: "\<forall>(n, k) \<in> set sizes. n \<in> stuck \<longrightarrow> k \<le> 18"
    by (auto simp: fit_inv_def)
  have snds: "map snd sizes = map (length \<circ> snd) out" by (auto simp: sz)
  have keys: "map fst sizes = map fst out" by (auto simp: sz)
  show ?case
  proof (cases "tot > budget")
    case False
    with "1.prems"(3) have "res = out" "tr' = tr" by (simp_all add: fit_loop.simps)
    with False tt snds show ?thesis by (simp add: o_def)
  next
    case big: True
    show ?thesis
    proof (cases "largest_file sizes stuck")
      case None
      then have "\<forall>(n, k) \<in> set sizes. k \<le> 18"
        using st by (fastforce simp: largest_file_None_iff)
      then have "sum_list (map snd sizes) \<le> 18 * length sizes" by (rule sum_le_18)
      then have "tot \<le> 18 * int (length out)" using sz tt by simp
      with big "1.prems"(2) show ?thesis by simp
    next
      case (Some l)
      let ?size = "the (map_of sizes l)"
      let ?t = "truncateText l (the (map_of out l)) (max 0 (int ?size - (tot - budget)))"
      have lk: "l \<in> fst ` set sizes" "l \<notin> stuck" using largest_file_Some [OF Some] by auto
      then have lo: "l \<in> fst ` set out" using keys by (metis list.set_map)
      obtain v where v: "map_of sizes l = Some v"
        using lk(1) by (metis map_of_eq_None_iff not_None_eq)
      show ?thesis
      proof (cases "length ?t \<ge> ?size")
        case True
        have "int (length ?t) \<le> max 0 (int ?size - (tot - budget)) \<or> length ?t = 18"
          by (rule truncateText_bound) simp
        with True big have small: "?size \<le> 18" by auto
        have "fit_inv out sizes tot (insert l stuck)"
          unfolding fit_inv_def
        proof (intro conjI ballI)
          fix p assume p: "p \<in> set sizes"
          show "case p of (n, k) \<Rightarrow> n \<in> insert l stuck \<longrightarrow> k \<le> 18"
          proof (cases "fst p = l")
            case True
            with p di keys have "map_of sizes l = Some (snd p)"
              by (metis map_of_is_SomeI prod.collapse)
            with small show ?thesis by (cases p) simp
          qed (use st p in auto)
        qed (use di sz tt in auto)
        moreover have "fit_loop out sizes tot budget tr (insert l stuck) = (res, tr')"
          using "1.prems"(3) big Some True by (subst (asm) fit_loop.simps) (simp add: Let_def)
        ultimately show ?thesis
          using "1.IH"(1) [of l ?size ?t "length ?t"] big Some True "1.prems"(2) by auto
      next
        case False
        have up: "AList.update l (length ?t) sizes
            = map (\<lambda>(n, t). (n, length t)) (AList.update l ?t out)"
          using sizes_update [OF lo sz] by blast
        have "fit_inv (AList.update l ?t out) (AList.update l (length ?t) sizes)
            (tot - (int ?size - int (length ?t))) stuck"
          unfolding fit_inv_def
        proof (intro conjI ballI)
          show "distinct (map fst (AList.update l ?t out))" using di lo by (simp add: map_fst_update)
          show "tot - (int ?size - int (length ?t))
              = int (sum_list (map snd (AList.update l (length ?t) sizes)))"
            using sum_update_diff [OF v] v tt by simp
          fix p assume "p \<in> set (AList.update l (length ?t) sizes)"
          then have "p = (l, length ?t) \<or> p \<in> set sizes"
            by (induction sizes) (auto split: if_splits)
          with st lk(2) show "case p of (n, k) \<Rightarrow> n \<in> stuck \<longrightarrow> k \<le> 18" by auto
        qed (rule up)
        moreover have "fit_loop (AList.update l ?t out) (AList.update l (length ?t) sizes)
            (tot - (int ?size - int (length ?t))) budget (insert l tr) stuck = (res, tr')"
          using "1.prems"(3) big Some False by (subst (asm) fit_loop.simps) (simp add: Let_def)
        moreover have "length (AList.update l ?t out) = length out"
          using map_fst_update [OF lo, of ?t] by (metis length_map)
        ultimately show ?thesis
          using "1.IH"(2) [of l ?size ?t "length ?t"] big Some False "1.prems"(2)
            map_fst_update [OF lo, of ?t]
          by (auto simp: map_of_update)
      qed
    qed
  qed
qed

lemma fit_inv_init: "distinct (map fst fs) \<Longrightarrow>
  fit_inv fs (map (\<lambda>(n, t). (n, length t)) fs)
    (int (sum_list (map snd (map (\<lambda>(n, t). (n, length t)) fs)))) {}"
  by (simp add: fit_inv_def)

text \<open>C17: the archive never exceeds its byte budget. Given distinct file names and a budget that
leaves at least the 18 bytes of the truncation marker per file, \<^verbatim>\<open>fitToBudget\<close> ends with files
whose total size is within the budget, keeps every file name in order, and leaves each file it does
not report as truncated byte for byte as it was.\<close>

theorem fitToBudget_fits:
  assumes "distinct (map fst fs)" "18 * int (length fs) \<le> budget"
    "fitToBudget fs budget = (res, truncated)"
  shows "int (sum_list (map (length \<circ> snd) res)) \<le> budget \<and> map fst res = map fst fs
    \<and> (\<forall>n. n \<notin> truncated \<longrightarrow> map_of res n = map_of fs n)"
  using fit_loop_budget [OF fit_inv_init [OF assms(1)] assms(2)] assms(3)
  by (simp add: fitToBudget_def Let_def)

theorem fitToBudget_fits_witness:
  "\<exists>res truncated. fitToBudget [(''objects.jsonl'', replicate 30 CHR ''x''), (''imports.json'', ''{}'')] 36
      = (res, truncated)
    \<and> int (sum_list (map (length \<circ> snd) res)) \<le> 36
    \<and> map fst res = [''objects.jsonl'', ''imports.json'']"
proof -
  let ?fs = "[(''objects.jsonl'', replicate 30 CHR ''x''), (''imports.json'', ''{}'')]"
  obtain res truncated where r: "fitToBudget ?fs 36 = (res, truncated)" by (rule prod.exhaust)
  have "distinct (map fst ?fs)" "18 * int (length ?fs) \<le> 36" by simp_all
  from fitToBudget_fits [OF this r] r show ?thesis by simp
qed

end
