(* ===== verification/Counters.thy ===== *)
theory Counters
  imports ArchiveRules
begin

section \<open>Capped counters\<close>

text \<open>
  The scarce actions are bounded by counters that are taken atomically: the shared tables of
  \<^verbatim>\<open>packages/shared-kernel/d1/counters.ts\<close> and the \<^verbatim>\<open>usage_counter\<close> table of
  \<^verbatim>\<open>packages/identity/infrastructure/d1_usage_counter.ts\<close>. Both promise the contract of the
  locale \<open>capped_counter\<close>; \<open>CodeRepository.takeSend\<close> gives it a third time.
\<close>

subsection \<open>The contract\<close>

text \<open>A run of takes: the list of keys, amounts and caps in the order the statements commit.\<close>

fun run_takes ::
  "('k \<Rightarrow> int \<Rightarrow> int \<Rightarrow> 's \<Rightarrow> bool \<times> 's) \<Rightarrow> ('k \<times> int \<times> int) list \<Rightarrow> 's \<Rightarrow> bool list \<times> 's" where
  "run_takes take_n [] s = ([], s)"
| "run_takes take_n ((k, n, cap) # ts) s =
     (case take_n k n cap s of (ok, s') \<Rightarrow>
       (case run_takes take_n ts s' of (oks, s'') \<Rightarrow> (ok # oks, s'')))"

fun granted :: "'k \<Rightarrow> ('k \<times> int \<times> int) list \<Rightarrow> bool list \<Rightarrow> int" where
  "granted k ((k', n, cap) # ts) (ok # oks) = (if k' = k \<and> ok then n else 0) + granted k ts oks"
| "granted k _ _ = 0"

locale capped_counter =
  fixes take_n :: "'k \<Rightarrow> int \<Rightarrow> int \<Rightarrow> 's \<Rightarrow> bool \<times> 's"
    and val :: "'s \<Rightarrow> 'k \<Rightarrow> int"
    and good :: "'s \<Rightarrow> bool"
    and legal :: "'k \<Rightarrow> int \<Rightarrow> bool"
  assumes take_inv: "good s \<Longrightarrow> good (snd (take_n k n cap s))"
    and take_grants: "good s \<Longrightarrow> legal k n \<Longrightarrow> fst (take_n k n cap s) \<longleftrightarrow> val s k + n \<le> cap"
    and take_value: "good s \<Longrightarrow> legal k n \<Longrightarrow>
      val (snd (take_n k n cap s)) k' = val s k' + (if k' = k \<and> val s k + n \<le> cap then n else 0)"
begin

lemma run_takes_inv: "good s \<Longrightarrow> good (snd (run_takes take_n ts s))"
proof (induction ts arbitrary: s)
  case (Cons t ts)
  obtain k n cap where t: "t = (k, n, cap)" by (cases t) auto
  obtain ok s' where s': "take_n k n cap s = (ok, s')" by (rule prod.exhaust)
  from take_inv [OF Cons.prems, of k n cap] s' have "good s'" by simp
  from Cons.IH [OF this] show ?case by (simp add: t s' split_beta)
qed simp

lemma run_takes_value:
  "good s \<Longrightarrow> \<forall>(k, n, cap) \<in> set ts. legal k n \<Longrightarrow>
   val (snd (run_takes take_n ts s)) k = val s k + granted k ts (fst (run_takes take_n ts s))"
proof (induction ts arbitrary: s)
  case (Cons t ts)
  obtain k' n cap where t: "t = (k', n, cap)" by (cases t) auto
  obtain ok s' where s': "take_n k' n cap s = (ok, s')" by (rule prod.exhaust)
  have i: "good s'" using take_inv [OF Cons.prems(1), of k' n cap] s' by simp
  have u: "legal k' n" using Cons.prems(2) t by auto
  have "val s' k = val s k + (if k' = k \<and> ok then n else 0)"
    using take_grants [OF Cons.prems(1) u, of cap] take_value [OF Cons.prems(1) u, of cap k] s'
    by auto
  moreover have "val (snd (run_takes take_n ts s')) k = val s' k + granted k ts (fst (run_takes take_n ts s'))"
    using Cons.IH [OF i] Cons.prems(2) by auto
  ultimately show ?case by (simp add: t s' split_beta)
qed simp

lemma run_takes_capped:
  "good s \<Longrightarrow> \<forall>(k', n, cap') \<in> set ts. legal k' n \<and> (k' = k \<longrightarrow> cap' \<le> cap) \<Longrightarrow> val s k \<le> cap \<Longrightarrow>
   val (snd (run_takes take_n ts s)) k \<le> cap"
proof (induction ts arbitrary: s)
  case (Cons t ts)
  obtain k' n cap' where t: "t = (k', n, cap')" by (cases t) auto
  obtain ok s' where s': "take_n k' n cap' s = (ok, s')" by (rule prod.exhaust)
  have i: "good s'" using take_inv [OF Cons.prems(1), of k' n cap'] s' by simp
  have u: "legal k' n" "k' = k \<longrightarrow> cap' \<le> cap" using Cons.prems(2) t by auto
  have "val s' k \<le> cap"
    using take_value [OF Cons.prems(1) u(1), of cap' k] s' u(2) Cons.prems(3)
    by (auto split: if_splits)
  then have "val (snd (run_takes take_n ts s')) k \<le> cap"
    using Cons.IH [OF i] Cons.prems(2) by auto
  then show ?case by (simp add: t s' split_beta)
qed simp

end

subsection \<open>counters.ts\<close>

record CounterKey =
  ctr_table :: string
  ctr_day :: string
  ctr_scope :: string
  ctr_key :: string

text \<open>The usage tables, as one list of rows that name their table.\<close>

type_synonym counter_rows = "(CounterKey \<times> int) list"

definition SAFE_TABLE :: "string \<Rightarrow> bool" where
  "SAFE_TABLE t \<longleftrightarrow> t \<noteq> [] \<and> list_all (\<lambda>c. is_lower c \<or> c = CHR ''_'') t"

definition ensureCounter :: "CounterKey \<Rightarrow> counter_rows \<Rightarrow> counter_rows" where
  "ensureCounter k rows = (if sel1 (\<lambda>r. fst r = k) rows = None then rows @ [(k, 0)] else rows)"

definition takeCounter :: "CounterKey \<Rightarrow> int \<Rightarrow> int \<Rightarrow> counter_rows \<Rightarrow> nat \<times> counter_rows" where
  "takeCounter k n cap rows =
     (let w = (\<lambda>r. fst r = k \<and> snd r + n \<le> cap) in
      (hits w rows, upd w (\<lambda>r. (fst r, snd r + n)) rows))"

text \<open>\<^verbatim>\<open>tryTake\<close> runs both statements in one batch; \<^verbatim>\<open>table(k)\<close> throws on an unsafe name.\<close>

definition counter_tryTake ::
  "CounterKey \<Rightarrow> int \<Rightarrow> int \<Rightarrow> counter_rows \<Rightarrow> (bool \<times> counter_rows) option" where
  "counter_tryTake k n cap rows =
     (if \<not> SAFE_TABLE (ctr_table k) then None
      else case takeCounter k n cap (ensureCounter k rows) of
             (changes, rows') \<Rightarrow> Some (changes = 1, rows'))"

definition adjustCounter :: "CounterKey \<Rightarrow> int \<Rightarrow> counter_rows \<Rightarrow> counter_rows option" where
  "adjustCounter k delta rows =
     (if \<not> SAFE_TABLE (ctr_table k) then None
      else Some (upd (\<lambda>r. fst r = k) (\<lambda>r. (fst r, max 0 (snd r + delta))) rows))"

definition readCounter :: "CounterKey \<Rightarrow> counter_rows \<Rightarrow> int option" where
  "readCounter k rows =
     (if \<not> SAFE_TABLE (ctr_table k) then None
      else Some (case sel1 (\<lambda>r. fst r = k) rows of Some r \<Rightarrow> snd r | None \<Rightarrow> 0))"

subsection \<open>The contract holds for the shared counters\<close>

definition counter_take ::
  "CounterKey \<Rightarrow> int \<Rightarrow> int \<Rightarrow> counter_rows \<Rightarrow> bool \<times> counter_rows" where
  "counter_take k n cap rows =
     (case counter_tryTake k n cap rows of Some r \<Rightarrow> r | None \<Rightarrow> (False, rows))"

definition counter_val :: "counter_rows \<Rightarrow> CounterKey \<Rightarrow> int" where
  "counter_val rows k = (case sel1 (\<lambda>r. fst r = k) rows of Some r \<Rightarrow> snd r | None \<Rightarrow> 0)"

lemma keyed_ensureCounter: "keyed fst rows \<Longrightarrow> keyed fst (ensureCounter k rows)"
  by (auto simp: ensureCounter_def intro: keyed_snoc_None)

lemma sel1_ensureCounter:
  "sel1 (\<lambda>r. fst r = k) (ensureCounter k rows) = Some (k, counter_val rows k)"
  by (auto simp: ensureCounter_def counter_val_def sel1_append dest: sel1_Some split: option.splits)

lemma counter_val_ensure [simp]: "counter_val (ensureCounter k rows) k' = counter_val rows k'"
  by (auto simp: ensureCounter_def counter_val_def sel1_append split: option.splits)

lemma counter_take_simps:
  assumes "keyed fst rows" "SAFE_TABLE (ctr_table k)"
  shows "fst (counter_take k n cap rows) \<longleftrightarrow> counter_val rows k + n \<le> cap"
    "counter_val (snd (counter_take k n cap rows)) k'
      = counter_val rows k' + (if k' = k \<and> counter_val rows k + n \<le> cap then n else 0)"
proof -
  let ?e = "ensureCounter k rows"
  have h: "hits (\<lambda>r. fst r = k \<and> snd r + n \<le> cap) ?e = (if counter_val rows k + n \<le> cap then 1 else 0)"
    using hits_key [OF keyed_ensureCounter [OF assms(1), of k], of k "\<lambda>r. snd r + n \<le> cap"]
    by (simp add: sel1_ensureCounter)
  then show "fst (counter_take k n cap rows) \<longleftrightarrow> counter_val rows k + n \<le> cap"
    by (simp add: counter_take_def counter_tryTake_def takeCounter_def assms(2))
  have "sel1 (\<lambda>r. fst r = k') (upd (\<lambda>r. fst r = k \<and> snd r + n \<le> cap) (\<lambda>r. (fst r, snd r + n)) ?e)
      = (if k' = k then Some (k, counter_val rows k + (if counter_val rows k + n \<le> cap then n else 0))
         else sel1 (\<lambda>r. fst r = k') ?e)"
    by (subst sel1_upd_key) (auto simp: sel1_ensureCounter)
  then show "counter_val (snd (counter_take k n cap rows)) k'
      = counter_val rows k' + (if k' = k \<and> counter_val rows k + n \<le> cap then n else 0)"
    using counter_val_ensure [of k rows k']
    by (auto simp: counter_take_def counter_tryTake_def takeCounter_def assms(2) counter_val_def Let_def
        split: option.splits)
qed

lemma keyed_counter_take: "keyed fst rows \<Longrightarrow> keyed fst (snd (counter_take k n cap rows))"
  by (simp add: counter_take_def counter_tryTake_def takeCounter_def Let_def keyed_ensureCounter)

interpretation shared_counter: capped_counter counter_take counter_val "keyed fst"
  "\<lambda>k n. SAFE_TABLE (ctr_table k)"
  by unfold_locales (simp_all add: counter_take_simps keyed_counter_take)

text \<open>C16: a capped counter is never overshot. Whatever takes of whatever amounts are committed, in
whatever order, on all the counters of the shared tables, a counter that starts within its cap stays
within it, and its value grows by exactly the units whose take answered true; so the units granted
never exceed the cap.\<close>

theorem shared_counter_capped:
  assumes "keyed fst rows" "counter_val rows k \<le> cap"
    "\<forall>(k', n, cap') \<in> set ts. SAFE_TABLE (ctr_table k') \<and> (k' = k \<longrightarrow> cap' \<le> cap)"
    "run_takes counter_take ts rows = (answers, rows')"
  shows "counter_val rows' k \<le> cap \<and> counter_val rows' k = counter_val rows k + granted k ts answers"
proof -
  have "\<forall>(k', n, cap') \<in> set ts. SAFE_TABLE (ctr_table k')" using assms(3) by auto
  with assms(1,4) have "counter_val rows' k = counter_val rows k + granted k ts answers"
    using shared_counter.run_takes_value [of rows ts k] by simp
  moreover have "counter_val rows' k \<le> cap"
    using shared_counter.run_takes_capped [OF assms(1,3,2)] assms(4) by simp
  ultimately show ?thesis by simp
qed

definition ai_counter :: CounterKey where
  "ai_counter = \<lparr>ctr_table = ''dec_usage'', ctr_day = ''2025-01-01'', ctr_scope = ''t1'', ctr_key = ''ai''\<rparr>"

theorem shared_counter_capped_witness:
  "\<exists>answers rows'. run_takes counter_take [(ai_counter, 2, 3), (ai_counter, 2, 3)] [] = (answers, rows')
    \<and> counter_val rows' ai_counter \<le> 3"
proof -
  let ?ts = "[(ai_counter, 2, 3), (ai_counter, 2, 3)]"
  obtain answers rows' where r: "run_takes counter_take ?ts [] = (answers, rows')"
    by (rule prod.exhaust)
  have "SAFE_TABLE (ctr_table ai_counter)"
    by (simp add: ai_counter_def SAFE_TABLE_def is_lower_def code_def)
  then have "counter_val rows' ai_counter \<le> 3"
    using shared_counter_capped [OF _ _ _ r, of ai_counter 3] by (simp add: counter_val_def [of "[]"])
  with r show ?thesis by blast
qed

end
