(* ===== verification/DbBase.thy ===== *)
theory DbBase
  imports Counters
begin

section \<open>D1: constraints, statements and batches\<close>

text \<open>
  The schema of \<^verbatim>\<open>migrations/identity-access/0001_ce_identity_access.sql\<close> as a predicate on the
  database, and \<^verbatim>\<open>db.batch\<close>: the statements run in order, each sees \<^verbatim>\<open>changes()\<close> of the one
  before it, a violated constraint rolls the whole batch back, and the deferred foreign keys are
  checked at the end. A repository method that cannot violate a constraint is a plain function on
  the database. The loss of a connection is not modelled.
\<close>

subsection \<open>Constraints\<close>

definition at_most_one :: "('r \<Rightarrow> bool) \<Rightarrow> 'r list \<Rightarrow> bool" where
  "at_most_one p t \<longleftrightarrow> length (filter p t) \<le> 1"

definition workspace_uniq :: "WorkspaceRecord list \<Rightarrow> bool" where
  "workspace_uniq t \<longleftrightarrow> keyed ws_tenantId t \<and> keyed ws_ownerUserId t
     \<and> at_most_one (\<lambda>w. ws_kind w = AdminWs) t"

definition workspace_check :: "WorkspaceRecord \<Rightarrow> bool" where
  "workspace_check w \<longleftrightarrow>
     (ws_kind w = AdminWs \<and> ws_trialExpiresAt w = None \<and> ws_status w = ACTIVE)
     \<or> (ws_kind w = Trial \<and> ws_trialExpiresAt w \<noteq> None)"

definition account_uniq :: "AccountRecord list \<Rightarrow> bool" where
  "account_uniq t \<longleftrightarrow> keyed ac_userId t \<and> keyed ac_tenantId t \<and> keyed ac_emailHmac t
     \<and> at_most_one (\<lambda>a. ac_role a = Admin) t"

definition pending_key :: "pending_row \<Rightarrow> string \<times> CodePurpose" where
  "pending_key r = (pr_emailHmac r, pr_purpose r)"

definition otp_key :: "otp_limit_row \<Rightarrow> string \<times> string" where
  "otp_key r = (ol_emailHmac r, ol_day r)"

definition session_uniq :: "SessionRecord list \<Rightarrow> bool" where
  "session_uniq t \<longleftrightarrow> keyed ss_id t \<and> keyed ss_refreshHash t"

definition archive_uniq :: "ArchiveIndexRecord list \<Rightarrow> bool" where
  "archive_uniq t \<longleftrightarrow> keyed ar_tenantId t \<and> keyed ar_deletionTokenHash t"

definition usage_key :: "usage_row \<Rightarrow> string \<times> string" where
  "usage_key r = (us_day r, us_key r)"

definition audit_uniq :: "AuditRow list \<Rightarrow> bool" where
  "audit_uniq t \<longleftrightarrow> keyed au_id t
     \<and> keyed au_idempotencyKey (filter (\<lambda>r. au_idempotencyKey r \<noteq> None) t)"

definition setting_check :: "setting_row \<Rightarrow> bool" where
  "setting_check r \<longleftrightarrow>
     (case st_key r of
        KSignupEnabled \<Rightarrow> st_value r = 0 \<or> st_value r = 1
      | KSignupDailyLimit \<Rightarrow> 0 \<le> st_value r \<and> st_value r \<le> 20
      | KActiveWorkspaceLimit \<Rightarrow> 0 \<le> st_value r \<and> st_value r \<le> 60)"

definition fk_ok :: "idb \<Rightarrow> bool" where
  "fk_ok db \<longleftrightarrow>
     list_all (\<lambda>w. ws_ownerUserId w \<in> ac_userId ` set (db_account db)) (db_workspace db)
     \<and> list_all (\<lambda>a. ac_tenantId a \<in> ws_tenantId ` set (db_workspace db)) (db_account db)
     \<and> list_all (\<lambda>s. ss_userId s \<in> ac_userId ` set (db_account db)) (db_session db)
     \<and> list_all (\<lambda>p. pk_userId p \<in> ac_userId ` set (db_account db)) (db_passkey db)"

definition tables_uniq :: "idb \<Rightarrow> bool" where
  "tables_uniq db \<longleftrightarrow>
     workspace_uniq (db_workspace db) \<and> account_uniq (db_account db)
     \<and> keyed pending_key (db_pending db) \<and> keyed otp_key (db_otp db)
     \<and> session_uniq (db_session db) \<and> keyed rt_refreshHash (db_rotated db)
     \<and> keyed led_tenantId (db_ledger db) \<and> archive_uniq (db_archive db)
     \<and> keyed tb_tenantId (db_tombstone db) \<and> keyed usage_key (db_usage db)
     \<and> keyed pk_credentialId (db_passkey db) \<and> keyed rc_hash (db_recovery db)
     \<and> keyed ch_challenge (db_challenge db) \<and> keyed cg_id (db_change db)
     \<and> keyed fl_key (db_flag db) \<and> keyed st_key (db_setting db)
     \<and> keyed fst (db_domain db) \<and> keyed fst (db_email db) \<and> audit_uniq (db_audit db)"

definition db_ok :: "idb \<Rightarrow> bool" where
  "db_ok db \<longleftrightarrow> tables_uniq db \<and> fk_ok db
     \<and> list_all workspace_check (db_workspace db) \<and> list_all setting_check (db_setting db)"

lemmas db_ok_defs = db_ok_def tables_uniq_def fk_ok_def workspace_uniq_def account_uniq_def
  session_uniq_def archive_uniq_def audit_uniq_def list_all_iff

lemma db_ok_empty: "db_ok empty_db"
  by (simp add: db_ok_defs empty_db_def initial_settings_def at_most_one_def setting_check_def)

subsection \<open>Statements and batches\<close>

type_synonym stmt = "nat \<Rightarrow> idb \<Rightarrow> db_error + (nat \<times> idb)"

fun run_stmts :: "stmt list \<Rightarrow> nat \<Rightarrow> idb \<Rightarrow> db_error + (nat list \<times> idb)" where
  "run_stmts [] changes db = Inr ([], db)"
| "run_stmts (s # ss) changes db =
     (case s changes db of
        Inl e \<Rightarrow> Inl e
      | Inr (n, db') \<Rightarrow>
          (case run_stmts ss n db' of
             Inl e \<Rightarrow> Inl e
           | Inr (ns, db'') \<Rightarrow> Inr (n # ns, db'')))"

definition batch :: "stmt list \<Rightarrow> idb \<Rightarrow> (db_error + nat list) \<times> idb" where
  "batch ss db =
     (case run_stmts ss 0 db of
        Inl e \<Rightarrow> (Inl e, db)
      | Inr (ns, db') \<Rightarrow> if fk_ok db' then (Inr ns, db') else (Inl ForeignKey, db))"

text \<open>A statement that succeeds and reports its \<^verbatim>\<open>changes\<close>.\<close>

definition ok_stmt :: "(nat \<Rightarrow> idb \<Rightarrow> nat \<times> idb) \<Rightarrow> stmt" where
  "ok_stmt f = (\<lambda>c db. Inr (f c db))"

text \<open>An insert that must leave the table's unique constraints satisfied.\<close>

definition insert_stmt :: "(idb \<Rightarrow> bool) \<Rightarrow> (idb \<Rightarrow> idb) \<Rightarrow> stmt" where
  "insert_stmt uniq ins =
     (\<lambda>c db. let db' = ins db in if uniq db' then Inr (1, db') else Inl UniqueViolation)"

definition when_stmt :: "(nat \<Rightarrow> idb \<Rightarrow> bool) \<Rightarrow> stmt \<Rightarrow> stmt" where
  "when_stmt p s = (\<lambda>c db. if p c db then s c db else Inr (0, db))"

lemma batch_failed_rolls_back: "fst (batch ss db) = Inl e \<Longrightarrow> snd (batch ss db) = db"
  by (auto simp: batch_def split: sum.splits if_splits)

lemma batch_Inr_fk: "batch ss db = (Inr ns, db') \<Longrightarrow> fk_ok db'"
  by (auto simp: batch_def split: sum.splits if_splits)

text \<open>An invariant that every statement keeps is kept by the batch.\<close>

definition stmt_keeps :: "(idb \<Rightarrow> bool) \<Rightarrow> stmt \<Rightarrow> bool" where
  "stmt_keeps P s \<longleftrightarrow> (\<forall>c db n db'. P db \<longrightarrow> s c db = Inr (n, db') \<longrightarrow> P db')"

lemma stmt_keepsI: "(\<And>c db n db'. P db \<Longrightarrow> s c db = Inr (n, db') \<Longrightarrow> P db') \<Longrightarrow> stmt_keeps P s"
  unfolding stmt_keeps_def by blast

lemma run_stmts_keeps:
  "list_all (stmt_keeps P) ss \<Longrightarrow> P db \<Longrightarrow> run_stmts ss c db = Inr (ns, db') \<Longrightarrow> P db'"
proof (induction ss arbitrary: c db ns)
  case (Cons s ss)
  then obtain n db1 ns' where s: "s c db = Inr (n, db1)" "run_stmts ss n db1 = Inr (ns', db')"
    by (auto split: sum.splits)
  from Cons.prems s(1) have "P db1" by (auto simp: stmt_keeps_def)
  with Cons s(2) show ?case by auto
qed simp

lemma batch_keeps:
  "list_all (stmt_keeps P) ss \<Longrightarrow> P db \<Longrightarrow> P (snd (batch ss db))"
  using run_stmts_keeps [of P ss db 0] by (auto simp: batch_def split: sum.splits)

lemma batch_keeps_fk:
  "list_all (stmt_keeps P) ss \<Longrightarrow> P db \<Longrightarrow> fk_ok db \<Longrightarrow>
   P (snd (batch ss db)) \<and> fk_ok (snd (batch ss db))"
  using batch_keeps [of P ss db] batch_Inr_fk [of ss db] batch_failed_rolls_back [of ss db]
  by (cases "batch ss db"; cases "fst (batch ss db)") auto

end
