(* ===== verification/DbTenancy.thy ===== *)
theory DbTenancy
  imports DbBase
begin

section \<open>Tenancy repositories: counters, tombstones, ledger, archive index, workspaces\<close>

text \<open>
  \<^verbatim>\<open>d1_usage_counter.ts\<close>, \<^verbatim>\<open>shared-kernel/d1/tombstone.ts\<close>, \<^verbatim>\<open>d1_ledger_repository.ts\<close> and
  \<^verbatim>\<open>d1_workspace_repository.ts\<close>. A method that reads is a function of the database; one that
  writes returns its answer and the new database.
\<close>

subsection \<open>d1\_usage\_counter.ts\<close>

definition usage_ensure :: "string \<Rightarrow> string \<Rightarrow> usage_row list \<Rightarrow> usage_row list" where
  "usage_ensure day key t =
     (if sel1 (\<lambda>r. usage_key r = (day, key)) t = None
      then t @ [\<lparr>us_day = day, us_key = key, us_value = 0\<rparr>] else t)"

definition usage_tryTake :: "string \<Rightarrow> string \<Rightarrow> int \<Rightarrow> int \<Rightarrow> idb \<Rightarrow> bool \<times> idb" where
  "usage_tryTake day key n cap db =
     (let t = usage_ensure day key (db_usage db);
          w = (\<lambda>r. usage_key r = (day, key) \<and> us_value r + n \<le> cap)
      in (hits w t = 1, db\<lparr>db_usage := upd w (\<lambda>r. r\<lparr>us_value := us_value r + n\<rparr>) t\<rparr>))"

definition usage_adjust :: "string \<Rightarrow> string \<Rightarrow> int \<Rightarrow> idb \<Rightarrow> idb" where
  "usage_adjust day key delta db =
     db\<lparr>db_usage := upd (\<lambda>r. usage_key r = (day, key))
          (\<lambda>r. r\<lparr>us_value := max 0 (us_value r + delta)\<rparr>) (db_usage db)\<rparr>"

definition usage_read :: "string \<Rightarrow> string \<Rightarrow> idb \<Rightarrow> int" where
  "usage_read day key db =
     (case sel1 (\<lambda>r. usage_key r = (day, key)) (db_usage db) of Some r \<Rightarrow> us_value r | None \<Rightarrow> 0)"

definition usage_set :: "string \<Rightarrow> string \<Rightarrow> int \<Rightarrow> idb \<Rightarrow> idb" where
  "usage_set day key v db =
     db\<lparr>db_usage :=
          (if sel1 (\<lambda>r. usage_key r = (day, key)) (db_usage db) = None
           then db_usage db @ [\<lparr>us_day = day, us_key = key, us_value = v\<rparr>]
           else upd (\<lambda>r. usage_key r = (day, key)) (\<lambda>r. r\<lparr>us_value := v\<rparr>) (db_usage db))\<rparr>"

definition usage_sweep :: "string \<Rightarrow> idb \<Rightarrow> idb" where
  "usage_sweep beforeDay db = db\<lparr>db_usage := del (\<lambda>r. us_day r < beforeDay) (db_usage db)\<rparr>"

subsection \<open>Tombstones\<close>

definition tombstone_put :: "string \<Rightarrow> time \<Rightarrow> tombstone_row list \<Rightarrow> tombstone_row list" where
  "tombstone_put tid nowMs t =
     (if sel1 (\<lambda>r. tb_tenantId r = tid) t = None
      then t @ [\<lparr>tb_tenantId = tid, tb_deletedAt = nowMs\<rparr>] else t)"

definition writeTombstone :: "string \<Rightarrow> time \<Rightarrow> idb \<Rightarrow> idb" where
  "writeTombstone tid nowMs db = db\<lparr>db_tombstone := tombstone_put tid nowMs (db_tombstone db)\<rparr>"

definition hasTombstone :: "string \<Rightarrow> idb \<Rightarrow> bool" where
  "hasTombstone tid db \<longleftrightarrow> sel1 (\<lambda>r. tb_tenantId r = tid) (db_tombstone db) \<noteq> None"

definition sweepTombstones :: "time \<Rightarrow> idb \<Rightarrow> idb" where
  "sweepTombstones nowMs db =
     db\<lparr>db_tombstone :=
          del (\<lambda>r. tb_deletedAt r < nowMs - lc_tombstoneHours LIFECYCLE * 3600000) (db_tombstone db)\<rparr>"

subsection \<open>d1\_ledger\_repository.ts: purge\_ledger\<close>

text \<open>
  A patch names the columns it sets; an absent field (\<^verbatim>\<open>undefined\<close>) leaves the column alone. A
  nullable column is an option inside the option. The tenant and \<^verbatim>\<open>expired_at\<close> cannot be patched.
\<close>

record ledger_patch =
  lp_phase :: "LedgerPhase option"
  lp_mode :: "LedgerMode option"
  lp_objectKey :: "string option option"
  lp_exportSvc :: "ExportSvc option option"
  lp_exportCursor :: "string option option"
  lp_parts :: "nat option"
  lp_sizeBytes :: "int option option"
  lp_sha256 :: "string option option"
  lp_purgeSvc :: "LifecycleService option option"
  lp_locale :: "Locale option option"
  lp_timeZone :: "string option option"
  lp_mailed :: "time option option"
  lp_attempts :: "int option"

definition no_patch :: ledger_patch where
  "no_patch =
     \<lparr>lp_phase = None, lp_mode = None, lp_objectKey = None, lp_exportSvc = None,
      lp_exportCursor = None, lp_parts = None, lp_sizeBytes = None, lp_sha256 = None,
      lp_purgeSvc = None, lp_locale = None, lp_timeZone = None, lp_mailed = None, lp_attempts = None\<rparr>"

definition dflt :: "'a option \<Rightarrow> 'a \<Rightarrow> 'a" where
  "dflt v x = (case v of Some y \<Rightarrow> y | None \<Rightarrow> x)"

definition apply_patch :: "ledger_patch \<Rightarrow> time \<Rightarrow> Ledger \<Rightarrow> Ledger" where
  "apply_patch p now l =
     l\<lparr>led_phase := dflt (lp_phase p) (led_phase l),
       led_mode := dflt (lp_mode p) (led_mode l),
       led_objectKey := dflt (lp_objectKey p) (led_objectKey l),
       led_exportSvc := dflt (lp_exportSvc p) (led_exportSvc l),
       led_exportCursor := dflt (lp_exportCursor p) (led_exportCursor l),
       led_parts := dflt (lp_parts p) (led_parts l),
       led_sizeBytes := dflt (lp_sizeBytes p) (led_sizeBytes l),
       led_sha256 := dflt (lp_sha256 p) (led_sha256 l),
       led_purgeSvc := dflt (lp_purgeSvc p) (led_purgeSvc l),
       led_locale := dflt (lp_locale p) (led_locale l),
       led_timeZone := dflt (lp_timeZone p) (led_timeZone l),
       led_mailed := dflt (lp_mailed p) (led_mailed l),
       led_attempts := dflt (lp_attempts p) (led_attempts l),
       led_updatedAt := now\<rparr>"

definition ledger_get :: "string \<Rightarrow> idb \<Rightarrow> Ledger option" where
  "ledger_get tenantId db = sel1 (\<lambda>l. led_tenantId l = tenantId) (db_ledger db)"

definition has_ledger :: "string \<Rightarrow> idb \<Rightarrow> bool" where
  "has_ledger tenantId db \<longleftrightarrow> ledger_get tenantId db \<noteq> None"

definition first_row :: "'r list \<Rightarrow> 'r option" where
  "first_row rs = (case rs of [] \<Rightarrow> None | r # _ \<Rightarrow> Some r)"

definition ledger_next :: "idb \<Rightarrow> Ledger option" where
  "ledger_next db =
     first_row (order_by (\<lambda>l. (led_updatedAt l, led_tenantId l)) 1
       (filter (\<lambda>l. led_phase l \<noteq> AccountDeleted) (db_ledger db)))"

definition ledger_create :: "Ledger \<Rightarrow> idb \<Rightarrow> bool \<times> idb" where
  "ledger_create l db =
     (if ledger_get (led_tenantId l) db = None
      then (True, db\<lparr>db_ledger := db_ledger db @ [l]\<rparr>) else (False, db))"

definition ledger_update ::
  "string \<Rightarrow> time \<Rightarrow> ledger_patch \<Rightarrow> time \<Rightarrow> idb \<Rightarrow> bool \<times> idb" where
  "ledger_update tenantId expectedUpdatedAt patch updatedAt db =
     (let w = (\<lambda>l. led_tenantId l = tenantId \<and> led_updatedAt l = expectedUpdatedAt) in
      (hits w (db_ledger db) = 1,
       db\<lparr>db_ledger := upd w (apply_patch patch updatedAt) (db_ledger db)\<rparr>))"

definition ledger_delete :: "string \<Rightarrow> idb \<Rightarrow> idb" where
  "ledger_delete tenantId db = db\<lparr>db_ledger := del (\<lambda>l. led_tenantId l = tenantId) (db_ledger db)\<rparr>"

definition ledger_deleteOrphans :: "idb \<Rightarrow> nat \<times> idb" where
  "ledger_deleteOrphans db =
     (let w = (\<lambda>l. led_phase l = AccountDeleted
                 \<and> \<not> list_ex (\<lambda>a. ar_tenantId a = led_tenantId l) (db_archive db)) in
      (hits w (db_ledger db), db\<lparr>db_ledger := del w (db_ledger db)\<rparr>))"

subsection \<open>d1\_ledger\_repository.ts: archive\_index\<close>

text \<open>The upsert conflicts on the tenant; another row with the same token hash is a violation.\<close>

definition archive_upsert :: "ArchiveIndexRecord \<Rightarrow> idb \<Rightarrow> (db_error + unit) \<times> idb" where
  "archive_upsert r db =
     (let t = (if sel1 (\<lambda>a. ar_tenantId a = ar_tenantId r) (db_archive db) = None
               then db_archive db @ [r]
               else upd (\<lambda>a. ar_tenantId a = ar_tenantId r) (\<lambda>_. r) (db_archive db))
      in if archive_uniq t then (Inr (), db\<lparr>db_archive := t\<rparr>) else (Inl UniqueViolation, db))"

definition archive_get :: "string \<Rightarrow> idb \<Rightarrow> ArchiveIndexRecord option" where
  "archive_get tenantId db = sel1 (\<lambda>a. ar_tenantId a = tenantId) (db_archive db)"

definition archive_findByTokenHash :: "string \<Rightarrow> idb \<Rightarrow> ArchiveIndexRecord option" where
  "archive_findByTokenHash hash db = sel1 (\<lambda>a. ar_deletionTokenHash a = hash) (db_archive db)"

definition archive_due :: "time \<Rightarrow> nat \<Rightarrow> idb \<Rightarrow> ArchiveIndexRecord list" where
  "archive_due now n db = order_by ar_expiresAt n (filter (\<lambda>a. ar_expiresAt a \<le> now) (db_archive db))"

definition archive_list :: "string option \<Rightarrow> nat \<Rightarrow> idb \<Rightarrow> ArchiveIndexRecord list" where
  "archive_list cursor n db =
     order_desc ar_tenantId n
       (filter (\<lambda>a. case cursor of None \<Rightarrow> True | Some c \<Rightarrow> ar_tenantId a < c) (db_archive db))"

definition archive_count :: "idb \<Rightarrow> nat" where
  "archive_count db = length (db_archive db)"

definition archive_finalDelete :: "string \<Rightarrow> time \<Rightarrow> idb \<Rightarrow> idb" where
  "archive_finalDelete tenantId now db =
     (let db1 = db\<lparr>db_archive := del (\<lambda>a. ar_tenantId a = tenantId) (db_archive db)\<rparr>;
          db2 = db1\<lparr>db_ledger := del (\<lambda>l. led_tenantId l = tenantId \<and> led_phase l = AccountDeleted)
                                 (db_ledger db1)\<rparr>
      in if has_ledger tenantId db2 then db2
         else db2\<lparr>db_tombstone :=
                (if sel1 (\<lambda>r. tb_tenantId r = tenantId) (db_tombstone db2) = None
                 then db_tombstone db2 @ [\<lparr>tb_tenantId = tenantId, tb_deletedAt = now\<rparr>]
                 else upd (\<lambda>r. tb_tenantId r = tenantId) (\<lambda>r. r\<lparr>tb_deletedAt := now\<rparr>)
                        (db_tombstone db2))\<rparr>)"

subsection \<open>d1\_workspace\_repository.ts\<close>

definition workspace_get :: "string \<Rightarrow> idb \<Rightarrow> WorkspaceRecord option" where
  "workspace_get tenantId db = sel1 (\<lambda>w. ws_tenantId w = tenantId) (db_workspace db)"

definition countTrials :: "WorkspaceStatus list \<Rightarrow> idb \<Rightarrow> nat" where
  "countTrials statuses db =
     length (filter (\<lambda>w. ws_kind w = Trial \<and> ws_status w \<in> set statuses) (db_workspace db))"

text \<open>A conditional update of the workspace table, and whether it changed one row.\<close>

definition workspace_update ::
  "string \<Rightarrow> (WorkspaceRecord \<Rightarrow> bool) \<Rightarrow> (WorkspaceRecord \<Rightarrow> WorkspaceRecord) \<Rightarrow> idb \<Rightarrow> bool \<times> idb" where
  "workspace_update tenantId p f db =
     (let w = (\<lambda>r. ws_tenantId r = tenantId \<and> p r) in
      (hits w (db_workspace db) = 1, db\<lparr>db_workspace := upd w f (db_workspace db)\<rparr>))"

definition endTrial :: "string \<Rightarrow> time \<Rightarrow> idb \<Rightarrow> bool \<times> idb" where
  "endTrial tenantId now =
     workspace_update tenantId (\<lambda>w. ws_kind w = Trial \<and> ws_status w = ACTIVE)
       (\<lambda>w. w\<lparr>ws_status := EXPIRED, ws_trialExpiresAt := Some now, ws_expiredAt := Some now\<rparr>)"

definition setTrialExpiry :: "string \<Rightarrow> time \<Rightarrow> idb \<Rightarrow> bool \<times> idb" where
  "setTrialExpiry tenantId till db =
     workspace_update tenantId
       (\<lambda>w. ws_kind w = Trial \<and> ws_status w \<in> {ACTIVE, EXPIRED} \<and> \<not> has_ledger tenantId db)
       (\<lambda>w. w\<lparr>ws_trialExpiresAt := Some till, ws_status := ACTIVE, ws_expiredAt := None,
              ws_deleteMode := None\<rparr>) db"

definition setDeleteMode :: "string \<Rightarrow> DeleteMode \<Rightarrow> idb \<Rightarrow> bool \<times> idb" where
  "setDeleteMode tenantId mode db =
     workspace_update tenantId
       (\<lambda>w. ws_kind w = Trial \<and> ws_status w \<in> {ACTIVE, EXPIRED} \<and> \<not> has_ledger tenantId db)
       (\<lambda>w. w\<lparr>ws_deleteMode := Some mode\<rparr>) db"

definition le_opt :: "time option \<Rightarrow> time \<Rightarrow> bool" where
  "le_opt v t \<longleftrightarrow> (case v of None \<Rightarrow> False | Some x \<Rightarrow> x \<le> t)"

definition dueExpirations :: "time \<Rightarrow> nat \<Rightarrow> idb \<Rightarrow> WorkspaceRecord list" where
  "dueExpirations now n db =
     order_by (\<lambda>w. the (ws_trialExpiresAt w)) n
       (filter (\<lambda>w. ws_kind w = Trial \<and> ws_status w = ACTIVE \<and> le_opt (ws_trialExpiresAt w) now)
         (db_workspace db))"

definition expire :: "string \<Rightarrow> time \<Rightarrow> idb \<Rightarrow> bool \<times> idb" where
  "expire tenantId now =
     workspace_update tenantId
       (\<lambda>w. ws_kind w = Trial \<and> ws_status w = ACTIVE \<and> le_opt (ws_trialExpiresAt w) now)
       (\<lambda>w. w\<lparr>ws_status := EXPIRED, ws_expiredAt := Some now\<rparr>)"

definition nextArchiveCandidate :: "time \<Rightarrow> idb \<Rightarrow> WorkspaceRecord option" where
  "nextArchiveCandidate expiredBefore db =
     first_row (order_by (\<lambda>w. the (ws_expiredAt w)) 1
       (filter (\<lambda>w. ws_kind w = Trial \<and> ws_status w \<in> {EXPIRED, ARCHIVING}
                  \<and> le_opt (ws_expiredAt w) expiredBefore \<and> \<not> has_ledger (ws_tenantId w) db)
         (db_workspace db)))"

definition markArchiving :: "string \<Rightarrow> idb \<Rightarrow> idb" where
  "markArchiving tenantId db =
     snd (workspace_update tenantId (\<lambda>w. ws_kind w = Trial \<and> ws_status w = EXPIRED)
       (\<lambda>w. w\<lparr>ws_status := ARCHIVING\<rparr>) db)"

definition deleteAccount :: "string \<Rightarrow> time \<Rightarrow> idb \<Rightarrow> (db_error + nat list) \<times> idb" where
  "deleteAccount tenantId now =
     (let owners = (\<lambda>db. filter (\<lambda>a. ac_tenantId a = tenantId \<and> ac_role a = Owner) (db_account db)) in
      batch
       [ok_stmt (\<lambda>c db. let w = (\<lambda>s. ss_userId s \<in> ac_userId ` set (owners db)) in
          (hits w (db_session db), db\<lparr>db_session := del w (db_session db)\<rparr>)),
        ok_stmt (\<lambda>c db. let w = (\<lambda>p. pr_emailHmac p \<in> ac_emailHmac ` set (owners db)) in
          (hits w (db_pending db), db\<lparr>db_pending := del w (db_pending db)\<rparr>)),
        ok_stmt (\<lambda>c db. let w = (\<lambda>x. ol_emailHmac x \<in> ac_emailHmac ` set (owners db)) in
          (hits w (db_otp db), db\<lparr>db_otp := del w (db_otp db)\<rparr>)),
        ok_stmt (\<lambda>c db. let w = (\<lambda>a. ac_tenantId a = tenantId \<and> ac_role a = Owner) in
          (hits w (db_account db), db\<lparr>db_account := del w (db_account db)\<rparr>)),
        ok_stmt (\<lambda>c db. let w = (\<lambda>r. ws_tenantId r = tenantId \<and> ws_kind r = Trial) in
          (hits w (db_workspace db), db\<lparr>db_workspace := del w (db_workspace db)\<rparr>)),
        ok_stmt (\<lambda>c db. (if hasTombstone tenantId db then 0 else 1, writeTombstone tenantId now db))])"

end
