(* ===== verification/DbIdentity.thy ===== *)
theory DbIdentity
  imports DbTenancy
begin

section \<open>Identity repositories: accounts, codes, sessions, passkeys\<close>

text \<open>
  \<^verbatim>\<open>d1_account_repository.ts\<close>, \<^verbatim>\<open>d1_code_repository.ts\<close>, \<^verbatim>\<open>d1_session_repository.ts\<close> and
  \<^verbatim>\<open>d1_passkey_repository.ts\<close>, statement by statement.
\<close>

subsection \<open>d1\_account\_repository.ts\<close>

definition account_findById :: "string \<Rightarrow> idb \<Rightarrow> AccountRecord option" where
  "account_findById userId db = sel1 (\<lambda>a. ac_userId a = userId) (db_account db)"

definition account_findByEmailHmac :: "string \<Rightarrow> idb \<Rightarrow> AccountRecord option" where
  "account_findByEmailHmac emailHmac db = sel1 (\<lambda>a. ac_emailHmac a = emailHmac) (db_account db)"

definition account_findByTenant :: "string \<Rightarrow> idb \<Rightarrow> AccountRecord option" where
  "account_findByTenant tenantId db = sel1 (\<lambda>a. ac_tenantId a = tenantId) (db_account db)"

definition account_findAdmin :: "idb \<Rightarrow> AccountRecord option" where
  "account_findAdmin db = sel1 (\<lambda>a. ac_role a = Admin) (db_account db)"

definition updateProfile :: "string \<Rightarrow> Locale option \<Rightarrow> string option \<Rightarrow> idb \<Rightarrow> idb" where
  "updateProfile userId locale timeZone db =
     db\<lparr>db_account := upd (\<lambda>a. ac_userId a = userId)
          (\<lambda>a. a\<lparr>ac_locale := dflt locale (ac_locale a), ac_timeZone := dflt timeZone (ac_timeZone a)\<rparr>)
          (db_account db)\<rparr>"

definition setBanned :: "string \<Rightarrow> time option \<Rightarrow> idb \<Rightarrow> idb" where
  "setBanned userId bannedAt db =
     db\<lparr>db_account := upd (\<lambda>a. ac_userId a = userId \<and> ac_role a = Owner)
          (\<lambda>a. a\<lparr>ac_bannedAt := bannedAt\<rparr>) (db_account db)\<rparr>"

definition replaceEmail :: "string \<Rightarrow> string \<Rightarrow> string \<Rightarrow> idb \<Rightarrow> (db_error + unit) \<times> idb" where
  "replaceEmail userId emailHmac emailEnc db =
     (let t = upd (\<lambda>a. ac_userId a = userId)
                (\<lambda>a. a\<lparr>ac_emailHmac := emailHmac, ac_emailEnc := emailEnc\<rparr>) (db_account db)
      in if account_uniq t then (Inr (), db\<lparr>db_account := t\<rparr>) else (Inl UniqueViolation, db))"

definition insert_workspace :: "WorkspaceRecord \<Rightarrow> stmt" where
  "insert_workspace w =
     insert_stmt (\<lambda>db. workspace_uniq (db_workspace db)) (\<lambda>db. db\<lparr>db_workspace := db_workspace db @ [w]\<rparr>)"

definition insert_account :: "AccountRecord \<Rightarrow> stmt" where
  "insert_account a =
     insert_stmt (\<lambda>db. account_uniq (db_account db)) (\<lambda>db. db\<lparr>db_account := db_account db @ [a]\<rparr>)"

text \<open>The column defaults of \<^verbatim>\<open>user_account\<close>.\<close>

definition default_timeZone :: string where "default_timeZone = ''Asia/Shanghai''"

record AdminCommand =
  ad_userId :: string
  ad_tenantId :: string
  ad_emailHmac :: string
  ad_emailEnc :: string
  ad_now :: time

definition createAdmin_stmts :: "AdminCommand \<Rightarrow> stmt list" where
  "createAdmin_stmts cmd =
     [insert_workspace
        \<lparr>ws_tenantId = ad_tenantId cmd, ws_kind = AdminWs, ws_ownerUserId = ad_userId cmd,
         ws_status = ACTIVE, ws_trialExpiresAt = None, ws_expiredAt = None, ws_deleteMode = None,
         ws_createdAt = ad_now cmd\<rparr>,
      insert_account
        \<lparr>ac_userId = ad_userId cmd, ac_tenantId = ad_tenantId cmd, ac_role = Admin,
         ac_emailHmac = ad_emailHmac cmd, ac_emailEnc = ad_emailEnc cmd, ac_locale = ZhCN,
         ac_timeZone = default_timeZone, ac_verifiedAt = ad_now cmd, ac_remindedAt = None,
         ac_bannedAt = None\<rparr>]"

definition createAdmin :: "AdminCommand \<Rightarrow> idb \<Rightarrow> (db_error + bool) \<times> idb" where
  "createAdmin cmd db =
     (case batch (createAdmin_stmts cmd) db of
        (Inr _, db') \<Rightarrow> (Inr True, db')
      | (Inl e, db') \<Rightarrow> (if isUniqueViolation e then (Inr False, db') else (Inl e, db')))"

definition setting_value :: "SettingKey \<Rightarrow> idb \<Rightarrow> int option" where
  "setting_value k db = map_option st_value (sel1 (\<lambda>r. st_key r = k) (db_setting db))"

text \<open>SQL comparison: \<^verbatim>\<open>NULL\<close> is never below anything.\<close>

definition lt_opt :: "int \<Rightarrow> int option \<Rightarrow> bool" where
  "lt_opt x v \<longleftrightarrow> (case v of None \<Rightarrow> False | Some y \<Rightarrow> x < y)"

definition signup_key :: string where "signup_key = ''signup''"
definition signup_closed_key :: string where "signup_closed_key = ''signup_closed''"

definition bump_usage :: "string \<Rightarrow> string \<Rightarrow> (idb \<Rightarrow> int \<Rightarrow> bool) \<Rightarrow> stmt" where
  "bump_usage day key p = ok_stmt (\<lambda>c db.
     let w = (\<lambda>r. usage_key r = (day, key) \<and> p db (us_value r)) in
     (hits w (db_usage db), db\<lparr>db_usage := upd w (\<lambda>r. r\<lparr>us_value := us_value r + 1\<rparr>) (db_usage db)\<rparr>))"

text \<open>The guard of the third statement: settings, both occupancy limits and the automatic stop.\<close>

definition signup_admits :: "string \<Rightarrow> int \<Rightarrow> idb \<Rightarrow> int \<Rightarrow> bool" where
  "signup_admits day purgeBacklogLimit db v \<longleftrightarrow>
     setting_value KSignupEnabled db = Some 1
     \<and> lt_opt v (setting_value KSignupDailyLimit db)
     \<and> lt_opt (int (countTrials [ACTIVE] db)) (setting_value KActiveWorkspaceLimit db)
     \<and> int (countTrials [EXPIRED, ARCHIVING] db) < purgeBacklogLimit
     \<and> \<not> list_ex (\<lambda>r. usage_key r = (day, signup_closed_key) \<and> us_value r = 1) (db_usage db)"

definition new_trial :: "SignupCommand \<Rightarrow> WorkspaceRecord" where
  "new_trial c =
     \<lparr>ws_tenantId = su_tenantId c, ws_kind = Trial, ws_ownerUserId = su_userId c,
      ws_status = ACTIVE, ws_trialExpiresAt = Some (su_trialExpiresAt c), ws_expiredAt = None,
      ws_deleteMode = None, ws_createdAt = su_now c\<rparr>"

definition new_owner :: "SignupCommand \<Rightarrow> AccountRecord" where
  "new_owner c =
     \<lparr>ac_userId = su_userId c, ac_tenantId = su_tenantId c, ac_role = Owner,
      ac_emailHmac = su_emailHmac c, ac_emailEnc = su_emailEnc c, ac_locale = su_locale c,
      ac_timeZone = default_timeZone, ac_verifiedAt = su_now c, ac_remindedAt = None,
      ac_bannedAt = None\<rparr>"

definition signup_stmts :: "SignupCommand \<Rightarrow> stmt list" where
  "signup_stmts c =
     [ok_stmt (\<lambda>_ db.
        let t = usage_ensure (su_day c) (su_ipKey c) (usage_ensure (su_day c) signup_key (db_usage db))
        in (length t - length (db_usage db), db\<lparr>db_usage := t\<rparr>)),
      bump_usage (su_day c) (su_ipKey c) (\<lambda>db v. v < 2),
      when_stmt (\<lambda>changes db. changes = 1)
        (bump_usage (su_day c) signup_key (signup_admits (su_day c) (su_purgeBacklogLimit c))),
      when_stmt (\<lambda>changes db. changes = 1) (insert_workspace (new_trial c)),
      when_stmt (\<lambda>changes db. workspace_get (su_tenantId c) db \<noteq> None) (insert_account (new_owner c)),
      ok_stmt (\<lambda>_ db.
        let w = (\<lambda>p. pending_key p = (su_emailHmac c, PSignup)) in
        (hits w (db_pending db), db\<lparr>db_pending := del w (db_pending db)\<rparr>))]"

definition signup :: "SignupCommand \<Rightarrow> idb \<Rightarrow> (db_error + SignupOutcome) \<times> idb" where
  "signup c db =
     (case batch (signup_stmts c) db of
        (Inr ns, db') \<Rightarrow> (Inr (if ns ! 2 = 1 then Created else Closed), db')
      | (Inl e, db') \<Rightarrow> (if isUniqueViolation e then (Inr Duplicate, db') else (Inl e, db')))"

text \<open>The join of owners and their trials.\<close>

definition dueReminders :: "time \<Rightarrow> time \<Rightarrow> nat \<Rightarrow> idb \<Rightarrow> (AccountRecord \<times> time) list" where
  "dueReminders verifiedBefore now n db =
     order_by (\<lambda>p. ac_verifiedAt (fst p)) n
       (concat (map (\<lambda>u. map (\<lambda>w. (u, the (ws_trialExpiresAt w)))
          (filter (\<lambda>w. ws_tenantId w = ac_tenantId u \<and> ac_role u = Owner \<and> ws_kind w = Trial
             \<and> ws_status w = ACTIVE \<and> ac_remindedAt u = None \<and> ac_bannedAt u = None
             \<and> ac_verifiedAt u \<le> verifiedBefore \<and> lt_opt now (ws_trialExpiresAt w)) (db_workspace db)))
          (db_account db)))"

definition claimReminder :: "string \<Rightarrow> time \<Rightarrow> idb \<Rightarrow> bool \<times> idb" where
  "claimReminder userId now db =
     (let w = (\<lambda>a. ac_userId a = userId \<and> ac_remindedAt a = None) in
      (hits w (db_account db) = 1,
       db\<lparr>db_account := upd w (\<lambda>a. a\<lparr>ac_remindedAt := Some now\<rparr>) (db_account db)\<rparr>))"

definition releaseReminder :: "string \<Rightarrow> idb \<Rightarrow> idb" where
  "releaseReminder userId db =
     db\<lparr>db_account := upd (\<lambda>a. ac_userId a = userId) (\<lambda>a. a\<lparr>ac_remindedAt := None\<rparr>) (db_account db)\<rparr>"

subsection \<open>d1\_code\_repository.ts\<close>

definition getPending :: "string \<Rightarrow> CodePurpose \<Rightarrow> idb \<Rightarrow> PendingCode option" where
  "getPending emailHmac purpose db =
     map_option pr_code (sel1 (\<lambda>r. pending_key r = (emailHmac, purpose)) (db_pending db))"

text \<open>\<^verbatim>\<open>putPending\<close> takes the code without its attempts, which start at zero.\<close>

definition putPending :: "string \<Rightarrow> CodePurpose \<Rightarrow> PendingCode \<Rightarrow> idb \<Rightarrow> idb" where
  "putPending emailHmac purpose c db =
     (let r = \<lparr>pr_emailHmac = emailHmac, pr_purpose = purpose, pr_code = c\<lparr>pc_attempts := 0\<rparr>\<rparr> in
      db\<lparr>db_pending :=
           (if sel1 (\<lambda>q. pending_key q = (emailHmac, purpose)) (db_pending db) = None
            then db_pending db @ [r]
            else upd (\<lambda>q. pending_key q = (emailHmac, purpose)) (\<lambda>_. r) (db_pending db))\<rparr>)"

definition bumpAttempts :: "string \<Rightarrow> CodePurpose \<Rightarrow> idb \<Rightarrow> int \<times> idb" where
  "bumpAttempts emailHmac purpose db =
     (let t = upd (\<lambda>q. pending_key q = (emailHmac, purpose))
                (\<lambda>q. q\<lparr>pr_code := (pr_code q)\<lparr>pc_attempts := pc_attempts (pr_code q) + 1\<rparr>\<rparr>)
                (db_pending db);
          db' = db\<lparr>db_pending := t\<rparr>
      in (case getPending emailHmac purpose db' of
            Some c \<Rightarrow> pc_attempts c | None \<Rightarrow> OTP_maxAttemptsPerCode, db'))"

definition deletePending :: "string \<Rightarrow> CodePurpose \<Rightarrow> idb \<Rightarrow> idb" where
  "deletePending emailHmac purpose db =
     db\<lparr>db_pending := del (\<lambda>q. pending_key q = (emailHmac, purpose)) (db_pending db)\<rparr>"

record otp_limits =
  lm_sends :: int
  lm_failures :: int
  lm_lockedUntil :: "time option"

definition max_opt :: "time option list \<Rightarrow> time option" where
  "max_opt vs = foldl (\<lambda>m v. case (m, v) of (Some a, Some b) \<Rightarrow> Some (max a b)
     | (None, v) \<Rightarrow> v | (m, None) \<Rightarrow> m) None vs"

definition code_limits :: "string \<Rightarrow> string \<Rightarrow> idb \<Rightarrow> otp_limits" where
  "code_limits emailHmac day db =
     (let rows = filter (\<lambda>r. ol_emailHmac r = emailHmac) (db_otp db);
          today = filter (\<lambda>r. ol_day r = day) rows
      in \<lparr>lm_sends = sum_list (map ol_sends today), lm_failures = sum_list (map ol_failures today),
          lm_lockedUntil = max_opt (map ol_lockedUntil rows)\<rparr>)"

definition otp_ensure :: "string \<Rightarrow> string \<Rightarrow> otp_limit_row list \<Rightarrow> otp_limit_row list" where
  "otp_ensure emailHmac day t =
     (if sel1 (\<lambda>r. otp_key r = (emailHmac, day)) t = None
      then t @ [\<lparr>ol_emailHmac = emailHmac, ol_day = day, ol_sends = 0, ol_failures = 0,
                ol_lockedUntil = None\<rparr>]
      else t)"

definition takeSend :: "string \<Rightarrow> string \<Rightarrow> int \<Rightarrow> idb \<Rightarrow> bool \<times> idb" where
  "takeSend emailHmac day max_sends db =
     (let t = otp_ensure emailHmac day (db_otp db);
          w = (\<lambda>r. otp_key r = (emailHmac, day) \<and> ol_sends r < max_sends)
      in (hits w t = 1, db\<lparr>db_otp := upd w (\<lambda>r. r\<lparr>ol_sends := ol_sends r + 1\<rparr>) t\<rparr>))"

definition recordFailure :: "string \<Rightarrow> string \<Rightarrow> idb \<Rightarrow> int \<times> idb" where
  "recordFailure emailHmac day db =
     (let t = upd (\<lambda>r. otp_key r = (emailHmac, day)) (\<lambda>r. r\<lparr>ol_failures := ol_failures r + 1\<rparr>)
                (otp_ensure emailHmac day (db_otp db))
      in (case sel1 (\<lambda>r. otp_key r = (emailHmac, day)) t of Some r \<Rightarrow> ol_failures r | None \<Rightarrow> 0,
          db\<lparr>db_otp := t\<rparr>))"

definition code_lock :: "string \<Rightarrow> string \<Rightarrow> time \<Rightarrow> idb \<Rightarrow> idb" where
  "code_lock emailHmac day until db =
     db\<lparr>db_otp := upd (\<lambda>r. otp_key r = (emailHmac, day)) (\<lambda>r. r\<lparr>ol_lockedUntil := Some until\<rparr>)
          (db_otp db)\<rparr>"

definition code_sweep :: "time \<Rightarrow> string \<Rightarrow> idb \<Rightarrow> idb" where
  "code_sweep now keepDaysFrom db =
     db\<lparr>db_pending := del (\<lambda>q. pc_expiresAt (pr_code q) < now - (OTP_retentionMs - OTP_ttlMs)) (db_pending db),
        db_otp := del (\<lambda>r. ol_day r < keepDaysFrom
          \<and> (case ol_lockedUntil r of None \<Rightarrow> True | Some u \<Rightarrow> u < now)) (db_otp db)\<rparr>"

subsection \<open>d1\_session\_repository.ts\<close>

text \<open>The ids of the user's newest sessions, as the eviction statement selects them.\<close>

definition newest_sessions :: "string \<Rightarrow> nat \<Rightarrow> SessionRecord list \<Rightarrow> string list" where
  "newest_sessions userId n t =
     map ss_id (order_desc (\<lambda>s. (ss_createdAt s, ss_id s)) n (filter (\<lambda>s. ss_userId s = userId) t))"

definition session_create :: "SessionRecord \<Rightarrow> nat \<Rightarrow> idb \<Rightarrow> (db_error + nat list) \<times> idb" where
  "session_create s maxSessions =
     batch
       [insert_stmt (\<lambda>db. session_uniq (db_session db)) (\<lambda>db. db\<lparr>db_session := db_session db @ [s]\<rparr>),
        ok_stmt (\<lambda>c db.
          let w = (\<lambda>r. ss_userId r = ss_userId s
                     \<and> ss_id r \<notin> set (newest_sessions (ss_userId s) maxSessions (db_session db)))
          in (hits w (db_session db), db\<lparr>db_session := del w (db_session db)\<rparr>))]"

definition session_findById :: "string \<Rightarrow> idb \<Rightarrow> SessionRecord option" where
  "session_findById sessionId db = sel1 (\<lambda>s. ss_id s = sessionId) (db_session db)"

definition session_findByHash :: "string \<Rightarrow> idb \<Rightarrow> SessionRecord option" where
  "session_findByHash refreshHash db = sel1 (\<lambda>s. ss_refreshHash s = refreshHash) (db_session db)"

definition findRotated :: "string \<Rightarrow> idb \<Rightarrow> string option" where
  "findRotated refreshHash db =
     map_option rt_familyId (sel1 (\<lambda>r. rt_refreshHash r = refreshHash) (db_rotated db))"

definition rotate_stmts :: "SessionRecord \<Rightarrow> string \<Rightarrow> time \<Rightarrow> stmt list" where
  "rotate_stmts s newHash newExpiresAt =
     [(\<lambda>c db.
        let w = (\<lambda>r. ss_id r = ss_id s \<and> ss_refreshHash r = ss_refreshHash s);
            t = upd w (\<lambda>r. r\<lparr>ss_refreshHash := newHash, ss_expiresAt := newExpiresAt\<rparr>) (db_session db)
        in if session_uniq t then Inr (hits w (db_session db), db\<lparr>db_session := t\<rparr>)
           else Inl UniqueViolation),
      when_stmt (\<lambda>changes db. changes = 1
          \<and> sel1 (\<lambda>r. rt_refreshHash r = ss_refreshHash s) (db_rotated db) = None)
        (ok_stmt (\<lambda>c db. (1, db\<lparr>db_rotated := db_rotated db
           @ [\<lparr>rt_refreshHash = ss_refreshHash s, rt_familyId = ss_familyId s,
              rt_expiresAt = ss_expiresAt s\<rparr>]\<rparr>)))]"

definition session_rotate ::
  "SessionRecord \<Rightarrow> string \<Rightarrow> time \<Rightarrow> idb \<Rightarrow> (db_error + bool) \<times> idb" where
  "session_rotate s newHash newExpiresAt db =
     (case batch (rotate_stmts s newHash newExpiresAt) db of
        (Inr ns, db') \<Rightarrow> (Inr (ns ! 0 = 1), db')
      | (Inl e, db') \<Rightarrow> (Inl e, db'))"

definition session_delete_where :: "(SessionRecord \<Rightarrow> bool) \<Rightarrow> idb \<Rightarrow> nat \<times> idb" where
  "session_delete_where w db = (hits w (db_session db), db\<lparr>db_session := del w (db_session db)\<rparr>)"

definition revokeFamily :: "string \<Rightarrow> idb \<Rightarrow> nat \<times> idb" where
  "revokeFamily familyId = session_delete_where (\<lambda>s. ss_familyId s = familyId)"

definition session_delete :: "string \<Rightarrow> string \<Rightarrow> idb \<Rightarrow> idb" where
  "session_delete sessionId userId db =
     snd (session_delete_where (\<lambda>s. ss_id s = sessionId \<and> ss_userId s = userId) db)"

definition session_deleteByUser :: "string \<Rightarrow> idb \<Rightarrow> nat \<times> idb" where
  "session_deleteByUser userId = session_delete_where (\<lambda>s. ss_userId s = userId)"

definition countActive :: "string \<Rightarrow> time \<Rightarrow> idb \<Rightarrow> nat" where
  "countActive userId now db = hits (\<lambda>s. ss_userId s = userId \<and> ss_expiresAt s > now) (db_session db)"

definition hasActiveRecoverySession :: "string \<Rightarrow> time \<Rightarrow> idb \<Rightarrow> bool" where
  "hasActiveRecoverySession userId now db =
     list_ex (\<lambda>s. ss_userId s = userId \<and> ss_expiresAt s > now \<and> AmrRecovery \<in> set (ss_amr s)) (db_session db)"

definition setAmr :: "string \<Rightarrow> AuthMethod list \<Rightarrow> idb \<Rightarrow> idb" where
  "setAmr sessionId amr db =
     db\<lparr>db_session := upd (\<lambda>s. ss_id s = sessionId) (\<lambda>s. s\<lparr>ss_amr := amr\<rparr>) (db_session db)\<rparr>"

definition session_sweep :: "time \<Rightarrow> idb \<Rightarrow> idb" where
  "session_sweep now db =
     db\<lparr>db_session := del (\<lambda>s. ss_expiresAt s \<le> now) (db_session db),
        db_rotated := del (\<lambda>r. rt_expiresAt r \<le> now) (db_rotated db)\<rparr>"

subsection \<open>d1\_passkey\_repository.ts\<close>

definition passkey_list :: "string \<Rightarrow> idb \<Rightarrow> PasskeyRecord list" where
  "passkey_list userId db =
     sort_key pk_createdAt (filter (\<lambda>p. pk_userId p = userId) (db_passkey db))"

definition passkey_count :: "string \<Rightarrow> idb \<Rightarrow> nat" where
  "passkey_count userId db = hits (\<lambda>p. pk_userId p = userId) (db_passkey db)"

definition passkey_find :: "string \<Rightarrow> idb \<Rightarrow> PasskeyRecord option" where
  "passkey_find credentialId db = sel1 (\<lambda>p. pk_credentialId p = credentialId) (db_passkey db)"

definition passkey_insert :: "PasskeyRecord \<Rightarrow> idb \<Rightarrow> (db_error + nat list) \<times> idb" where
  "passkey_insert p =
     batch [insert_stmt (\<lambda>db. keyed pk_credentialId (db_passkey db))
              (\<lambda>db. db\<lparr>db_passkey := db_passkey db @ [p]\<rparr>)]"

definition updateCounter :: "string \<Rightarrow> int \<Rightarrow> int \<Rightarrow> time \<Rightarrow> idb \<Rightarrow> bool \<times> idb" where
  "updateCounter credentialId expected next_count now db =
     (let w = (\<lambda>p. pk_credentialId p = credentialId \<and> pk_signCount p = expected) in
      (hits w (db_passkey db) = 1,
       db\<lparr>db_passkey := upd w (\<lambda>p. p\<lparr>pk_signCount := next_count, pk_lastUsedAt := Some now\<rparr>)
            (db_passkey db)\<rparr>))"

definition deleteKeeping :: "string \<Rightarrow> string \<Rightarrow> nat \<Rightarrow> idb \<Rightarrow> bool \<times> idb" where
  "deleteKeeping credentialId userId keep db =
     (let w = (\<lambda>p. pk_credentialId p = credentialId \<and> pk_userId p = userId
                 \<and> passkey_count userId db > keep) in
      (hits w (db_passkey db) = 1, db\<lparr>db_passkey := del w (db_passkey db)\<rparr>))"

definition passkey_deleteAll :: "string \<Rightarrow> idb \<Rightarrow> idb" where
  "passkey_deleteAll userId db = db\<lparr>db_passkey := del (\<lambda>p. pk_userId p = userId) (db_passkey db)\<rparr>"

definition putChallenge ::
  "string \<Rightarrow> string \<Rightarrow> ChallengePurpose \<Rightarrow> time \<Rightarrow> idb \<Rightarrow> (db_error + nat list) \<times> idb" where
  "putChallenge challenge userId purpose expiresAt =
     batch [insert_stmt (\<lambda>db. keyed ch_challenge (db_challenge db))
              (\<lambda>db. db\<lparr>db_challenge := db_challenge db
                 @ [\<lparr>ch_challenge = challenge, ch_userId = userId, ch_purpose = purpose,
                    ch_expiresAt = expiresAt\<rparr>]\<rparr>)]"

definition consumeChallenge ::
  "string \<Rightarrow> string \<Rightarrow> ChallengePurpose \<Rightarrow> time \<Rightarrow> idb \<Rightarrow> bool \<times> idb" where
  "consumeChallenge challenge userId purpose now db =
     (let w = (\<lambda>r. ch_challenge r = challenge \<and> ch_userId r = userId \<and> ch_purpose r = purpose
                 \<and> ch_expiresAt r > now) in
      (hits w (db_challenge db) = 1, db\<lparr>db_challenge := del w (db_challenge db)\<rparr>))"

definition recoveryStats :: "idb \<Rightarrow> nat \<times> nat" where
  "recoveryStats db = (length (db_recovery db), hits (\<lambda>r. rc_usedAt r = None) (db_recovery db))"

definition replaceRecoveryCodes :: "string list \<Rightarrow> idb \<Rightarrow> (db_error + nat list) \<times> idb" where
  "replaceRecoveryCodes hashes =
     batch (ok_stmt (\<lambda>c db. (length (db_recovery db), db\<lparr>db_recovery := []\<rparr>))
       # map (\<lambda>h. insert_stmt (\<lambda>db. keyed rc_hash (db_recovery db))
                  (\<lambda>db. db\<lparr>db_recovery := db_recovery db @ [\<lparr>rc_hash = h, rc_usedAt = None\<rparr>]\<rparr>)) hashes)"

definition useRecoveryCode :: "string \<Rightarrow> time \<Rightarrow> idb \<Rightarrow> bool \<times> idb" where
  "useRecoveryCode hash now db =
     (let w = (\<lambda>r. rc_hash r = hash \<and> rc_usedAt r = None) in
      (hits w (db_recovery db) = 1,
       db\<lparr>db_recovery := upd w (\<lambda>r. r\<lparr>rc_usedAt := Some now\<rparr>) (db_recovery db)\<rparr>))"

definition setFlagOnce :: "string \<Rightarrow> time \<Rightarrow> idb \<Rightarrow> bool \<times> idb" where
  "setFlagOnce key now db =
     (if sel1 (\<lambda>f. fl_key f = key) (db_flag db) \<noteq> None then (False, db)
      else (True, db\<lparr>db_flag := db_flag db @ [\<lparr>fl_key = key, fl_value = 1, fl_at = now\<rparr>]\<rparr>))"

definition hasFlag :: "string \<Rightarrow> idb \<Rightarrow> bool" where
  "hasFlag key db \<longleftrightarrow> sel1 (\<lambda>f. fl_key f = key) (db_flag db) \<noteq> None"

definition clearFlag :: "string \<Rightarrow> idb \<Rightarrow> idb" where
  "clearFlag key db = db\<lparr>db_flag := del (\<lambda>f. fl_key f = key) (db_flag db)\<rparr>"

definition sweepChallenges :: "time \<Rightarrow> idb \<Rightarrow> idb" where
  "sweepChallenges now db = db\<lparr>db_challenge := del (\<lambda>r. ch_expiresAt r \<le> now) (db_challenge db)\<rparr>"

end
