(* ===== verification/DbPlatform.thy ===== *)
theory DbPlatform
  imports DbIdentity
begin

section \<open>Platform administration repositories: settings, audit, pending changes, flags\<close>

text \<open>
  \<^verbatim>\<open>d1_platform_repositories.ts\<close>. \<open>SettingsPatch\<close> is the partial update of the settings.
\<close>

subsection \<open>Settings and blocklists\<close>

definition settings_get :: "idb \<Rightarrow> SettingsValues" where
  "settings_get db =
     \<lparr>sv_signupEnabled = (dflt (setting_value KSignupEnabled db) 1 = 1),
      sv_signupDailyLimit = dflt (setting_value KSignupDailyLimit db) 20,
      sv_activeWorkspaceLimit = dflt (setting_value KActiveWorkspaceLimit db) 60,
      sv_version = fold max (map st_updatedAt (db_setting db)) 0\<rparr>"

record SettingsPatch =
  sp_signupEnabled :: "bool option"
  sp_signupDailyLimit :: "int option"
  sp_activeWorkspaceLimit :: "int option"

definition max_updatedAt :: "idb \<Rightarrow> time option" where
  "max_updatedAt db = max_opt (map (\<lambda>r. Some (st_updatedAt r)) (db_setting db))"

definition patched_value :: "SettingsPatch \<Rightarrow> setting_row \<Rightarrow> int" where
  "patched_value p r =
     (case st_key r of
        KSignupEnabled \<Rightarrow> dflt (map_option (\<lambda>b. if b then 1 else 0) (sp_signupEnabled p)) (st_value r)
      | KSignupDailyLimit \<Rightarrow> dflt (sp_signupDailyLimit p) (st_value r)
      | KActiveWorkspaceLimit \<Rightarrow> dflt (sp_activeWorkspaceLimit p) (st_value r))"

text \<open>\<open>Inl\<close> is the \<^verbatim>\<open>VALIDATION_FAILED\<close> that a violated \<^verbatim>\<open>CHECK\<close> becomes.\<close>

definition settings_patch ::
  "SettingsPatch \<Rightarrow> time \<Rightarrow> time \<Rightarrow> idb \<Rightarrow> (AppError + bool) \<times> idb" where
  "settings_patch p ifMatch newVersion db =
     (if max_updatedAt db \<noteq> Some ifMatch then (Inr False, db)
      else let t = map (\<lambda>r. r\<lparr>st_value := patched_value p r, st_updatedAt := newVersion\<rparr>) (db_setting db)
           in if list_all setting_check t then (Inr (length t > 0), db\<lparr>db_setting := t\<rparr>)
              else (Inl (app_error_d VALIDATION_FAILED ''Setting out of range''), db))"

definition blockedDomains :: "idb \<Rightarrow> string list" where
  "blockedDomains db = sort (map fst (db_domain db))"

definition anyDomainBlocked :: "string list \<Rightarrow> idb \<Rightarrow> bool" where
  "anyDomainBlocked domains db =
     (if domains = [] then False else list_ex (\<lambda>d. fst d \<in> set domains) (db_domain db))"

definition replaceDomains :: "string list \<Rightarrow> time \<Rightarrow> idb \<Rightarrow> idb" where
  "replaceDomains domains now db = db\<lparr>db_domain := map (\<lambda>d. (d, now)) (remdups domains)\<rparr>"

definition isEmailBlocked :: "string \<Rightarrow> idb \<Rightarrow> bool" where
  "isEmailBlocked emailHmac db = list_ex (\<lambda>e. fst e = emailHmac) (db_email db)"

definition blockEmail :: "string \<Rightarrow> time \<Rightarrow> idb \<Rightarrow> idb" where
  "blockEmail emailHmac now db =
     (if isEmailBlocked emailHmac db then db else db\<lparr>db_email := db_email db @ [(emailHmac, now)]\<rparr>)"

definition unblockEmail :: "string \<Rightarrow> idb \<Rightarrow> idb" where
  "unblockEmail emailHmac db = db\<lparr>db_email := del (\<lambda>e. fst e = emailHmac) (db_email db)\<rparr>"

subsection \<open>The audit trail\<close>

definition audit_order :: "AuditRow \<Rightarrow> time \<times> string" where
  "audit_order r = (au_at r, au_id r)"

definition audit_latest :: "idb \<Rightarrow> AuditRow option" where
  "audit_latest db = first_row (order_desc audit_order 1 (db_audit db))"

datatype AppendResult = AppendOk | AppendStale | AppendDuplicate

definition audit_append :: "AuditRow \<Rightarrow> idb \<Rightarrow> AppendResult \<times> idb" where
  "audit_append row db =
     (if dflt (map_option au_rowHash (audit_latest db)) GENESIS_HASH \<noteq> au_prevHash row then (AppendStale, db)
      else let t = db_audit db @ [row] in
        if audit_uniq t then (AppendOk, db\<lparr>db_audit := t\<rparr>) else (AppendDuplicate, db))"

definition audit_findByKey :: "string \<Rightarrow> idb \<Rightarrow> AuditRow option" where
  "audit_findByKey key db = sel1 (\<lambda>r. au_idempotencyKey r = Some key) (db_audit db)"

definition audit_page :: "(time \<times> string) option \<Rightarrow> nat \<Rightarrow> idb \<Rightarrow> AuditRow list" where
  "audit_page cursor n db =
     order_desc audit_order n
       (filter (\<lambda>r. case cursor of None \<Rightarrow> True
          | Some (t, i) \<Rightarrow> au_at r < t \<or> (au_at r = t \<and> au_id r < i)) (db_audit db))"

definition audit_all :: "idb \<Rightarrow> AuditRow list" where
  "audit_all db = sort_key audit_order (db_audit db)"

definition audit_hasSince :: "string \<Rightarrow> string \<Rightarrow> time \<Rightarrow> idb \<Rightarrow> bool" where
  "audit_hasSince action tenantId since db =
     list_ex (\<lambda>r. au_action r = action \<and> au_targetTenantId r = Some tenantId \<and> au_at r > since) (db_audit db)"

text \<open>
  The delete trigger aborts on a row younger than 90 days by the database's own clock, \<open>dbNow\<close>
  (the number of seconds times 1000).
\<close>

definition audit_sweep :: "time \<Rightarrow> time \<Rightarrow> idb \<Rightarrow> (db_error + unit) \<times> idb" where
  "audit_sweep dbNow before db =
     (if list_ex (\<lambda>r. au_at r < before \<and> au_at r > dbNow - 90 * DAY_MS) (db_audit db)
      then (Inl TriggerAbort, db)
      else (Inr (), db\<lparr>db_audit := del (\<lambda>r. au_at r < before) (db_audit db)\<rparr>))"

subsection \<open>Pending changes\<close>

definition change_unnotified :: "idb \<Rightarrow> PendingChange list" where
  "change_unnotified db =
     order_by cg_requestedAt 5 (filter (\<lambda>c. cg_notifiedAt c = None \<and> cg_appliedAt c = None) (db_change db))"

definition markNotified :: "string \<Rightarrow> time \<Rightarrow> idb \<Rightarrow> idb" where
  "markNotified i now db =
     db\<lparr>db_change := upd (\<lambda>c. cg_id c = i) (\<lambda>c. c\<lparr>cg_notifiedAt := Some now\<rparr>) (db_change db)\<rparr>"

definition change_dueForApply :: "time \<Rightarrow> idb \<Rightarrow> PendingChange list" where
  "change_dueForApply now db =
     order_by cg_effectiveAt 5 (filter (\<lambda>c. cg_appliedAt c = None \<and> cg_effectiveAt c \<le> now) (db_change db))"

definition markApplied :: "string \<Rightarrow> time \<Rightarrow> idb \<Rightarrow> bool \<times> idb" where
  "markApplied i now db =
     (let w = (\<lambda>c. cg_id c = i \<and> cg_appliedAt c = None) in
      (hits w (db_change db) = 1,
       db\<lparr>db_change := upd w (\<lambda>c. c\<lparr>cg_appliedAt := Some now, cg_payload := None\<rparr>) (db_change db)\<rparr>))"

subsection \<open>The admin list\<close>

record AdminListRow =
  al_tenantId :: string
  al_userId :: "string option"
  al_emailEnc :: "string option"
  al_status :: string
  al_trialExpiresAt :: "time option"
  al_zipExpiresAt :: "time option"
  al_sessions :: nat
  al_bannedAt :: "time option"

fun status_name :: "WorkspaceStatus \<Rightarrow> string" where
  "status_name ACTIVE = ''ACTIVE''"
| "status_name EXPIRED = ''EXPIRED''"
| "status_name ARCHIVING = ''ARCHIVING''"

definition ADMIN_LIST_STATUSES :: "string list" where
  "ADMIN_LIST_STATUSES = [''ACTIVE'', ''EXPIRED'', ''ARCHIVING'', ''ARCHIVE_ONLY'']"

definition left_join :: "'a list \<Rightarrow> 'a option list" where
  "left_join xs = (if xs = [] then [None] else map Some xs)"

definition admin_rows :: "time \<Rightarrow> idb \<Rightarrow> AdminListRow list" where
  "admin_rows now db =
     concat (map (\<lambda>w. concat (map (\<lambda>u.
       map (\<lambda>a. \<lparr>al_tenantId = ws_tenantId w, al_userId = Some (ac_userId u),
                 al_emailEnc = Some (ac_emailEnc u), al_status = status_name (ws_status w),
                 al_trialExpiresAt = ws_trialExpiresAt w, al_zipExpiresAt = map_option ar_expiresAt a,
                 al_sessions = countActive (ac_userId u) now db, al_bannedAt = ac_bannedAt u\<rparr>)
         (left_join (filter (\<lambda>a. ar_tenantId a = ws_tenantId w) (db_archive db))))
       (filter (\<lambda>u. ac_tenantId u = ws_tenantId w) (db_account db))))
       (filter (\<lambda>w. ws_kind w = Trial) (db_workspace db)))
     @ map (\<lambda>a. \<lparr>al_tenantId = ar_tenantId a, al_userId = None, al_emailEnc = None,
                 al_status = ''ARCHIVE_ONLY'', al_trialExpiresAt = None,
                 al_zipExpiresAt = Some (ar_expiresAt a), al_sessions = 0, al_bannedAt = None\<rparr>)
         (filter (\<lambda>a. workspace_get (ar_tenantId a) db = None) (db_archive db))"

definition listUsers :: "string option \<Rightarrow> string option \<Rightarrow> nat \<Rightarrow> time \<Rightarrow> idb \<Rightarrow> AdminListRow list" where
  "listUsers status cursor n now db =
     order_desc al_tenantId n
       (filter (\<lambda>r. (case status of None \<Rightarrow> True | Some s \<Rightarrow> al_status r = s)
                  \<and> (case cursor of None \<Rightarrow> True | Some c \<Rightarrow> al_tenantId r < c)) (admin_rows now db))"

definition recentAudit :: "nat \<Rightarrow> idb \<Rightarrow> AuditRow list" where
  "recentAudit n db = order_desc audit_order n (db_audit db)"

subsection \<open>System flags\<close>

definition flag_setOnce :: "string \<Rightarrow> int \<Rightarrow> time \<Rightarrow> idb \<Rightarrow> bool \<times> idb" where
  "flag_setOnce key v now db =
     (if sel1 (\<lambda>f. fl_key f = key) (db_flag db) = None
      then (True, db\<lparr>db_flag := db_flag db @ [\<lparr>fl_key = key, fl_value = v, fl_at = now\<rparr>]\<rparr>)
      else (False, db))"

definition flag_get :: "string \<Rightarrow> idb \<Rightarrow> SystemFlag option" where
  "flag_get key db = sel1 (\<lambda>f. fl_key f = key) (db_flag db)"

definition flag_setValue :: "string \<Rightarrow> int \<Rightarrow> idb \<Rightarrow> idb" where
  "flag_setValue key v db =
     db\<lparr>db_flag := upd (\<lambda>f. fl_key f = key) (\<lambda>f. f\<lparr>fl_value := v\<rparr>) (db_flag db)\<rparr>"

definition flag_clear :: "string \<Rightarrow> idb \<Rightarrow> idb" where
  "flag_clear key db = db\<lparr>db_flag := del (\<lambda>f. fl_key f = key) (db_flag db)\<rparr>"

definition flag_countPrefix :: "string \<Rightarrow> time \<Rightarrow> idb \<Rightarrow> nat" where
  "flag_countPrefix prefix atOrBefore db =
     hits (\<lambda>f. starts_with prefix (fl_key f) \<and> fl_at f \<le> atOrBefore) (db_flag db)"

end
