(* ===== verification/DbFacts.thy ===== *)
theory DbFacts
  imports DbPlatform
begin

section \<open>The schema invariant\<close>

text \<open>
  Every repository operation keeps \<open>db_ok\<close>: unique keys, at most one admin, foreign keys and the
  \<^verbatim>\<open>CHECK\<close> constraints. The rules are collected in \<open>db_oks\<close>; the services use them through
  \<open>keeps_intros\<close>.
\<close>

named_theorems db_oks "operations keep the schema invariant"

lemma filter_upd_len: "(\<And>r. p (f r) = p r) \<Longrightarrow> length (filter p (upd w f t)) = length (filter p t)"
  by (induction t) auto

lemma at_most_one_upd [simp]: "(\<And>r. p (f r) = p r) \<Longrightarrow> at_most_one p (upd w f t) = at_most_one p t"
  by (simp add: at_most_one_def filter_upd_len)

lemma filter_del_len: "length (filter p (del w t)) \<le> length (filter p t)"
  by (induction t) auto

lemma at_most_one_del: "at_most_one p t \<Longrightarrow> at_most_one p (del w t)"
  using filter_del_len [of p w t] by (simp add: at_most_one_def)

subsection \<open>One table at a time\<close>

lemma db_ok_tables:
  assumes "db_ok db"
  shows "keyed pending_key (db_pending db)" "keyed otp_key (db_otp db)"
    "keyed ss_id (db_session db)" "keyed ss_refreshHash (db_session db)"
    "keyed rt_refreshHash (db_rotated db)"
    "keyed led_tenantId (db_ledger db)" "keyed ar_tenantId (db_archive db)"
    "keyed ar_deletionTokenHash (db_archive db)"
    "keyed tb_tenantId (db_tombstone db)" "keyed usage_key (db_usage db)"
    "keyed pk_credentialId (db_passkey db)" "keyed rc_hash (db_recovery db)"
    "keyed ch_challenge (db_challenge db)" "keyed cg_id (db_change db)" "keyed fl_key (db_flag db)"
    "keyed st_key (db_setting db)" "audit_uniq (db_audit db)" "keyed au_id (db_audit db)"
    "workspace_uniq (db_workspace db)" "account_uniq (db_account db)"
    "keyed ws_tenantId (db_workspace db)" "keyed ac_userId (db_account db)"
    "keyed ac_tenantId (db_account db)" "keyed ac_emailHmac (db_account db)"
    "list_all workspace_check (db_workspace db)" "list_all setting_check (db_setting db)"
    "keyed fst (db_domain db)" "keyed fst (db_email db)"
  using assms by (simp_all add: db_ok_defs)

lemma db_ok_set:
  assumes "db_ok db"
  shows "keyed pending_key t1 \<Longrightarrow> db_ok (db\<lparr>db_pending := t1\<rparr>)"
    "keyed otp_key t2 \<Longrightarrow> db_ok (db\<lparr>db_otp := t2\<rparr>)"
    "keyed rt_refreshHash t3 \<Longrightarrow> db_ok (db\<lparr>db_rotated := t3\<rparr>)"
    "keyed led_tenantId t4 \<Longrightarrow> db_ok (db\<lparr>db_ledger := t4\<rparr>)"
    "archive_uniq t5 \<Longrightarrow> db_ok (db\<lparr>db_archive := t5\<rparr>)"
    "keyed tb_tenantId t6 \<Longrightarrow> db_ok (db\<lparr>db_tombstone := t6\<rparr>)"
    "keyed usage_key t7 \<Longrightarrow> db_ok (db\<lparr>db_usage := t7\<rparr>)"
    "keyed rc_hash t8 \<Longrightarrow> db_ok (db\<lparr>db_recovery := t8\<rparr>)"
    "keyed ch_challenge t9 \<Longrightarrow> db_ok (db\<lparr>db_challenge := t9\<rparr>)"
    "keyed cg_id t10 \<Longrightarrow> db_ok (db\<lparr>db_change := t10\<rparr>)"
    "keyed fl_key t11 \<Longrightarrow> db_ok (db\<lparr>db_flag := t11\<rparr>)"
    "keyed st_key t12 \<Longrightarrow> list_all setting_check t12 \<Longrightarrow> db_ok (db\<lparr>db_setting := t12\<rparr>)"
    "keyed fst t13 \<Longrightarrow> db_ok (db\<lparr>db_domain := t13\<rparr>)"
    "keyed fst t14 \<Longrightarrow> db_ok (db\<lparr>db_email := t14\<rparr>)"
    "audit_uniq t15 \<Longrightarrow> db_ok (db\<lparr>db_audit := t15\<rparr>)"
  using assms by (simp_all add: db_ok_def tables_uniq_def fk_ok_def)

lemma db_ok_del_session:
  "db_ok db \<Longrightarrow> db_ok (db\<lparr>db_session := del w (db_session db)\<rparr>)"
  by (auto simp: db_ok_defs)

lemma db_ok_upd_session:
  "db_ok db \<Longrightarrow> (\<And>s. ss_id (f s) = ss_id s \<and> ss_userId (f s) = ss_userId s) \<Longrightarrow>
   keyed ss_refreshHash (upd w f (db_session db)) \<Longrightarrow>
   db_ok (db\<lparr>db_session := upd w f (db_session db)\<rparr>)"
  by (auto simp: db_ok_defs set_upd)

lemma db_ok_del_passkey: "db_ok db \<Longrightarrow> db_ok (db\<lparr>db_passkey := del w (db_passkey db)\<rparr>)"
  by (auto simp: db_ok_defs)

lemma db_ok_upd_passkey:
  "db_ok db \<Longrightarrow> (\<And>p. pk_credentialId (f p) = pk_credentialId p \<and> pk_userId (f p) = pk_userId p) \<Longrightarrow>
   db_ok (db\<lparr>db_passkey := upd w f (db_passkey db)\<rparr>)"
  by (auto simp: db_ok_defs set_upd)

lemma image_upd: "(\<And>r. k (f r) = k r) \<Longrightarrow> k ` set (upd w f t) = k ` set t"
  by (metis map_upd_same set_map)

lemma db_ok_upd_account:
  assumes "db_ok db"
    "\<And>a. ac_userId (f a) = ac_userId a" "\<And>a. ac_tenantId (f a) = ac_tenantId a"
    "\<And>a. ac_role (f a) = ac_role a"
    "keyed ac_emailHmac (upd w f (db_account db))"
  shows "db_ok (db\<lparr>db_account := upd w f (db_account db)\<rparr>)"
  using assms image_upd [of ac_userId f w "db_account db"]
  by (auto simp: db_ok_defs) (auto simp: set_upd)

lemma db_ok_upd_workspace:
  assumes "db_ok db"
    "\<And>w. ws_tenantId (f w) = ws_tenantId w" "\<And>w. ws_ownerUserId (f w) = ws_ownerUserId w"
    "\<And>w. ws_kind (f w) = ws_kind w"
    "\<And>r. workspace_check r \<Longrightarrow> p r \<Longrightarrow> workspace_check (f r)"
  shows "db_ok (db\<lparr>db_workspace := upd p f (db_workspace db)\<rparr>)"
  using assms image_upd [of ws_tenantId f p "db_workspace db"]
  by (auto simp: db_ok_defs) (auto simp: set_upd)

subsection \<open>The operations\<close>

lemma keyed_usage_ensure: "keyed usage_key t \<Longrightarrow> keyed usage_key (usage_ensure day key t)"
  by (auto simp: usage_ensure_def usage_key_def intro!: keyed_snoc_None)

lemma keyed_otp_ensure: "keyed otp_key t \<Longrightarrow> keyed otp_key (otp_ensure h day t)"
  by (auto simp: otp_ensure_def otp_key_def intro!: keyed_snoc_None)

lemma keyed_tombstone_put: "keyed tb_tenantId t \<Longrightarrow> keyed tb_tenantId (tombstone_put tid now t)"
  by (auto simp: tombstone_put_def intro!: keyed_snoc_None)

lemma usage_key_upd [simp]: "usage_key (r\<lparr>us_value := v\<rparr>) = usage_key r"
  by (simp add: usage_key_def)

lemma otp_key_upd [simp]:
  "otp_key (r\<lparr>ol_sends := v\<rparr>) = otp_key r" "otp_key (r\<lparr>ol_failures := v\<rparr>) = otp_key r"
  "otp_key (r\<lparr>ol_lockedUntil := u\<rparr>) = otp_key r"
  by (simp_all add: otp_key_def)

lemma pending_key_upd [simp]: "pending_key (r\<lparr>pr_code := c\<rparr>) = pending_key r"
  by (simp add: pending_key_def)

lemma apply_patch_key [simp]: "led_tenantId (apply_patch p t l) = led_tenantId l"
  "led_updatedAt (apply_patch p t l) = t" "led_expiredAt (apply_patch p t l) = led_expiredAt l"
  by (simp_all add: apply_patch_def)

lemma db_ok_usage [db_oks]:
  assumes "db_ok db"
  shows "db_ok (snd (usage_tryTake day key n cap db))" "db_ok (usage_adjust day key d db)"
    "db_ok (usage_set day key v db)" "db_ok (usage_sweep before db)"
  using assms db_ok_tables(10) [OF assms]
  by (auto simp: usage_tryTake_def usage_adjust_def usage_set_def usage_sweep_def Let_def
      intro!: db_ok_set(7) keyed_usage_ensure keyed_snoc_None) (auto simp: usage_key_def)

lemma db_ok_tombstone [db_oks]:
  assumes "db_ok db"
  shows "db_ok (writeTombstone tid now db)" "db_ok (sweepTombstones now db)"
  using assms db_ok_tables(9) [OF assms]
  by (simp_all add: writeTombstone_def sweepTombstones_def db_ok_set(6) keyed_tombstone_put)

lemma db_ok_ledger [db_oks]:
  assumes "db_ok db"
  shows "db_ok (snd (ledger_create l db))" "db_ok (snd (ledger_update t e p now db))"
    "db_ok (ledger_delete t db)" "db_ok (snd (ledger_deleteOrphans db))"
proof -
  note k = db_ok_tables(6) [OF assms]
  show "db_ok (snd (ledger_create l db))"
    using assms k by (auto simp: ledger_create_def ledger_get_def intro!: db_ok_set(4) keyed_snoc_None)
  show "db_ok (snd (ledger_update t e p now db))" "db_ok (ledger_delete t db)"
    "db_ok (snd (ledger_deleteOrphans db))"
    using assms k
    by (simp_all add: ledger_update_def ledger_delete_def ledger_deleteOrphans_def Let_def db_ok_set(4))
qed

lemma archive_uniq_del: "archive_uniq t \<Longrightarrow> archive_uniq (del w t)"
  by (simp add: archive_uniq_def)

lemma db_ok_archive [db_oks]:
  assumes "db_ok db"
  shows "db_ok (snd (archive_upsert r db))" "db_ok (archive_finalDelete t now db)"
proof -
  have a: "archive_uniq (db_archive db)" using assms by (simp add: db_ok_defs)
  show "db_ok (snd (archive_upsert r db))"
    using assms by (simp add: archive_upsert_def Let_def db_ok_set(5))
  let ?d1 = "db\<lparr>db_archive := del (\<lambda>a. ar_tenantId a = t) (db_archive db)\<rparr>"
  let ?d2 = "?d1\<lparr>db_ledger := del (\<lambda>l. led_tenantId l = t \<and> led_phase l = AccountDeleted) (db_ledger db)\<rparr>"
  have "db_ok ?d1" by (rule db_ok_set(5) [OF assms archive_uniq_del [OF a]])
  then have "db_ok ?d2" by (rule db_ok_set(4)) (simp add: db_ok_tables(6) [OF assms])
  then show "db_ok (archive_finalDelete t now db)"
    using db_ok_tables(9) [OF assms]
    by (auto simp: archive_finalDelete_def Let_def intro!: db_ok_set(6) keyed_snoc_None)
qed

lemma db_ok_workspace_update:
  assumes "db_ok db"
    "\<And>w. ws_tenantId (f w) = ws_tenantId w" "\<And>w. ws_ownerUserId (f w) = ws_ownerUserId w"
    "\<And>w. ws_kind (f w) = ws_kind w"
    "\<And>r. workspace_check r \<Longrightarrow> p r \<Longrightarrow> workspace_check (f r)"
  shows "db_ok (snd (workspace_update t p f db))"
  using assms by (auto simp: workspace_update_def Let_def intro!: db_ok_upd_workspace)

lemma db_ok_workspace [db_oks]:
  assumes "db_ok db"
  shows "db_ok (snd (endTrial t now db))" "db_ok (snd (setTrialExpiry t till db))"
    "db_ok (snd (setDeleteMode t m db))" "db_ok (snd (expire t now db))" "db_ok (markArchiving t db)"
  unfolding endTrial_def setTrialExpiry_def setDeleteMode_def expire_def markArchiving_def
  by (rule db_ok_workspace_update [OF assms]; auto simp: workspace_check_def)+

lemma db_ok_account [db_oks]:
  assumes "db_ok db"
  shows "db_ok (updateProfile u l tz db)" "db_ok (setBanned u b db)"
    "db_ok (snd (claimReminder u now db))" "db_ok (releaseReminder u db)"
    "db_ok (snd (replaceEmail u h e db))"
proof -
  note k = db_ok_tables(24) [OF assms]
  show "db_ok (updateProfile u l tz db)" "db_ok (setBanned u b db)"
    "db_ok (snd (claimReminder u now db))" "db_ok (releaseReminder u db)"
    unfolding updateProfile_def setBanned_def claimReminder_def releaseReminder_def Let_def snd_conv
    by (rule db_ok_upd_account [OF assms]; simp add: k)+
  show "db_ok (snd (replaceEmail u h e db))"
    unfolding replaceEmail_def Let_def
    using assms by (auto intro!: db_ok_upd_account simp: account_uniq_def)
qed

lemma db_ok_codes [db_oks]:
  assumes "db_ok db"
  shows "db_ok (putPending h p c db)" "db_ok (snd (bumpAttempts h p db))" "db_ok (deletePending h p db)"
    "db_ok (snd (takeSend h day m db))" "db_ok (snd (recordFailure h day db))"
    "db_ok (code_lock h day u db)" "db_ok (code_sweep now keep db)"
proof -
  note k = db_ok_tables(1) [OF assms] and o = db_ok_tables(2) [OF assms]
  have "keyed pending_key (upd (\<lambda>q. pending_key q = (h, p))
      (\<lambda>_. \<lparr>pr_emailHmac = h, pr_purpose = p, pr_code = c\<lparr>pc_attempts := 0\<rparr>\<rparr>) (db_pending db))"
  proof -
    have "map pending_key (upd (\<lambda>q. pending_key q = (h, p))
      (\<lambda>_. \<lparr>pr_emailHmac = h, pr_purpose = p, pr_code = c\<lparr>pc_attempts := 0\<rparr>\<rparr>) t) = map pending_key t" for t
      by (induction t) (auto simp: pending_key_def)
    with k show ?thesis by (simp add: keyed_def)
  qed
  with k assms show "db_ok (putPending h p c db)"
    by (auto simp: putPending_def Let_def pending_key_def intro!: db_ok_set(1) keyed_snoc_None)
  show "db_ok (snd (bumpAttempts h p db))" "db_ok (deletePending h p db)"
    using assms k by (auto simp: bumpAttempts_def deletePending_def Let_def intro!: db_ok_set(1))
  show "db_ok (snd (takeSend h day m db))" "db_ok (snd (recordFailure h day db))" "db_ok (code_lock h day u db)"
    using assms o
    by (auto simp: takeSend_def recordFailure_def code_lock_def Let_def intro!: db_ok_set(2) keyed_otp_ensure)
  have "db_ok (db\<lparr>db_pending := del (\<lambda>q. pc_expiresAt (pr_code q) < now - (OTP_retentionMs - OTP_ttlMs)) (db_pending db)\<rparr>)"
    using assms k by (auto intro!: db_ok_set(1))
  then show "db_ok (code_sweep now keep db)"
    unfolding code_sweep_def by (rule db_ok_set(2)) (simp add: o)
qed

lemma db_ok_sessions [db_oks]:
  assumes "db_ok db"
  shows "db_ok (snd (session_delete_where w db))" "db_ok (snd (revokeFamily f db))"
    "db_ok (session_delete i u db)" "db_ok (snd (session_deleteByUser u db))" "db_ok (setAmr i amr db)"
    "db_ok (session_sweep now db)"
proof -
  show d: "db_ok (snd (session_delete_where w db))" for w
    using db_ok_del_session [OF assms] by (simp add: session_delete_where_def)
  show "db_ok (snd (revokeFamily f db))" "db_ok (session_delete i u db)" "db_ok (snd (session_deleteByUser u db))"
    using d by (simp_all add: revokeFamily_def session_delete_def session_deleteByUser_def)
  show "db_ok (setAmr i amr db)"
    unfolding setAmr_def by (rule db_ok_upd_session [OF assms]) (simp_all add: db_ok_tables(4) [OF assms])
  have "db_ok (db\<lparr>db_session := del (\<lambda>s. ss_expiresAt s \<le> now) (db_session db)\<rparr>)"
    by (rule db_ok_del_session [OF assms])
  then show "db_ok (session_sweep now db)"
    unfolding session_sweep_def by (rule db_ok_set(3)) (simp add: db_ok_tables(5) [OF assms])
qed

lemma db_ok_passkeys [db_oks]:
  assumes "db_ok db"
  shows "db_ok (snd (updateCounter c e n now db))" "db_ok (snd (deleteKeeping c u k db))"
    "db_ok (passkey_deleteAll u db)" "db_ok (snd (consumeChallenge ch u p now db))"
    "db_ok (snd (useRecoveryCode h now db))" "db_ok (snd (setFlagOnce key now db))"
    "db_ok (clearFlag key db)" "db_ok (sweepChallenges now db)"
proof -
  show "db_ok (snd (updateCounter c e n now db))"
    unfolding updateCounter_def Let_def snd_conv by (rule db_ok_upd_passkey [OF assms]) simp
  show "db_ok (snd (deleteKeeping c u k db))" "db_ok (passkey_deleteAll u db)"
    using db_ok_del_passkey [OF assms] by (simp_all add: deleteKeeping_def passkey_deleteAll_def Let_def)
  show "db_ok (snd (consumeChallenge ch u p now db))" "db_ok (sweepChallenges now db)"
    using assms db_ok_tables(13) [OF assms]
    by (simp_all add: consumeChallenge_def sweepChallenges_def Let_def db_ok_set(9))
  show "db_ok (snd (useRecoveryCode h now db))"
    using assms db_ok_tables(12) [OF assms] by (simp add: useRecoveryCode_def Let_def db_ok_set(8))
  show "db_ok (snd (setFlagOnce key now db))" "db_ok (clearFlag key db)"
    using assms db_ok_tables(15) [OF assms]
    by (auto simp: setFlagOnce_def clearFlag_def intro!: db_ok_set(11) keyed_snoc_None)
qed

lemma audit_uniq_del: "audit_uniq t \<Longrightarrow> audit_uniq (del w t)"
proof -
  have "filter p (del w t) = del w (filter p t)" for p by (induction t) auto
  then show "audit_uniq t \<Longrightarrow> audit_uniq (del w t)" by (simp add: audit_uniq_def)
qed

lemma db_ok_platform [db_oks]:
  assumes "db_ok db"
  shows "db_ok (snd (settings_patch sp m v db))" "db_ok (replaceDomains ds now db)"
    "db_ok (blockEmail h now db)" "db_ok (unblockEmail h db)" "db_ok (snd (audit_append r db))"
    "db_ok (snd (audit_sweep t b db))" "db_ok (markNotified i now db)" "db_ok (snd (markApplied i now db))"
    "db_ok (snd (flag_setOnce key x now db))" "db_ok (flag_setValue key x db)" "db_ok (flag_clear key db)"
proof -
  note s = db_ok_tables(16) [OF assms] and c = db_ok_tables(14) [OF assms]
    and f = db_ok_tables(15) [OF assms] and e = db_ok_tables(28) [OF assms]
    and a = db_ok_tables(17) [OF assms]
  have "map st_key (map (\<lambda>r. r\<lparr>st_value := patched_value sp r, st_updatedAt := v\<rparr>) t) = map st_key t" for t
    by simp
  then show "db_ok (snd (settings_patch sp m v db))"
    using assms s by (auto simp: settings_patch_def Let_def keyed_def o_def intro!: db_ok_set(12))
  show "db_ok (replaceDomains ds now db)"
    unfolding replaceDomains_def
    by (rule db_ok_set(13) [OF assms]) (simp add: keyed_def o_def)
  show "db_ok (blockEmail h now db)" "db_ok (unblockEmail h db)"
    using assms e
    by (auto simp: blockEmail_def unblockEmail_def isEmailBlocked_def list_ex_iff keyed_append
        intro!: db_ok_set(14))
  show "db_ok (snd (audit_append r db))"
    using assms by (auto simp: audit_append_def Let_def intro!: db_ok_set(15))
  show "db_ok (snd (audit_sweep t b db))"
    using assms a by (auto simp: audit_sweep_def intro!: db_ok_set(15) audit_uniq_del)
  show "db_ok (markNotified i now db)" "db_ok (snd (markApplied i now db))"
    using assms c by (simp_all add: markNotified_def markApplied_def Let_def db_ok_set(10))
  show "db_ok (snd (flag_setOnce key x now db))" "db_ok (flag_setValue key x db)" "db_ok (flag_clear key db)"
    using assms f
    by (auto simp: flag_setOnce_def flag_setValue_def flag_clear_def intro!: db_ok_set(11) keyed_snoc_None)
qed

subsection \<open>Batches\<close>

text \<open>What a batch keeps: everything but the foreign keys, which it checks itself.\<close>

definition rows_ok :: "idb \<Rightarrow> bool" where
  "rows_ok db \<longleftrightarrow> tables_uniq db \<and> list_all workspace_check (db_workspace db)
     \<and> list_all setting_check (db_setting db)"

lemma db_ok_rows: "db_ok db \<longleftrightarrow> rows_ok db \<and> fk_ok db"
  by (auto simp: db_ok_def rows_ok_def)

lemma batch_db_ok: "list_all (stmt_keeps rows_ok) ss \<Longrightarrow> db_ok db \<Longrightarrow> db_ok (snd (batch ss db))"
  using batch_keeps_fk [of rows_ok ss db] by (simp add: db_ok_rows)

lemma keeps_ok_stmt:
  assumes "\<And>c db. rows_ok db \<Longrightarrow> rows_ok (snd (f c db))"
  shows "stmt_keeps rows_ok (ok_stmt f)"
proof (rule stmt_keepsI)
  fix c db n db' assume "rows_ok db" "ok_stmt f c db = Inr (n, db')"
  then show "rows_ok db'" using assms [of db c] by (simp add: ok_stmt_def)
qed

lemma keeps_insert_stmt:
  "(\<And>db. rows_ok db \<Longrightarrow> u (g db) \<Longrightarrow> rows_ok (g db)) \<Longrightarrow> stmt_keeps rows_ok (insert_stmt u g)"
  by (auto simp: stmt_keeps_def insert_stmt_def Let_def split: if_splits)

lemma keeps_when_stmt: "stmt_keeps rows_ok s \<Longrightarrow> stmt_keeps rows_ok (when_stmt p s)"
  by (auto simp: stmt_keeps_def when_stmt_def split: if_splits)

lemmas rows_ok_defs = rows_ok_def tables_uniq_def list_all_iff

lemma rows_ok_set:
  assumes "rows_ok db"
  shows "keyed pending_key t1 \<Longrightarrow> rows_ok (db\<lparr>db_pending := t1\<rparr>)"
    "keyed otp_key t2 \<Longrightarrow> rows_ok (db\<lparr>db_otp := t2\<rparr>)"
    "keyed rt_refreshHash t3 \<Longrightarrow> rows_ok (db\<lparr>db_rotated := t3\<rparr>)"
    "session_uniq t4 \<Longrightarrow> rows_ok (db\<lparr>db_session := t4\<rparr>)"
    "account_uniq t5 \<Longrightarrow> rows_ok (db\<lparr>db_account := t5\<rparr>)"
    "workspace_uniq t6 \<Longrightarrow> list_all workspace_check t6 \<Longrightarrow> rows_ok (db\<lparr>db_workspace := t6\<rparr>)"
    "keyed usage_key t7 \<Longrightarrow> rows_ok (db\<lparr>db_usage := t7\<rparr>)"
    "keyed tb_tenantId t8 \<Longrightarrow> rows_ok (db\<lparr>db_tombstone := t8\<rparr>)"
    "keyed pk_credentialId t9 \<Longrightarrow> rows_ok (db\<lparr>db_passkey := t9\<rparr>)"
    "keyed ch_challenge t10 \<Longrightarrow> rows_ok (db\<lparr>db_challenge := t10\<rparr>)"
    "keyed rc_hash t11 \<Longrightarrow> rows_ok (db\<lparr>db_recovery := t11\<rparr>)"
  using assms by (simp_all add: rows_ok_defs)

lemma rows_ok_tables:
  assumes "rows_ok db"
  shows "session_uniq (db_session db)" "account_uniq (db_account db)" "workspace_uniq (db_workspace db)"
    "list_all workspace_check (db_workspace db)" "keyed usage_key (db_usage db)"
    "keyed pending_key (db_pending db)" "keyed otp_key (db_otp db)" "keyed tb_tenantId (db_tombstone db)"
    "keyed rt_refreshHash (db_rotated db)"
  using assms by (simp_all add: rows_ok_defs)

lemma session_uniq_del: "session_uniq t \<Longrightarrow> session_uniq (del w t)"
  by (simp add: session_uniq_def)

lemma account_uniq_del: "account_uniq t \<Longrightarrow> account_uniq (del w t)"
  by (simp add: account_uniq_def at_most_one_del)

lemma workspace_uniq_del: "workspace_uniq t \<Longrightarrow> workspace_uniq (del w t)"
  by (simp add: workspace_uniq_def at_most_one_del)

lemma list_all_del: "list_all p t \<Longrightarrow> list_all p (del w t)"
  by (simp add: list_all_iff)

lemma db_ok_deleteAccount [db_oks]: "db_ok db \<Longrightarrow> db_ok (snd (deleteAccount t now db))"
  unfolding deleteAccount_def Let_def
  by (rule batch_db_ok)
    (auto intro!: keeps_ok_stmt rows_ok_set session_uniq_del account_uniq_del workspace_uniq_del list_all_del
      keyed_tombstone_put simp: rows_ok_tables writeTombstone_def)

lemma workspace_uniq_snoc_check: "workspace_check w \<Longrightarrow> list_all workspace_check t \<Longrightarrow>
    list_all workspace_check (t @ [w])"
  by simp

lemma keeps_insert_workspace: "workspace_check w \<Longrightarrow> stmt_keeps rows_ok (insert_workspace w)"
  unfolding insert_workspace_def
  by (rule keeps_insert_stmt) (auto intro!: rows_ok_set(6) simp: rows_ok_tables)

lemma keeps_insert_account: "stmt_keeps rows_ok (insert_account a)"
  unfolding insert_account_def by (rule keeps_insert_stmt) (auto intro!: rows_ok_set(5))

lemma keeps_bump_usage: "stmt_keeps rows_ok (bump_usage d k p)"
  unfolding bump_usage_def by (rule keeps_ok_stmt) (simp add: rows_ok_set(7) rows_ok_tables Let_def)

lemma db_ok_createAdmin [db_oks]:
  assumes "db_ok db"
  shows "db_ok (snd (createAdmin cmd db))"
proof -
  have "list_all (stmt_keeps rows_ok) (createAdmin_stmts cmd)"
    by (simp add: createAdmin_stmts_def keeps_insert_workspace keeps_insert_account workspace_check_def)
  from batch_db_ok [OF this assms] show ?thesis
    by (auto simp: createAdmin_def split: prod.split sum.split)
qed

lemma keeps_signup_stmts: "list_all (stmt_keeps rows_ok) (signup_stmts c)"
  unfolding signup_stmts_def
  by (auto intro!: keeps_ok_stmt keeps_when_stmt keeps_bump_usage keeps_insert_workspace keeps_insert_account
      rows_ok_set keyed_usage_ensure simp: rows_ok_tables workspace_check_def new_trial_def Let_def)

lemma db_ok_signup [db_oks]: "db_ok db \<Longrightarrow> db_ok (snd (signup c db))"
  using batch_db_ok [OF keeps_signup_stmts, of db c]
  by (auto simp: signup_def split: prod.split sum.split)

lemma db_ok_session_create [db_oks]: "db_ok db \<Longrightarrow> db_ok (snd (session_create s n db))"
  unfolding session_create_def
  by (rule batch_db_ok)
    (auto intro!: keeps_ok_stmt keeps_insert_stmt rows_ok_set(4) session_uniq_del simp: rows_ok_tables Let_def)

lemma keeps_rotate_stmts: "list_all (stmt_keeps rows_ok) (rotate_stmts s h e)"
proof -
  have "stmt_keeps rows_ok (\<lambda>c db.
        let w = (\<lambda>r. ss_id r = ss_id s \<and> ss_refreshHash r = ss_refreshHash s);
            t = upd w (\<lambda>r. r\<lparr>ss_refreshHash := h, ss_expiresAt := e\<rparr>) (db_session db)
        in if session_uniq t then Inr (hits w (db_session db), db\<lparr>db_session := t\<rparr>)
           else Inl UniqueViolation)"
    by (rule stmt_keepsI) (auto simp: Let_def rows_ok_set(4) split: if_splits)
  moreover have "stmt_keeps rows_ok (when_stmt (\<lambda>changes db. changes = 1
          \<and> sel1 (\<lambda>r. rt_refreshHash r = ss_refreshHash s) (db_rotated db) = None)
        (ok_stmt (\<lambda>c db. (1, db\<lparr>db_rotated := db_rotated db
           @ [\<lparr>rt_refreshHash = ss_refreshHash s, rt_familyId = ss_familyId s,
              rt_expiresAt = ss_expiresAt s\<rparr>]\<rparr>))))"
    by (rule stmt_keepsI)
      (auto simp: when_stmt_def ok_stmt_def rows_ok_tables split: if_splits
        intro!: rows_ok_set(3) keyed_snoc_None)
  ultimately show ?thesis by (simp add: rotate_stmts_def)
qed

lemma db_ok_session_rotate [db_oks]: "db_ok db \<Longrightarrow> db_ok (snd (session_rotate s h e db))"
  using batch_db_ok [OF keeps_rotate_stmts, of db s h e]
  by (auto simp: session_rotate_def split: prod.split sum.split)

lemma db_ok_passkey_batches [db_oks]:
  assumes "db_ok db"
  shows "db_ok (snd (passkey_insert p db))" "db_ok (snd (putChallenge c u pu e db))"
    "db_ok (snd (replaceRecoveryCodes hs db))"
  unfolding passkey_insert_def putChallenge_def replaceRecoveryCodes_def
  by (rule batch_db_ok [OF _ assms];
      auto simp: list_all_iff intro!: keeps_ok_stmt keeps_insert_stmt rows_ok_set(9-11))+

end
