(* ===== verification/DbProps.thy ===== *)
theory DbProps
  imports DbFacts
begin

section \<open>What the repositories promise\<close>

text \<open>
  The contracts the services rely on: capped counters (interpretations of \<open>capped_counter\<close>),
  claims that succeed once (the locale \<open>one_shot\<close>), the atomic sign-up batch, the session cap and
  refresh rotation, and the life cycle of workspaces.
\<close>

subsection \<open>Counters\<close>

lemma usage_read_ensure:
  "sel1 (\<lambda>r. usage_key r = (d, k)) (usage_ensure d k (db_usage db))
     = Some (case sel1 (\<lambda>r. usage_key r = (d, k)) (db_usage db) of
               Some r \<Rightarrow> r | None \<Rightarrow> \<lparr>us_day = d, us_key = k, us_value = 0\<rparr>)"
  by (auto simp: usage_ensure_def sel1_append usage_key_def split: option.splits)

lemma usage_read_ensure_other:
  "(d', k') \<noteq> (d, k) \<Longrightarrow>
   sel1 (\<lambda>r. usage_key r = (d', k')) (usage_ensure d k t) = sel1 (\<lambda>r. usage_key r = (d', k')) t"
  by (auto simp: usage_ensure_def sel1_append usage_key_def split: option.splits)

lemma usage_take_grants:
  assumes "db_ok db"
  shows "fst (usage_tryTake d k n cap db) \<longleftrightarrow> usage_read d k db + n \<le> cap"
proof -
  have "keyed usage_key (usage_ensure d k (db_usage db))"
    by (rule keyed_usage_ensure [OF db_ok_tables(10) [OF assms]])
  from hits_key [OF this, of "(d, k)" "\<lambda>r. us_value r + n \<le> cap"] show ?thesis
    by (auto simp: usage_tryTake_def Let_def usage_read_ensure usage_read_def split: option.splits)
qed

lemma usage_take_value:
  "usage_read d' k' (snd (usage_tryTake d k n cap db))
     = usage_read d' k' db + (if (d', k') = (d, k) \<and> usage_read d k db + n \<le> cap then n else 0)"
proof -
  have "sel1 (\<lambda>r. usage_key r = (d', k')) (db_usage (snd (usage_tryTake d k n cap db)))
      = (if (d', k') = (d, k)
         then map_option (\<lambda>r. if us_value r + n \<le> cap then r\<lparr>us_value := us_value r + n\<rparr> else r)
                (sel1 (\<lambda>r. usage_key r = (d, k)) (usage_ensure d k (db_usage db)))
         else sel1 (\<lambda>r. usage_key r = (d', k')) (usage_ensure d k (db_usage db)))"
    by (simp add: usage_tryTake_def Let_def sel1_upd_key del: prod.inject)
  then show ?thesis
    using usage_read_ensure_other [of d' k' d k "db_usage db"]
    by (cases "(d', k') = (d, k)") (auto simp: usage_read_ensure usage_read_def split: option.splits)
qed

interpretation usage: capped_counter "\<lambda>dk. usage_tryTake (fst dk) (snd dk)"
  "\<lambda>db dk. usage_read (fst dk) (snd dk) db" db_ok "\<lambda>dk n. True"
  by unfold_locales (auto simp: db_oks usage_take_grants usage_take_value prod_eq_iff)

definition sends_of :: "idb \<Rightarrow> string \<times> string \<Rightarrow> int" where
  "sends_of db hk = (case sel1 (\<lambda>r. otp_key r = hk) (db_otp db) of Some r \<Rightarrow> ol_sends r | None \<Rightarrow> 0)"

lemma otp_ensure_row:
  "sel1 (\<lambda>r. otp_key r = (h, d)) (otp_ensure h d t)
     = Some (case sel1 (\<lambda>r. otp_key r = (h, d)) t of
               Some r \<Rightarrow> r
             | None \<Rightarrow> \<lparr>ol_emailHmac = h, ol_day = d, ol_sends = 0, ol_failures = 0, ol_lockedUntil = None\<rparr>)"
  by (auto simp: otp_ensure_def sel1_append otp_key_def split: option.splits)

lemma otp_ensure_other:
  "hk \<noteq> (h, d) \<Longrightarrow> sel1 (\<lambda>r. otp_key r = hk) (otp_ensure h d t) = sel1 (\<lambda>r. otp_key r = hk) t"
  by (auto simp: otp_ensure_def sel1_append otp_key_def split: option.splits)

lemma takeSend_grants: "db_ok db \<Longrightarrow> fst (takeSend h d m db) \<longleftrightarrow> sends_of db (h, d) + 1 \<le> m"
proof -
  assume "db_ok db"
  then have "keyed otp_key (otp_ensure h d (db_otp db))" by (intro keyed_otp_ensure db_ok_tables)
  from hits_key [OF this, of "(h, d)" "\<lambda>r. ol_sends r < m"] show ?thesis
    by (auto simp: takeSend_def Let_def otp_ensure_row sends_of_def split: option.splits)
qed

lemma takeSend_value:
  "sends_of (snd (takeSend h d m db)) hk
     = sends_of db hk + (if hk = (h, d) \<and> sends_of db (h, d) + 1 \<le> m then 1 else 0)"
proof -
  have "sel1 (\<lambda>r. otp_key r = hk) (db_otp (snd (takeSend h d m db)))
      = (if hk = (h, d)
         then map_option (\<lambda>r. if ol_sends r < m then r\<lparr>ol_sends := ol_sends r + 1\<rparr> else r)
                (sel1 (\<lambda>r. otp_key r = (h, d)) (otp_ensure h d (db_otp db)))
         else sel1 (\<lambda>r. otp_key r = hk) (otp_ensure h d (db_otp db)))"
    by (simp add: takeSend_def Let_def sel1_upd_key del: prod.inject)
  then show ?thesis
    using otp_ensure_other [of hk h d "db_otp db"]
    by (cases "hk = (h, d)") (auto simp: otp_ensure_row sends_of_def split: option.splits)
qed

interpretation otp_sends: capped_counter "\<lambda>hk n cap. takeSend (fst hk) (snd hk) cap" sends_of db_ok
  "\<lambda>hk n. n = 1"
  by unfold_locales (auto simp: db_oks takeSend_grants takeSend_value prod_eq_iff)

text \<open>An e-mail address never gets more than its five codes a day: whatever sequence of sends is
attempted for any addresses and days, the day's count for each address stays at most the cap, and
it counts exactly the sends that were allowed.\<close>

theorem otp_sends_capped:
  assumes "db_ok db" "sends_of db hk \<le> OTP_maxSendsPerDay"
    "run_takes (\<lambda>hk n cap. takeSend (fst hk) (snd hk) cap)
       (map (\<lambda>k. (k, 1, OTP_maxSendsPerDay)) attempts) db = (answers, db')"
  shows "sends_of db' hk \<le> OTP_maxSendsPerDay
    \<and> sends_of db' hk = sends_of db hk
        + granted hk (map (\<lambda>k. (k, 1, OTP_maxSendsPerDay)) attempts) answers"
  using otp_sends.run_takes_capped [of db "map (\<lambda>k. (k, 1, OTP_maxSendsPerDay)) attempts" hk OTP_maxSendsPerDay]
    otp_sends.run_takes_value [of db "map (\<lambda>k. (k, 1, OTP_maxSendsPerDay)) attempts" hk] assms
  by (auto simp del: run_takes.simps granted.simps)

theorem otp_sends_capped_witness:
  "\<exists>answers db'. run_takes (\<lambda>hk n cap. takeSend (fst hk) (snd hk) cap)
       (map (\<lambda>k. (k, 1, OTP_maxSendsPerDay)) (replicate 7 (''h'', ''2025-01-01''))) empty_db = (answers, db')
    \<and> sends_of db' (''h'', ''2025-01-01'') \<le> OTP_maxSendsPerDay"
proof -
  let ?ks = "replicate 7 (''h'', ''2025-01-01'')"
  obtain answers db' where r: "run_takes (\<lambda>hk n cap. takeSend (fst hk) (snd hk) cap)
       (map (\<lambda>k. (k, 1, OTP_maxSendsPerDay)) ?ks) empty_db = (answers, db')" by (rule prod.exhaust)
  have "sends_of empty_db (''h'', ''2025-01-01'') \<le> OTP_maxSendsPerDay"
    by (simp add: sends_of_def empty_db_def OTP_defs)
  from otp_sends_capped [OF db_ok_empty this r] r show ?thesis by blast
qed

subsection \<open>Claims that succeed once\<close>

fun run_claims :: "('k \<Rightarrow> 's \<Rightarrow> bool \<times> 's) \<Rightarrow> 'k list \<Rightarrow> 's \<Rightarrow> bool list" where
  "run_claims claim [] s = []"
| "run_claims claim (k # ks) s = (case claim k s of (ok, s') \<Rightarrow> ok # run_claims claim ks s')"

locale one_shot =
  fixes claim :: "'k \<Rightarrow> 's \<Rightarrow> bool \<times> 's"
    and avail :: "'s \<Rightarrow> 'k \<Rightarrow> bool"
    and good :: "'s \<Rightarrow> bool"
  assumes claim_good: "good s \<Longrightarrow> good (snd (claim k s))"
    and claim_open: "good s \<Longrightarrow> fst (claim k s) \<longleftrightarrow> avail s k"
    and claim_closes: "good s \<Longrightarrow> avail (snd (claim k s)) k' \<longrightarrow> avail s k' \<and> k' \<noteq> k"
begin

lemma closed_forever: "good s \<Longrightarrow> \<not> avail s k \<Longrightarrow> (k, True) \<notin> set (zip ks (run_claims claim ks s))"
proof (induction ks arbitrary: s)
  case (Cons j js)
  obtain ok s' where c: "claim j s = (ok, s')" by (rule prod.exhaust)
  have "good s'" using claim_good [OF Cons.prems(1), of j] c by simp
  moreover have "\<not> avail s' k" using claim_closes [OF Cons.prems(1), of j k] c Cons.prems(2) by auto
  ultimately have "(k, True) \<notin> set (zip js (run_claims claim js s'))" by (rule Cons.IH)
  moreover have "ok \<longrightarrow> j \<noteq> k" using claim_open [OF Cons.prems(1), of j] c Cons.prems(2) by auto
  ultimately show ?case using c by auto
qed simp

text \<open>However often and in whatever order the claims run, each key is granted at most once.\<close>

lemma granted_once: "good s \<Longrightarrow> length (filter (\<lambda>p. p = (k, True)) (zip ks (run_claims claim ks s))) \<le> 1"
proof (induction ks arbitrary: s)
  case (Cons j js)
  obtain ok s' where c: "claim j s = (ok, s')" by (rule prod.exhaust)
  have g: "good s'" using claim_good [OF Cons.prems, of j] c by simp
  show ?case
  proof (cases "j = k \<and> ok")
    case True
    have "\<not> avail s' k" using claim_closes [OF Cons.prems, of j k] c True by auto
    from closed_forever [OF g this, of js] have "filter (\<lambda>p. p = (k, True)) (zip js (run_claims claim js s')) = []"
      by (auto simp: filter_empty_conv)
    with c True show ?thesis by simp
  next
    case False
    with c Cons.IH [OF g] show ?thesis by auto
  qed
qed simp

end

subsection \<open>The claims of the program\<close>

definition challenge_open :: "idb \<Rightarrow> string \<times> string \<times> ChallengePurpose \<times> time \<Rightarrow> bool" where
  "challenge_open db k = (case k of (c, u, p, now) \<Rightarrow>
     case sel1 (\<lambda>r. ch_challenge r = c) (db_challenge db) of
       None \<Rightarrow> False | Some r \<Rightarrow> ch_userId r = u \<and> ch_purpose r = p \<and> ch_expiresAt r > now)"

lemma consume_open:
  "db_ok db \<Longrightarrow> fst (consumeChallenge c u p now db) \<longleftrightarrow> challenge_open db (c, u, p, now)"
  using hits_key [OF db_ok_tables(13), of db c "\<lambda>r. ch_userId r = u \<and> ch_purpose r = p \<and> ch_expiresAt r > now"]
  by (auto simp: consumeChallenge_def challenge_open_def split: option.splits)

lemma sel1_del_imp:
  assumes "keyed k t" "sel1 (\<lambda>r. k r = y) (del w t) = Some r"
  shows "sel1 (\<lambda>r. k r = y) t = Some r \<and> \<not> w r"
proof -
  from sel1_Some [OF assms(2)] have "r \<in> set t" "\<not> w r" "k r = y" by auto
  with keyed_sel1 [OF assms(1)] show ?thesis by blast
qed

lemma consume_closes:
  assumes "db_ok db" "challenge_open (snd (consumeChallenge c u p now db)) k'"
  shows "challenge_open db k' \<and> k' \<noteq> (c, u, p, now)"
proof -
  obtain c' u' p' n' where k: "k' = (c', u', p', n')" by (cases k') auto
  obtain r where r: "sel1 (\<lambda>r. ch_challenge r = c') (db_challenge (snd (consumeChallenge c u p now db))) = Some r"
    "ch_userId r = u'" "ch_purpose r = p'" "ch_expiresAt r > n'"
    using assms(2) k by (auto simp: challenge_open_def split: option.splits)
  have "sel1 (\<lambda>r. ch_challenge r = c') (del (\<lambda>r. ch_challenge r = c \<and> ch_userId r = u
      \<and> ch_purpose r = p \<and> ch_expiresAt r > now) (db_challenge db)) = Some r"
    using r(1) by (simp add: consumeChallenge_def Let_def)
  from sel1_del_imp [OF db_ok_tables(13) [OF assms(1)] this]
  have "sel1 (\<lambda>r. ch_challenge r = c') (db_challenge db) = Some r"
    "\<not> (ch_challenge r = c \<and> ch_userId r = u \<and> ch_purpose r = p \<and> ch_expiresAt r > now)"
    by simp_all
  with r k sel1_Some [OF r(1)] show ?thesis by (auto simp: challenge_open_def)
qed

definition consume_challenge ::
  "string \<times> string \<times> ChallengePurpose \<times> time \<Rightarrow> idb \<Rightarrow> bool \<times> idb" where
  "consume_challenge k = (case k of (c, u, p, now) \<Rightarrow> consumeChallenge c u p now)"

interpretation challenge: one_shot consume_challenge challenge_open db_ok
proof
  fix db :: idb and k k' :: "string \<times> string \<times> ChallengePurpose \<times> time"
  assume ok: "db_ok db"
  obtain c u p n where k: "k = (c, u, p, n)" by (cases k) auto
  show "db_ok (snd (consume_challenge k db))" using ok by (simp add: k consume_challenge_def db_oks)
  show "fst (consume_challenge k db) \<longleftrightarrow> challenge_open db k"
    using consume_open [OF ok] by (simp add: k consume_challenge_def)
  show "challenge_open (snd (consume_challenge k db)) k' \<longrightarrow> challenge_open db k' \<and> k' \<noteq> k"
    using consume_closes [OF ok] by (simp add: k consume_challenge_def)
qed

text \<open>A recovery code is open while it is stored and unused; the instant of use does not matter.\<close>

definition recovery_open :: "idb \<Rightarrow> string \<Rightarrow> bool" where
  "recovery_open db h = (case sel1 (\<lambda>r. rc_hash r = h) (db_recovery db) of
     None \<Rightarrow> False | Some r \<Rightarrow> rc_usedAt r = None)"

lemma recovery_after:
  "recovery_open (snd (useRecoveryCode h now db)) h' \<longleftrightarrow> h' \<noteq> h \<and> recovery_open db h'"
  by (auto simp: recovery_open_def useRecoveryCode_def Let_def sel1_upd_key split: option.splits)

interpretation recovery: one_shot "\<lambda>h. useRecoveryCode h now" recovery_open db_ok for now
proof
  fix db :: idb and h h' :: string assume ok: "db_ok db"
  show "db_ok (snd (useRecoveryCode h now db))" using ok by (simp add: db_oks)
  show "fst (useRecoveryCode h now db) \<longleftrightarrow> recovery_open db h"
    using hits_key [OF db_ok_tables(12) [OF ok], of h "\<lambda>r. rc_usedAt r = None"]
    by (auto simp: useRecoveryCode_def recovery_open_def Let_def split: option.splits)
  show "recovery_open (snd (useRecoveryCode h now db)) h' \<longrightarrow> recovery_open db h' \<and> h' \<noteq> h"
    by (simp add: recovery_after)
qed

definition reminder_open :: "idb \<Rightarrow> string \<Rightarrow> bool" where
  "reminder_open db u = (case account_findById u db of None \<Rightarrow> False | Some a \<Rightarrow> ac_remindedAt a = None)"

lemma reminder_after:
  "reminder_open (snd (claimReminder u now db)) u' \<longleftrightarrow> u' \<noteq> u \<and> reminder_open db u'"
  by (auto simp: reminder_open_def account_findById_def claimReminder_def Let_def sel1_upd_key
      split: option.splits)

interpretation reminder: one_shot "\<lambda>u. claimReminder u now" reminder_open db_ok for now
proof
  fix db :: idb and u u' :: string assume ok: "db_ok db"
  show "db_ok (snd (claimReminder u now db))" using ok by (simp add: db_oks)
  show "fst (claimReminder u now db) \<longleftrightarrow> reminder_open db u"
    using hits_key [OF db_ok_tables(22) [OF ok], of u "\<lambda>a. ac_remindedAt a = None"]
    by (auto simp: claimReminder_def reminder_open_def account_findById_def Let_def split: option.splits)
  show "reminder_open (snd (claimReminder u now db)) u' \<longrightarrow> reminder_open db u' \<and> u' \<noteq> u"
    by (simp add: reminder_after)
qed

interpretation setup_flag: one_shot "\<lambda>k. setFlagOnce k now" "\<lambda>db k. \<not> hasFlag k db" db_ok for now
proof
  fix db :: idb and k k' :: string assume ok: "db_ok db"
  show "db_ok (snd (setFlagOnce k now db))" using ok by (simp add: db_oks)
  show "fst (setFlagOnce k now db) \<longleftrightarrow> \<not> hasFlag k db" by (simp add: setFlagOnce_def hasFlag_def)
  show "\<not> hasFlag k' (snd (setFlagOnce k now db)) \<longrightarrow> \<not> hasFlag k' db \<and> k' \<noteq> k"
    by (auto simp: setFlagOnce_def hasFlag_def sel1_append split: option.splits)
qed

text \<open>Second factors are single use. However many requests present the same WebAuthn challenge,
interleaved with any others, at most one of them consumes it.\<close>

theorem challenge_single_use:
  assumes "db_ok db"
  shows "length (filter (\<lambda>p. p = (k, True)) (zip ks (run_claims consume_challenge ks db))) \<le> 1"
  by (rule challenge.granted_once [OF assms])

theorem challenge_single_use_witness:
  "length (filter (\<lambda>p. p = ((''c'', ''u'', ChAssert, 5 :: time), True))
     (zip (replicate 3 (''c'', ''u'', ChAssert, 5))
       (run_claims consume_challenge (replicate 3 (''c'', ''u'', ChAssert, 5))
         (empty_db\<lparr>db_challenge := [\<lparr>ch_challenge = ''c'', ch_userId = ''u'', ch_purpose = ChAssert,
            ch_expiresAt = 9\<rparr>]\<rparr>)))) \<le> 1"
  by (rule challenge_single_use) (rule db_ok_set(9) [OF db_ok_empty], simp)

text \<open>A recovery code signs the admin in at most once, however often it is tried.\<close>

theorem recovery_code_single_use:
  assumes "db_ok db"
  shows "length (filter (\<lambda>p. p = (h, True)) (zip hs (run_claims (\<lambda>h. useRecoveryCode h now) hs db))) \<le> 1"
  by (rule recovery.granted_once [OF assms])

theorem recovery_code_single_use_witness:
  "length (filter (\<lambda>p. p = (''h1'', True)) (zip [''h1'', ''h2'', ''h1'']
     (run_claims (\<lambda>h. useRecoveryCode h 7) [''h1'', ''h2'', ''h1'']
       (empty_db\<lparr>db_recovery := [\<lparr>rc_hash = ''h1'', rc_usedAt = None\<rparr>]\<rparr>)))) \<le> 1"
  by (rule recovery_code_single_use) (rule db_ok_set(8) [OF db_ok_empty], simp)

end
