(* ===== verification/DbLifecycle.thy ===== *)
theory DbLifecycle
  imports DbProps
begin

section \<open>Sign-up, sessions and the workspace life cycle\<close>

text \<open>
  The promises of the transactional operations: the sign-up batch admits within every limit or
  changes nothing but its own counters, sessions stay within their cap, refresh rotation has one
  winner, and workspaces move only along ACTIVE, EXPIRED, ARCHIVING.
\<close>

subsection \<open>The sign-up batch\<close>

lemma usage_read_row:
  "usage_read d k db = (case sel1 (\<lambda>r. usage_key r = (d, k)) (db_usage db) of Some r \<Rightarrow> us_value r | None \<Rightarrow> 0)"
  by (simp add: usage_read_def)

lemma bump_usage_run:
  assumes "keyed usage_key (db_usage db)" "sel1 (\<lambda>r. usage_key r = (d, k)) (db_usage db) = Some r0"
  shows "bump_usage d k p c db =
    Inr (if p db (us_value r0) then 1 else 0,
         db\<lparr>db_usage := upd (\<lambda>r. usage_key r = (d, k) \<and> p db (us_value r))
              (\<lambda>r. r\<lparr>us_value := us_value r + 1\<rparr>) (db_usage db)\<rparr>)"
  using hits_key [OF assms(1), of "(d, k)" "\<lambda>r. p db (us_value r)"] assms(2)
  by (simp add: bump_usage_def ok_stmt_def Let_def)

lemma bump_usage_read:
  assumes "keyed usage_key (db_usage db)" "sel1 (\<lambda>r. usage_key r = (d, k)) (db_usage db) = Some r0"
    "bump_usage d k p c db = Inr (n, db')"
  shows "n = (if p db (us_value r0) then 1 else 0)"
    "db' = db\<lparr>db_usage := db_usage db'\<rparr>"
    "keyed usage_key (db_usage db')"
    "usage_read d k db' = us_value r0 + int n"
    "(d', k') \<noteq> (d, k) \<Longrightarrow> sel1 (\<lambda>r. usage_key r = (d', k')) (db_usage db')
       = sel1 (\<lambda>r. usage_key r = (d', k')) (db_usage db)"
proof -
  have b: "n = (if p db (us_value r0) then 1 else 0)"
    "db' = db\<lparr>db_usage := upd (\<lambda>r. usage_key r = (d, k) \<and> p db (us_value r))
              (\<lambda>r. r\<lparr>us_value := us_value r + 1\<rparr>) (db_usage db)\<rparr>"
    using bump_usage_run [OF assms(1,2), of p c] assms(3) by auto
  show "n = (if p db (us_value r0) then 1 else 0)" "db' = db\<lparr>db_usage := db_usage db'\<rparr>"
    "keyed usage_key (db_usage db')" using b assms(1) by simp_all
  show "usage_read d k db' = us_value r0 + int n"
    using assms(2) by (simp add: b usage_read_def sel1_upd_key del: prod.inject)
  show "(d', k') \<noteq> (d, k) \<Longrightarrow> sel1 (\<lambda>r. usage_key r = (d', k')) (db_usage db')
       = sel1 (\<lambda>r. usage_key r = (d', k')) (db_usage db)"
    by (simp add: b sel1_upd_key del: prod.inject)
qed

text \<open>The database after the first statement: both counters exist and read as before.\<close>

definition signup_db1 :: "SignupCommand \<Rightarrow> idb \<Rightarrow> idb" where
  "signup_db1 c db =
     db\<lparr>db_usage := usage_ensure (su_day c) (su_ipKey c) (usage_ensure (su_day c) signup_key (db_usage db))\<rparr>"

lemma sel1_ensure_value:
  "(case sel1 (\<lambda>r. usage_key r = dk) (usage_ensure d k t) of Some r \<Rightarrow> us_value r | None \<Rightarrow> 0)
     = (case sel1 (\<lambda>r. usage_key r = dk) t of Some r \<Rightarrow> us_value r | None \<Rightarrow> 0)"
  by (auto simp: usage_ensure_def sel1_append usage_key_def split: option.splits)

lemma sel1_ensured: "sel1 (\<lambda>r. usage_key r = (d, k)) (usage_ensure d k t) \<noteq> None"
  by (auto simp: usage_ensure_def sel1_append usage_key_def split: option.splits)

lemma sel1_ensure_keeps:
  "sel1 (\<lambda>r. usage_key r = dk) t \<noteq> None \<Longrightarrow> sel1 (\<lambda>r. usage_key r = dk) (usage_ensure d k t) \<noteq> None"
  by (auto simp: usage_ensure_def sel1_append split: option.splits)

lemma row_of_value:
  "sel1 (\<lambda>r. usage_key r = (d, k)) (db_usage db) \<noteq> None \<Longrightarrow>
   \<exists>r. sel1 (\<lambda>r. usage_key r = (d, k)) (db_usage db) = Some r \<and> us_value r = usage_read d k db"
  by (auto simp: usage_read_def)

lemma signup_db1_usage:
  assumes "keyed usage_key (db_usage db)"
  shows "keyed usage_key (db_usage (signup_db1 c db))"
    "usage_read d k (signup_db1 c db) = usage_read d k db"
    "\<exists>r. sel1 (\<lambda>r. usage_key r = (su_day c, su_ipKey c)) (db_usage (signup_db1 c db)) = Some r
       \<and> us_value r = usage_read (su_day c) (su_ipKey c) db"
    "\<exists>r. sel1 (\<lambda>r. usage_key r = (su_day c, signup_key)) (db_usage (signup_db1 c db)) = Some r
       \<and> us_value r = usage_read (su_day c) signup_key db"
proof -
  show "keyed usage_key (db_usage (signup_db1 c db))"
    using assms by (simp add: signup_db1_def keyed_usage_ensure)
  show v: "usage_read d k (signup_db1 c db) = usage_read d k db" for d k
    by (simp add: signup_db1_def usage_read_def sel1_ensure_value)
  show "\<exists>r. sel1 (\<lambda>r. usage_key r = (su_day c, su_ipKey c)) (db_usage (signup_db1 c db)) = Some r
       \<and> us_value r = usage_read (su_day c) (su_ipKey c) db"
    using row_of_value [of "su_day c" "su_ipKey c" "signup_db1 c db"] v
      sel1_ensured [of "su_day c" "su_ipKey c" "usage_ensure (su_day c) signup_key (db_usage db)"]
    by (simp add: signup_db1_def)
  show "\<exists>r. sel1 (\<lambda>r. usage_key r = (su_day c, signup_key)) (db_usage (signup_db1 c db)) = Some r
       \<and> us_value r = usage_read (su_day c) signup_key db"
    using row_of_value [of "su_day c" signup_key "signup_db1 c db"] v
      sel1_ensure_keeps [OF sel1_ensured [of "su_day c" signup_key "db_usage db"], of "su_day c" "su_ipKey c"]
    by (simp add: signup_db1_def)
qed

lemma list_ex_key:
  "keyed k t \<Longrightarrow> list_ex (\<lambda>r. k r = x \<and> p r) t \<longleftrightarrow>
     (case sel1 (\<lambda>r. k r = x) t of None \<Rightarrow> False | Some r \<Rightarrow> p r)"
  using hits_key [of k t x p] hits_0 [of "\<lambda>r. k r = x \<and> p r" t]
  by (auto simp: list_ex_iff split: option.splits if_splits)

text \<open>The whole admission condition, on the database before the batch.\<close>

definition admissible :: "SignupCommand \<Rightarrow> idb \<Rightarrow> bool" where
  "admissible c db \<longleftrightarrow>
     setting_value KSignupEnabled db = Some 1
     \<and> lt_opt (usage_read (su_day c) signup_key db) (setting_value KSignupDailyLimit db)
     \<and> lt_opt (int (countTrials [ACTIVE] db)) (setting_value KActiveWorkspaceLimit db)
     \<and> int (countTrials [EXPIRED, ARCHIVING] db) < su_purgeBacklogLimit c
     \<and> usage_read (su_day c) signup_closed_key db \<noteq> 1
     \<and> usage_read (su_day c) (su_ipKey c) db < 2"

lemma signup_admits_row:
  "keyed usage_key (db_usage db) \<Longrightarrow>
   signup_admits day n db v \<longleftrightarrow>
     setting_value KSignupEnabled db = Some 1
     \<and> lt_opt v (setting_value KSignupDailyLimit db)
     \<and> lt_opt (int (countTrials [ACTIVE] db)) (setting_value KActiveWorkspaceLimit db)
     \<and> int (countTrials [EXPIRED, ARCHIVING] db) < n
     \<and> usage_read day signup_closed_key db \<noteq> 1"
  using list_ex_key [of usage_key "db_usage db" "(day, signup_closed_key)" "\<lambda>r. us_value r = 1"]
  by (auto simp: signup_admits_def usage_read_def split: option.splits)

lemma frame_usage [simp]:
  "setting_value k (db\<lparr>db_usage := t\<rparr>) = setting_value k db"
  "countTrials ss (db\<lparr>db_usage := t\<rparr>) = countTrials ss db"
  "workspace_get tid (db\<lparr>db_usage := t\<rparr>) = workspace_get tid db"
  by (simp_all add: setting_value_def countTrials_def workspace_get_def)

text \<open>The three counter statements: what the third one changes, and what the counters then read.\<close>

lemma signup_counters:
  assumes "db_ok db" "su_ipKey c \<notin> {signup_key, signup_closed_key}"
    and s2: "bump_usage (su_day c) (su_ipKey c) (\<lambda>db v. v < 2) n1 (signup_db1 c db) = Inr (n2, db2)"
    and s3: "when_stmt (\<lambda>changes db. changes = 1)
        (bump_usage (su_day c) signup_key (signup_admits (su_day c) (su_purgeBacklogLimit c))) n2 db2
        = Inr (n3, db3)"
  shows "n3 = (if admissible c db then 1 else 0)"
    "db3 = db\<lparr>db_usage := db_usage db3\<rparr>"
    "n3 = 1 \<Longrightarrow> usage_read (su_day c) signup_key db3 = usage_read (su_day c) signup_key db + 1
       \<and> usage_read (su_day c) (su_ipKey c) db3 = usage_read (su_day c) (su_ipKey c) db + 1"
proof -
  note k1 = signup_db1_usage(1) [OF db_ok_tables(10) [OF assms(1)], of c]
  obtain ri where ri: "sel1 (\<lambda>r. usage_key r = (su_day c, su_ipKey c)) (db_usage (signup_db1 c db)) = Some ri"
    "us_value ri = usage_read (su_day c) (su_ipKey c) db"
    using signup_db1_usage(3) [OF db_ok_tables(10) [OF assms(1)], of c] by blast
  obtain rs where rs: "sel1 (\<lambda>r. usage_key r = (su_day c, signup_key)) (db_usage (signup_db1 c db)) = Some rs"
    "us_value rs = usage_read (su_day c) signup_key db"
    using signup_db1_usage(4) [OF db_ok_tables(10) [OF assms(1)], of c] by blast
  note b2 = bump_usage_read [OF k1 ri(1) s2]
  have "db2 = (signup_db1 c db)\<lparr>db_usage := db_usage db2\<rparr>" by (rule b2(2))
  also have "\<dots> = db\<lparr>db_usage := db_usage db2\<rparr>" by (simp add: signup_db1_def)
  finally have d2: "db2 = db\<lparr>db_usage := db_usage db2\<rparr>" .
  have fr: "setting_value k db2 = setting_value k db" "countTrials ss db2 = countTrials ss db" for k ss
    by (subst d2, simp)+
  have rs2: "sel1 (\<lambda>r. usage_key r = (su_day c, signup_key)) (db_usage db2) = Some rs"
    using b2(5) [of "su_day c" signup_key] assms(2) rs(1) by auto
  have cl: "usage_read (su_day c) signup_closed_key db2 = usage_read (su_day c) signup_closed_key db"
    using b2(5) [of "su_day c" signup_closed_key] assms(2)
      signup_db1_usage(2) [OF db_ok_tables(10) [OF assms(1)], of "su_day c" signup_closed_key c]
    by (auto simp: usage_read_def)
  have adm: "signup_admits (su_day c) (su_purgeBacklogLimit c) db2 (us_value rs) \<and> us_value ri < 2
      \<longleftrightarrow> admissible c db"
    unfolding admissible_def signup_admits_row [OF b2(3)] cl fr ri(2) rs(2) by blast
  show n3: "n3 = (if admissible c db then 1 else 0)"
  proof (cases "n2 = 1")
    case True
    with s3 have "bump_usage (su_day c) signup_key
        (signup_admits (su_day c) (su_purgeBacklogLimit c)) n2 db2 = Inr (n3, db3)"
      by (simp add: when_stmt_def)
    note n3 = bump_usage_read(1) [OF b2(3) rs2 this]
    have "us_value ri < 2" using True b2(1) by (cases "us_value ri < 2") simp_all
    with adm have "signup_admits (su_day c) (su_purgeBacklogLimit c) db2 (us_value rs) \<longleftrightarrow> admissible c db"
      by blast
    with n3 show ?thesis by (simp only:)
  next
    case False
    with s3 have "n3 = 0" by (simp add: when_stmt_def)
    moreover have "\<not> us_value ri < 2" using False b2(1) by (cases "us_value ri < 2") simp_all
    ultimately show ?thesis using adm by simp
  qed
  show "db3 = db\<lparr>db_usage := db_usage db3\<rparr>"
  proof (cases "n2 = 1")
    case True
    with s3 have "bump_usage (su_day c) signup_key
        (signup_admits (su_day c) (su_purgeBacklogLimit c)) n2 db2 = Inr (n3, db3)"
      by (simp add: when_stmt_def)
    from bump_usage_read(2) [OF b2(3) rs2 this]
    have "db3 = db2\<lparr>db_usage := db_usage db3\<rparr>" .
    also have "\<dots> = db\<lparr>db_usage := db_usage db3\<rparr>" by (subst d2) simp
    finally show ?thesis .
  next
    case False
    with s3 d2 show ?thesis by (simp add: when_stmt_def)
  qed
  show "n3 = 1 \<Longrightarrow> usage_read (su_day c) signup_key db3 = usage_read (su_day c) signup_key db + 1
       \<and> usage_read (su_day c) (su_ipKey c) db3 = usage_read (su_day c) (su_ipKey c) db + 1"
  proof -
    assume "n3 = 1"
    then have n2: "n2 = 1" and s3': "bump_usage (su_day c) signup_key
        (signup_admits (su_day c) (su_purgeBacklogLimit c)) n2 db2 = Inr (n3, db3)"
      using s3 by (auto simp: when_stmt_def split: if_splits)
    note b3 = bump_usage_read [OF b2(3) rs2 s3']
    have "usage_read (su_day c) (su_ipKey c) db3 = usage_read (su_day c) (su_ipKey c) db2"
      using b3(5) [of "su_day c" "su_ipKey c"] assms(2) by (simp add: usage_read_def)
    then show ?thesis using b3(4) b2(4) n2 \<open>n3 = 1\<close> ri(2) rs(2) by simp
  qed
qed

lemma insert_stmt_run:
  "insert_stmt u g c db = (if u (g db) then Inr (1, g db) else Inl UniqueViolation)"
  by (simp add: insert_stmt_def Let_def)

lemma run_stmts_Cons:
  "run_stmts (s # ss) c db = Inr (ns, db') \<longleftrightarrow>
     (\<exists>n db1 ns'. s c db = Inr (n, db1) \<and> run_stmts ss n db1 = Inr (ns', db') \<and> ns = n # ns')"
  by (auto split: sum.splits prod.splits)

text \<open>
  What a committed sign-up batch leaves: the third statement's count decides between one new
  workspace with its owner and no change to either table.
\<close>

lemma signup_committed:
  assumes ok: "db_ok db" and ip: "su_ipKey c \<notin> {signup_key, signup_closed_key}"
    and fresh: "workspace_get (su_tenantId c) db = None"
    and run: "run_stmts (signup_stmts c) 0 db = Inr (ns, db')"
  shows "ns ! 2 = (if admissible c db then 1 else 0)
    \<and> (admissible c db \<longrightarrow> db_workspace db' = db_workspace db @ [new_trial c]
         \<and> db_account db' = db_account db @ [new_owner c]
         \<and> usage_read (su_day c) signup_key db' = usage_read (su_day c) signup_key db + 1
         \<and> usage_read (su_day c) (su_ipKey c) db' = usage_read (su_day c) (su_ipKey c) db + 1)
    \<and> (\<not> admissible c db \<longrightarrow> db_workspace db' = db_workspace db \<and> db_account db' = db_account db)
    \<and> db_setting db' = db_setting db"
proof -
  from run obtain n1 n2 n3 n4 n5 n6 db2 db3 db4 db5 where
    s2: "bump_usage (su_day c) (su_ipKey c) (\<lambda>db v. v < 2) n1 (signup_db1 c db) = Inr (n2, db2)"
    and s3: "when_stmt (\<lambda>changes db. changes = 1)
        (bump_usage (su_day c) signup_key (signup_admits (su_day c) (su_purgeBacklogLimit c))) n2 db2
        = Inr (n3, db3)"
    and s4: "when_stmt (\<lambda>changes db. changes = 1) (insert_workspace (new_trial c)) n3 db3 = Inr (n4, db4)"
    and s5: "when_stmt (\<lambda>changes db. workspace_get (su_tenantId c) db \<noteq> None)
        (insert_account (new_owner c)) n4 db4 = Inr (n5, db5)"
    and s6: "db' = db5\<lparr>db_pending := del (\<lambda>p. pending_key p = (su_emailHmac c, PSignup)) (db_pending db5)\<rparr>"
    and ns: "ns = [n1, n2, n3, n4, n5, n6]"
    unfolding signup_stmts_def run_stmts_Cons
    by (auto simp: ok_stmt_def signup_db1_def Let_def)
  note cnt = signup_counters [OF ok ip s2 s3]
  have w3: "db_workspace db3 = db_workspace db" "db_account db3 = db_account db"
    "db_setting db3 = db_setting db" by (subst cnt(2), simp)+
  have g3: "workspace_get (su_tenantId c) db3 = None"
    using fresh w3 by (simp add: workspace_get_def)
  show ?thesis
  proof (cases "admissible c db")
    case True
    with cnt(1) have n3: "n3 = 1" by simp
    with s4 have d4: "db4 = db3\<lparr>db_workspace := db_workspace db3 @ [new_trial c]\<rparr>"
      by (auto simp: when_stmt_def insert_workspace_def insert_stmt_run split: if_splits)
    have "workspace_get (su_tenantId c) db4 \<noteq> None"
      using g3 by (simp add: d4 workspace_get_def sel1_append new_trial_def)
    with s5 have d5: "db5 = db4\<lparr>db_account := db_account db4 @ [new_owner c]\<rparr>"
      by (auto simp: when_stmt_def insert_account_def insert_stmt_run split: if_splits)
    show ?thesis
      using True n3 w3 cnt(3) [OF n3] by (simp add: s6 d5 d4 ns usage_read_def)
  next
    case False
    with cnt(1) have n3: "n3 = 0" by simp
    with s4 have d4: "db4 = db3" by (simp add: when_stmt_def)
    with s5 g3 have d5: "db5 = db3" by (simp add: when_stmt_def)
    show ?thesis using False n3 w3 by (simp add: s6 d5 d4 ns)
  qed
qed


definition demo_signup :: SignupCommand where
  "demo_signup =
     \<lparr>su_day = ''2025-01-01'', su_ipKey = ''ip:9'', su_userId = ''u1'', su_tenantId = ''t1'',
      su_emailHmac = ''h1'', su_emailEnc = ''e1'', su_locale = EnUS, su_now = 1000,
      su_trialExpiresAt = 2000, su_purgeBacklogLimit = 20\<rparr>"

lemma demo_signup_created: "fst (signup demo_signup empty_db) = Inr Created"
  by code_simp


subsection \<open>Sessions\<close>

lemma keyed_count_le:
  "keyed k t \<Longrightarrow> (\<And>r. r \<in> set t \<Longrightarrow> p r \<Longrightarrow> k r \<in> set ids) \<Longrightarrow> hits p t \<le> length ids"
proof -
  assume kt: "keyed k t" and sub: "\<And>r. r \<in> set t \<Longrightarrow> p r \<Longrightarrow> k r \<in> set ids"
  have "distinct (map k (filter p t))" using kt by (simp add: keyed_def distinct_map_filter)
  moreover have "set (map k (filter p t)) \<subseteq> set ids" using sub by auto
  ultimately have "length (map k (filter p t)) \<le> card (set ids)"
    by (metis card_mono distinct_card List.finite_set)
  also have "\<dots> \<le> length ids" by (rule card_length)
  finally show ?thesis by (simp add: hits_def)
qed

lemma session_create_run:
  assumes "session_create s m db = (Inr ns, db')"
  shows "\<exists>t. t = db_session db @ [s] \<and> session_uniq t
    \<and> db' = db\<lparr>db_session := del (\<lambda>r. ss_userId r = ss_userId s
          \<and> ss_id r \<notin> set (newest_sessions (ss_userId s) m t)) t\<rparr>"
  using assms
  by (auto simp: session_create_def batch_def insert_stmt_run ok_stmt_def Let_def split: if_splits)

text \<open>C6: a user never holds more sessions than the cap. After every successful sign-in the user has
at most \<open>maxSessions\<close> sessions, each of them the new one or one the user already had, and no other
user's session is touched.\<close>

theorem session_cap:
  assumes "session_create s m db = (Inr ns, db')"
  shows "hits (\<lambda>r. ss_userId r = ss_userId s) (db_session db') \<le> m
    \<and> set (db_session db') \<subseteq> insert s (set (db_session db))
    \<and> (\<forall>r \<in> set (db_session db). ss_userId r \<noteq> ss_userId s \<longrightarrow> r \<in> set (db_session db'))"
proof -
  obtain t where t: "t = db_session db @ [s]" "session_uniq t"
    "db' = db\<lparr>db_session := del (\<lambda>r. ss_userId r = ss_userId s
          \<and> ss_id r \<notin> set (newest_sessions (ss_userId s) m t)) t\<rparr>"
    using session_create_run [OF assms] by blast
  have "hits (\<lambda>r. ss_userId r = ss_userId s) (db_session db')
      \<le> length (newest_sessions (ss_userId s) m t)"
    by (rule keyed_count_le [of ss_id]) (use t in \<open>auto simp: session_uniq_def\<close>)
  also have "\<dots> \<le> m" by (simp add: newest_sessions_def)
  finally show ?thesis using t by auto
qed

definition demo_db :: idb where
  "demo_db = snd (signup demo_signup empty_db)"

definition demo_session :: "string \<Rightarrow> time \<Rightarrow> SessionRecord" where
  "demo_session i now =
     \<lparr>ss_id = i, ss_userId = ''u1'', ss_familyId = ''f'' @ i, ss_refreshHash = ''r'' @ i,
      ss_amr = [AmrOtp], ss_client = None, ss_createdAt = now, ss_expiresAt = now + 500\<rparr>"

lemma demo_db_ok: "db_ok demo_db"
  unfolding demo_db_def by (rule db_ok_signup [OF db_ok_empty])

lemma demo_session_created: "fst (session_create (demo_session ''s1'' 1100) 1 demo_db) = Inr [1, 0]"
  unfolding demo_db_def by code_simp

theorem session_cap_witness:
  "hits (\<lambda>r. ss_userId r = ''u1'') (db_session (snd (session_create (demo_session ''s1'' 1100) 1 demo_db))) \<le> 1"
  using session_cap [of "demo_session ''s1'' 1100" 1 demo_db "[1, 0]"] demo_session_created
  by (cases "session_create (demo_session ''s1'' 1100) 1 demo_db") (simp add: demo_session_def)

lemma session_rotate_run:
  assumes "session_rotate s h e db = (Inr b, db')"
  shows "\<exists>t. t = upd (\<lambda>r. ss_id r = ss_id s \<and> ss_refreshHash r = ss_refreshHash s)
          (\<lambda>r. r\<lparr>ss_refreshHash := h, ss_expiresAt := e\<rparr>) (db_session db)
    \<and> session_uniq t \<and> db_session db' = t
    \<and> b = (hits (\<lambda>r. ss_id r = ss_id s \<and> ss_refreshHash r = ss_refreshHash s) (db_session db) = 1)
    \<and> (b \<longrightarrow> sel1 (\<lambda>r. rt_refreshHash r = ss_refreshHash s) (db_rotated db') \<noteq> None)
    \<and> (b \<and> sel1 (\<lambda>r. rt_refreshHash r = ss_refreshHash s) (db_rotated db) = None \<longrightarrow>
         findRotated (ss_refreshHash s) db' = Some (ss_familyId s))"
  using assms
  by (auto simp: session_rotate_def rotate_stmts_def batch_def when_stmt_def ok_stmt_def Let_def
      findRotated_def sel1_append split: if_splits)

lemma rotation_effect:
  assumes "db_ok db" "session_rotate s h e db = (Inr True, db')" "h \<noteq> ss_refreshHash s"
    "sel1 (\<lambda>r. rt_refreshHash r = ss_refreshHash s) (db_rotated db) = None"
  shows "session_findByHash (ss_refreshHash s) db' = None
    \<and> findRotated (ss_refreshHash s) db' = Some (ss_familyId s)
    \<and> (\<forall>h2 e2 b2. fst (session_rotate s h2 e2 db') = Inr b2 \<longrightarrow> \<not> b2)"
proof -
  let ?w = "\<lambda>r. ss_id r = ss_id s \<and> ss_refreshHash r = ss_refreshHash s"
  have t: "db_session db' = upd ?w (\<lambda>r. r\<lparr>ss_refreshHash := h, ss_expiresAt := e\<rparr>) (db_session db)"
    and one: "hits ?w (db_session db) = 1"
    and rot: "findRotated (ss_refreshHash s) db' = Some (ss_familyId s)"
    using session_rotate_run [OF assms(2)] assms(4) by auto
  obtain r0 where r0: "r0 \<in> set (db_session db)" "?w r0"
    using one hits_0 [of ?w "db_session db"] by auto
  have only: "r = r0" if "r \<in> set (db_session db)" "ss_refreshHash r = ss_refreshHash s" for r
    using keyed_eqD [OF db_ok_tables(4) [OF assms(1)] that(1) r0(1)] that(2) r0(2) by simp
  have gone: "\<forall>r \<in> set (db_session db'). ss_refreshHash r \<noteq> ss_refreshHash s"
    using only r0 assms(3) by (auto simp: t set_upd)
  then have "hits ?w (db_session db') = 0" by (auto simp: hits_0)
  then have "\<not> b2" if "session_rotate s h2 e2 db' = (Inr b2, d)" for h2 e2 b2 d
    using session_rotate_run [OF that] by auto
  then have "\<forall>h2 e2 b2. fst (session_rotate s h2 e2 db') = Inr b2 \<longrightarrow> \<not> b2"
    by (metis prod.collapse)
  with gone rot show ?thesis by (simp add: session_findByHash_def sel1_None)
qed

text \<open>C7: refresh rotation has exactly one winner. When a rotation of a session's refresh token
succeeds, the old token opens no session any more and is remembered with its family, so that its
replay can be detected; and a second rotation from the same session record answers false.\<close>

theorem rotation_single_winner:
  assumes "db_ok db" "session_rotate s h e db = (Inr True, db')" "h \<noteq> ss_refreshHash s"
    "sel1 (\<lambda>r. rt_refreshHash r = ss_refreshHash s) (db_rotated db) = None"
  shows "session_findByHash (ss_refreshHash s) db' = None
    \<and> findRotated (ss_refreshHash s) db' = Some (ss_familyId s)
    \<and> (\<forall>h2 e2 b2. fst (session_rotate s h2 e2 db') = Inr b2 \<longrightarrow> \<not> b2)"
  using rotation_effect [OF assms] .

definition demo_db2 :: idb where
  "demo_db2 = snd (session_create (demo_session ''s1'' 1100) 1 demo_db)"

theorem rotation_single_winner_witness:
  "session_findByHash ''rs1'' (snd (session_rotate (demo_session ''s1'' 1100) ''new'' 1700 demo_db2)) = None"
proof -
  have "fst (session_rotate (demo_session ''s1'' 1100) ''new'' 1700 demo_db2) = Inr True"
    unfolding demo_db2_def demo_db_def by code_simp
  then have r: "session_rotate (demo_session ''s1'' 1100) ''new'' 1700 demo_db2
      = (Inr True, snd (session_rotate (demo_session ''s1'' 1100) ''new'' 1700 demo_db2))"
    by (simp add: prod_eq_iff)
  have "sel1 (\<lambda>r. rt_refreshHash r = ss_refreshHash (demo_session ''s1'' 1100)) (db_rotated demo_db2) = None"
    unfolding demo_db2_def demo_db_def by code_simp
  moreover have "db_ok demo_db2"
    unfolding demo_db2_def by (rule db_ok_session_create [OF demo_db_ok])
  ultimately show ?thesis
    using rotation_single_winner [OF _ r] by (simp add: demo_session_def)
qed

end
