(* ===== verification/DbSteps.thy ===== *)
theory DbSteps
  imports DbLifecycle
begin

section \<open>Every database the repositories can reach\<close>

text \<open>
  One step is one repository call that writes, with any arguments: services, cron and the admin
  console interleave such calls freely. The properties here hold of every sequence of them from the
  database the migration leaves.
\<close>

inductive db_step :: "idb \<Rightarrow> idb \<Rightarrow> bool" where
  s_usage_tryTake: "db_step db (snd (usage_tryTake day key n cap db))"
| s_usage_adjust: "db_step db (usage_adjust day key delta db)"
| s_usage_set: "db_step db (usage_set day key v db)"
| s_usage_sweep: "db_step db (usage_sweep day db)"
| s_writeTombstone: "db_step db (writeTombstone tid now db)"
| s_sweepTombstones: "db_step db (sweepTombstones now db)"
| s_ledger_create: "db_step db (snd (ledger_create l db))"
| s_ledger_update: "db_step db (snd (ledger_update tid t p now db))"
| s_ledger_delete: "db_step db (ledger_delete tid db)"
| s_ledger_deleteOrphans: "db_step db (snd (ledger_deleteOrphans db))"
| s_archive_upsert: "db_step db (snd (archive_upsert a db))"
| s_archive_finalDelete: "db_step db (archive_finalDelete tid now db)"
| s_endTrial: "db_step db (snd (endTrial tid now db))"
| s_setTrialExpiry: "db_step db (snd (setTrialExpiry tid t db))"
| s_setDeleteMode: "db_step db (snd (setDeleteMode tid m db))"
| s_expire: "db_step db (snd (expire tid now db))"
| s_markArchiving: "db_step db (markArchiving tid db)"
| s_deleteAccount: "db_step db (snd (deleteAccount tid now db))"
| s_updateProfile: "db_step db (updateProfile u l tz db)"
| s_setBanned: "db_step db (setBanned u b db)"
| s_replaceEmail: "db_step db (snd (replaceEmail u h e db))"
| s_createAdmin: "db_step db (snd (createAdmin cmd db))"
| s_signup: "db_step db (snd (signup c db))"
| s_claimReminder: "db_step db (snd (claimReminder u now db))"
| s_releaseReminder: "db_step db (releaseReminder u db)"
| s_putPending: "db_step db (putPending h pu pc db)"
| s_bumpAttempts: "db_step db (snd (bumpAttempts h pu db))"
| s_deletePending: "db_step db (deletePending h pu db)"
| s_takeSend: "db_step db (snd (takeSend h day mx db))"
| s_recordFailure: "db_step db (snd (recordFailure h day db))"
| s_code_lock: "db_step db (code_lock h day t db)"
| s_code_sweep: "db_step db (code_sweep now day db)"
| s_session_create: "db_step db (snd (session_create s k db))"
| s_session_rotate: "db_step db (snd (session_rotate s h t db))"
| s_session_delete: "db_step db (snd (session_delete_where w db))"
| s_setAmr: "db_step db (setAmr i amr db)"
| s_session_sweep: "db_step db (session_sweep now db)"
| s_passkey_insert: "db_step db (snd (passkey_insert pk db))"
| s_updateCounter: "db_step db (snd (updateCounter i e x now db))"
| s_deleteKeeping: "db_step db (snd (deleteKeeping i u k db))"
| s_passkey_deleteAll: "db_step db (passkey_deleteAll u db)"
| s_putChallenge: "db_step db (snd (putChallenge ch u cp t db))"
| s_consumeChallenge: "db_step db (snd (consumeChallenge ch u cp now db))"
| s_replaceRecoveryCodes: "db_step db (snd (replaceRecoveryCodes hs db))"
| s_useRecoveryCode: "db_step db (snd (useRecoveryCode h now db))"
| s_setFlagOnce: "db_step db (snd (setFlagOnce key now db))"
| s_clearFlag: "db_step db (clearFlag key db)"
| s_sweepChallenges: "db_step db (sweepChallenges now db)"
| s_settings_patch: "db_step db (snd (settings_patch sp m v db))"
| s_replaceDomains: "db_step db (replaceDomains ds now db)"
| s_blockEmail: "db_step db (blockEmail h now db)"
| s_unblockEmail: "db_step db (unblockEmail h db)"
| s_audit_append: "db_step db (snd (audit_append ar db))"
| s_audit_sweep: "db_step db (snd (audit_sweep dbNow before db))"
| s_markNotified: "db_step db (markNotified i now db)"
| s_markApplied: "db_step db (snd (markApplied i now db))"
| s_flag_setOnce: "db_step db (snd (flag_setOnce key v now db))"
| s_flag_setValue: "db_step db (flag_setValue key v db)"
| s_flag_clear: "db_step db (flag_clear key db)"

inductive db_reachable :: "idb \<Rightarrow> bool" where
  start: "db_reachable empty_db"
| step: "db_reachable db \<Longrightarrow> db_step db db' \<Longrightarrow> db_reachable db'"

inductive_cases db_stepE: "db_step db db'"

lemma db_step_ok: "db_step db db' \<Longrightarrow> db_ok db \<Longrightarrow> db_ok db'"
  by (induction rule: db_step.induct) (simp_all only: db_oks)

lemma reachable_ok: "db_reachable db \<Longrightarrow> db_ok db"
  by (induction rule: db_reachable.induct) (auto intro: db_ok_empty db_step_ok)

text \<open>C2: the schema holds in every reachable database: keys are unique, foreign keys resolve, at most
one workspace and one account are the admin's, the admin workspace is ACTIVE without an end and every
trial has one, and the settings are in range, whatever calls were made in whatever order.\<close>

theorem reachable_schema:
  assumes "db_reachable db"
  shows "db_ok db
    \<and> at_most_one (\<lambda>a. ac_role a = Admin) (db_account db)
    \<and> (\<forall>w \<in> set (db_workspace db). ws_kind w = AdminWs \<longrightarrow> ws_status w = ACTIVE \<and> ws_trialExpiresAt w = None)
    \<and> (\<forall>w \<in> set (db_workspace db). ws_kind w = Trial \<longrightarrow> ws_trialExpiresAt w \<noteq> None)"
  using reachable_ok [OF assms]
  by (auto simp: db_ok_defs workspace_check_def)

theorem reachable_schema_witness:
  "db_ok (snd (createAdmin \<lparr>ad_userId = ''u'', ad_tenantId = ''t'', ad_emailHmac = ''h'',
     ad_emailEnc = ''e'', ad_now = 3\<rparr> empty_db))"
  by (rule reachable_schema [THEN conjunct1]) (rule db_reachable.step [OF db_reachable.start s_createAdmin])

subsection \<open>Workspaces\<close>

fun ws_edge :: "WorkspaceStatus \<Rightarrow> WorkspaceStatus \<Rightarrow> bool" where
  "ws_edge ACTIVE s = (s \<noteq> ARCHIVING)"
| "ws_edge EXPIRED s = True"
| "ws_edge ARCHIVING s = (s = ARCHIVING)"

lemma ws_edge_refl [simp]: "ws_edge s s"
  by (cases s) simp_all

text \<open>What one step does to the workspace table, seen from a row that is in it.\<close>

definition ws_moves :: "idb \<Rightarrow> idb \<Rightarrow> bool" where
  "ws_moves db db' \<longleftrightarrow>
     (\<forall>w \<in> set (db_workspace db). \<forall>w' \<in> set (db_workspace db').
        ws_tenantId w' = ws_tenantId w \<longrightarrow>
          ws_edge (ws_status w) (ws_status w')
          \<and> (has_ledger (ws_tenantId w) db \<and> ws_status w = EXPIRED \<longrightarrow> ws_status w' \<noteq> ACTIVE))"

lemma ws_moves_same: "db_ok db \<Longrightarrow> set (db_workspace db') \<subseteq> set (db_workspace db) \<Longrightarrow> ws_moves db db'"
  unfolding ws_moves_def
proof (intro ballI impI)
  fix w w' assume a: "db_ok db" "set (db_workspace db') \<subseteq> set (db_workspace db)"
    "w \<in> set (db_workspace db)" "w' \<in> set (db_workspace db')" "ws_tenantId w' = ws_tenantId w"
  then have "w' = w" using keyed_eqD [OF db_ok_tables(21) [OF a(1)], of w' w] by auto
  then show "ws_edge (ws_status w) (ws_status w')
          \<and> (has_ledger (ws_tenantId w) db \<and> ws_status w = EXPIRED \<longrightarrow> ws_status w' \<noteq> ACTIVE)" by simp
qed

lemma ws_moves_update:
  assumes ok: "db_ok db" and up: "\<And>r. ws_tenantId (f r) = ws_tenantId r"
    and edge: "\<And>r. ws_tenantId r = t \<Longrightarrow> p r \<Longrightarrow> ws_edge (ws_status r) (ws_status (f r))"
    and led: "\<And>r. ws_tenantId r = t \<Longrightarrow> p r \<Longrightarrow> has_ledger t db \<Longrightarrow> ws_status r = EXPIRED \<Longrightarrow>
      ws_status (f r) \<noteq> ACTIVE"
  shows "ws_moves db (snd (workspace_update t p f db))"
  unfolding ws_moves_def
proof (intro ballI impI)
  fix w w' assume w: "w \<in> set (db_workspace db)"
    and w': "w' \<in> set (db_workspace (snd (workspace_update t p f db)))" "ws_tenantId w' = ws_tenantId w"
  from w'(1) obtain r where r: "r \<in> set (db_workspace db)"
    "w' = (if ws_tenantId r = t \<and> p r then f r else r)"
    by (auto simp: workspace_update_def Let_def set_upd)
  then have "ws_tenantId r = ws_tenantId w" using w'(2) up by (auto split: if_splits)
  with r(1) w have "r = w" using keyed_eqD [OF db_ok_tables(21) [OF ok]] by auto
  with r(2) edge led show "ws_edge (ws_status w) (ws_status w')
          \<and> (has_ledger (ws_tenantId w) db \<and> ws_status w = EXPIRED \<longrightarrow> ws_status w' \<noteq> ACTIVE)"
    by auto
qed

text \<open>The operations that leave accounts and workspaces alone.\<close>

definition same_tenants :: "idb \<Rightarrow> idb \<Rightarrow> bool" where
  "same_tenants db db' \<longleftrightarrow> db_workspace db' = db_workspace db \<and> db_account db' = db_account db"

named_theorems frames "operations that leave accounts and workspaces alone"

lemma frame_batch:
  assumes "list_all (stmt_keeps (same_tenants db)) ss"
  shows "same_tenants db (snd (batch ss db))"
  using batch_keeps [OF assms] by (simp add: same_tenants_def)

lemma keeps_frame_ok: "(\<And>c d. same_tenants d (snd (f c d))) \<Longrightarrow> stmt_keeps (same_tenants db) (ok_stmt f)"
proof (rule stmt_keepsI)
  fix c d n d' assume f: "\<And>c d. same_tenants d (snd (f c d))" "same_tenants db d" "ok_stmt f c d = Inr (n, d')"
  then show "same_tenants db d'" using f(1) [of d c] by (simp add: ok_stmt_def same_tenants_def)
qed

lemma keeps_frame_insert:
  "(\<And>d. same_tenants d (g d)) \<Longrightarrow> stmt_keeps (same_tenants db) (insert_stmt u g)"
  by (auto simp: stmt_keeps_def insert_stmt_run same_tenants_def split: if_splits)

lemma keeps_frame_when: "stmt_keeps (same_tenants db) s \<Longrightarrow> stmt_keeps (same_tenants db) (when_stmt p s)"
  by (auto simp: stmt_keeps_def when_stmt_def split: if_splits)

lemma frames_usage [frames]:
  "same_tenants db (snd (usage_tryTake day key n cap db))" "same_tenants db (usage_adjust day key delta db)"
  "same_tenants db (usage_set day key v db)" "same_tenants db (usage_sweep day db)"
  by (simp_all add: same_tenants_def usage_tryTake_def usage_adjust_def usage_set_def usage_sweep_def Let_def)

lemma frames_ledger [frames]:
  "same_tenants db (writeTombstone tid now db)" "same_tenants db (sweepTombstones now db)"
  "same_tenants db (snd (ledger_create l db))" "same_tenants db (snd (ledger_update tid t p now db))"
  "same_tenants db (ledger_delete tid db)" "same_tenants db (snd (ledger_deleteOrphans db))"
  "same_tenants db (snd (archive_upsert a db))" "same_tenants db (archive_finalDelete tid now db)"
  by (simp_all add: same_tenants_def writeTombstone_def sweepTombstones_def ledger_create_def ledger_update_def
      ledger_delete_def ledger_deleteOrphans_def archive_upsert_def archive_finalDelete_def Let_def)

lemma frames_codes [frames]:
  "same_tenants db (putPending h pu pc db)" "same_tenants db (snd (bumpAttempts h pu db))"
  "same_tenants db (deletePending h pu db)" "same_tenants db (snd (takeSend h day mx db))"
  "same_tenants db (snd (recordFailure h day db))" "same_tenants db (code_lock h day t db)"
  "same_tenants db (code_sweep now day db)"
  by (simp_all add: same_tenants_def putPending_def bumpAttempts_def deletePending_def takeSend_def
      recordFailure_def code_lock_def code_sweep_def Let_def)

lemma frames_sessions [frames]:
  "same_tenants db (snd (session_create s k db))" "same_tenants db (snd (session_rotate s h t db))"
  "same_tenants db (snd (session_delete_where w db))" "same_tenants db (setAmr i amr db)"
  "same_tenants db (session_sweep now db)"
proof -
  show "same_tenants db (snd (session_create s k db))"
    unfolding session_create_def
    by (rule frame_batch) (auto intro!: keeps_frame_ok keeps_frame_insert simp: same_tenants_def Let_def)
  have "same_tenants db (snd (batch (rotate_stmts s h t) db))"
    unfolding rotate_stmts_def
    by (rule frame_batch)
      (auto intro!: stmt_keepsI simp: same_tenants_def Let_def when_stmt_def ok_stmt_def split: if_splits)
  then show "same_tenants db (snd (session_rotate s h t db))"
    by (auto simp: session_rotate_def split: prod.split sum.split)
qed (simp_all add: same_tenants_def session_delete_where_def setAmr_def session_sweep_def)

lemma frames_passkeys [frames]:
  "same_tenants db (snd (passkey_insert pk db))" "same_tenants db (snd (updateCounter i e x now db))"
  "same_tenants db (snd (deleteKeeping i u k db))" "same_tenants db (passkey_deleteAll u db)"
  "same_tenants db (snd (putChallenge ch u cp t db))" "same_tenants db (snd (consumeChallenge ch u cp now db))"
  "same_tenants db (snd (replaceRecoveryCodes hs db))" "same_tenants db (snd (useRecoveryCode h now db))"
  "same_tenants db (snd (setFlagOnce key now db))" "same_tenants db (clearFlag key db)"
  "same_tenants db (sweepChallenges now db)"
proof -
  show "same_tenants db (snd (passkey_insert pk db))" "same_tenants db (snd (putChallenge ch u cp t db))"
    "same_tenants db (snd (replaceRecoveryCodes hs db))"
    unfolding passkey_insert_def putChallenge_def replaceRecoveryCodes_def
    by (rule frame_batch; auto intro!: keeps_frame_ok keeps_frame_insert simp: same_tenants_def list_all_iff)+
qed (simp_all add: same_tenants_def updateCounter_def deleteKeeping_def passkey_deleteAll_def
    consumeChallenge_def useRecoveryCode_def setFlagOnce_def clearFlag_def sweepChallenges_def Let_def)

lemma frames_platform [frames]:
  "same_tenants db (snd (settings_patch sp m v db))" "same_tenants db (replaceDomains ds now db)"
  "same_tenants db (blockEmail h now db)" "same_tenants db (unblockEmail h db)"
  "same_tenants db (snd (audit_append ar db))" "same_tenants db (snd (audit_sweep dbNow before db))"
  "same_tenants db (markNotified i now db)" "same_tenants db (snd (markApplied i now db))"
  "same_tenants db (snd (flag_setOnce key x now db))" "same_tenants db (flag_setValue key x db)"
  "same_tenants db (flag_clear key db)"
  by (simp_all add: same_tenants_def settings_patch_def replaceDomains_def blockEmail_def unblockEmail_def
      audit_append_def audit_sweep_def markNotified_def markApplied_def flag_setOnce_def flag_setValue_def
      flag_clear_def Let_def)

lemma ws_moves_frame: "db_ok db \<Longrightarrow> same_tenants db db' \<Longrightarrow> ws_moves db db'"
  by (rule ws_moves_same) (simp_all add: same_tenants_def)

lemma ws_moves_insert:
  assumes "db_ok db" "db_ok db'" "set (db_workspace db') \<subseteq> insert r (set (db_workspace db))"
    "set (db_workspace db) \<subseteq> set (db_workspace db')"
  shows "ws_moves db db'"
  unfolding ws_moves_def
proof (intro ballI impI)
  fix w w' assume a: "w \<in> set (db_workspace db)" "w' \<in> set (db_workspace db')" "ws_tenantId w' = ws_tenantId w"
  then have "w' = w" using keyed_eqD [OF db_ok_tables(21) [OF assms(2)], of w' w] assms(4) by auto
  then show "ws_edge (ws_status w) (ws_status w')
          \<and> (has_ledger (ws_tenantId w) db \<and> ws_status w = EXPIRED \<longrightarrow> ws_status w' \<noteq> ACTIVE)" by simp
qed

subsection \<open>Inserts and the account deletion\<close>

definition grows :: "WorkspaceRecord \<Rightarrow> idb \<Rightarrow> idb \<Rightarrow> bool" where
  "grows w db d \<longleftrightarrow> set (db_workspace db) \<subseteq> set (db_workspace d)
     \<and> set (db_workspace d) \<subseteq> insert w (set (db_workspace db))
     \<and> set (db_account db) \<subseteq> set (db_account d)"

lemma grows_refl: "grows w db db"
  by (auto simp: grows_def)

lemma grows_signup: "grows (new_trial c) db (snd (signup c db))"
proof -
  have "list_all (stmt_keeps (grows (new_trial c) db)) (signup_stmts c)"
    unfolding signup_stmts_def
    by (auto intro!: stmt_keepsI
        simp: grows_def when_stmt_def ok_stmt_def bump_usage_def insert_workspace_def insert_account_def
          insert_stmt_run Let_def split: if_splits)
  from batch_keeps [OF this grows_refl] show ?thesis
    by (auto simp: signup_def split: prod.split sum.split)
qed

lemma grows_createAdmin: "\<exists>w. grows w db (snd (createAdmin cmd db))"
proof -
  obtain w a where ss: "createAdmin_stmts cmd = [insert_workspace w, insert_account a]"
    by (simp add: createAdmin_stmts_def)
  have "list_all (stmt_keeps (grows w db)) (createAdmin_stmts cmd)"
    unfolding ss
    by (auto intro!: stmt_keepsI
        simp: grows_def insert_workspace_def insert_account_def insert_stmt_run split: if_splits)
  from batch_keeps [OF this grows_refl] have "grows w db (snd (createAdmin cmd db))"
    by (auto simp: createAdmin_def split: prod.split sum.split)
  then show ?thesis by blast
qed

definition admin_kept :: "idb \<Rightarrow> idb \<Rightarrow> bool" where
  "admin_kept db db' \<longleftrightarrow>
     (\<forall>a \<in> set (db_account db). ac_role a = Admin \<longrightarrow>
        (\<exists>a' \<in> set (db_account db'). ac_role a' = Admin \<and> ac_userId a' = ac_userId a
           \<and> ac_tenantId a' = ac_tenantId a))
     \<and> (\<forall>w \<in> set (db_workspace db). ws_kind w = AdminWs \<longrightarrow> w \<in> set (db_workspace db'))"

definition shrinks :: "idb \<Rightarrow> idb \<Rightarrow> bool" where
  "shrinks db d \<longleftrightarrow> set (db_workspace d) \<subseteq> set (db_workspace db)
     \<and> {w \<in> set (db_workspace db). ws_kind w = AdminWs} \<subseteq> set (db_workspace d)
     \<and> {a \<in> set (db_account db). ac_role a = Admin} \<subseteq> set (db_account d)"

lemma keeps_shrinks_ok:
  assumes "\<And>c d. shrinks db d \<Longrightarrow> shrinks db (snd (f c d))"
  shows "stmt_keeps (shrinks db) (ok_stmt f)"
proof (rule stmt_keepsI)
  fix c d n d' assume "shrinks db d" "ok_stmt f c d = Inr (n, d')"
  then show "shrinks db d'" using assms [of d c] by (simp add: ok_stmt_def)
qed

lemma shrinks_frame: "same_tenants d d' \<Longrightarrow> shrinks db d \<Longrightarrow> shrinks db d'"
  by (simp add: shrinks_def same_tenants_def)

lemma shrinks_del_account:
  "shrinks db d \<Longrightarrow> (\<And>a. w a \<Longrightarrow> ac_role a = Owner) \<Longrightarrow>
   shrinks db (d\<lparr>db_account := del w (db_account d)\<rparr>)"
  unfolding shrinks_def by fastforce

lemma shrinks_del_workspace:
  "shrinks db d \<Longrightarrow> (\<And>r. w r \<Longrightarrow> ws_kind r = Trial) \<Longrightarrow>
   shrinks db (d\<lparr>db_workspace := del w (db_workspace d)\<rparr>)"
  unfolding shrinks_def by fastforce

lemma shrinks_deleteAccount: "shrinks db (snd (deleteAccount tid now db))"
  unfolding deleteAccount_def Let_def list.pred_inject
proof (rule batch_keeps)
  show "shrinks db db" by (auto simp: shrinks_def)
qed (simp add: keeps_shrinks_ok shrinks_frame [rotated] same_tenants_def writeTombstone_def,
    auto intro!: keeps_shrinks_ok shrinks_del_account shrinks_del_workspace)

lemma admin_kept_frame: "same_tenants db db' \<Longrightarrow> admin_kept db db'"
  by (auto simp: same_tenants_def admin_kept_def)

lemma admin_kept_grows: "grows w db db' \<Longrightarrow> admin_kept db db'"
  by (auto simp: grows_def admin_kept_def)

lemma admin_kept_shrinks: "shrinks db db' \<Longrightarrow> admin_kept db db'"
  by (auto simp: shrinks_def admin_kept_def)

lemma admin_kept_update:
  "(\<And>r. p r \<Longrightarrow> ws_kind r = Trial) \<Longrightarrow> admin_kept db (snd (workspace_update t p f db))"
  by (force simp: admin_kept_def workspace_update_def Let_def set_upd image_iff)

lemma admin_kept_accounts:
  assumes "db_workspace db' = db_workspace db" "db_account db' = upd w f (db_account db)"
    "\<And>a. ac_role (f a) = ac_role a \<and> ac_userId (f a) = ac_userId a \<and> ac_tenantId (f a) = ac_tenantId a"
  shows "admin_kept db db'"
  unfolding admin_kept_def assms(1,2) set_upd
proof (intro conjI ballI impI)
  fix a assume "a \<in> set (db_account db)" "ac_role a = Admin"
  then show "\<exists>a' \<in> (\<lambda>r. if w r then f r else r) ` set (db_account db). ac_role a' = Admin
      \<and> ac_userId a' = ac_userId a \<and> ac_tenantId a' = ac_tenantId a"
    using assms(3) by (intro bexI [of _ "if w a then f a else a"]) auto
qed

lemmas workspace_updates = endTrial_def setTrialExpiry_def setDeleteMode_def expire_def markArchiving_def

lemma replaceEmail_cases:
  "snd (replaceEmail u h e db) = db \<or> snd (replaceEmail u h e db)
     = db\<lparr>db_account := upd (\<lambda>a. ac_userId a = u) (\<lambda>a. a\<lparr>ac_emailHmac := h, ac_emailEnc := e\<rparr>) (db_account db)\<rparr>"
  by (simp add: replaceEmail_def Let_def)

lemma same_workspaces:
  "db_workspace (updateProfile u l tz db) = db_workspace db" "db_workspace (setBanned u b db) = db_workspace db"
  "db_workspace (snd (replaceEmail u h e db)) = db_workspace db"
  "db_workspace (snd (claimReminder u now db)) = db_workspace db"
  "db_workspace (releaseReminder u db) = db_workspace db"
  by (simp_all add: updateProfile_def setBanned_def replaceEmail_def claimReminder_def releaseReminder_def Let_def)

lemma admin_kept_account_ops:
  "admin_kept db (updateProfile u l tz db)" "admin_kept db (setBanned u b db)"
  "admin_kept db (snd (replaceEmail u h e db))" "admin_kept db (snd (claimReminder u now db))"
  "admin_kept db (releaseReminder u db)"
proof -
  have "admin_kept db (db\<lparr>db_account := upd (\<lambda>a. ac_userId a = u)
      (\<lambda>a. a\<lparr>ac_emailHmac := h, ac_emailEnc := e\<rparr>) (db_account db)\<rparr>)"
    by (rule admin_kept_accounts, simp, simp, simp)
  moreover have "admin_kept db db" by (simp add: admin_kept_frame same_tenants_def)
  ultimately show "admin_kept db (snd (replaceEmail u h e db))"
    using replaceEmail_cases [of u h e db] by auto
  show "admin_kept db (updateProfile u l tz db)" "admin_kept db (setBanned u b db)"
    "admin_kept db (snd (claimReminder u now db))" "admin_kept db (releaseReminder u db)"
    unfolding updateProfile_def setBanned_def claimReminder_def releaseReminder_def Let_def snd_conv
    by (rule admin_kept_accounts, simp, simp, simp)+
qed

lemma admin_kept_createAdmin: "admin_kept db (snd (createAdmin cmd db))"
  using grows_createAdmin [of db cmd] admin_kept_grows by blast

lemma admin_kept_workspaces:
  "admin_kept db (snd (endTrial t now db))" "admin_kept db (snd (setTrialExpiry t till db))"
  "admin_kept db (snd (setDeleteMode t m db))" "admin_kept db (snd (expire t now db))"
  "admin_kept db (markArchiving t db)"
  unfolding workspace_updates by (rule admin_kept_update; simp)+

lemmas admin_kept_ops = admin_kept_account_ops admin_kept_workspaces admin_kept_createAdmin
  admin_kept_grows [OF grows_signup] admin_kept_shrinks [OF shrinks_deleteAccount]

lemma step_admin_kept: "db_step db db' \<Longrightarrow> admin_kept db db'"
  by (induction rule: db_step.induct)
    (simp_all only: admin_kept_ops frames [THEN admin_kept_frame])

text \<open>C4: no call ever loses, demotes or expires the administrator. Each step keeps every admin
account, with its user id and tenant, and keeps the admin workspace row exactly as it is.\<close>

theorem admin_never_lost:
  assumes "db_step db db'"
  shows "(\<forall>a \<in> set (db_account db). ac_role a = Admin \<longrightarrow>
        (\<exists>a' \<in> set (db_account db'). ac_role a' = Admin \<and> ac_userId a' = ac_userId a
           \<and> ac_tenantId a' = ac_tenantId a))
     \<and> (\<forall>w \<in> set (db_workspace db). ws_kind w = AdminWs \<longrightarrow> w \<in> set (db_workspace db'))"
  using step_admin_kept [OF assms] by (simp add: admin_kept_def)

definition demo_admin :: AdminCommand where
  "demo_admin = \<lparr>ad_userId = ''u0'', ad_tenantId = ''t0'', ad_emailHmac = ''h0'', ad_emailEnc = ''e0'', ad_now = 5\<rparr>"

definition demo_admin_db :: idb where
  "demo_admin_db = snd (createAdmin demo_admin empty_db)"

theorem admin_never_lost_witness:
  "\<exists>a' \<in> set (db_account (snd (deleteAccount ''t0'' 9 demo_admin_db))). ac_role a' = Admin \<and> ac_userId a' = ''u0''"
proof -
  have "map (\<lambda>a. (ac_role a, ac_userId a)) (db_account demo_admin_db) = [(Admin, ''u0'')]"
    unfolding demo_admin_db_def demo_admin_def by code_simp
  then obtain a where "a \<in> set (db_account demo_admin_db)" "ac_role a = Admin" "ac_userId a = ''u0''"
    by (cases "db_account demo_admin_db") auto
  then show ?thesis
    using admin_never_lost [OF s_deleteAccount, of demo_admin_db "''t0''" 9] by fastforce
qed

lemma ws_moves_workspaces:
  assumes "db_ok db"
  shows "ws_moves db (snd (endTrial t now db))" "ws_moves db (snd (setTrialExpiry t till db))"
    "ws_moves db (snd (setDeleteMode t m db))" "ws_moves db (snd (expire t now db))"
    "ws_moves db (markArchiving t db)"
  unfolding workspace_updates by (rule ws_moves_update [OF assms]; auto)+

lemma ws_moves_accounts:
  assumes "db_ok db"
  shows "ws_moves db (updateProfile u l tz db)" "ws_moves db (setBanned u b db)"
    "ws_moves db (snd (replaceEmail u h e db))" "ws_moves db (snd (claimReminder u now db))"
    "ws_moves db (releaseReminder u db)" "ws_moves db (snd (deleteAccount tid now db))"
  using shrinks_deleteAccount [of db tid now]
  by (auto intro!: ws_moves_same [OF assms] simp: same_workspaces shrinks_def)

lemma ws_moves_grows: "db_ok db \<Longrightarrow> db_ok db' \<Longrightarrow> grows w db db' \<Longrightarrow> ws_moves db db'"
  by (rule ws_moves_insert) (auto simp: grows_def)

lemma ws_moves_inserts:
  assumes "db_ok db"
  shows "ws_moves db (snd (signup c db))" "ws_moves db (snd (createAdmin cmd db))"
  using ws_moves_grows [OF assms db_ok_signup [OF assms] grows_signup]
    grows_createAdmin [of db cmd] ws_moves_grows [OF assms db_ok_createAdmin [OF assms]]
  by blast+

lemma step_ws_moves: "db_step db db' \<Longrightarrow> db_ok db \<Longrightarrow> ws_moves db db'"
  by (induction rule: db_step.induct)
    (simp_all only: ws_moves_workspaces ws_moves_accounts ws_moves_inserts ws_moves_frame [OF _ frames(1)] ws_moves_frame frames)

text \<open>C3: a workspace moves only along the life cycle. Between two databases one call apart, a
workspace that was ACTIVE is ACTIVE or EXPIRED, one that was ARCHIVING stays ARCHIVING for as long as
it exists, and one that is EXPIRED with a purge ledger is never active again: once the archive saga
has taken a workspace, no call brings it back.\<close>

theorem workspace_lifecycle:
  assumes "db_reachable db" "db_step db db'" "workspace_get t db = Some w" "workspace_get t db' = Some w'"
  shows "ws_edge (ws_status w) (ws_status w')
    \<and> (has_ledger t db \<and> ws_status w = EXPIRED \<longrightarrow> ws_status w' \<noteq> ACTIVE)"
  using step_ws_moves [OF assms(2) reachable_ok [OF assms(1)]] assms(3,4)
    sel1_Some [of "\<lambda>w. ws_tenantId w = t" "db_workspace db" w]
    sel1_Some [of "\<lambda>w. ws_tenantId w = t" "db_workspace db'" w']
  by (auto simp: ws_moves_def workspace_get_def)

theorem workspace_lifecycle_witness:
  "\<exists>w w'. workspace_get ''t1'' demo_db = Some w
     \<and> workspace_get ''t1'' (snd (endTrial ''t1'' 1500 demo_db)) = Some w'
     \<and> ws_edge (ws_status w) (ws_status w')"
proof -
  have "workspace_get ''t1'' demo_db \<noteq> None"
    "workspace_get ''t1'' (snd (endTrial ''t1'' 1500 demo_db)) \<noteq> None"
    unfolding demo_db_def by code_simp+
  then obtain w w' where w: "workspace_get ''t1'' demo_db = Some w"
    "workspace_get ''t1'' (snd (endTrial ''t1'' 1500 demo_db)) = Some w'" by blast
  have "db_reachable demo_db"
    unfolding demo_db_def by (rule db_reachable.step [OF db_reachable.start s_signup])
  from workspace_lifecycle [OF this s_endTrial w] w show ?thesis by blast
qed

end
