(* ===== verification/World.thy ===== *)
theory World
  imports DbSteps
begin

section \<open>The world a service call runs in\<close>

text \<open>
  A method of \<^verbatim>\<open>packages/identity/application\<close> is an effect over \<open>world\<close>: the D1 database, the
  clock (it stands still during one call), the position in the random stream, the number of calls
  made so far to services outside the worker, the objects of the B2 bucket and the e-mails handed
  to a provider. \<open>env\<close> holds what the code calls and does not define: WebCrypto, \<^verbatim>\<open>JSON.parse\<close>,
  time zone data, Turnstile, the mail providers, the five data services behind their RPC, B2, the
  presigner, \<^verbatim>\<open>fflate\<close>, WebAuthn and the analytics API. An outside service answers by the index
  of the call, so it may answer differently each time or throw. Logging is left out.
\<close>

datatype exn = App AppError | Db db_error | TypeErr | Ext string

text \<open>\<^verbatim>\<open>AppError.from\<close>: what is not an \<^verbatim>\<open>AppError\<close> becomes \<open>INTERNAL\<close> with its message.\<close>

fun exn_message :: "exn \<Rightarrow> string" where
  "exn_message (App e) = (case err_detail e of Some d \<Rightarrow> d | None \<Rightarrow> [])"
| "exn_message (Db UniqueViolation) = ''UNIQUE constraint failed''"
| "exn_message (Db ForeignKey) = ''FOREIGN KEY constraint failed''"
| "exn_message (Db CheckFailed) = ''CHECK constraint failed''"
| "exn_message (Db TriggerAbort) = ''aborted by trigger''"
| "exn_message TypeErr = ''TypeError''"
| "exn_message (Ext m) = m"

definition AppError_from :: "exn \<Rightarrow> AppError" where
  "AppError_from e =
     (case e of App a \<Rightarrow> a | _ \<Rightarrow> AppError_new INTERNAL (Some (exn_message e)) None None)"

subsection \<open>Configuration\<close>

record Ed25519Jwk =
  jw_x :: string
  jw_d :: "string option"
  jw_kid :: string

record IdentityConfig =
  cf_appOrigin :: string
  cf_trialHours :: int
  cf_archiveDays :: int
  cf_archiveDelayMin :: int
  cf_purgeBacklogLimit :: int
  cf_purgeRowsDaily :: int
  cf_maxSessions :: nat
  cf_adminSessionHours :: int
  cf_resendDailyCap :: int
  cf_resendMonthlyCap :: int
  cf_archiveLinkTtlS :: int
  cf_signingKey :: Ed25519Jwk
  cf_emailPepper :: string
  cf_emailEncKey :: string
  cf_bootstrapAdminEmail :: "string option"
  cf_bootstrapSetupCode :: "string option"
  cf_b2SignKeyId :: "string option"

definition ADMIN_LINK_TTL_S :: int where "ADMIN_LINK_TTL_S = 900"
definition CRON_reminders :: nat where "CRON_reminders = 5"
definition CRON_expirations :: nat where "CRON_expirations = 10"

subsection \<open>E-mails\<close>

datatype DeletedReason = ReasonEmpty | ReasonAdmin

datatype TemplateData =
    code_signup string
  | code_login string
  | code_terminate string
  | trial_reminder time string string
  | archive_ready string string int string time string
  | account_deleted DeletedReason
  | admin_new_device time string "string option" AuthMethod
  | admin_pending_change ChangeKind time string

fun isCodeTemplate :: "TemplateData \<Rightarrow> bool" where
  "isCodeTemplate (code_signup c) = True"
| "isCodeTemplate (code_login c) = True"
| "isCodeTemplate (code_terminate c) = True"
| "isCodeTemplate _ = False"

text \<open>
  A message keeps the template's data and the recipient's language in the place of the subject and
  the two bodies that \<^verbatim>\<open>renderEmail\<close> makes of them: nothing reads those but the provider.
\<close>

record EmailMessage =
  em_to :: string
  em_locale :: Locale
  em_template :: TemplateData
  em_priority :: MailPriority

record SendResult =
  sr_ok :: bool
  sr_status :: nat
  sr_channel :: "string option"
  sr_deferred :: "bool option"

subsection \<open>World and environment\<close>

record ExportPage_r =
  pg_file :: ArchiveFile
  pg_text :: string
  pg_nextCursor :: "string option"

datatype BlobOp = BPut | BGet | BHead | BDelete

record VerifiedRegistration =
  vr_credentialId :: string
  vr_publicKey :: string
  vr_counter :: int
  vr_transports :: "string list"

record world =
  w_db :: idb
  w_now :: time
  w_rand :: nat
  w_calls :: nat
  w_blobs :: "(string \<times> string list) list"
  w_mails :: "(string \<times> EmailMessage \<times> string) list"

type_synonym 'a io = "(world, exn, 'a) eff"
type_synonym 'a answer = "nat \<Rightarrow> exn + 'a"

record env =
  e_cfg :: IdentityConfig
  e_rnd :: "nat \<Rightarrow> nat"
  e_sha256 :: "string \<Rightarrow> string"
  e_hmac :: "string \<Rightarrow> string \<Rightarrow> string"
  e_encrypt :: "string \<Rightarrow> string \<Rightarrow> string \<Rightarrow> string"
  e_decrypt :: "string \<Rightarrow> string \<Rightarrow> string \<Rightarrow> string option"
  e_sign :: "Ed25519Jwk \<Rightarrow> string \<Rightarrow> string option"
  e_verify :: "Ed25519Jwk \<Rightarrow> string \<Rightarrow> string \<Rightarrow> bool"
  e_parse :: "string \<Rightarrow> json option"
  e_zone :: "string \<Rightarrow> bool"
  e_turnstile :: "string \<Rightarrow> string \<Rightarrow> bool answer"
  e_mailLog :: bool
  e_resend :: bool
  e_mail :: "string \<Rightarrow> EmailMessage \<Rightarrow> string \<Rightarrow> SendResult answer"
  e_export :: "LifecycleService \<Rightarrow> string \<Rightarrow> string option \<Rightarrow> ExportPage_r answer"
  e_purge :: "LifecycleService \<Rightarrow> string \<Rightarrow> int \<Rightarrow> (int \<times> bool) answer"
  e_count :: "LifecycleService \<Rightarrow> string \<Rightarrow> int answer"
  e_close :: "string \<Rightarrow> nat \<Rightarrow> unit answer"
  e_blobFails :: "BlobOp \<Rightarrow> nat \<Rightarrow> bool"
  e_headSize :: "nat \<Rightarrow> nat \<Rightarrow> nat"
  e_presign :: "string \<Rightarrow> int \<Rightarrow> string \<Rightarrow> string answer"
  e_zip :: "(string \<times> string) list \<Rightarrow> time \<Rightarrow> string"
  e_regOptions :: "string \<Rightarrow> string \<Rightarrow> (string \<times> string list) list \<Rightarrow> (json \<times> string) answer"
  e_authOptions :: "(string \<times> string list) list \<Rightarrow> (json \<times> string) answer"
  e_registration :: "json \<Rightarrow> string \<Rightarrow> VerifiedRegistration option answer"
  e_assertion :: "json \<Rightarrow> string \<Rightarrow> PasskeyRecord \<Rightarrow> int option answer"
  e_analytics :: "(string \<Rightarrow> (AnalyticsMetric \<Rightarrow> int option) answer) option"
  e_tenantStats :: "(string list \<Rightarrow> (string \<times> (int \<times> int)) list answer) option"

subsection \<open>Calls\<close>

definition fail :: "ErrorCode \<Rightarrow> 'a io" where
  "fail c = throw (App (app_error c))"

definition fail_d :: "ErrorCode \<Rightarrow> string \<Rightarrow> 'a io" where
  "fail_d c d = throw (App (app_error_d c d))"

definition now :: "time io" where
  "now = gets w_now"

text \<open>A read, a write without and with an answer, and a write that may violate a constraint.\<close>

definition query :: "(idb \<Rightarrow> 'a) \<Rightarrow> 'a io" where
  "query f = gets (\<lambda>w. f (w_db w))"

definition exec :: "(idb \<Rightarrow> idb) \<Rightarrow> unit io" where
  "exec f = modify (\<lambda>w. w\<lparr>w_db := f (w_db w)\<rparr>)"

definition run :: "(idb \<Rightarrow> 'a \<times> idb) \<Rightarrow> 'a io" where
  "run f = (\<lambda>w. case f (w_db w) of (a, db) \<Rightarrow> (Inr a, w\<lparr>w_db := db\<rparr>))"

definition attempt :: "(idb \<Rightarrow> (db_error + 'a) \<times> idb) \<Rightarrow> 'a io" where
  "attempt f = (\<lambda>w. case f (w_db w) of
     (Inr a, db) \<Rightarrow> (Inr a, w\<lparr>w_db := db\<rparr>) | (Inl e, db) \<Rightarrow> (Inl (Db e), w\<lparr>w_db := db\<rparr>))"

text \<open>A call to a service outside the worker.\<close>

definition external :: "'a answer \<Rightarrow> 'a io" where
  "external f = (\<lambda>w. (f (w_calls w), w\<lparr>w_calls := Suc (w_calls w)\<rparr>))"

definition randomBytes :: "env \<Rightarrow> nat \<Rightarrow> nat list io" where
  "randomBytes E n = (\<lambda>w.
     (Inr (map (\<lambda>i. e_rnd E (w_rand w + i) mod 256) [0..<n]), w\<lparr>w_rand := w_rand w + n\<rparr>))"

definition randomToken :: "env \<Rightarrow> nat \<Rightarrow> string io" where
  "randomToken E n = bnd (randomBytes E n) (\<lambda>b. ret (base64url (bytes b)))"

definition new_ulid :: "env \<Rightarrow> time \<Rightarrow> string io" where
  "new_ulid E t = bnd (randomBytes E 16) (\<lambda>b. ret (ulid (nat t) b))"

subsection \<open>crypto.ts over WebCrypto\<close>

definition sha256Hex :: "env \<Rightarrow> string \<Rightarrow> string" where
  "sha256Hex E input = toHex (e_sha256 E input)"

definition hmacSha256Hex :: "env \<Rightarrow> string \<Rightarrow> string \<Rightarrow> string" where
  "hmacSha256Hex E secret data = toHex (e_hmac E secret data)"

definition aesKey :: "env \<Rightarrow> string \<Rightarrow> string" where
  "aesKey E secret = e_sha256 E secret"

definition aesGcmEncrypt :: "env \<Rightarrow> string \<Rightarrow> string \<Rightarrow> string io" where
  "aesGcmEncrypt E secret plaintext =
     bnd (randomBytes E 12) (\<lambda>iv.
       ret (base64url (bytes iv) @ ''.'' @ base64url (e_encrypt E (aesKey E secret) (bytes iv) plaintext)))"

text \<open>\<^verbatim>\<open>atob\<close> and the decryption throw; a text without a dot has no ciphertext.\<close>

definition aesGcmDecrypt :: "env \<Rightarrow> string \<Rightarrow> string \<Rightarrow> string io" where
  "aesGcmDecrypt E secret sealed =
     (case split_on CHR ''.'' sealed of
        iv # ct # _ \<Rightarrow>
          (case (base64urlDecode iv, base64urlDecode ct) of
             (Some i, Some c) \<Rightarrow>
               (case e_decrypt E (aesKey E secret) i c of
                  Some p \<Rightarrow> ret p | None \<Rightarrow> throw (Ext ''OperationError''))
           | _ \<Rightarrow> throw (Ext ''InvalidCharacterError''))
      | _ \<Rightarrow> throw TypeErr)"

subsection \<open>secrets.ts\<close>

definition emailHmac :: "env \<Rightarrow> string \<Rightarrow> string" where
  "emailHmac E email = hmacSha256Hex E (cf_emailPepper (e_cfg E)) (''email:'' @ normalizeEmail email)"

definition encryptEmail :: "env \<Rightarrow> string \<Rightarrow> string io" where
  "encryptEmail E email = aesGcmEncrypt E (cf_emailEncKey (e_cfg E)) (normalizeEmail email)"

definition decryptEmail :: "env \<Rightarrow> string \<Rightarrow> string io" where
  "decryptEmail E sealed = aesGcmDecrypt E (cf_emailEncKey (e_cfg E)) sealed"

fun purpose_name :: "CodePurpose \<Rightarrow> string" where
  "purpose_name PSignup = ''signup''"
| "purpose_name PLogin = ''login''"
| "purpose_name PTerminate = ''terminate''"

definition codeHmac :: "env \<Rightarrow> string \<Rightarrow> CodePurpose \<Rightarrow> string \<Rightarrow> string" where
  "codeHmac E email purpose c =
     hmacSha256Hex E (cf_emailPepper (e_cfg E))
       (''code:'' @ purpose_name purpose @ '':'' @ normalizeEmail email @ '':'' @ c)"

definition ipHmac :: "env \<Rightarrow> string \<Rightarrow> string" where
  "ipHmac E ip = hmacSha256Hex E (cf_emailPepper (e_cfg E)) (''ip:'' @ ip)"

definition recoveryHash :: "env \<Rightarrow> string \<Rightarrow> string" where
  "recoveryHash E normalized = hmacSha256Hex E (cf_emailPepper (e_cfg E)) (''recovery:'' @ normalized)"

definition secretEquals :: "env \<Rightarrow> string \<Rightarrow> string \<Rightarrow> bool" where
  "secretEquals E a b = constantTimeEqual (sha256Hex E a) (sha256Hex E b)"

subsection \<open>Invariants of calls\<close>

text \<open>
  \<open>safe I m\<close>: the effect \<open>m\<close> changes the database only by repository calls that keep \<open>I\<close>. The
  rules are in \<open>safe_intros\<close>.
\<close>

abbreviation safe :: "(idb \<Rightarrow> bool) \<Rightarrow> 'a io \<Rightarrow> bool" where
  "safe I \<equiv> keeps (\<lambda>w. I (w_db w))"

lemma keeps_Pair [keeps_intros]: "keeps P (Pair r)"
  by (rule keepsI) simp

lemma safe_fail [keeps_intros]: "keeps P (fail c)" "keeps P (fail_d c d)"
  by (simp_all add: fail_def fail_d_def keeps_throw)

lemma safe_now [keeps_intros]: "keeps P now"
  by (simp add: now_def keeps_gets)

lemma safe_query [keeps_intros]: "keeps P (query f)"
  by (simp add: query_def keeps_gets)

lemma safe_exec: "(\<And>db. I db \<Longrightarrow> I (f db)) \<Longrightarrow> safe I (exec f)"
  by (simp add: exec_def keeps_modify)

lemma safe_run: "(\<And>db. I db \<Longrightarrow> I (snd (f db))) \<Longrightarrow> safe I (run f)"
  by (rule keepsI) (simp add: run_def split_beta)

lemma safe_attempt: "(\<And>db. I db \<Longrightarrow> I (snd (f db))) \<Longrightarrow> safe I (attempt f)"
proof (rule keepsI)
  fix w :: world assume "\<And>db. I db \<Longrightarrow> I (snd (f db))" and "I (w_db w)"
  then have "I (snd (f (w_db w)))" by blast
  then show "I (w_db (snd (attempt f w)))" by (cases "f (w_db w)") (auto simp: attempt_def split: sum.splits)
qed

lemma safe_external [keeps_intros]: "safe I (external f)"
  by (rule keepsI) (simp add: external_def)

lemma safe_random [keeps_intros]: "safe I (randomBytes E n)"
  by (rule keepsI) (simp add: randomBytes_def)

lemma keeps_case_prod [keeps_intros]: "(\<And>a b. p = (a, b) \<Longrightarrow> keeps P (f a b)) \<Longrightarrow> keeps P (case p of (a, b) \<Rightarrow> f a b)"
  by (cases p) simp

lemma keeps_case_list [keeps_intros]:
  "keeps P m \<Longrightarrow> (\<And>y ys. keeps P (f y ys)) \<Longrightarrow> keeps P (case xs of [] \<Rightarrow> m | y # ys \<Rightarrow> f y ys)"
  by (cases xs) simp_all

lemma keeps_case_sum [keeps_intros]:
  "(\<And>a. keeps P (f a)) \<Longrightarrow> (\<And>b. keeps P (g b)) \<Longrightarrow> keeps P (case x of Inl a \<Rightarrow> f a | Inr b \<Rightarrow> g b)"
  by (cases x) simp_all

lemma keeps_Let [keeps_intros]: "(\<And>x. keeps P (f x)) \<Longrightarrow> keeps P (let x = v in f x)"
  by simp

lemma safe_crypto [keeps_intros]:
  "safe I (randomToken E n)" "safe I (new_ulid E t)" "safe I (aesGcmEncrypt E k p)"
  "safe I (aesGcmDecrypt E k p)" "safe I (encryptEmail E a)" "safe I (decryptEmail E a)"
  by (auto simp: randomToken_def new_ulid_def aesGcmEncrypt_def aesGcmDecrypt_def encryptEmail_def
      decryptEmail_def intro!: keeps_intros)

subsection \<open>How calls evaluate\<close>

lemma fail_app [simp]:
  "fail c w = (Inl (App (app_error c)), w)" "fail_d c d w = (Inl (App (app_error_d c d)), w)"
  by (simp_all add: fail_def fail_d_def)

lemma now_app [simp]: "now w = (Inr (w_now w), w)"
  by (simp add: now_def)

lemma query_app [simp]: "query f w = (Inr (f (w_db w)), w)"
  by (simp add: query_def)

lemma exec_app [simp]: "exec f w = (Inr (), w\<lparr>w_db := f (w_db w)\<rparr>)"
  by (simp add: exec_def)

lemma run_app: "run f w = (Inr (fst (f (w_db w))), w\<lparr>w_db := snd (f (w_db w))\<rparr>)"
  by (simp add: run_def split: prod.splits)

lemma attempt_app: "attempt f w =
  (case fst (f (w_db w)) of Inl e \<Rightarrow> Inl (Db e) | Inr a \<Rightarrow> Inr a, w\<lparr>w_db := snd (f (w_db w))\<rparr>)"
  by (cases "f (w_db w)") (auto simp: attempt_def split: sum.splits)

lemma external_app: "external f w = (f (w_calls w), w\<lparr>w_calls := Suc (w_calls w)\<rparr>)"
  by (simp add: external_def)

lemma randomBytes_app: "randomBytes E n w =
  (Inr (map (\<lambda>i. e_rnd E (w_rand w + i) mod 256) [0..<n]), w\<lparr>w_rand := w_rand w + n\<rparr>)"
  by (simp add: randomBytes_def)

lemma randomToken_app: "randomToken E n w =
  (Inr (base64url (bytes (map (\<lambda>i. e_rnd E (w_rand w + i) mod 256) [0..<n]))), w\<lparr>w_rand := w_rand w + n\<rparr>)"
  by (simp add: randomToken_def randomBytes_app)

lemma new_ulid_app: "new_ulid E t w =
  (Inr (ulid (nat t) (map (\<lambda>i. e_rnd E (w_rand w + i) mod 256) [0..<16])), w\<lparr>w_rand := w_rand w + 16\<rparr>)"
  by (simp add: new_ulid_def randomBytes_app)

text \<open>An effect that keeps every predicate is a read: it returns to the world it started in.\<close>

lemma keeps_all_snd: "m w = (r, w') \<Longrightarrow> (\<And>P. keeps P m) \<Longrightarrow> w' = w"
  using keepsD [of "\<lambda>x. x = w" m w r w'] by simp

lemma thn_app: "thn m k w = (case m w of (Inl e, w') \<Rightarrow> (Inl e, w') | (Inr x, w') \<Rightarrow> k w')"
  by (simp add: thn_def bnd_def)

subsection \<open>A concrete environment\<close>

text \<open>
  The environment and world the witnesses run in: hashes that keep their input, a cipher that only
  marks it, a provider that accepts every mail, data services that are empty.
\<close>

definition demo_cfg :: IdentityConfig where
  "demo_cfg =
     \<lparr>cf_appOrigin = ''https://x'', cf_trialHours = 72, cf_archiveDays = 7, cf_archiveDelayMin = 16,
      cf_purgeBacklogLimit = 50, cf_purgeRowsDaily = 20000, cf_maxSessions = 2,
      cf_adminSessionHours = 8, cf_resendDailyCap = 90, cf_resendMonthlyCap = 2900,
      cf_archiveLinkTtlS = 604800, cf_signingKey = \<lparr>jw_x = ''x'', jw_d = Some ''d'', jw_kid = ''k''\<rparr>,
      cf_emailPepper = ''p'', cf_emailEncKey = ''e'', cf_bootstrapAdminEmail = Some ''admin@x.org'',
      cf_bootstrapSetupCode = Some ''set-up-code'', cf_b2SignKeyId = None\<rparr>"

definition demo_env :: env where
  "demo_env =
     \<lparr>e_cfg = demo_cfg, e_rnd = (\<lambda>i. i), e_sha256 = (\<lambda>s. s), e_hmac = (\<lambda>k s. k @ s),
      e_encrypt = (\<lambda>k iv p. p), e_decrypt = (\<lambda>k iv c. Some c),
      e_sign = (\<lambda>k m. Some ''sig''), e_verify = (\<lambda>k s m. s = ''sig''), e_parse = (\<lambda>s. None),
      e_zone = (\<lambda>z. True), e_turnstile = (\<lambda>t ip i. Inr True), e_mailLog = False, e_resend = True,
      e_mail = (\<lambda>n m k i. Inr \<lparr>sr_ok = True, sr_status = 200, sr_channel = None, sr_deferred = None\<rparr>),
      e_export = (\<lambda>s t c i. Inr \<lparr>pg_file = ''objects.jsonl'', pg_text = [], pg_nextCursor = None\<rparr>),
      e_purge = (\<lambda>s t n i. Inr (0, True)), e_count = (\<lambda>s t i. Inr 0), e_close = (\<lambda>t c i. Inr ()),
      e_blobFails = (\<lambda>op i. False), e_headSize = (\<lambda>i n. n), e_presign = (\<lambda>k t d i. Inr k),
      e_zip = (\<lambda>fs t. concat (map snd fs)), e_regOptions = (\<lambda>u n x i. Inr (JNull, ''ch'')), e_authOptions = (\<lambda>a i. Inr (JNull, ''ch'')),
      e_registration = (\<lambda>r c i. Inr None), e_assertion = (\<lambda>r c p i. Inr None),
      e_analytics = Some (\<lambda>d i. Inr (\<lambda>m. None)), e_tenantStats = None\<rparr>"

definition demo_world :: "idb \<Rightarrow> time \<Rightarrow> world" where
  "demo_world db t = \<lparr>w_db = db, w_now = t, w_rand = 0, w_calls = 0, w_blobs = [], w_mails = []\<rparr>"

lemma demo_world_sel [simp]:
  "w_db (demo_world db t) = db" "w_now (demo_world db t) = t" "w_rand (demo_world db t) = 0"
  "w_calls (demo_world db t) = 0" "w_blobs (demo_world db t) = []" "w_mails (demo_world db t) = []"
  by (simp_all add: demo_world_def)

lemma usage_read_empty [simp]: "usage_read d k empty_db = 0"
  by (simp add: usage_read_def empty_db_def)

end
