(* ===== verification/Tokens.thy ===== *)
theory Tokens
  imports World
begin

section \<open>Signed tokens\<close>

text \<open>
  \<^verbatim>\<open>shared-kernel/jwt.ts\<close> (EdDSA JSON web tokens) and \<^verbatim>\<open>application/tokens.ts\<close> (access,
  pre-authentication and step-up tokens). Ed25519 and \<^verbatim>\<open>JSON.parse\<close> are in the environment; a key
  of the same use is imported to the same handle each time, so the cache of \<^verbatim>\<open>importKey\<close> is
  transparent. A JSON number is an integer here, hence finite.
\<close>

subsection \<open>jwt.ts\<close>

definition publicJwkOf :: "Ed25519Jwk \<Rightarrow> Ed25519Jwk" where
  "publicJwkOf jwk = \<lparr>jw_x = jw_x jwk, jw_d = None, jw_kid = jw_kid jwk\<rparr>"

definition encodeSegment :: "json \<Rightarrow> string" where
  "encodeSegment v = base64url (stringify v)"

definition jwt_header :: "Ed25519Jwk \<Rightarrow> json" where
  "jwt_header key = JObj [(''alg'', JStr ''EdDSA''), (''typ'', JStr ''JWT''), (''kid'', JStr (jw_kid key))]"

definition signJwt :: "env \<Rightarrow> json \<Rightarrow> Ed25519Jwk \<Rightarrow> string io" where
  "signJwt E claims key =
     (let head = encodeSegment (jwt_header key);
          body = encodeSegment claims
      in case e_sign E key (head @ ''.'' @ body) of
           None \<Rightarrow> throw (Ext ''DataError'')
         | Some sig \<Rightarrow> ret (head @ ''.'' @ body @ ''.'' @ base64url sig))"

text \<open>Reading a property of a parsed value: \<^verbatim>\<open>null\<close> throws, other non-objects have none.\<close>

definition js_get :: "json \<Rightarrow> string \<Rightarrow> json option io" where
  "js_get v k = (if v = JNull then throw TypeErr else ret (obj_get v k))"

definition decode_segment :: "env \<Rightarrow> string \<Rightarrow> json option" where
  "decode_segment E part =
     (case base64urlDecode part of None \<Rightarrow> None | Some b \<Rightarrow> e_parse E b)"

definition verifyJwt :: "env \<Rightarrow> string \<Rightarrow> Ed25519Jwk list \<Rightarrow> int \<Rightarrow> json io" where
  "verifyJwt E token keys nowSec =
     (case split_on CHR ''.'' token of
        [p0, p1, p2] \<Rightarrow>
          (case (decode_segment E p0, decode_segment E p1) of
             (Some header, Some claims) \<Rightarrow>
               bnd (js_get header ''alg'') (\<lambda>alg.
               if alg \<noteq> Some (JStr ''EdDSA'') then fail_d UNAUTHENTICATED ''Unsupported algorithm''
               else bnd (js_get header ''kid'') (\<lambda>kid.
               case find (\<lambda>k. Some (JStr (jw_kid k)) = kid) keys of
                 None \<Rightarrow> fail_d UNAUTHENTICATED ''Unknown key id''
               | Some jwk \<Rightarrow>
                   (let valid = (case base64urlDecode p2 of
                                   None \<Rightarrow> False | Some sig \<Rightarrow> e_verify E jwk sig (p0 @ ''.'' @ p1))
                    in if \<not> valid then fail_d UNAUTHENTICATED ''Bad signature''
                       else bnd (js_get claims ''exp'') (\<lambda>e.
                         case e of
                           Some (JNum n) \<Rightarrow>
                             if n \<le> nowSec then fail_d UNAUTHENTICATED ''Token expired'' else ret claims
                         | _ \<Rightarrow> fail_d UNAUTHENTICATED ''Token has no expiry''))))
           | _ \<Rightarrow> fail_d UNAUTHENTICATED ''Malformed token'')
      | _ \<Rightarrow> fail_d UNAUTHENTICATED ''Malformed token'')"

subsection \<open>tokens.ts\<close>

fun amr_name :: "AuthMethod \<Rightarrow> string" where
  "amr_name AmrOtp = ''otp''"
| "amr_name AmrPasskey = ''passkey''"
| "amr_name AmrRecovery = ''recovery''"

record AccessClaims =
  cl_sub :: string
  cl_role :: UserRole
  cl_tid :: string
  cl_st :: WorkspaceStatus
  cl_texp :: "int option"
  cl_sid :: string
  cl_amr :: "AuthMethod list"

text \<open>The claims as they are serialised, with the issue and expiry times last.\<close>

definition claims_json :: "AccessClaims \<Rightarrow> int \<Rightarrow> int \<Rightarrow> json" where
  "claims_json c iat e =
     JObj ([(''sub'', JStr (cl_sub c)), (''role'', JStr (role_name (cl_role c))),
            (''tid'', JStr (cl_tid c)), (''st'', JStr (status_name (cl_st c)))]
           @ (case cl_texp c of None \<Rightarrow> [] | Some t \<Rightarrow> [(''texp'', JNum t)])
           @ [(''sid'', JStr (cl_sid c)), (''amr'', JArr (map (\<lambda>a. JStr (amr_name a)) (cl_amr c))),
              (''iat'', JNum iat), (''exp'', JNum e)])"

definition nowSec :: "int io" where
  "nowSec = bnd now (\<lambda>t. ret (t div 1000))"

definition token_access :: "env \<Rightarrow> AccessClaims \<Rightarrow> (string \<times> int) io" where
  "token_access E c =
     bnd nowSec (\<lambda>iat.
     bnd (signJwt E (claims_json c iat (iat + TTL_accessS)) (cf_signingKey (e_cfg E))) (\<lambda>token.
     ret (token, TTL_accessS)))"

datatype TokenTyp = TypPreauth | TypStepup

fun typ_name :: "TokenTyp \<Rightarrow> string" where
  "typ_name TypPreauth = ''preauth''"
| "typ_name TypStepup = ''stepup''"

definition typed_claims :: "TokenTyp \<Rightarrow> string \<Rightarrow> int \<Rightarrow> int \<Rightarrow> json" where
  "typed_claims typ sub iat ttl =
     JObj [(''typ'', JStr (typ_name typ)), (''sub'', JStr sub), (''iat'', JNum iat), (''exp'', JNum (iat + ttl))]"

definition token_typed :: "env \<Rightarrow> TokenTyp \<Rightarrow> string \<Rightarrow> int \<Rightarrow> string io" where
  "token_typed E typ sub ttl =
     bnd nowSec (\<lambda>iat. signJwt E (typed_claims typ sub iat ttl) (cf_signingKey (e_cfg E)))"

definition token_preAuth :: "env \<Rightarrow> string \<Rightarrow> string io" where
  "token_preAuth E userId = token_typed E TypPreauth userId TTL_preAuthS"

definition token_stepUp :: "env \<Rightarrow> string \<Rightarrow> string io" where
  "token_stepUp E userId = token_typed E TypStepup userId TTL_stepUpS"

definition typ_detail :: "TokenTyp \<Rightarrow> string" where
  "typ_detail typ = (if typ = TypStepup then ''STEP_UP_REQUIRED'' else ''PREAUTH_INVALID'')"

text \<open>Returns the subject, the only claim the callers read.\<close>

definition verifyTyped :: "env \<Rightarrow> string \<Rightarrow> TokenTyp \<Rightarrow> ErrorCode \<Rightarrow> string io" where
  "verifyTyped E token typ c =
     bnd (catch
            (bnd nowSec (\<lambda>s. verifyJwt E token [publicJwkOf (cf_signingKey (e_cfg E))] s))
            (\<lambda>_. fail_d c (typ_detail typ))) (\<lambda>claims.
     case (obj_get claims ''typ'', obj_get claims ''sub'') of
       (Some (JStr t), Some (JStr sub)) \<Rightarrow>
         if t \<noteq> typ_name typ then fail_d c (typ_detail typ) else ret sub
     | _ \<Rightarrow> fail_d c (typ_detail typ))"

definition verifyPreAuth :: "env \<Rightarrow> string \<Rightarrow> string io" where
  "verifyPreAuth E token = verifyTyped E token TypPreauth UNAUTHENTICATED"

definition verifyStepUp :: "env \<Rightarrow> string option \<Rightarrow> string \<Rightarrow> unit io" where
  "verifyStepUp E token userId =
     (case token of
        None \<Rightarrow> fail_d FORBIDDEN ''STEP_UP_REQUIRED''
      | Some t \<Rightarrow>
          if t = [] then fail_d FORBIDDEN ''STEP_UP_REQUIRED''
          else bnd (verifyTyped E t TypStepup FORBIDDEN) (\<lambda>sub.
               if sub \<noteq> userId then fail_d FORBIDDEN ''STEP_UP_REQUIRED'' else ret ()))"

lemma safe_tokens [keeps_intros]:
  "keeps P (token_access E c)" "keeps P (token_preAuth E u)" "keeps P (token_stepUp E u)"
  "keeps P (verifyPreAuth E t)" "keeps P (verifyStepUp E t' u)"
proof -
  have s: "keeps P (signJwt E c k)" for c k
    by (auto simp: signJwt_def Let_def intro!: keeps_intros)
  have p: "keeps P (js_get v k)" for v k
    by (auto simp: js_get_def intro!: keeps_intros)
  have v: "keeps P (verifyJwt E t ks n)" for t ks n
    by (auto simp: verifyJwt_def Let_def intro!: keeps_intros p split: list.splits option.splits json.splits)
  have n: "keeps P nowSec" by (simp add: nowSec_def keeps_intros)
  have vt: "keeps P (verifyTyped E t ty c)" for t ty c
    by (auto simp: verifyTyped_def intro!: keeps_intros v n split: option.splits json.splits)
  have tt: "keeps P (token_typed E ty su tl)" for ty su tl
    by (auto simp: token_typed_def intro!: keeps_intros s n)
  show "keeps P (token_access E c)" "keeps P (token_preAuth E u)" "keeps P (token_stepUp E u)"
    "keeps P (verifyPreAuth E t)" "keeps P (verifyStepUp E t' u)"
    by (auto simp: token_access_def token_preAuth_def token_stepUp_def verifyPreAuth_def verifyStepUp_def
        intro!: keeps_intros s n tt vt split: option.splits)
qed

subsection \<open>Facts\<close>

lemma base64url_no_dot: "CHR ''.'' \<notin> set (base64url b)"
proof -
  have "list_all (\<lambda>n. url_char n \<noteq> CHR ''.'') [0..<64]"
    unfolding url_char_def b64_char_def b64_alphabet_def by code_simp
  then show ?thesis
    using b64_nums_bound by (auto simp: base64url_nums list_all_iff)
qed

lemma split_token:
  "split_on CHR ''.'' (base64url a @ ''.'' @ base64url b @ ''.'' @ base64url c)
     = [base64url a, base64url b, base64url c]"
  using split_on_append [OF base64url_no_dot [of a], of "base64url b @ ''.'' @ base64url c"]
    split_on_append [OF base64url_no_dot [of b], of "base64url c"]
    split_on_notin [OF base64url_no_dot [of c]] by simp

lemma decode_encode_segment: "e_parse E (stringify v) = Some v \<Longrightarrow> decode_segment E (encodeSegment v) = Some v"
  by (simp add: decode_segment_def encodeSegment_def base64_round_trip)

text \<open>What a verification of a token that was signed with a key answers.\<close>

lemma verify_signed:
  assumes parse: "e_parse E (stringify (jwt_header key)) = Some (jwt_header key)"
      "e_parse E (stringify (JObj kvs)) = Some (JObj kvs)"
    and sig: "e_sign E key m = Some sig" "e_verify E (publicJwkOf key) sig m"
    and m: "m = encodeSegment (jwt_header key) @ ''.'' @ encodeSegment (JObj kvs)"
    and token: "signJwt E (JObj kvs) key w = (Inr token, w')"
    and e: "map_of (rev kvs) ''exp'' = Some (JNum n)"
  shows "verifyJwt E token [publicJwkOf key] t w2
    = (if n \<le> t then (Inl (App (app_error_d UNAUTHENTICATED ''Token expired'')), w2) else (Inr (JObj kvs), w2))"
proof -
  have tok: "token = encodeSegment (jwt_header key) @ ''.'' @ encodeSegment (JObj kvs) @ ''.'' @ base64url sig"
    using token sig(1) by (simp add: signJwt_def Let_def m)
  have sp: "split_on CHR ''.'' token = [encodeSegment (jwt_header key), encodeSegment (JObj kvs), base64url sig]"
    unfolding tok encodeSegment_def by (rule split_token)
  have h: "js_get (jwt_header key) ''alg'' = ret (Some (JStr ''EdDSA''))"
    "js_get (jwt_header key) ''kid'' = ret (Some (JStr (jw_kid key)))"
    by (simp_all add: js_get_def jwt_header_def obj_get_def)
  have d: "decode_segment E (encodeSegment (jwt_header key)) = Some (jwt_header key)"
    "decode_segment E (encodeSegment (JObj kvs)) = Some (JObj kvs)"
    by (rule decode_encode_segment [OF parse(1)], rule decode_encode_segment [OF parse(2)])
  have k: "find (\<lambda>k. Some (JStr (jw_kid k)) = Some (JStr (jw_kid key))) [publicJwkOf key] = Some (publicJwkOf key)"
    by (simp add: publicJwkOf_def)
  have c: "js_get (JObj kvs) ''exp'' = ret (Some (JNum n))"
    using e by (simp add: js_get_def obj_get_def)
  show ?thesis
    unfolding verifyJwt_def sp
    by (simp only: list.case d option.case prod.case h bnd_ret k base64_round_trip c json.case m [symmetric] sig(2) Let_def
        simp_thms if_True if_False if_distrib [where f = "\<lambda>x. x w2"] if_P if_not_P refl) simp
qed

end
