(* ===== verification/Mail.thy ===== *)
theory Mail
  imports Tokens
begin

section \<open>Notification: routed e-mail within the caps\<close>

text \<open>
  \<^verbatim>\<open>application/notification\<close>, with the channel of \<^verbatim>\<open>interface/compose.ts\<close> and the log sender of
  \<^verbatim>\<open>infrastructure/email_senders.ts\<close>. A provider is an outside service; \<open>w_mails\<close> records what a
  provider accepted.
\<close>

record ChannelCaps =
  cc_name :: string
  cc_dailyCap :: int
  cc_monthlyCap :: "int option"

definition channel_send :: "env \<Rightarrow> string \<Rightarrow> EmailMessage \<Rightarrow> string \<Rightarrow> SendResult io" where
  "channel_send E name msg key =
     bnd (external (e_mail E name msg key)) (\<lambda>r.
       thn (whenM (sr_ok r) (modify (\<lambda>w. w\<lparr>w_mails := w_mails w @ [(name, msg, key)]\<rparr>))) (ret r))"

definition mail_take :: "ChannelCaps \<Rightarrow> MailPriority \<Rightarrow> bool io" where
  "mail_take ch priority =
     bnd now (\<lambda>t.
     let k = channelKeys (cc_name ch) t in
     bnd (run (usage_tryTake (ck_day k) (ck_key k) 1 (effectiveCap (cc_dailyCap ch) priority))) (\<lambda>day.
     if \<not> day then ret False
     else case cc_monthlyCap ch of
            None \<Rightarrow> ret True
          | Some cap \<Rightarrow>
              bnd (run (usage_tryTake (ck_month k) (ck_monthKey k) 1 (effectiveCap cap priority))) (\<lambda>month.
                thn (whenM (\<not> month) (exec (usage_adjust (ck_day k) (ck_key k) (- 1)))) (ret month))))"

definition mail_refund :: "ChannelCaps \<Rightarrow> unit io" where
  "mail_refund ch =
     bnd now (\<lambda>t.
     let k = channelKeys (cc_name ch) t in
     thn (exec (usage_adjust (ck_day k) (ck_key k) (- 1)))
       (whenM (cc_monthlyCap ch \<noteq> None) (exec (usage_adjust (ck_month k) (ck_monthKey k) (- 1)))))"

fun routed_send :: "env \<Rightarrow> ChannelCaps list \<Rightarrow> EmailMessage \<Rightarrow> string \<Rightarrow> SendResult io" where
  "routed_send E [] msg key =
     ret \<lparr>sr_ok = False, sr_status = 503, sr_channel = None,
          sr_deferred = Some (em_priority msg \<noteq> PrioOtp)\<rparr>"
| "routed_send E (ch # chs) msg key =
     bnd (mail_take ch (em_priority msg)) (\<lambda>taken.
     if \<not> taken then routed_send E chs msg key
     else bnd (catch (channel_send E (cc_name ch) msg key)
                (\<lambda>_. ret \<lparr>sr_ok = False, sr_status = 503, sr_channel = None, sr_deferred = None\<rparr>)) (\<lambda>r.
          if sr_ok r then ret (r\<lparr>sr_channel := Some (cc_name ch)\<rparr>)
          else thn (mail_refund ch)
            (if \<not> shouldSwitch (sr_status r) then ret (r\<lparr>sr_channel := Some (cc_name ch)\<rparr>)
             else routed_send E chs msg key)))"

definition log_send :: "SendResult io" where
  "log_send = ret \<lparr>sr_ok = True, sr_status = 200, sr_channel = Some ''log'', sr_deferred = None\<rparr>"

definition mail_channels :: "env \<Rightarrow> ChannelCaps list" where
  "mail_channels E =
     (if e_resend E
      then [\<lparr>cc_name = ''resend'', cc_dailyCap = cf_resendDailyCap (e_cfg E),
             cc_monthlyCap = Some (cf_resendMonthlyCap (e_cfg E))\<rparr>]
      else [])"

definition sender_send :: "env \<Rightarrow> EmailMessage \<Rightarrow> string \<Rightarrow> SendResult io" where
  "sender_send E msg key = (if e_mailLog E then log_send else routed_send E (mail_channels E) msg key)"

definition notification_send ::
  "env \<Rightarrow> TemplateData \<Rightarrow> string \<Rightarrow> Locale \<Rightarrow> string \<Rightarrow> SendResult io" where
  "notification_send E template to locale key =
     sender_send E
       \<lparr>em_to = to, em_locale = locale, em_template = template,
        em_priority = (if isCodeTemplate template then PrioOtp else PrioNormal)\<rparr> key"

subsection \<open>The counters\<close>

text \<open>The database operations mail uses; the interface every invariant of mail is stated over.\<close>

locale mail_store =
  fixes I :: "idb \<Rightarrow> bool"
  assumes take_keeps: "I db \<Longrightarrow> I (snd (usage_tryTake d k n cap db))"
    and adjust_keeps: "I db \<Longrightarrow> I (usage_adjust d k delta db)"
begin

lemma take_safe: "safe I (mail_take ch p)"
  by (auto simp: mail_take_def Let_def intro!: keeps_intros safe_run safe_exec take_keeps adjust_keeps
      split: option.splits)

lemma refund_safe: "safe I (mail_refund ch)"
  by (auto simp: mail_refund_def Let_def intro!: keeps_intros safe_exec adjust_keeps)

lemma channel_safe: "safe I (channel_send E n m k)"
  by (auto simp: channel_send_def intro!: keeps_intros keeps_modify)

lemma routed_safe: "safe I (routed_send E chs m k)"
  by (induction chs) (auto intro!: keeps_intros take_safe refund_safe channel_safe)

lemma send_safe: "safe I (notification_send E t a l k)"
  by (auto simp: notification_send_def sender_send_def log_send_def intro!: keeps_intros routed_safe)

end

lemma usage_adjust_value:
  "usage_read d' k' (usage_adjust d k delta db)
     = (if (d', k') = (d, k) \<and> sel1 (\<lambda>r. usage_key r = (d, k)) (db_usage db) \<noteq> None
        then max 0 (usage_read d k db + delta) else usage_read d' k' db)"
proof -
  have "sel1 (\<lambda>r. usage_key r = (d', k')) (db_usage (usage_adjust d k delta db))
    = (if (d', k') = (d, k)
       then map_option (\<lambda>r. r\<lparr>us_value := max 0 (us_value r + delta)\<rparr>)
              (sel1 (\<lambda>r. usage_key r = (d, k)) (db_usage db))
       else sel1 (\<lambda>r. usage_key r = (d', k')) (db_usage db))"
    by (simp add: usage_adjust_def sel1_upd_key_only del: prod.inject)
  then show ?thesis by (auto simp: usage_read_def split: option.splits)
qed

lemma usage_refund_value:
  "0 < usage_read d k db \<Longrightarrow>
   usage_read d' k' (usage_adjust d k (- 1) db) = usage_read d' k' db - (if (d', k') = (d, k) then 1 else 0)"
  by (auto simp: usage_adjust_value) (auto simp: usage_read_def split: option.splits)

text \<open>The daily and the monthly counter of a channel are different rows.\<close>

lemma channel_rows: "(ck_day (channelKeys n t), ck_key (channelKeys n t))
  \<noteq> (ck_month (channelKeys n t), ck_monthKey (channelKeys n t))"
  by (simp add: channelKeys_def Let_def)

definition day_count :: "ChannelCaps \<Rightarrow> time \<Rightarrow> idb \<Rightarrow> int" where
  "day_count ch t db = (let k = channelKeys (cc_name ch) t in usage_read (ck_day k) (ck_key k) db)"

definition month_count :: "ChannelCaps \<Rightarrow> time \<Rightarrow> idb \<Rightarrow> int" where
  "month_count ch t db = (let k = channelKeys (cc_name ch) t in usage_read (ck_month k) (ck_monthKey k) db)"

lemma take_outcome:
  fixes w :: world
  assumes ok: "db_ok (w_db w)" and cap: "cc_monthlyCap ch = Some m"
    and pos: "0 \<le> day_count ch (w_now w) (w_db w)" "0 \<le> month_count ch (w_now w) (w_db w)"
  obtains b db where
    "mail_take ch p w = (Inr b, w\<lparr>w_db := db\<rparr>)" "db_ok db"
    "b \<longleftrightarrow> day_count ch (w_now w) (w_db w) + 1 \<le> effectiveCap (cc_dailyCap ch) p
        \<and> month_count ch (w_now w) (w_db w) + 1 \<le> effectiveCap m p"
    "day_count ch (w_now w) db = day_count ch (w_now w) (w_db w) + (if b then 1 else 0)"
    "month_count ch (w_now w) db = month_count ch (w_now w) (w_db w) + (if b then 1 else 0)"
proof -
  let ?k = "channelKeys (cc_name ch) (w_now w)"
  let ?ed = "effectiveCap (cc_dailyCap ch) p" and ?em = "effectiveCap m p"
  let ?T1 = "usage_tryTake (ck_day ?k) (ck_key ?k) 1 ?ed"
  let ?T2 = "usage_tryTake (ck_month ?k) (ck_monthKey ?k) 1 ?em"
  let ?db1 = "snd (?T1 (w_db w))" and ?db2 = "snd (?T2 (snd (?T1 (w_db w))))"
  have ok1: "db_ok ?db1" and ok2: "db_ok ?db2" using ok by (simp_all add: db_oks)
  note rows = channel_rows [of "cc_name ch" "w_now w"]
  note vals = usage_take_value [of _ _ "ck_day ?k" "ck_key ?k" 1 ?ed "w_db w"]
    usage_take_value [of _ _ "ck_month ?k" "ck_monthKey ?k" 1 ?em ?db1]
  note pos' = pos [unfolded day_count_def month_count_def Let_def]
  show thesis
  proof (cases "fst (?T1 (w_db w))")
    case False
    then have "\<not> day_count ch (w_now w) (w_db w) + 1 \<le> ?ed"
      using usage_take_grants [OF ok] by (simp add: day_count_def Let_def)
    with False ok1 vals rows show ?thesis
      by (intro that [of False ?db1])
        (auto simp: mail_take_def Let_def run_app day_count_def month_count_def)
  next
    case t1: True
    then have g1: "day_count ch (w_now w) (w_db w) + 1 \<le> ?ed"
      using usage_take_grants [OF ok] by (simp add: day_count_def Let_def)
    show ?thesis
    proof (cases "fst (?T2 ?db1)")
      case True
      then have "month_count ch (w_now w) (w_db w) + 1 \<le> ?em"
        using usage_take_grants [OF ok1] vals(1) rows by (auto simp: month_count_def Let_def)
      with t1 g1 True ok2 vals rows show ?thesis
        by (intro that [of True ?db2])
          (auto simp: mail_take_def Let_def run_app cap thn_app day_count_def month_count_def)
    next
      case False
      then have g2: "\<not> month_count ch (w_now w) (w_db w) + 1 \<le> ?em"
        using usage_take_grants [OF ok1] vals(1) rows by (auto simp: month_count_def Let_def)
      let ?db3 = "usage_adjust (ck_day ?k) (ck_key ?k) (- 1) ?db2"
      have d2: "usage_read (ck_day ?k) (ck_key ?k) ?db2 = usage_read (ck_day ?k) (ck_key ?k) (w_db w) + 1"
        using g1 vals rows by (auto simp: day_count_def Let_def)
      have r: "usage_read d' k' ?db3 = usage_read d' k' ?db2 - (if (d', k') = (ck_day ?k, ck_key ?k) then 1 else 0)"
        for d' k' using d2 pos' by (intro usage_refund_value) simp
      show ?thesis
      proof (rule that [of False ?db3])
        show "mail_take ch p w = (Inr False, w\<lparr>w_db := ?db3\<rparr>)"
          using t1 False by (simp add: mail_take_def Let_def run_app cap thn_app)
        show "db_ok ?db3" using ok2 by (simp add: db_oks)
        show "day_count ch (w_now w) ?db3 = day_count ch (w_now w) (w_db w) + (if False then 1 else 0)"
          using d2 by (simp add: day_count_def Let_def r)
        show "month_count ch (w_now w) ?db3 = month_count ch (w_now w) (w_db w) + (if False then 1 else 0)"
          using g2 vals rows by (auto simp: month_count_def Let_def r)
      qed (use g2 in simp)
    qed
  qed
qed

lemma refund_outcome:
  fixes w :: world
  assumes ok: "db_ok (w_db w)" and cap: "cc_monthlyCap ch = Some m"
    and pos: "0 < day_count ch (w_now w) (w_db w)" "0 < month_count ch (w_now w) (w_db w)"
  obtains db where
    "mail_refund ch w = (Inr (), w\<lparr>w_db := db\<rparr>)" "db_ok db"
    "day_count ch (w_now w) db = day_count ch (w_now w) (w_db w) - 1"
    "month_count ch (w_now w) db = month_count ch (w_now w) (w_db w) - 1"
proof -
  let ?k = "channelKeys (cc_name ch) (w_now w)"
  let ?db1 = "usage_adjust (ck_day ?k) (ck_key ?k) (- 1) (w_db w)"
  let ?db2 = "usage_adjust (ck_month ?k) (ck_monthKey ?k) (- 1) ?db1"
  note rows = channel_rows [of "cc_name ch" "w_now w"]
  have v1: "usage_read d' k' ?db1
      = usage_read d' k' (w_db w) - (if (d', k') = (ck_day ?k, ck_key ?k) then 1 else 0)" for d' k'
    using pos(1) by (intro usage_refund_value) (simp add: day_count_def Let_def)
  have v2: "usage_read d' k' ?db2
      = usage_read d' k' ?db1 - (if (d', k') = (ck_month ?k, ck_monthKey ?k) then 1 else 0)" for d' k'
    using pos(2) rows by (intro usage_refund_value) (auto simp: v1 month_count_def Let_def)
  show thesis
  proof (rule that [of ?db2])
    show "mail_refund ch w = (Inr (), w\<lparr>w_db := ?db2\<rparr>)"
      by (simp add: mail_refund_def Let_def thn_app cap)
    show "db_ok ?db2" using ok by (simp add: db_oks)
  qed (use rows in \<open>auto simp: day_count_def month_count_def Let_def v2 v1\<close>)
qed


lemma demo_channel: "mail_channels demo_env = [\<lparr>cc_name = ''resend'', cc_dailyCap = 90, cc_monthlyCap = Some 2900\<rparr>]"
  by (simp add: mail_channels_def demo_env_def demo_cfg_def)


end
