(* ===== verification/Sessions.thy ===== *)
theory Sessions
  imports Mail
begin

section \<open>Accounts and sessions\<close>

text \<open>
  \<^verbatim>\<open>application/identity/account_service.ts\<close>, \<^verbatim>\<open>session_service.ts\<close> and
  \<^verbatim>\<open>application/tenancy/workspace_directory.ts\<close>. The locale \<open>repo_inv\<close> is the interface every
  service is written against: what holds along repository calls holds along services.
\<close>

subsection \<open>What services keep\<close>

locale repo_inv =
  fixes I :: "idb \<Rightarrow> bool"
  assumes step: "I db \<Longrightarrow> db_step db db' \<Longrightarrow> I db'"
begin

lemma exec_step: "(\<And>db. db_step db (f db)) \<Longrightarrow> safe I (exec f)"
  by (rule safe_exec) (blast intro: step)

lemma run_step: "(\<And>db. db_step db (snd (f db))) \<Longrightarrow> safe I (run f)"
  by (rule safe_run) (blast intro: step)

lemma attempt_step: "(\<And>db. db_step db (snd (f db))) \<Longrightarrow> safe I (attempt f)"
  by (rule safe_attempt) (blast intro: step)

end

text \<open>Some writes are conditional updates whose answer is discarded, or an application error.\<close>

lemmas db_steps = db_step.intros

sublocale repo_inv < mail_store I
  by unfold_locales (blast intro: step db_steps)+

interpretation schema: repo_inv db_ok
  by unfold_locales (rule db_step_ok)

interpretation reach: repo_inv db_reachable
  by unfold_locales (rule db_reachable.step)

lemma repo_steps: "repo_inv (\<lambda>db'. db_step\<^sup>*\<^sup>* db db')"
  by unfold_locales (rule rtranclp.rtrancl_into_rtrancl)

subsection \<open>workspace\_directory.ts\<close>

record WorkspaceDto =
  wd_tenantId :: string
  wd_kind :: WorkspaceKind
  wd_status :: WorkspaceStatus
  wd_verifiedAt :: string
  wd_trialExpiresAt :: "string option"
  wd_expiredAt :: "string option"

definition toWorkspaceDto :: "WorkspaceRecord \<Rightarrow> time \<Rightarrow> WorkspaceDto" where
  "toWorkspaceDto w verifiedAt =
     \<lparr>wd_tenantId = ws_tenantId w, wd_kind = ws_kind w, wd_status = ws_status w,
      wd_verifiedAt = toISOString verifiedAt,
      wd_trialExpiresAt = map_option toISOString (ws_trialExpiresAt w),
      wd_expiredAt = map_option toISOString (ws_expiredAt w)\<rparr>"

definition workspaces_status :: "string \<Rightarrow> (WorkspaceKind \<times> WorkspaceStatus) option io" where
  "workspaces_status tenantId =
     bnd (query (workspace_get tenantId)) (\<lambda>w. ret (map_option (\<lambda>w. (ws_kind w, ws_status w)) w))"

subsection \<open>account\_service.ts\<close>

record Contact =
  ct_userId :: string
  ct_email :: string
  ct_locale :: Locale
  ct_timeZone :: string

record MeDto =
  me_userId :: string
  me_email :: string
  me_role :: UserRole
  me_locale :: Locale
  me_timeZone :: string
  me_workspace :: WorkspaceDto
  me_used :: nat
  me_limit :: nat
  me_passkeys :: "nat option"
  me_recoveryCodesLeft :: "nat option"
  me_sessionExpiresAt :: "string option"
  me_recoveryPending :: "bool option"

definition isTimeZone :: "env \<Rightarrow> string \<Rightarrow> bool" where
  "isTimeZone E tz = e_zone E tz"

definition caller :: "CallCtx \<Rightarrow> AccountRecord io" where
  "caller ctx =
     (if \<not> isUserRole (act_role (ctx_actor ctx)) then fail FORBIDDEN
      else bnd (query (account_findById (caller_id ctx))) (\<lambda>a.
        case a of
          None \<Rightarrow> fail UNAUTHENTICATED
        | Some a \<Rightarrow> if ac_bannedAt a \<noteq> None then fail UNAUTHENTICATED else ret a))"

definition me :: "env \<Rightarrow> AccountRecord \<Rightarrow> string option \<Rightarrow> MeDto io" where
  "me E a sid =
     bnd (query (workspace_get (ac_tenantId a))) (\<lambda>w.
     case w of
       None \<Rightarrow> fail UNAUTHENTICATED
     | Some w \<Rightarrow>
         bnd now (\<lambda>t.
         bnd (decryptEmail E (ac_emailEnc a)) (\<lambda>email.
         bnd (query (countActive (ac_userId a) t)) (\<lambda>used.
         bnd (case sid of None \<Rightarrow> ret None
              | Some s \<Rightarrow> if s = [] then ret None else query (session_findById s)) (\<lambda>session.
         let own = (case session of
                      None \<Rightarrow> None
                    | Some s \<Rightarrow> if ss_userId s = ac_userId a \<and> ss_expiresAt s > t then Some s else None);
             m = \<lparr>me_userId = ac_userId a, me_email = email, me_role = ac_role a,
                  me_locale = ac_locale a, me_timeZone = ac_timeZone a,
                  me_workspace = toWorkspaceDto w (ac_verifiedAt a), me_used = used,
                  me_limit = cf_maxSessions (e_cfg E), me_passkeys = None, me_recoveryCodesLeft = None,
                  me_sessionExpiresAt = map_option (\<lambda>s. toISOString (ss_expiresAt s)) own,
                  me_recoveryPending = None\<rparr>
         in if ac_role a = Admin
            then bnd (query (passkey_count (ac_userId a))) (\<lambda>count.
                 bnd (query recoveryStats) (\<lambda>rec.
                 ret (m\<lparr>me_recoveryPending := Some (case own of None \<Rightarrow> False | Some s \<Rightarrow> recoveryPending (ss_amr s)),
                        me_passkeys := Some count, me_recoveryCodesLeft := Some (snd rec)\<rparr>)))
            else ret m)))))"

definition patchMe :: "env \<Rightarrow> CallCtx \<Rightarrow> Locale option \<Rightarrow> string option \<Rightarrow> MeDto io" where
  "patchMe E ctx locale timeZone =
     bnd (caller ctx) (\<lambda>a.
     if (case timeZone of None \<Rightarrow> False | Some tz \<Rightarrow> \<not> isTimeZone E tz)
     then throw (App (AppError_new VALIDATION_FAILED (Some ''Unknown time zone'') None
            (Some [(''errors'', JArr [JObj [(''path'', JStr ''timeZone''), (''message'', JStr ''Unknown time zone'')]])])))
     else thn (exec (updateProfile (ac_userId a) locale timeZone))
            (me E (a\<lparr>ac_locale := dflt locale (ac_locale a), ac_timeZone := dflt timeZone (ac_timeZone a)\<rparr>)
               (ctx_sid ctx)))"

text \<open>The \<^verbatim>\<open>sessions\<close> quota: used and limit.\<close>

definition sessions_usage :: "env \<Rightarrow> CallCtx \<Rightarrow> (nat \<times> nat) io" where
  "sessions_usage E ctx =
     bnd (caller ctx) (\<lambda>a.
     bnd now (\<lambda>t.
     bnd (query (countActive (ac_userId a) t)) (\<lambda>used. ret (used, cf_maxSessions (e_cfg E)))))"

definition contactOf :: "env \<Rightarrow> AccountRecord \<Rightarrow> Contact io" where
  "contactOf E a =
     bnd (decryptEmail E (ac_emailEnc a)) (\<lambda>email.
     ret \<lparr>ct_userId = ac_userId a, ct_email = email, ct_locale = ac_locale a, ct_timeZone = ac_timeZone a\<rparr>)"

definition contactOfTenant :: "env \<Rightarrow> string \<Rightarrow> Contact option io" where
  "contactOfTenant E tenantId =
     bnd (query (account_findByTenant tenantId)) (\<lambda>a.
     case a of None \<Rightarrow> ret None | Some a \<Rightarrow> bnd (contactOf E a) (\<lambda>c. ret (Some c)))"

subsection \<open>session\_service.ts\<close>

record RequestMeta =
  rm_ip :: string
  rm_client :: "string option"

record IssuedSession =
  is_accessToken :: string
  is_expiresIn :: int
  is_refreshToken :: string
  is_refreshExpiresAt :: time
  is_amr :: "AuthMethod list"
  is_me :: MeDto

record RefreshResult =
  rr_accessToken :: string
  rr_expiresIn :: int
  rr_refreshToken :: string
  rr_refreshExpiresAt :: time

definition accessToken ::
  "env \<Rightarrow> AccountRecord \<Rightarrow> WorkspaceRecord \<Rightarrow> string \<Rightarrow> AuthMethod list \<Rightarrow> (string \<times> int) io" where
  "accessToken E a w sid amr =
     token_access E
       \<lparr>cl_sub = ac_userId a, cl_role = ac_role a, cl_tid = ws_tenantId w, cl_st = ws_status w,
        cl_texp = (if ac_role a = Owner then map_option (\<lambda>t. t div 1000) (ws_trialExpiresAt w) else None),
        cl_sid = sid, cl_amr = amr\<rparr>"

definition issue_session ::
  "env \<Rightarrow> AccountRecord \<Rightarrow> WorkspaceRecord \<Rightarrow> AuthMethod list \<Rightarrow> RequestMeta \<Rightarrow> IssuedSession io" where
  "issue_session E a w amr meta =
     bnd now (\<lambda>t.
     bnd (randomToken E 32) (\<lambda>refreshToken.
     bnd (new_ulid E t) (\<lambda>sessionId.
     bnd (new_ulid E t) (\<lambda>familyId.
     let s = \<lparr>ss_id = sessionId, ss_userId = ac_userId a, ss_familyId = familyId,
              ss_refreshHash = sha256Hex E refreshToken, ss_amr = amr,
              ss_client = map_option (take 80) (rm_client meta), ss_createdAt = t,
              ss_expiresAt = sessionExpiry
                \<lparr>se_role = ac_role a, se_now = t, se_trialExpiresAt = ws_trialExpiresAt w,
                 se_trialHours = cf_trialHours (e_cfg E),
                 se_adminSessionHours = cf_adminSessionHours (e_cfg E)\<rparr>\<rparr>
     in thn (attempt (session_create s (cf_maxSessions (e_cfg E))))
        (bnd (accessToken E a w (ss_id s) amr) (\<lambda>access.
         bnd (me E a (Some (ss_id s))) (\<lambda>m.
         ret \<lparr>is_accessToken = fst access, is_expiresIn = snd access, is_refreshToken = refreshToken,
              is_refreshExpiresAt = ss_expiresAt s, is_amr = amr, is_me = m\<rparr>)))))))"

definition refresh :: "env \<Rightarrow> string \<Rightarrow> RefreshResult io" where
  "refresh E refreshToken =
     bnd now (\<lambda>t.
     let hash = sha256Hex E refreshToken in
     bnd (query (session_findByHash hash)) (\<lambda>s.
     case s of
       None \<Rightarrow>
         bnd (query (findRotated hash)) (\<lambda>rotated.
           thn (case rotated of None \<Rightarrow> ret 0 | Some fam \<Rightarrow> run (revokeFamily fam))
             (fail_d UNAUTHENTICATED ''REFRESH_INVALID''))
     | Some s \<Rightarrow>
         if ss_expiresAt s \<le> t
         then thn (exec (session_delete (ss_id s) (ss_userId s))) (fail_d UNAUTHENTICATED ''SESSION_EXPIRED'')
         else bnd (query (account_findById (ss_userId s))) (\<lambda>a.
           case a of
             None \<Rightarrow> thn (run (session_deleteByUser (ss_userId s))) (fail_d UNAUTHENTICATED ''ACCOUNT_UNAVAILABLE'')
           | Some a \<Rightarrow>
               if ac_bannedAt a \<noteq> None
               then thn (run (session_deleteByUser (ss_userId s))) (fail_d UNAUTHENTICATED ''ACCOUNT_UNAVAILABLE'')
               else bnd (query (workspace_get (ac_tenantId a))) (\<lambda>w.
                 case w of
                   None \<Rightarrow> fail_d UNAUTHENTICATED ''ACCOUNT_UNAVAILABLE''
                 | Some w \<Rightarrow>
                     if ac_role a = Owner \<and> \<not> trialUsable (ws_status w) (ws_trialExpiresAt w) t
                     then fail TRIAL_EXPIRED
                     else bnd (randomToken E 32) (\<lambda>next_token.
                       let expiresAt =
                         (case ws_trialExpiresAt w of
                            Some te \<Rightarrow> if ac_role a = Owner then min (ss_expiresAt s) te else ss_expiresAt s
                          | None \<Rightarrow> ss_expiresAt s)
                       in bnd (attempt (session_rotate s (sha256Hex E next_token) expiresAt)) (\<lambda>rotated.
                          if \<not> rotated
                          then thn (run (revokeFamily (ss_familyId s))) (fail_d UNAUTHENTICATED ''REFRESH_INVALID'')
                          else bnd (accessToken E a w (ss_id s) (ss_amr s)) (\<lambda>access.
                            ret \<lparr>rr_accessToken = fst access, rr_expiresIn = snd access,
                                 rr_refreshToken = next_token, rr_refreshExpiresAt = expiresAt\<rparr>)))))))"

definition logout :: "CallCtx \<Rightarrow> string \<Rightarrow> unit io" where
  "logout ctx sid = exec (session_delete sid (caller_id ctx))"

definition adminSessionOf :: "string \<Rightarrow> SessionRecord option io" where
  "adminSessionOf sid =
     (if sid = [] then ret None
      else bnd (query (session_findById sid)) (\<lambda>s.
        bnd now (\<lambda>t.
        case s of
          None \<Rightarrow> ret None
        | Some s \<Rightarrow>
            if ss_expiresAt s \<le> t then ret None
            else bnd (query (account_findById (ss_userId s))) (\<lambda>a.
              case a of
                None \<Rightarrow> ret None
              | Some a \<Rightarrow> ret (if ac_role a = Admin \<and> ac_bannedAt a = None then Some s else None)))))"

definition verifyAdmin :: "string \<Rightarrow> bool io" where
  "verifyAdmin sid = bnd (adminSessionOf sid) (\<lambda>s. ret (s \<noteq> None))"

definition sessions_countActive :: "string \<Rightarrow> nat io" where
  "sessions_countActive userId = bnd now (\<lambda>t. query (countActive userId t))"

definition revokeUser :: "string \<Rightarrow> nat io" where
  "revokeUser userId = run (session_deleteByUser userId)"

definition liveSession :: "string option \<Rightarrow> string \<Rightarrow> SessionRecord option io" where
  "liveSession sid userId =
     (case sid of
        None \<Rightarrow> ret None
      | Some i \<Rightarrow>
          if i = [] then ret None
          else bnd (query (session_findById i)) (\<lambda>s.
            bnd now (\<lambda>t.
            ret (case s of
                   None \<Rightarrow> None
                 | Some s \<Rightarrow> if ss_userId s \<noteq> userId \<or> ss_expiresAt s \<le> t then None else Some s))))"

definition recoverySessionActive :: "string \<Rightarrow> string option \<Rightarrow> bool io" where
  "recoverySessionActive userId sid =
     bnd (liveSession sid userId) (\<lambda>s.
     ret (case s of None \<Rightarrow> False | Some s \<Rightarrow> recoveryPending (ss_amr s)))"

definition upgradeRecovery :: "string \<Rightarrow> unit io" where
  "upgradeRecovery sid = exec (setAmr sid UPGRADED_RECOVERY_AMR)"

subsection \<open>Invariants\<close>

lemma revoke_step: "db_step db (snd (revokeFamily f db))" "db_step db (snd (session_deleteByUser u db))"
    "db_step db (session_delete i u db)"
  by (simp_all add: revokeFamily_def session_deleteByUser_def session_delete_def s_session_delete)

lemma safe_reads [keeps_intros]:
  "safe I (caller ctx)" "safe I (me E a sid)" "safe I (sessions_usage E ctx)" "safe I (contactOf E a)"
  "safe I (contactOfTenant E t)" "safe I (accessToken E a w s amr)" "safe I (adminSessionOf s)"
  "safe I (verifyAdmin s)" "safe I (liveSession sid u)" "safe I (recoverySessionActive u sid)"
  "safe I (sessions_countActive u)" "safe I (workspaces_status t)"
proof -
  have c: "safe I (caller ctx)" for ctx
    by (auto simp: caller_def intro!: keeps_intros split: option.splits)
  have m: "safe I (me E a sid)"
    unfolding me_def Let_def by (intro keeps_intros)
  have l: "safe I (liveSession sid u)"
    unfolding liveSession_def by (intro keeps_intros)
  have k: "safe I (contactOf E a)" for a
    unfolding contactOf_def by (intro keeps_intros)
  have ad: "safe I (adminSessionOf s)"
    unfolding adminSessionOf_def by (intro keeps_intros)
  show "safe I (caller ctx)" "safe I (me E a sid)" "safe I (sessions_usage E ctx)" "safe I (contactOf E a)"
    "safe I (contactOfTenant E t)" "safe I (accessToken E a w s amr)" "safe I (adminSessionOf s)"
    "safe I (verifyAdmin s)" "safe I (liveSession sid u)" "safe I (recoverySessionActive u sid)"
    "safe I (sessions_countActive u)" "safe I (workspaces_status t)"
    using c m l k ad
    by (auto simp: sessions_usage_def contactOfTenant_def accessToken_def verifyAdmin_def
        recoverySessionActive_def sessions_countActive_def workspaces_status_def intro!: keeps_intros)
qed

context repo_inv
begin

lemma session_safe:
  "safe I (issue_session E a w amr meta)" "safe I (refresh E tok)" "safe I (logout ctx sid)"
  "safe I (revokeUser u)" "safe I (upgradeRecovery sid)" "safe I (patchMe E ctx loc tz)"
  unfolding issue_session_def refresh_def Let_def logout_def revokeUser_def upgradeRecovery_def patchMe_def
  by (intro keeps_intros exec_step run_step attempt_step revoke_step db_steps)+

end

subsection \<open>Refresh\<close>

lemma refresh_returns:
  assumes "refresh E tok w = (Inr r, w')"
  obtains s a ws nxt w1 b where
    "session_findByHash (sha256Hex E tok) (w_db w) = Some s" "w_now w < ss_expiresAt s"
    "account_findById (ss_userId s) (w_db w) = Some a" "ac_bannedAt a = None"
    "workspace_get (ac_tenantId a) (w_db w) = Some ws"
    "ac_role a = Owner \<longrightarrow> trialUsable (ws_status ws) (ws_trialExpiresAt ws) (w_now w)"
    "rr_refreshExpiresAt r = (case ws_trialExpiresAt ws of
        Some te \<Rightarrow> if ac_role a = Owner then min (ss_expiresAt s) te else ss_expiresAt s
      | None \<Rightarrow> ss_expiresAt s)"
    "session_rotate s (sha256Hex E (rr_refreshToken r)) (rr_refreshExpiresAt r) (w_db w) = (Inr True, w_db w')"
    "w_now w' = w_now w"
proof -
  let ?s = "session_findByHash (sha256Hex E tok) (w_db w)"
  obtain s where s: "?s = Some s"
    using assms by (cases ?s) (auto simp: refresh_def Let_def thn_app split: prod.splits sum.splits)
  have live: "\<not> ss_expiresAt s \<le> w_now w"
    using assms by (auto simp: refresh_def Let_def s thn_app)
  obtain a where a: "account_findById (ss_userId s) (w_db w) = Some a" "ac_bannedAt a = None"
    using assms live
    by (cases "account_findById (ss_userId s) (w_db w)") (auto simp: refresh_def Let_def s thn_app run_app split: if_splits)
  obtain ws where ws: "workspace_get (ac_tenantId a) (w_db w) = Some ws"
    using assms live a
    by (cases "workspace_get (ac_tenantId a) (w_db w)") (auto simp: refresh_def Let_def s)
  have usable: "ac_role a = Owner \<longrightarrow> trialUsable (ws_status ws) (ws_trialExpiresAt ws) (w_now w)"
    using assms live a ws
    by (cases "trialUsable (ws_status ws) (ws_trialExpiresAt ws) (w_now w)") (auto simp: refresh_def Let_def s)
  let ?e = "case ws_trialExpiresAt ws of
        Some te \<Rightarrow> if ac_role a = Owner then min (ss_expiresAt s) te else ss_expiresAt s
      | None \<Rightarrow> ss_expiresAt s"
  let ?tok = "base64url (bytes (map (\<lambda>i. e_rnd E (w_rand w + i) mod 256) [0..<32]))"
  let ?w1 = "w\<lparr>w_rand := w_rand w + 32\<rparr>"
  have rest: "bnd (attempt (session_rotate s (sha256Hex E ?tok) ?e)) (\<lambda>rotated.
       if \<not> rotated
       then thn (run (revokeFamily (ss_familyId s))) (fail_d UNAUTHENTICATED ''REFRESH_INVALID'')
       else bnd (accessToken E a ws (ss_id s) (ss_amr s)) (\<lambda>access.
         ret \<lparr>rr_accessToken = fst access, rr_expiresIn = snd access,
              rr_refreshToken = ?tok, rr_refreshExpiresAt = ?e\<rparr>)) ?w1 = (Inr r, w')"
    using assms live a ws usable
    by (cases "ac_role a = Owner") (simp_all add: refresh_def Let_def s randomToken_app)
  then obtain b w2 where b: "attempt (session_rotate s (sha256Hex E ?tok) ?e) ?w1 = (Inr b, w2)"
    and k: "(if \<not> b
       then thn (run (revokeFamily (ss_familyId s))) (fail_d UNAUTHENTICATED ''REFRESH_INVALID'')
       else bnd (accessToken E a ws (ss_id s) (ss_amr s)) (\<lambda>access.
         ret \<lparr>rr_accessToken = fst access, rr_expiresIn = snd access,
              rr_refreshToken = ?tok, rr_refreshExpiresAt = ?e\<rparr>)) w2 = (Inr r, w')"
    by (rule bnd_InrE)
  from k have bt: "b" by (auto simp: thn_app run_app split: if_splits)
  from k bt obtain x w3 where x: "accessToken E a ws (ss_id s) (ss_amr s) w2 = (Inr x, w3)"
    "w' = w3" "rr_refreshToken r = ?tok" "rr_refreshExpiresAt r = ?e"
    by (auto elim!: bnd_InrE)
  have "w3 = w2"
    using x(1) by (rule keeps_all_snd) (simp add: accessToken_def safe_tokens)
  with b bt x have "session_rotate s (sha256Hex E ?tok) ?e (w_db w) = (Inr True, w_db w')" "w_now w' = w_now w"
    by (cases "session_rotate s (sha256Hex E ?tok) ?e (w_db w)";
        auto simp: attempt_def split: sum.splits prod.splits)+
  with that s live a ws usable x show thesis by simp
qed

abbreviation refresh_invalid :: exn where
  "refresh_invalid \<equiv> App (app_error_d UNAUTHENTICATED ''REFRESH_INVALID'')"

lemma refresh_unknown:
  fixes w :: world
  shows "session_findByHash (sha256Hex E tok) (w_db w) = None \<Longrightarrow>
   refresh E tok w = (Inl refresh_invalid, w\<lparr>w_db := (case findRotated (sha256Hex E tok) (w_db w) of
     None \<Rightarrow> w_db w | Some fam \<Rightarrow> snd (revokeFamily fam (w_db w)))\<rparr>)"
  by (auto simp: refresh_def Let_def thn_app run_app split: option.splits)

lemma revokeFamily_rows: "set (db_session (snd (revokeFamily fam db))) = {s \<in> set (db_session db). ss_familyId s \<noteq> fam}"
  by (auto simp: revokeFamily_def session_delete_where_def)



text \<open>A world with one live session, whose refresh token is the empty string.\<close>

definition demo_live :: SessionRecord where
  "demo_live = (demo_session ''s1'' 1100)\<lparr>ss_refreshHash := []\<rparr>"

definition live_db :: idb where
  "live_db = demo_db\<lparr>db_session := [demo_live]\<rparr>"

definition live_env :: env where
  "live_env = demo_env\<lparr>e_sha256 := (\<lambda>s. if s = [] then [] else ''b'')\<rparr>"

lemma demo_tables:
  "db_account demo_db = [new_owner demo_signup]" "db_workspace demo_db = [new_trial demo_signup]"
  "db_rotated demo_db = []" "db_session demo_db = []"
  unfolding demo_db_def by code_simp+

lemma live_db_ok: "db_ok live_db"
  using demo_db_ok
  by (simp add: db_ok_defs live_db_def demo_tables demo_live_def demo_session_def new_owner_def
      demo_signup_def)

lemma live_hash [simp]: "sha256Hex live_env [] = []" "t \<noteq> [] \<Longrightarrow> sha256Hex live_env t = toHex ''b''"
  "toHex ''b'' \<noteq> []"
  by (simp_all add: sha256Hex_def live_env_def toHex_def)

lemma token_not_Nil: "0 < n \<Longrightarrow> base64url (bytes (map f [0..<n])) \<noteq> []"
proof
  assume "0 < n" "base64url (bytes (map f [0..<n])) = []"
  then have "base64urlDecode [] = Some (bytes (map f [0..<n]))"
    using base64_round_trip [of "bytes (map f [0..<n])"] by simp
  moreover have "base64urlDecode [] = Some []" using base64_round_trip [of "[]"] by (simp add: base64url_def replace_char_def)
  ultimately show False using \<open>0 < n\<close> by (simp add: bytes_def)
qed

lemma refresh_proceeds:
  fixes w :: world
  assumes "session_findByHash (sha256Hex E tok) (w_db w) = Some s" "w_now w < ss_expiresAt s"
    "account_findById (ss_userId s) (w_db w) = Some a" "ac_bannedAt a = None" "ac_role a = Owner"
    "workspace_get (ac_tenantId a) (w_db w) = Some ws" "ws_status ws = ACTIVE"
    "ws_trialExpiresAt ws = Some te" "w_now w < te"
    and "\<And>t. t \<noteq> [] \<Longrightarrow> fst (session_rotate s (sha256Hex E t) (min (ss_expiresAt s) te) (w_db w)) = Inr True"
    and "\<And>key m. e_sign E key m \<noteq> None"
  shows "\<exists>r w1. refresh E tok w = (Inr r, w1) \<and> rr_refreshToken r \<noteq> []"
proof -
  let ?tok = "base64url (bytes (map (\<lambda>i. e_rnd E (w_rand w + i) mod 256) [0..<32]))"
  have tok: "?tok \<noteq> []" by (rule token_not_Nil) simp
  obtain db' where rot: "session_rotate s (sha256Hex E ?tok) (min (ss_expiresAt s) te) (w_db w) = (Inr True, db')"
    using assms(10) [OF tok] by (metis prod.collapse)
  have sgn: "\<exists>x. signJwt E c k v = (Inr x, v)" for c k v
    using assms(11) by (auto simp: signJwt_def Let_def split: option.splits)
  obtain acc where acc: "accessToken E a ws (ss_id s) (ss_amr s) (w\<lparr>w_rand := w_rand w + 32, w_db := db'\<rparr>)
      = (Inr acc, w\<lparr>w_rand := w_rand w + 32, w_db := db'\<rparr>)"
  proof -
    let ?w = "w\<lparr>w_rand := w_rand w + 32, w_db := db'\<rparr>"
    obtain c where "accessToken E a ws (ss_id s) (ss_amr s) = token_access E c"
      by (simp add: accessToken_def)
    moreover obtain x where "signJwt E (claims_json c (w_now w div 1000) (w_now w div 1000 + TTL_accessS))
        (cf_signingKey (e_cfg E)) ?w = (Inr x, ?w)"
      using sgn by blast
    ultimately have "accessToken E a ws (ss_id s) (ss_amr s) ?w = (Inr (x, TTL_accessS), ?w)"
      by (simp add: token_access_def nowSec_def bnd_app)
    then show thesis by (rule that)
  qed
  have "refresh E tok w = (Inr \<lparr>rr_accessToken = fst acc, rr_expiresIn = snd acc, rr_refreshToken = ?tok,
      rr_refreshExpiresAt = min (ss_expiresAt s) te\<rparr>, w\<lparr>w_rand := w_rand w + 32, w_db := db'\<rparr>)"
    using assms(1-9) rot acc by (simp add: refresh_def Let_def randomToken_app attempt_def trialUsable_def)
  with tok show ?thesis by simp
qed

lemma live_rows:
  "session_findByHash [] live_db = Some demo_live"
  "account_findById ''u1'' live_db = Some (new_owner demo_signup)"
  "workspace_get ''t1'' live_db = Some (new_trial demo_signup)"
  by (simp_all add: session_findByHash_def account_findById_def workspace_get_def live_db_def demo_live_def
      demo_tables new_owner_def new_trial_def demo_signup_def)

lemma live_refresh:
  "\<exists>r w1. refresh live_env [] (demo_world live_db 1200) = (Inr r, w1) \<and> rr_refreshToken r \<noteq> []"
proof (rule refresh_proceeds)
  show "fst (session_rotate demo_live (sha256Hex live_env t) (min (ss_expiresAt demo_live) 2000)
      (w_db (demo_world live_db 1200))) = Inr True" if "t \<noteq> []" for t
    using demo_db_ok that
    by (simp add: session_rotate_def rotate_stmts_def batch_def when_stmt_def ok_stmt_def Let_def
        live_db_def demo_live_def demo_session_def session_uniq_def demo_tables db_ok_def fk_ok_def
        new_owner_def new_trial_def demo_signup_def)
  show "account_findById (ss_userId demo_live) (w_db (demo_world live_db 1200)) = Some (new_owner demo_signup)"
    "workspace_get (ac_tenantId (new_owner demo_signup)) (w_db (demo_world live_db 1200)) = Some (new_trial demo_signup)"
    using live_rows by (simp_all add: demo_live_def demo_session_def new_owner_def demo_signup_def)
  show "e_sign live_env key m \<noteq> None" for key m by (simp add: live_env_def demo_env_def)
qed (simp_all add: live_rows, simp_all add: demo_live_def demo_session_def new_owner_def demo_signup_def new_trial_def)



end
