(* ===== verification/Otp.thy ===== *)
theory Otp
  imports Sessions
begin

section \<open>One-time codes, admission and sign-in\<close>

text \<open>
  \<^verbatim>\<open>application/identity/otp_service.ts\<close>, \<^verbatim>\<open>application/tenancy/admission_service.ts\<close>,
  \<^verbatim>\<open>application/platform_admin/policy_service.ts\<close> and \<^verbatim>\<open>application/identity/auth_service.ts\<close>. The
  result of a Zod schema (\<^verbatim>\<open>parseOrThrow\<close>) is an argument: the parsed input or the error it
  throws. A generator of codes that never accepts a draw is the exception \<open>Ext\<close> of a request that
  never answers.
\<close>

subsection \<open>otp\_service.ts\<close>

record IssueOptions =
  io_email :: string
  io_emailHmac :: string
  io_purpose :: CodePurpose
  io_locale :: Locale
  io_emailEnc :: "string option"
  io_deliver :: bool

fun TEMPLATE :: "CodePurpose \<Rightarrow> string \<Rightarrow> TemplateData" where
  "TEMPLATE PSignup = code_signup"
| "TEMPLATE PLogin = code_login"
| "TEMPLATE PTerminate = code_terminate"

definition is_locked :: "otp_limits \<Rightarrow> time \<Rightarrow> bool" where
  "is_locked l t \<longleftrightarrow> (case lm_lockedUntil l of None \<Rightarrow> False | Some u \<Rightarrow> u > t)"

definition assertCanSend :: "string \<Rightarrow> unit io" where
  "assertCanSend h =
     bnd now (\<lambda>t.
     bnd (query (code_limits h (utcDay t))) (\<lambda>l.
     if is_locked l t then fail_d RATE_LIMITED ''EMAIL_LOCKED''
     else if lm_sends l \<ge> OTP_maxSendsPerDay then fail_d RATE_LIMITED ''DAILY_SENDS_USED''
     else ret ()))"

definition draw_code :: "env \<Rightarrow> string io" where
  "draw_code E = (\<lambda>w. case generateCode (e_rnd E) (w_rand w) of
     None \<Rightarrow> (Inl (Ext ''never answers''), w)
   | Some (c, p) \<Rightarrow> (Inr c, w\<lparr>w_rand := p\<rparr>))"

definition otp_issue :: "env \<Rightarrow> IssueOptions \<Rightarrow> unit io" where
  "otp_issue E opts =
     bnd now (\<lambda>t.
     bnd (query (getPending (io_emailHmac opts) (io_purpose opts))) (\<lambda>existing.
     if existing \<noteq> None \<and> \<not> canResend (map_option pc_expiresAt existing) t then ret ()
     else bnd (run (takeSend (io_emailHmac opts) (utcDay t) OTP_maxSendsPerDay)) (\<lambda>taken.
     if \<not> taken then fail_d RATE_LIMITED ''DAILY_SENDS_USED''
     else if \<not> io_deliver opts then ret ()
     else bnd (draw_code E) (\<lambda>c.
       let expiresAt = t + OTP_ttlMs in
       thn (exec (putPending (io_emailHmac opts) (io_purpose opts)
              \<lparr>pc_codeHmac = codeHmac E (io_email opts) (io_purpose opts) c, pc_attempts = 0,
               pc_expiresAt = expiresAt,
               pc_emailEnc = (if io_purpose opts = PSignup then io_emailEnc opts else None),
               pc_locale = Some (io_locale opts)\<rparr>))
       (bnd (notification_send E (TEMPLATE (io_purpose opts) c) (io_email opts) (io_locale opts)
              (''code:'' @ purpose_name (io_purpose opts) @ '':'' @ take 24 (io_emailHmac opts) @ '':''
                @ int_str expiresAt)) (\<lambda>r.
        if \<not> sr_ok r then fail_d UNAVAILABLE ''MAIL_UNAVAILABLE'' else ret ()))))))"

definition otp_usable :: "PendingCode option \<Rightarrow> time \<Rightarrow> bool" where
  "otp_usable pending t \<longleftrightarrow>
     (case pending of
        None \<Rightarrow> False
      | Some p \<Rightarrow> pc_expiresAt p > t \<and> pc_attempts p < OTP_maxAttemptsPerCode)"

text \<open>The tail of \<^verbatim>\<open>verify\<close> after a code that was not accepted.\<close>

definition otp_failed ::
  "string \<Rightarrow> CodePurpose \<Rightarrow> string \<Rightarrow> time \<Rightarrow> PendingCode option \<Rightarrow> bool \<Rightarrow> PendingCode io" where
  "otp_failed h purpose day t pending usable =
     bnd (if usable then run (bumpAttempts h purpose) else ret OTP_maxAttemptsPerCode) (\<lambda>attempts.
     bnd (run (recordFailure h day)) (\<lambda>failures.
     let outcome = onFailure attempts failures t in
     thn (whenM (pending \<noteq> None \<and> (fo_dropCode outcome \<or> \<not> usable)) (exec (deletePending h purpose)))
     (thn (case fo_lockUntil outcome of None \<Rightarrow> ret () | Some u \<Rightarrow> exec (code_lock h day u))
       (fail CODE_INVALID))))"

definition otp_verify :: "env \<Rightarrow> string \<Rightarrow> string \<Rightarrow> CodePurpose \<Rightarrow> string \<Rightarrow> PendingCode io" where
  "otp_verify E email h purpose c =
     bnd now (\<lambda>t.
     let day = utcDay t in
     bnd (query (code_limits h day)) (\<lambda>l.
     if is_locked l t then fail_d RATE_LIMITED ''EMAIL_LOCKED''
     else bnd (query (getPending h purpose)) (\<lambda>pending.
       let usable = otp_usable pending t;
           expected = codeHmac E email purpose c
       in case (if usable then pending else None) of
            Some p \<Rightarrow>
              if constantTimeEqual expected (pc_codeHmac p) then ret p
              else otp_failed h purpose day t pending usable
          | None \<Rightarrow> otp_failed h purpose day t pending usable)))"

definition otp_consume :: "string \<Rightarrow> CodePurpose \<Rightarrow> unit io" where
  "otp_consume h purpose = exec (deletePending h purpose)"

subsection \<open>policy\_service.ts and admission\_service.ts\<close>

datatype EmailRefusal = BlockedDomain | BlockedEmail

definition emailRefusal :: "string \<Rightarrow> string \<Rightarrow> EmailRefusal option io" where
  "emailRefusal email h =
     (let domain = emailDomain email in
      if isDisposableDomain domain then ret (Some BlockedDomain)
      else bnd (query (anyDomainBlocked (domainCandidates domain))) (\<lambda>b.
        if b then ret (Some BlockedDomain)
        else bnd (query (isEmailBlocked h)) (\<lambda>e. ret (if e then Some BlockedEmail else None))))"

definition signupIpKey :: "string \<Rightarrow> string" where
  "signupIpKey ip = ''signup_ip:'' @ ip"

definition precheck :: "env \<Rightarrow> string \<Rightarrow> AdmissionRefusal option io" where
  "precheck E ip =
     bnd now (\<lambda>t.
     let day = utcDay t in
     bnd (query settings_get) (\<lambda>settings.
     bnd (query (usage_read day ''signup'')) (\<lambda>signupsToday.
     bnd (query (usage_read day ''signup_closed'')) (\<lambda>closed.
     bnd (query (usage_read day (signupIpKey ip))) (\<lambda>fromIp.
     bnd (query (countTrials [ACTIVE])) (\<lambda>activeTrials.
     bnd (query (countTrials [EXPIRED, ARCHIVING])) (\<lambda>backlog.
     ret (admissionRefusal
       \<lparr>as_signupEnabled = sv_signupEnabled settings, as_signupDailyLimit = sv_signupDailyLimit settings,
        as_signupsToday = signupsToday, as_activeWorkspaceLimit = sv_activeWorkspaceLimit settings,
        as_activeTrials = int activeTrials, as_purgeBacklog = int backlog,
        as_purgeBacklogLimit = cf_purgeBacklogLimit (e_cfg E), as_autoClosed = closed \<ge> 1,
        as_signupsFromIpToday = fromIp\<rparr>))))))))"

end
