(* ===== verification/Auth.thy ===== *)
theory Auth
  imports Otp
begin

section \<open>Sign-up and sign-in\<close>

text \<open>
  \<^verbatim>\<open>application/identity/auth_service.ts\<close> and \<^verbatim>\<open>bootstrap_admin.ts\<close>: codes are sent and
  redeemed, a sign-up creates a trial with its owner, the administrator gets a pre-authentication
  token.
\<close>

subsection \<open>auth\_service.ts\<close>

record SendCodeInput =
  sc_email :: string
  sc_purpose :: CodePurpose
  sc_turnstileToken :: string
  sc_locale :: "Locale option"

record CreateSessionInput =
  cs_email :: string
  cs_code :: string
  cs_purpose :: CodePurpose

datatype SessionResult = SessionIssued IssuedSession | PasskeyRequired string bool

text \<open>The outcome of \<^verbatim>\<open>parseOrThrow\<close>.\<close>

definition parsed :: "AppError + 'a \<Rightarrow> 'a io" where
  "parsed r = (case r of Inl e \<Rightarrow> throw (App e) | Inr x \<Rightarrow> ret x)"

definition field_error :: "string \<Rightarrow> string \<Rightarrow> AppError" where
  "field_error path message =
     AppError_new VALIDATION_FAILED (Some message) None
       (Some [(''errors'', JArr [JObj [(''path'', JStr path), (''message'', JStr message)]])])"

definition sendCode :: "env \<Rightarrow> AppError + SendCodeInput \<Rightarrow> RequestMeta \<Rightarrow> unit io" where
  "sendCode E raw meta =
     bnd (parsed raw) (\<lambda>input.
     bnd (external (e_turnstile E (sc_turnstileToken input) (rm_ip meta))) (\<lambda>human.
     if \<not> human then throw (App (field_error ''turnstileToken'' ''TURNSTILE_FAILED''))
     else
       let email = sc_email input; h = emailHmac E email in
       bnd (emailRefusal email h) (\<lambda>refusal.
       case refusal of
         Some BlockedDomain \<Rightarrow> throw (App (field_error ''email'' ''EMAIL_DOMAIN_BLOCKED''))
       | Some BlockedEmail \<Rightarrow> ret ()
       | None \<Rightarrow>
           thn (assertCanSend h)
           (let locale = dflt (sc_locale input) ZhCN in
            if sc_purpose input = PSignup
            then bnd (precheck E (ipHmac E (rm_ip meta))) (\<lambda>closed.
                 if closed \<noteq> None then fail SIGNUP_CLOSED
                 else bnd (query (account_findByEmailHmac h)) (\<lambda>existing.
                   bnd (if existing \<noteq> None then ret None
                        else bnd (encryptEmail E email) (\<lambda>e. ret (Some e))) (\<lambda>enc.
                   otp_issue E \<lparr>io_email = email, io_emailHmac = h, io_purpose = PSignup, io_locale = locale,
                     io_emailEnc = enc, io_deliver = (existing = None)\<rparr>)))
            else bnd (query (account_findByEmailHmac h)) (\<lambda>account.
                 otp_issue E \<lparr>io_email = email, io_emailHmac = h, io_purpose = PLogin,
                   io_locale = (case account of Some a \<Rightarrow> ac_locale a | None \<Rightarrow> locale),
                   io_emailEnc = None,
                   io_deliver = (case account of Some a \<Rightarrow> ac_bannedAt a = None | None \<Rightarrow> False)\<rparr>)))))"

definition auth_signup :: "env \<Rightarrow> string \<Rightarrow> PendingCode \<Rightarrow> RequestMeta \<Rightarrow> SessionResult io" where
  "auth_signup E h pending meta =
     (case (case pc_emailEnc pending of Some e \<Rightarrow> if e = [] then None else Some e | None \<Rightarrow> None) of
        None \<Rightarrow> thn (otp_consume h PSignup) (fail CODE_INVALID)
      | Some enc \<Rightarrow>
          bnd now (\<lambda>t.
          bnd (new_ulid E t) (\<lambda>userId.
          bnd (new_ulid E t) (\<lambda>tenantId.
          bnd (attempt (signup
            \<lparr>su_day = utcDay t, su_ipKey = signupIpKey (ipHmac E (rm_ip meta)), su_userId = userId,
             su_tenantId = tenantId, su_emailHmac = h, su_emailEnc = enc,
             su_locale = (if pc_locale pending = Some EnUS then EnUS else ZhCN), su_now = t,
             su_trialExpiresAt = t + cf_trialHours (e_cfg E) * HOUR_MS,
             su_purgeBacklogLimit = cf_purgeBacklogLimit (e_cfg E)\<rparr>)) (\<lambda>outcome.
          case outcome of
            Closed \<Rightarrow> fail SIGNUP_CLOSED
          | Duplicate \<Rightarrow> thn (otp_consume h PSignup) (fail CODE_INVALID)
          | Created \<Rightarrow>
              bnd (query (account_findById userId)) (\<lambda>a.
              bnd (query (workspace_get tenantId)) (\<lambda>w.
              case (a, w) of
                (Some a, Some w) \<Rightarrow>
                  bnd (issue_session E a w [AmrOtp] meta) (\<lambda>s. ret (SessionIssued s))
              | _ \<Rightarrow> fail_d INTERNAL ''SIGNUP_NOT_VISIBLE'')))))))"

definition createSession :: "env \<Rightarrow> AppError + CreateSessionInput \<Rightarrow> RequestMeta \<Rightarrow> SessionResult io" where
  "createSession E raw meta =
     bnd (parsed raw) (\<lambda>input.
     let email = cs_email input; h = emailHmac E email in
     bnd (otp_verify E email h (cs_purpose input) (cs_code input)) (\<lambda>pending.
     if cs_purpose input = PSignup then auth_signup E h pending meta
     else bnd (query (account_findByEmailHmac h)) (\<lambda>a.
       thn (otp_consume h PLogin)
       (case a of
          None \<Rightarrow> fail CODE_INVALID
        | Some a \<Rightarrow>
            if ac_bannedAt a \<noteq> None then fail CODE_INVALID
            else if ac_role a = Admin
            then bnd (token_preAuth E (ac_userId a)) (\<lambda>tok.
                 bnd (query (passkey_count (ac_userId a))) (\<lambda>n. ret (PasskeyRequired tok (n = 0))))
            else bnd (query (workspace_get (ac_tenantId a))) (\<lambda>w.
              bnd now (\<lambda>t.
              case w of
                None \<Rightarrow> fail TRIAL_EXPIRED
              | Some w \<Rightarrow>
                  if \<not> trialUsable (ws_status w) (ws_trialExpiresAt w) t then fail TRIAL_EXPIRED
                  else bnd (issue_session E a w [AmrOtp] meta) (\<lambda>s. ret (SessionIssued s))))))))"

text \<open>The declared type of the purpose is the literal \<^verbatim>\<open>terminate\<close>; the code checks it all the same.\<close>

definition sendMeCode :: "env \<Rightarrow> CallCtx \<Rightarrow> CodePurpose \<Rightarrow> unit io" where
  "sendMeCode E ctx purpose =
     (if purpose \<noteq> PTerminate then fail VALIDATION_FAILED
      else if act_role (ctx_actor ctx) \<noteq> Human Owner \<or> act_actingAs (ctx_actor ctx) then fail FORBIDDEN
      else bnd (caller ctx) (\<lambda>a.
        if ac_role a \<noteq> Owner \<or> ac_tenantId a \<noteq> ctx_tid ctx then fail FORBIDDEN
        else thn (assertCanSend (ac_emailHmac a))
          (bnd (decryptEmail E (ac_emailEnc a)) (\<lambda>email.
           otp_issue E \<lparr>io_email = email, io_emailHmac = ac_emailHmac a, io_purpose = PTerminate,
             io_locale = ac_locale a, io_emailEnc = None, io_deliver = True\<rparr>))))"

subsection \<open>Invariants\<close>

lemma safe_auth_reads [keeps_intros]:
  "safe I (assertCanSend h)" "safe I (emailRefusal a h)" "safe I (precheck E ip)" "safe I (parsed r)"
  "safe I (draw_code E)"
  unfolding assertCanSend_def emailRefusal_def precheck_def parsed_def Let_def
  by (intro keeps_intros)+ (rule keepsI, simp add: draw_code_def split: option.splits prod.splits)

context repo_inv
begin

lemma otp_safe: "safe I (otp_issue E opts)" "safe I (otp_verify E a h p c)" "safe I (otp_consume h p)"
proof -
  have f: "safe I (otp_failed h p d t pe u)" for h p d t pe u
    unfolding otp_failed_def Let_def by (intro keeps_intros exec_step run_step db_steps)
  show "safe I (otp_issue E opts)" "safe I (otp_verify E a h p c)" "safe I (otp_consume h p)"
    unfolding otp_issue_def otp_verify_def otp_consume_def Let_def
    by (intro keeps_intros exec_step run_step db_steps send_safe f)+
qed

lemma auth_safe:
  "safe I (sendCode E raw meta)" "safe I (createSession E raw' meta)" "safe I (sendMeCode E ctx p)"
proof -
  have r: "safe I (case r of None \<Rightarrow> m0 | Some BlockedDomain \<Rightarrow> m1 | Some BlockedEmail \<Rightarrow> m2)"
    if "safe I m0" "safe I m1" "safe I m2" for r and m0 m1 m2 :: "'z io"
    using that by (simp split: option.splits EmailRefusal.splits)
  have su: "safe I (auth_signup E h pe meta)" for h pe
    unfolding auth_signup_def
    by (auto intro!: keeps_intros attempt_step db_steps otp_safe session_safe
        split: option.splits SignupOutcome.splits)
  show "safe I (sendCode E raw meta)"
    unfolding sendCode_def Let_def by (intro keeps_intros otp_safe r)
  show "safe I (createSession E raw' meta)"
    unfolding createSession_def Let_def by (intro keeps_intros otp_safe su session_safe)
  show "safe I (sendMeCode E ctx p)"
    unfolding sendMeCode_def by (intro keeps_intros otp_safe)
qed

end

end
