(* ===== verification/OtpProps.thy ===== *)
theory OtpProps
  imports Auth
begin

section \<open>What one-time codes guarantee\<close>

text \<open>
  A code is accepted only while it is live and only when it is the code that was issued; a guesser
  has five tries per code and ten per address and day.
\<close>

subsection \<open>One verification\<close>

lemma getPending_bump:
  "getPending h p (snd (bumpAttempts h p db))
     = map_option (\<lambda>c. c\<lparr>pc_attempts := pc_attempts c + 1\<rparr>) (getPending h p db)"
  "fst (bumpAttempts h p db)
     = (case getPending h p db of Some c \<Rightarrow> pc_attempts c + 1 | None \<Rightarrow> OTP_maxAttemptsPerCode)"
  by (auto simp: bumpAttempts_def getPending_def Let_def sel1_upd_key_only option.map_comp o_def
      split: option.splits)

lemma getPending_delete: "getPending h p (deletePending h p db) = None"
  by (simp add: deletePending_def getPending_def sel1_del_key)

lemma getPending_frame [simp]:
  "getPending h p (snd (recordFailure h' d db)) = getPending h p db"
  "getPending h p (code_lock h' d u db) = getPending h p db"
  by (simp_all add: recordFailure_def code_lock_def getPending_def Let_def)

lemma limits_frame [simp]:
  "db_otp (snd (bumpAttempts h p db)) = db_otp db" "db_otp (deletePending h p db) = db_otp db"
  by (simp_all add: bumpAttempts_def deletePending_def Let_def)

text \<open>The database after a code was refused.\<close>

definition after_failure ::
  "string \<Rightarrow> CodePurpose \<Rightarrow> string \<Rightarrow> time \<Rightarrow> PendingCode option \<Rightarrow> bool \<Rightarrow> idb \<Rightarrow> idb" where
  "after_failure h purpose day t pending usable db =
     (let (attempts, db1) = (if usable then bumpAttempts h purpose db else (OTP_maxAttemptsPerCode, db));
          (failures, db2) = recordFailure h day db1;
          outcome = onFailure attempts failures t;
          db3 = (if pending \<noteq> None \<and> (fo_dropCode outcome \<or> \<not> usable) then deletePending h purpose db2 else db2)
      in case fo_lockUntil outcome of None \<Rightarrow> db3 | Some u \<Rightarrow> code_lock h day u db3)"

lemma otp_failed_app:
  fixes w :: world
  shows "otp_failed h p d t pe u w
    = (Inl (App (app_error CODE_INVALID)), w\<lparr>w_db := after_failure h p d t pe u (w_db w)\<rparr>)"
  by (cases u) (auto simp: otp_failed_def after_failure_def Let_def run_app thn_app split_beta bnd_app
      split: option.splits)

lemma otp_verify_app:
  fixes w :: world
  shows "otp_verify E email h p c w =
    (let t = w_now w; day = utcDay t; pending = getPending h p (w_db w); usable = otp_usable pending t
     in if is_locked (code_limits h day (w_db w)) t
        then (Inl (App (app_error_d RATE_LIMITED ''EMAIL_LOCKED'')), w)
        else if usable \<and> constantTimeEqual (codeHmac E email p c) (pc_codeHmac (the pending))
        then (Inr (the pending), w)
        else (Inl (App (app_error CODE_INVALID)), w\<lparr>w_db := after_failure h p day t pending usable (w_db w)\<rparr>))"
  by (cases "getPending h p (w_db w)")
    (auto simp: otp_verify_def Let_def otp_failed_app otp_usable_def)

text \<open>C19: only the issued code signs in. A verification returns exactly when the address is not locked
and the pending code of that purpose is unexpired, has had fewer than five wrong tries and has the HMAC
of the code presented; it then returns that pending code and changes nothing. Any other attempt throws.\<close>

theorem otp_verify_sound:
  "(\<exists>w'. otp_verify E email h purpose c w = (Inr pc, w')) \<longleftrightarrow>
     \<not> is_locked (code_limits h (utcDay (w_now w)) (w_db w)) (w_now w)
     \<and> getPending h purpose (w_db w) = Some pc
     \<and> pc_expiresAt pc > w_now w \<and> pc_attempts pc < OTP_maxAttemptsPerCode
     \<and> pc_codeHmac pc = codeHmac E email purpose c"
  by (auto simp: otp_verify_app Let_def otp_usable_def constantTimeEqual_same split: option.splits if_splits)

subsection \<open>Five tries per code\<close>

lemma pending_after_failure:
  "getPending h p (after_failure h p d t (getPending h p db) (otp_usable (getPending h p db) t') db)
     = (case getPending h p db of
          None \<Rightarrow> None
        | Some c \<Rightarrow> if otp_usable (Some c) t' \<and> pc_attempts c + 1 < OTP_maxAttemptsPerCode
                  then Some (c\<lparr>pc_attempts := pc_attempts c + 1\<rparr>) else None)"
  by (auto simp: after_failure_def Let_def split_beta getPending_bump getPending_delete onFailure_def
      otp_usable_def split: option.splits)

lemma getPending_other:
  "(h2, p2) \<noteq> (h, p) \<Longrightarrow> getPending h2 p2 (snd (bumpAttempts h p db)) = getPending h2 p2 db"
  "(h2, p2) \<noteq> (h, p) \<Longrightarrow> getPending h2 p2 (deletePending h p db) = getPending h2 p2 db"
  by (simp_all add: bumpAttempts_def deletePending_def getPending_def Let_def sel1_upd_key_only sel1_del_key
      del: prod.inject)

lemma after_failure_other:
  "(h2, p2) \<noteq> (h, p) \<Longrightarrow> getPending h2 p2 (after_failure h p d t pe u db) = getPending h2 p2 db"
  by (auto simp: after_failure_def Let_def split_beta getPending_other split: option.splits)

text \<open>A run of guesses, each at its own time, for any address and purpose.\<close>

record guess =
  gs_time :: time
  gs_email :: string
  gs_hmac :: string
  gs_purpose :: CodePurpose
  gs_code :: string

fun run_guesses :: "env \<Rightarrow> guess list \<Rightarrow> world \<Rightarrow> (exn + PendingCode) list \<times> world" where
  "run_guesses E [] w = ([], w)"
| "run_guesses E (g # gs) w =
     (case otp_verify E (gs_email g) (gs_hmac g) (gs_purpose g) (gs_code g) (w\<lparr>w_now := gs_time g\<rparr>) of
        (r, w1) \<Rightarrow> (case run_guesses E gs w1 of (rs, w2) \<Rightarrow> (r # rs, w2)))"

abbreviation code_invalid :: "exn + PendingCode" where
  "code_invalid \<equiv> Inl (App (app_error CODE_INVALID))"

text \<open>How many tries of one pending code were counted as wrong.\<close>

fun counted :: "string \<Rightarrow> CodePurpose \<Rightarrow> guess list \<Rightarrow> (exn + PendingCode) list \<Rightarrow> nat" where
  "counted h p (g # gs) (r # rs) =
     (if gs_hmac g = h \<and> gs_purpose g = p \<and> r = code_invalid then 1 else 0) + counted h p gs rs"
| "counted h p _ _ = 0"

definition wrong_for :: "env \<Rightarrow> string \<Rightarrow> CodePurpose \<Rightarrow> string \<Rightarrow> guess list \<Rightarrow> bool" where
  "wrong_for E h p hm gs \<longleftrightarrow>
     list_all (\<lambda>g. gs_hmac g = h \<and> gs_purpose g = p \<longrightarrow> codeHmac E (gs_email g) p (gs_code g) \<noteq> hm) gs"

definition tries_left :: "string \<Rightarrow> CodePurpose \<Rightarrow> string \<Rightarrow> nat \<Rightarrow> idb \<Rightarrow> bool" where
  "tries_left h p hm a db \<longleftrightarrow>
     (case getPending h p db of None \<Rightarrow> True
      | Some c \<Rightarrow> pc_codeHmac c = hm \<and> pc_attempts c = int a \<and> a < 5)"

lemma guess_counts:
  assumes "wrong_for E h p hm [g]" "tries_left h p hm a (w_db w)"
    and "otp_verify E (gs_email g) (gs_hmac g) (gs_purpose g) (gs_code g) (w\<lparr>w_now := gs_time g\<rparr>) = (r, w1)"
  shows "tries_left h p hm (a + counted h p [g] [r]) (w_db w1)"
proof (cases "gs_hmac g = h \<and> gs_purpose g = p")
  case other: False
  then have "getPending h p (w_db w1) = getPending h p (w_db w)"
    using assms(3) by (auto simp: otp_verify_app Let_def after_failure_other split: if_splits)
  with assms(2) other show ?thesis by (auto simp: tries_left_def split: option.splits)
next
  case key: True
  let ?pe = "getPending h p (w_db w)" and ?t = "gs_time g"
  show ?thesis
  proof (cases "is_locked (code_limits h (utcDay ?t) (w_db w)) ?t")
    case True
    then have "r = Inl (App (app_error_d RATE_LIMITED ''EMAIL_LOCKED''))" "w_db w1 = w_db w"
      using assms(3) key by (auto simp: otp_verify_app Let_def)
    with assms(2) show ?thesis by (auto simp: AppError_new_def)
  next
    case False
    have "\<not> (otp_usable ?pe ?t \<and> constantTimeEqual (codeHmac E (gs_email g) p (gs_code g)) (pc_codeHmac (the ?pe)))"
      using assms(1,2) key by (auto simp: otp_usable_def constantTimeEqual_same wrong_for_def tries_left_def
          split: option.splits)
    with assms(3) False key have f0: "r = code_invalid"
      "w1 = w\<lparr>w_now := ?t, w_db := after_failure h p (utcDay ?t) ?t ?pe (otp_usable ?pe ?t) (w_db w)\<rparr>"
      by (simp_all add: otp_verify_app Let_def)
    then have f: "r = code_invalid"
      "getPending h p (w_db w1) = (case ?pe of
          None \<Rightarrow> None
        | Some c \<Rightarrow> if otp_usable (Some c) ?t \<and> pc_attempts c + 1 < OTP_maxAttemptsPerCode
                  then Some (c\<lparr>pc_attempts := pc_attempts c + 1\<rparr>) else None)"
      by (simp_all add: pending_after_failure)
    with assms(2) key show ?thesis by (auto simp: tries_left_def OTP_defs split: option.splits)
  qed
qed

lemma guesses_count:
  "wrong_for E h p hm gs \<Longrightarrow> tries_left h p hm a (w_db w) \<Longrightarrow> run_guesses E gs w = (rs, w') \<Longrightarrow>
   tries_left h p hm (a + counted h p gs rs) (w_db w')"
proof (induction gs arbitrary: w a rs)
  case (Cons g gs)
  obtain r w1 rs1 where r: "otp_verify E (gs_email g) (gs_hmac g) (gs_purpose g) (gs_code g) (w\<lparr>w_now := gs_time g\<rparr>) = (r, w1)"
    and rs1: "run_guesses E gs w1 = (rs1, w')" "rs = r # rs1"
    using Cons.prems(3) by (auto split: prod.splits)
  have "tries_left h p hm (a + counted h p [g] [r]) (w_db w1)"
    by (rule guess_counts [OF _ Cons.prems(2) r]) (use Cons.prems(1) in \<open>simp add: wrong_for_def\<close>)
  moreover have "wrong_for E h p hm gs" using Cons.prems(1) by (simp add: wrong_for_def)
  ultimately have "tries_left h p hm (a + counted h p [g] [r] + counted h p gs rs1) (w_db w')"
    using Cons.IH rs1(1) by blast
  then show ?case by (simp add: rs1(2) add.assoc)
qed simp

text \<open>C20: five tries per code. Guesses may be made for any addresses and purposes, in any order and at any
times. As long as none of those for a pending code presents the issued code, once five of them have been
counted as wrong the code is gone, and from then on even the right code is refused.\<close>

theorem five_guesses_per_code:
  assumes "getPending h purpose (w_db w) = Some pc" "pc_attempts pc = 0"
    and "wrong_for E h purpose (pc_codeHmac pc) gs"
    and "run_guesses E gs w = (rs, w')" "counted h purpose gs rs \<ge> 5"
  shows "getPending h purpose (w_db w') = None \<and> fst (otp_verify E email h purpose c w') \<noteq> Inr pc'"
proof -
  have "tries_left h purpose (pc_codeHmac pc) 0 (w_db w)" using assms(1,2) by (simp add: tries_left_def)
  from guesses_count [OF assms(3) this assms(4)] assms(5)
  have "getPending h purpose (w_db w') = None" by (auto simp: tries_left_def split: option.splits)
  then show ?thesis by (auto simp: otp_verify_app Let_def otp_usable_def)
qed

text \<open>A code put into the database of the witnesses.\<close>

definition code_db :: idb where
  "code_db = putPending ''h'' PLogin
     \<lparr>pc_codeHmac = ''x'', pc_attempts = 0, pc_expiresAt = 900, pc_emailEnc = None, pc_locale = None\<rparr> empty_db"

definition wrong_guess :: guess where
  "wrong_guess = \<lparr>gs_time = 100, gs_email = ''e'', gs_hmac = ''h'', gs_purpose = PLogin, gs_code = ''no''\<rparr>"

lemma code_db_pending: "getPending ''h'' PLogin code_db
  = Some \<lparr>pc_codeHmac = ''x'', pc_attempts = 0, pc_expiresAt = 900, pc_emailEnc = None, pc_locale = None\<rparr>"
  by (simp add: code_db_def putPending_def getPending_def empty_db_def Let_def pending_key_def)

lemma wrong_guess_wrong: "wrong_for demo_env ''h'' PLogin ''x'' (replicate n wrong_guess)"
  by (induction n) (auto simp: wrong_for_def wrong_guess_def codeHmac_def hmacSha256Hex_def demo_env_def
      demo_cfg_def toHex_def)

lemma wrong_guess_counts:
  "counted ''h'' PLogin (replicate 5 wrong_guess) (fst (run_guesses demo_env (replicate 5 wrong_guess) (demo_world code_db 0))) = 5"
proof -
  have n: "codeHmac demo_env ''e'' PLogin ''no'' \<noteq> ''x''"
    by (simp add: codeHmac_def hmacSha256Hex_def demo_env_def demo_cfg_def toHex_def)
  show ?thesis
    using n by (simp add: eval_nat_numeral wrong_guess_def otp_verify_app Let_def code_db_def putPending_def
      getPending_def empty_db_def pending_key_def is_locked_def code_limits_def max_opt_def otp_usable_def
      OTP_defs constantTimeEqual_same after_failure_def bumpAttempts_def recordFailure_def otp_ensure_def
      otp_key_def onFailure_def deletePending_def)
qed

theorem five_guesses_per_code_witness:
  "getPending ''h'' PLogin (w_db (snd (run_guesses demo_env (replicate 5 wrong_guess) (demo_world code_db 0)))) = None"
  using five_guesses_per_code [OF _ _ _ prod.collapse [symmetric], of "''h''" PLogin "demo_world code_db 0"
      "\<lparr>pc_codeHmac = ''x'', pc_attempts = 0, pc_expiresAt = 900, pc_emailEnc = None, pc_locale = None\<rparr>"
      demo_env "replicate 5 wrong_guess"] code_db_pending wrong_guess_wrong wrong_guess_counts
  by simp

subsection \<open>Ten failures a day\<close>

definition failures_of :: "idb \<Rightarrow> string \<times> string \<Rightarrow> int" where
  "failures_of db k = (case sel1 (\<lambda>r. otp_key r = k) (db_otp db) of Some r \<Rightarrow> ol_failures r | None \<Rightarrow> 0)"

lemma sel1_otp_upd:
  "sel1 (\<lambda>r. otp_key r = k') (upd (\<lambda>r. otp_key r = k) f t) =
     (if k' = k then map_option f (sel1 (\<lambda>r. otp_key r = k) t) else sel1 (\<lambda>r. otp_key r = k') t)"
  if "\<And>r. otp_key (f r) = otp_key r"
  by (simp add: sel1_upd_key_only that)

lemma recordFailure_row:
  "sel1 (\<lambda>r. otp_key r = k) (db_otp (snd (recordFailure h d db))) =
     (if k = (h, d)
      then Some (case sel1 (\<lambda>r. otp_key r = (h, d)) (db_otp db) of
               Some r \<Rightarrow> r\<lparr>ol_failures := ol_failures r + 1\<rparr>
             | None \<Rightarrow> \<lparr>ol_emailHmac = h, ol_day = d, ol_sends = 0, ol_failures = 1, ol_lockedUntil = None\<rparr>)
      else sel1 (\<lambda>r. otp_key r = k) (db_otp db))"
  by (auto simp: recordFailure_def Let_def sel1_otp_upd otp_ensure_row otp_ensure_other simp del: prod.inject
      split: option.splits)

lemma recordFailure_failures:
  "failures_of (snd (recordFailure h d db)) k = failures_of db k + (if k = (h, d) then 1 else 0)"
  "fst (recordFailure h d db) = failures_of db (h, d) + 1"
proof -
  show "failures_of (snd (recordFailure h d db)) k = failures_of db k + (if k = (h, d) then 1 else 0)"
    by (auto simp: failures_of_def recordFailure_row split: option.splits)
  then show "fst (recordFailure h d db) = failures_of db (h, d) + 1"
    by (auto simp: recordFailure_def Let_def failures_of_def sel1_otp_upd otp_ensure_row split: option.splits)
qed

lemma code_lock_failures [simp]: "failures_of (code_lock h d u db) k = failures_of db k"
  by (auto simp: failures_of_def code_lock_def sel1_otp_upd split: option.splits)

lemma failures_frame [simp]:
  "failures_of (snd (bumpAttempts h p db)) k = failures_of db k"
  "failures_of (deletePending h p db) k = failures_of db k"
  by (simp_all add: failures_of_def)

lemma max_opt_ge: "Some u \<in> set vs \<Longrightarrow> \<exists>m. max_opt vs = Some m \<and> u \<le> m"
proof -
  let ?f = "\<lambda>m v. case (m, v) of (Some a, Some b) \<Rightarrow> Some (max a b) | (None, v) \<Rightarrow> v | (m, None) \<Rightarrow> m"
  have mono: "\<exists>m. foldl ?f (Some a) vs = Some m \<and> a \<le> m" for a :: int and vs
  proof (induction vs arbitrary: a)
    case (Cons v vs)
    show ?case using Cons.IH [of a] Cons.IH [of "max a (the v)"] by (cases v) auto
  qed simp
  have "Some u \<in> set vs \<Longrightarrow> \<exists>m. foldl ?f acc vs = Some m \<and> u \<le> m" for acc
  proof (induction vs arbitrary: acc)
    case (Cons v vs)
    show ?case
    proof (cases "v = Some u")
      case True
      then show ?thesis using mono [of u vs] mono [of "max (the acc) u" vs] by (cases acc) auto
    next
      case False
      with Cons show ?thesis by auto
    qed
  qed simp
  then show "Some u \<in> set vs \<Longrightarrow> \<exists>m. max_opt vs = Some m \<and> u \<le> m"
    unfolding max_opt_def .
qed

lemma locked_row:
  "r \<in> set (db_otp db) \<Longrightarrow> ol_emailHmac r = h \<Longrightarrow> ol_lockedUntil r = Some u \<Longrightarrow> t < u \<Longrightarrow>
   is_locked (code_limits h d db) t"
  using max_opt_ge [of u "map ol_lockedUntil (filter (\<lambda>r. ol_emailHmac r = h) (db_otp db))"]
  by (force simp: is_locked_def code_limits_def Let_def)

lemma code_lock_locks:
  assumes "sel1 (\<lambda>r. otp_key r = (h, d)) (db_otp db) \<noteq> None" "t < u"
  shows "is_locked (code_limits h d' (code_lock h d u db)) t"
proof -
  obtain r where "sel1 (\<lambda>r. otp_key r = (h, d)) (db_otp db) = Some r" using assms(1) by blast
  then have "sel1 (\<lambda>r. otp_key r = (h, d)) (db_otp (code_lock h d u db)) = Some (r\<lparr>ol_lockedUntil := Some u\<rparr>)"
    by (simp add: code_lock_def sel1_otp_upd)
  from sel1_Some [OF this] show ?thesis
    using assms(2) by (intro locked_row [of "r\<lparr>ol_lockedUntil := Some u\<rparr>"]) (auto simp: otp_key_def)
qed

lemma after_failure_failures:
  "failures_of (after_failure h p d t pe u db) k = failures_of db k + (if k = (h, d) then 1 else 0)"
  by (auto simp: after_failure_def Let_def split_beta recordFailure_failures split: option.splits)

lemma after_failure_locks:
  assumes "failures_of db (h, d) + 1 \<ge> OTP_maxFailuresPerDay" "t' < t + DAY_MS"
  shows "is_locked (code_limits h d' (after_failure h p d t pe u db)) t'"
  using assms
  by (auto simp: after_failure_def Let_def split_beta onFailure_def recordFailure_failures OTP_lockMs_def
      recordFailure_row intro!: code_lock_locks split: option.splits)

text \<open>Locks of an address only come and go with its own failures here.\<close>

lemma after_failure_other_limits:
  assumes "h2 \<noteq> h"
  shows "code_limits h2 d2 (after_failure h p d t pe u db) = code_limits h2 d2 db"
proof -
  have f: "filter (\<lambda>r. ol_emailHmac r = h2) (upd (\<lambda>r. otp_key r = (h, d)) g t) = filter (\<lambda>r. ol_emailHmac r = h2) t"
    if "\<And>r. otp_key (g r) = otp_key r" for g t
  proof (induction t)
    case (Cons r t)
    with assms that [of r] show ?case by (auto simp: otp_key_def)
  qed simp
  have e: "filter (\<lambda>r. ol_emailHmac r = h2) (otp_ensure h d t) = filter (\<lambda>r. ol_emailHmac r = h2) t" for t
    using assms by (simp add: otp_ensure_def)
  have l: "code_limits h2 d2 (code_lock h d x db) = code_limits h2 d2 db" for x db
    by (simp add: code_limits_def code_lock_def f)
  have r: "code_limits h2 d2 (snd (recordFailure h d db)) = code_limits h2 d2 db" for db
    by (simp add: code_limits_def recordFailure_def Let_def f e)
  have o: "code_limits h2 d2 (snd (bumpAttempts h p db)) = code_limits h2 d2 db"
    "code_limits h2 d2 (deletePending h p db) = code_limits h2 d2 db" for db
    by (simp_all add: code_limits_def)
  show ?thesis
    by (auto simp: after_failure_def Let_def split_beta l r o split: option.splits)
qed

text \<open>The state of an address on a day of guesses: below ten failures, or locked until the day is over.\<close>

definition day_bounded :: "string \<Rightarrow> string \<Rightarrow> time \<Rightarrow> idb \<Rightarrow> bool" where
  "day_bounded h d T db \<longleftrightarrow>
     failures_of db (h, d) < OTP_maxFailuresPerDay
     \<or> (failures_of db (h, d) = OTP_maxFailuresPerDay
        \<and> (\<forall>t < T + DAY_MS. is_locked (code_limits h d db) t))"

lemma guess_day_bounded:
  assumes "day_bounded h d T (w_db w)" "T \<le> gs_time g" "gs_time g < T + DAY_MS" "utcDay (gs_time g) = d"
    and "otp_verify E (gs_email g) (gs_hmac g) (gs_purpose g) (gs_code g) (w\<lparr>w_now := gs_time g\<rparr>) = (r, w1)"
  shows "day_bounded h d T (w_db w1)"
proof (cases "gs_hmac g = h \<and> w_db w1 \<noteq> w_db w")
  case True
  let ?pe = "getPending h (gs_purpose g) (w_db w)"
  have nl: "\<not> is_locked (code_limits h d (w_db w)) (gs_time g)"
    and db: "w_db w1 = after_failure h (gs_purpose g) d (gs_time g) ?pe (otp_usable ?pe (gs_time g)) (w_db w)"
    using assms(4,5) True by (auto simp: otp_verify_app Let_def split: if_splits)
  have lt: "failures_of (w_db w) (h, d) < OTP_maxFailuresPerDay"
    using nl assms(1,3) by (auto simp: day_bounded_def)
  show ?thesis
  proof (cases "failures_of (w_db w) (h, d) + 1 \<ge> OTP_maxFailuresPerDay")
    case ten: True
    have "is_locked (code_limits h d (w_db w1)) t" if "t < T + DAY_MS" for t
      unfolding db by (rule after_failure_locks [OF ten]) (use that assms(2) in simp)
    with lt ten show ?thesis by (auto simp: day_bounded_def db after_failure_failures)
  next
    case False
    with lt show ?thesis by (auto simp: day_bounded_def db after_failure_failures)
  qed
next
  case same: False
  show ?thesis
  proof (cases "w_db w1 = w_db w")
    case False
    with same assms(4,5) show ?thesis
      using assms(1) by (auto simp: otp_verify_app Let_def day_bounded_def after_failure_failures
          after_failure_other_limits split: if_splits)
  qed (use assms(1) in simp)
qed



end
