(* ===== verification/Blobs.thy ===== *)
theory Blobs
  imports OtpProps
begin

section \<open>The archive bucket\<close>

text \<open>
  \<^verbatim>\<open>infrastructure/in_memory_blob_store.ts\<close>, the versioned object store that stands for the B2
  bucket in the repository's own harness: a key maps to its versions, oldest first. Any call may
  fail (\<^verbatim>\<open>check\<close>, here at any call index), and \<^verbatim>\<open>head\<close> may report a wrong size.
\<close>

type_synonym objects = "(string \<times> string list) list"

definition blob_put :: "string \<Rightarrow> string \<Rightarrow> objects \<Rightarrow> objects" where
  "blob_put key body vs = AList.update key ((case map_of vs key of Some l \<Rightarrow> l | None \<Rightarrow> []) @ [body]) vs"

definition blob_get :: "string \<Rightarrow> objects \<Rightarrow> string option" where
  "blob_get key vs = (case map_of vs key of None \<Rightarrow> None | Some l \<Rightarrow> if l = [] then None else Some (last l))"

definition blob_deletePrefix :: "string \<Rightarrow> objects \<Rightarrow> nat \<times> objects" where
  "blob_deletePrefix prefix vs =
     (sum_list (map (\<lambda>kv. length (snd kv)) (filter (\<lambda>kv. starts_with prefix (fst kv)) vs)),
      filter (\<lambda>kv. \<not> starts_with prefix (fst kv)) vs)"

definition blob_deleteAll :: "string \<Rightarrow> objects \<Rightarrow> nat \<times> objects" where
  "blob_deleteAll key vs =
     (case map_of vs key of Some l \<Rightarrow> length l | None \<Rightarrow> 0, AList.delete key vs)"

text \<open>The calls: each counts as one call to an outside service and may throw.\<close>

definition blob_call :: "env \<Rightarrow> BlobOp \<Rightarrow> (objects \<Rightarrow> 'a \<times> objects) \<Rightarrow> 'a io" where
  "blob_call E op f = (\<lambda>w.
     (let w1 = w\<lparr>w_calls := Suc (w_calls w)\<rparr> in
      if e_blobFails E op (w_calls w) then (Inl (Ext ''injected failure''), w1)
      else (Inr (fst (f (w_blobs w))), w1\<lparr>w_blobs := snd (f (w_blobs w))\<rparr>)))"

definition store_put :: "env \<Rightarrow> string \<Rightarrow> string \<Rightarrow> unit io" where
  "store_put E key body = blob_call E BPut (\<lambda>vs. ((), blob_put key body vs))"

definition store_get :: "env \<Rightarrow> string \<Rightarrow> string option io" where
  "store_get E key = blob_call E BGet (\<lambda>vs. (blob_get key vs, vs))"

definition store_head :: "env \<Rightarrow> string \<Rightarrow> nat option io" where
  "store_head E key = (\<lambda>w. blob_call E BHead (\<lambda>vs.
     (map_option (\<lambda>b. e_headSize E (w_calls w) (length b)) (blob_get key vs), vs)) w)"

definition store_deletePrefix :: "env \<Rightarrow> string \<Rightarrow> nat io" where
  "store_deletePrefix E prefix = blob_call E BDelete (blob_deletePrefix prefix)"

definition store_deleteAllVersions :: "env \<Rightarrow> string \<Rightarrow> nat io" where
  "store_deleteAllVersions E key = blob_call E BDelete (blob_deleteAll key)"

lemma blob_call_safe [keeps_intros]: "safe I (blob_call E op f)"
  by (rule keepsI) (simp add: blob_call_def Let_def)

lemma store_safe [keeps_intros]:
  "safe I (store_put E k b)" "safe I (store_get E k)" "safe I (store_deletePrefix E p)"
  "safe I (store_deleteAllVersions E k)"
  by (simp_all add: store_put_def store_get_def store_deletePrefix_def store_deleteAllVersions_def blob_call_safe)

lemma store_head_safe [keeps_intros]: "safe I (store_head E k)"
  by (rule keepsI) (simp add: store_head_def blob_call_def Let_def)

lemma blob_get_put: "blob_get k (blob_put key body vs) = (if k = key then Some body else blob_get k vs)"
  by (auto simp: blob_get_def blob_put_def update_conv' split: option.splits)

lemma blob_get_deleteAll: "blob_get k (snd (blob_deleteAll key vs)) = (if k = key then None else blob_get k vs)"
  by (auto simp: blob_get_def blob_deleteAll_def delete_conv' split: option.splits)

lemma blob_get_deletePrefix:
  "blob_get k (snd (blob_deletePrefix prefix vs)) = (if starts_with prefix k then None else blob_get k vs)"
proof -
  have "map_of (filter (\<lambda>kv. \<not> starts_with prefix (fst kv)) vs) k
      = (if starts_with prefix k then None else map_of vs k)"
    by (induction vs) auto
  then show ?thesis by (simp add: blob_get_def blob_deletePrefix_def)
qed

end
