(* ===== verification/Trials.thy ===== *)
theory Trials
  imports Blobs
begin

section \<open>The life of a trial\<close>

text \<open>
  \<^verbatim>\<open>application/tenancy/trial_service.ts\<close>: early termination, reminders, expiry, the archive
  deletion link and the final deletion. An ISO text of a DTO is kept as in the code; logging is left
  out.
\<close>

definition closeStreams :: "env \<Rightarrow> string \<Rightarrow> unit io" where
  "closeStreams E tenantId =
     catch (external (e_close E tenantId STREAM_CLOSE_EXPIRED)) (\<lambda>_. ret ())"

definition afterExpiry :: "env \<Rightarrow> string \<Rightarrow> string \<Rightarrow> unit io" where
  "afterExpiry E tenantId ownerUserId = thn (revokeUser ownerUserId) (closeStreams E tenantId)"

definition trial_end :: "env \<Rightarrow> string \<Rightarrow> bool io" where
  "trial_end E tenantId =
     bnd (query (workspace_get tenantId)) (\<lambda>w.
     case w of
       None \<Rightarrow> ret False
     | Some w \<Rightarrow>
         if ws_kind w \<noteq> Trial then ret False
         else bnd now (\<lambda>t.
           bnd (run (endTrial tenantId t)) (\<lambda>ended.
           if \<not> ended then ret False
           else thn (afterExpiry E tenantId (ws_ownerUserId w)) (ret True))))"

definition is_code_text :: "string \<Rightarrow> bool" where
  "is_code_text c \<longleftrightarrow> length c = 6 \<and> list_all is_digit c"

definition terminate_trial :: "env \<Rightarrow> CallCtx \<Rightarrow> string \<Rightarrow> unit io" where
  "terminate_trial E ctx c =
     (if act_role (ctx_actor ctx) \<noteq> Human Owner \<or> act_actingAs (ctx_actor ctx) then fail FORBIDDEN
      else bnd (caller ctx) (\<lambda>a.
        if ac_role a \<noteq> Owner \<or> ac_tenantId a \<noteq> ctx_tid ctx then fail FORBIDDEN
        else if \<not> is_code_text c then fail CODE_INVALID
        else bnd (contactOf E a) (\<lambda>contact.
          thn (otp_verify E (ct_email contact) (ac_emailHmac a) PTerminate c)
          (thn (otp_consume (ac_emailHmac a) PTerminate)
          (bnd (trial_end E (ac_tenantId a)) (\<lambda>ended.
           if \<not> ended then fail_d CONFLICT ''TRIAL_NOT_ACTIVE'' else ret ()))))))"

definition send_reminder :: "env \<Rightarrow> time \<Rightarrow> nat \<Rightarrow> AccountRecord \<times> time \<Rightarrow> nat io" where
  "send_reminder E t sent row =
     (let a = fst row in
      bnd (run (claimReminder (ac_userId a) t)) (\<lambda>claimed.
      if \<not> claimed then ret sent
      else bnd (contactOf E a) (\<lambda>c.
        bnd (notification_send E
               (trial_reminder (snd row) (ct_timeZone c) (cf_appOrigin (e_cfg E)))
               (ct_email c) (ct_locale c) (''reminder:'' @ ac_tenantId a)) (\<lambda>r.
        if sr_ok r then ret (Suc sent)
        else thn (exec (releaseReminder (ac_userId a))) (ret sent)))))"

definition sendReminders :: "env \<Rightarrow> nat io" where
  "sendReminders E =
     bnd now (\<lambda>t.
     bnd (query (dueReminders (t - REMINDER_AFTER_MS) t CRON_reminders)) (\<lambda>due.
     foldM (send_reminder E t) 0 due))"

definition expire_one :: "env \<Rightarrow> time \<Rightarrow> nat \<Rightarrow> WorkspaceRecord \<Rightarrow> nat io" where
  "expire_one E t n w =
     bnd (run (expire (ws_tenantId w) t)) (\<lambda>expired.
     if \<not> expired then ret n
     else thn (afterExpiry E (ws_tenantId w) (ws_ownerUserId w)) (ret (Suc n)))"

definition expireDue :: "env \<Rightarrow> nat io" where
  "expireDue E =
     bnd now (\<lambda>t.
     bnd (query (dueExpirations t CRON_expirations)) (\<lambda>due. foldM (expire_one E t) 0 due))"

definition token_shape :: "string \<Rightarrow> bool" where
  "token_shape tok \<longleftrightarrow>
     32 \<le> length tok \<and> length tok \<le> 128
     \<and> list_all (\<lambda>c. is_upper c \<or> is_lower c \<or> is_digit c \<or> c = CHR ''_'' \<or> c = CHR ''-'') tok"

definition byToken :: "env \<Rightarrow> string \<Rightarrow> ArchiveIndexRecord io" where
  "byToken E tok =
     (if \<not> token_shape tok then fail NOT_FOUND
      else bnd (query (archive_findByTokenHash (sha256Hex E tok))) (\<lambda>idx.
        bnd now (\<lambda>t.
        case idx of
          None \<Rightarrow> fail NOT_FOUND
        | Some i \<Rightarrow> if ar_expiresAt i \<le> t then fail NOT_FOUND else ret i)))"

definition archiveDeletionInfo :: "env \<Rightarrow> string \<Rightarrow> (string \<times> int) io" where
  "archiveDeletionInfo E tok =
     bnd (byToken E tok) (\<lambda>i. ret (toISOString (ar_expiresAt i), ar_sizeBytes i))"

definition finalDelete :: "env \<Rightarrow> ArchiveIndexRecord \<Rightarrow> unit io" where
  "finalDelete E idx =
     thn (store_deleteAllVersions E (ar_objectKey idx))
     (bnd now (\<lambda>t. exec (archive_finalDelete (ar_tenantId idx) t)))"

definition deleteArchiveByToken :: "env \<Rightarrow> string \<Rightarrow> unit io" where
  "deleteArchiveByToken E tok = bnd (byToken E tok) (finalDelete E)"

definition finalDeleteDue :: "env \<Rightarrow> nat \<Rightarrow> nat io" where
  "finalDeleteDue E n =
     bnd now (\<lambda>t.
     bnd (query (archive_due t n)) (\<lambda>due.
     thn (mapM (finalDelete E) due) (thn (run ledger_deleteOrphans) (ret (length due)))))"

lemma safe_trial_reads [keeps_intros]: "safe I (byToken E tok)" "safe I (archiveDeletionInfo E tok)"
  "safe I (closeStreams E t)"
  unfolding byToken_def archiveDeletionInfo_def closeStreams_def by (intro keeps_intros)+

context repo_inv
begin

lemma trial_safe:
  "safe I (trial_end E t)" "safe I (terminate_trial E ctx c)" "safe I (sendReminders E)"
  "safe I (expireDue E)" "safe I (finalDelete E i)" "safe I (deleteArchiveByToken E tok)"
  "safe I (finalDeleteDue E n)"
proof -
  have a: "safe I (afterExpiry E t u)" for t u
    unfolding afterExpiry_def by (intro keeps_intros session_safe)
  have e: "safe I (trial_end E t)" for t
    unfolding trial_end_def by (intro keeps_intros run_step db_steps a)
  have f: "safe I (finalDelete E i)" for i
    unfolding finalDelete_def by (intro keeps_intros exec_step db_steps)
  have m: "safe I (send_reminder E t n row)" for t n row
    unfolding send_reminder_def Let_def by (intro keeps_intros run_step exec_step db_steps send_safe)
  have x: "safe I (expire_one E t n w)" for t n w
    unfolding expire_one_def by (intro keeps_intros run_step db_steps a)
  show "safe I (trial_end E t)" "safe I (finalDelete E i)" by (rule e, rule f)
  show "safe I (terminate_trial E ctx c)"
    unfolding terminate_trial_def by (intro keeps_intros otp_safe e)
  show "safe I (sendReminders E)" "safe I (expireDue E)" "safe I (deleteArchiveByToken E tok)"
    "safe I (finalDeleteDue E n)"
    unfolding sendReminders_def expireDue_def deleteArchiveByToken_def finalDeleteDue_def
    by (intro keeps_intros run_step db_steps m x f)+
qed

end

end
