(* ===== verification/Saga.thy ===== *)
theory Saga
  imports Trials
begin

section \<open>The archive saga\<close>

text \<open>
  \<^verbatim>\<open>application/tenancy/archive_saga_service.ts\<close>: each tick advances one workspace by one step and
  keeps its progress in the purge ledger. The loop of three rounds that shrinks the archive is a
  recursion on the rounds left. A missing object key is the text \<^verbatim>\<open>null\<close>, as in a template
  string; \<^verbatim>\<open>fflate\<close> is the function \<open>e_zip\<close> of the environment.
\<close>

datatype TickOutcome =
    TickIdle | TickCreated | TickResumed | TickExport LifecycleService | TickZipped
  | TickExportRestarted | TickMailed | TickMailFailed | TickPurge LifecycleService | TickPurgeBudget
  | TickPurgeIncomplete | TickAccountDeleted | TickFailed

definition ARCHIVE_FAIL_PREFIX :: string where "ARCHIVE_FAIL_PREFIX = ''archive_fail:''"
definition ARCHIVE_STUCK_AFTER_MS :: int where "ARCHIVE_STUCK_AFTER_MS = DAY_MS"
definition ARCHIVE_STUCK_KEY :: string where "ARCHIVE_STUCK_KEY = ''archive_stuck''"
definition MAX_SAFE_INTEGER :: int where "MAX_SAFE_INTEGER = 9007199254740991"

subsection \<open>Failures\<close>

definition noteFailure :: "Ledger \<Rightarrow> unit io" where
  "noteFailure led =
     (let key = ARCHIVE_FAIL_PREFIX @ led_tenantId led in
      bnd now (\<lambda>t.
      catch
        (thn (run (flag_setOnce key 0 t))
        (bnd (query (flag_get key)) (\<lambda>f.
         case f of
           None \<Rightarrow> ret ()
         | Some f \<Rightarrow>
             if fl_value f \<noteq> 0 \<or> t - fl_at f < ARCHIVE_STUCK_AFTER_MS then ret ()
             else thn (run (usage_tryTake (utcDay t) ARCHIVE_STUCK_KEY 1 MAX_SAFE_INTEGER))
                    (exec (flag_setValue key 1)))))
        (\<lambda>_. ret ())))"

definition clearFailure :: "string \<Rightarrow> unit io" where
  "clearFailure tenantId = exec (flag_clear (ARCHIVE_FAIL_PREFIX @ tenantId))"

definition saga_patch :: "Ledger \<Rightarrow> ledger_patch \<Rightarrow> bool io" where
  "saga_patch led p =
     (let reset = (lp_attempts p = None \<and> led_attempts led > 0) in
      bnd now (\<lambda>t.
      bnd (run (ledger_update (led_tenantId led) (led_updatedAt led)
             (if reset then p\<lparr>lp_attempts := Some 0\<rparr> else p) (max t (led_updatedAt led + 1)))) (\<lambda>ok.
      thn (whenM (ok \<and> reset) (clearFailure (led_tenantId led))) (ret ok))))"

subsection \<open>Starting and resuming\<close>

definition fresh_ledger ::
  "string \<Rightarrow> LedgerPhase \<Rightarrow> LedgerMode \<Rightarrow> string option \<Rightarrow> Locale option \<Rightarrow> string option \<Rightarrow> time \<Rightarrow> time \<Rightarrow> Ledger" where
  "fresh_ledger tid phase mode key locale tz expiredAt t =
     \<lparr>led_tenantId = tid, led_phase = phase, led_mode = mode, led_objectKey = key, led_exportSvc = None,
      led_exportCursor = None, led_parts = 0, led_sizeBytes = None, led_sha256 = None, led_purgeSvc = None,
      led_locale = locale, led_timeZone = tz, led_expiredAt = expiredAt, led_mailed = None,
      led_attempts = 0, led_updatedAt = t\<rparr>"

definition saga_resume :: "string \<Rightarrow> time option \<Rightarrow> TickOutcome io" where
  "saga_resume tenantId expiredAt =
     bnd now (\<lambda>t.
     thn (run (ledger_create (fresh_ledger tenantId Mailed ModeNoArchive None None None (dflt expiredAt t) t)))
       (ret TickResumed))"

definition saga_start :: "env \<Rightarrow> TickOutcome io" where
  "saga_start E =
     bnd now (\<lambda>t.
     bnd (query (nextArchiveCandidate (t - cf_archiveDelayMin (e_cfg E) * 60000))) (\<lambda>w.
     case w of
       None \<Rightarrow> ret TickIdle
     | Some w \<Rightarrow>
         if ws_status w = ARCHIVING then saga_resume (ws_tenantId w) (ws_expiredAt w)
         else bnd (if ws_deleteMode w \<noteq> Some DelNoArchive
                   then bnd (mapM (\<lambda>s. external (e_count E s (ws_tenantId w))) EXPORT_ORDER)
                          (\<lambda>counts. ret (sum_list counts))
                   else ret 0) (\<lambda>rows.
           let mode = chooseMode (ws_deleteMode w) rows in
           bnd (contactOfTenant E (ws_tenantId w)) (\<lambda>contact.
           bnd (if mode = ModeArchive
                then bnd (randomBytes E 16) (\<lambda>b. ret (Some (archiveObjectKey (ws_tenantId w) (toHex (bytes b)))))
                else ret None) (\<lambda>key.
           bnd (run (ledger_create (fresh_ledger (ws_tenantId w) Exporting mode key
                  (Some (case contact of Some c \<Rightarrow> ct_locale c | None \<Rightarrow> ZhCN))
                  (Some (case contact of Some c \<Rightarrow> ct_timeZone c | None \<Rightarrow> ''Asia/Shanghai''))
                  (dflt (ws_expiredAt w) t) t))) (\<lambda>created.
           thn (whenM created (exec (markArchiving (ws_tenantId w)))) (ret TickCreated)))))))"

subsection \<open>Exporting\<close>

text \<open>\<^verbatim>\<open>JSON.stringify(value, null, 2)\<close>: two blanks per level, empty arrays and objects closed.\<close>

fun pretty :: "nat \<Rightarrow> json \<Rightarrow> string" where
  "pretty n (JArr vs) =
     (if vs = [] then ''[]''
      else ''['' @ [CHR 0x0A] @ join ('','' @ [CHR 0x0A]) (map (\<lambda>v. replicate (n + 2) CHR '' '' @ pretty (n + 2) v) vs)
             @ [CHR 0x0A] @ replicate n CHR '' '' @ '']'')"
| "pretty n (JObj kvs) =
     (if kvs = [] then ''{}''
      else ''{'' @ [CHR 0x0A] @ join ('','' @ [CHR 0x0A])
             (map (\<lambda>kv. replicate (n + 2) CHR '' '' @ quote_str (fst kv) @ '': '' @ pretty (n + 2) (snd kv)) kvs)
             @ [CHR 0x0A] @ replicate n CHR '' '' @ ''}'')"
| "pretty n v = stringify v"

definition manifest_json :: "Manifest \<Rightarrow> json" where
  "manifest_json m =
     JObj ([(''formatVersion'', JNum (mn_formatVersion m)), (''product'', JStr (mn_product m)),
            (''exportedAt'', JStr (mn_exportedAt m)),
            (''files'', JArr (map (\<lambda>f. JObj ([(''name'', JStr (mf_name f)), (''records'', JNum (int (mf_records f))),
               (''bytes'', JNum (int (mf_bytes f))), (''sha256'', JStr (mf_sha256 f))]
               @ (if mf_truncated f then [(''truncated'', JBool True)] else []))) (mn_files m)))]
           @ (case mn_notes m of None \<Rightarrow> [] | Some ns \<Rightarrow> [(''notes'', JArr (map JStr ns))]))"

definition buildZip :: "env \<Rightarrow> files \<Rightarrow> ArchiveFile set \<Rightarrow> time \<Rightarrow> string" where
  "buildZip E files truncated t =
     (let zippable = foldl (\<lambda>z kv. AList.update (fst kv) (snd kv) z) [] files;
          manifestFiles = map (\<lambda>(name, body).
            \<lparr>mf_name = name, mf_records = countRecords (e_parse E) name body, mf_bytes = length body,
             mf_sha256 = sha256Hex E body, mf_truncated = (name \<in> truncated)\<rparr>) files;
          manifest = buildManifest manifestFiles t
      in e_zip E (AList.update ''README.txt'' ARCHIVE_README
                   (AList.update ''manifest.json'' (pretty 0 (manifest_json manifest)) zippable)) t)"

fun zip_rounds ::
  "env \<Rightarrow> files \<Rightarrow> ArchiveFile set \<Rightarrow> time \<Rightarrow> nat \<Rightarrow> int \<Rightarrow> string \<Rightarrow> string" where
  "zip_rounds E assembled capped t 0 budget z = z"
| "zip_rounds E assembled capped t (Suc n) budget z0 =
     (case fitToBudget assembled budget of (files, truncated) \<Rightarrow>
        let z = buildZip E files (capped \<union> truncated) t in
        if int (length z) \<le> MAX_ARCHIVE_BYTES then z
        else zip_rounds E assembled capped t n (budget - (int (length z) - MAX_ARCHIVE_BYTES + 4096)) z)"

text \<open>The staged parts in order, or nothing when one is gone.\<close>

fun read_parts :: "env \<Rightarrow> string \<Rightarrow> nat list \<Rightarrow> StagedPart list option io" where
  "read_parts E tid [] = ret (Some [])"
| "read_parts E tid (i # js) =
     bnd (store_get E (stagingPartKey tid i)) (\<lambda>b.
     case b of
       None \<Rightarrow> ret None
     | Some b \<Rightarrow> bnd (read_parts E tid js) (\<lambda>r. ret (map_option ((#) (decodePart b)) r)))"

definition object_key :: "Ledger \<Rightarrow> string" where
  "object_key led = (case led_objectKey led of Some k \<Rightarrow> k | None \<Rightarrow> ''null'')"

definition zipStep :: "env \<Rightarrow> Ledger \<Rightarrow> TickOutcome io" where
  "zipStep E led =
     bnd (read_parts E (led_tenantId led) [0..<led_parts led]) (\<lambda>parts.
     case parts of
       None \<Rightarrow>
         thn (store_deletePrefix E (stagingPrefix (led_tenantId led)))
         (thn (saga_patch led (no_patch\<lparr>lp_exportSvc := Some None, lp_exportCursor := Some None, lp_parts := Some 0\<rparr>))
           (ret TickExportRestarted))
     | Some texts \<Rightarrow>
         bnd now (\<lambda>t.
         let capped = sp_file ` set (filter sp_truncated texts);
             zipped = zip_rounds E (assembleFiles texts) capped t 3 (MAX_ARCHIVE_BYTES - ZIP_OVERHEAD_BYTES) [];
             key = object_key led
         in if int (length zipped) > MAX_ARCHIVE_BYTES then fail_d INTERNAL ''ARCHIVE_TOO_LARGE''
            else thn (store_put E key zipped)
              (bnd (store_head E key) (\<lambda>head.
               if head \<noteq> Some (length zipped) then fail_d UNAVAILABLE ''ARCHIVE_HEAD_MISMATCH''
               else thn (store_deletePrefix E (stagingPrefix (led_tenantId led)))
                 (thn (saga_patch led (no_patch\<lparr>lp_phase := Some Exported,
                         lp_sizeBytes := Some (Some (int (length zipped))),
                         lp_sha256 := Some (Some (sha256Hex E zipped))\<rparr>))
                   (ret TickZipped))))))"

definition exportStep :: "env \<Rightarrow> Ledger \<Rightarrow> TickOutcome io" where
  "exportStep E led =
     (if led_mode led \<noteq> ModeArchive
      then thn (saga_patch led (no_patch\<lparr>lp_phase := Some Exported\<rparr>)) (ret TickZipped)
      else case currentExportService led of
        None \<Rightarrow> zipStep E led
      | Some svc \<Rightarrow>
          bnd (external (e_export E svc (led_tenantId led) (led_exportCursor led))) (\<lambda>page.
          let capped = (pg_nextCursor page \<noteq> None \<and> isLastAllowedPart svc (led_parts led)) in
          thn (store_put E (stagingPartKey (led_tenantId led) (led_parts led))
                 (encodePart (pg_file page) (pg_text page) capped))
          (case advanceExport svc (if capped then None else pg_nextCursor page) of (svc', cursor') \<Rightarrow>
             thn (saga_patch led (no_patch\<lparr>lp_parts := Some (led_parts led + 1),
                    lp_exportSvc := Some (Some svc'), lp_exportCursor := Some cursor'\<rparr>))
               (ret (TickExport svc)))))"

subsection \<open>Mailing\<close>

definition mailStep :: "env \<Rightarrow> Ledger \<Rightarrow> TickOutcome io" where
  "mailStep E led =
     bnd now (\<lambda>t.
     bnd (contactOfTenant E (led_tenantId led)) (\<lambda>contact.
     let locale = (if led_locale led = Some EnUS then EnUS else ZhCN);
         tz = dflt (led_timeZone led) ''Asia/Shanghai'';
         key = ''archive:'' @ led_tenantId led;
         none = \<lparr>sr_ok = False, sr_status = 404, sr_channel = None, sr_deferred = None\<rparr>
     in
     bnd (if led_mode led = ModeArchive
          then bnd (store_head E (object_key led)) (\<lambda>head.
               if head = None
               then thn (exec (archive_finalDelete (led_tenantId led) t)) (ret ModeNoArchive)
               else ret (led_mode led))
          else ret (led_mode led)) (\<lambda>mode.
     bnd (if mode = ModeArchive
          then bnd (randomToken E 32) (\<lambda>tok.
               let expiresAt = t + cf_archiveLinkTtlS (e_cfg E) * 1000 in
               thn (attempt (archive_upsert
                      \<lparr>ar_tenantId = led_tenantId led, ar_objectKey = object_key led,
                       ar_sizeBytes = dflt (led_sizeBytes led) 0, ar_sha256 = dflt (led_sha256 led) [],
                       ar_deletionTokenHash = sha256Hex E tok, ar_createdAt = t, ar_expiresAt = expiresAt\<rparr>))
               (bnd (external (e_presign E (object_key led) (cf_archiveLinkTtlS (e_cfg E))
                       (''attachment; filename='' @ [CHR 0x22] @ ''ontodecide-archive-'' @ utcDay t @ ''.zip'' @ [CHR 0x22])))
               (\<lambda>url.
                case contact of
                  None \<Rightarrow> ret none
                | Some c \<Rightarrow>
                    notification_send E
                      (archive_ready url (cf_appOrigin (e_cfg E) @ ''/archive-deletions/'' @ tok)
                         (dflt (led_sizeBytes led) 0) (dflt (led_sha256 led) []) expiresAt tz)
                      (ct_email c) locale key)))
          else case contact of
                 None \<Rightarrow> ret none
               | Some c \<Rightarrow>
                   notification_send E (account_deleted (if mode = ModeEmpty then ReasonEmpty else ReasonAdmin))
                     (ct_email c) locale key) (\<lambda>r.
     let givenUp = t > led_expiredAt led + cf_archiveDays (e_cfg E) * DAY_MS in
     if sr_ok r \<or> givenUp
     then thn (saga_patch led (no_patch\<lparr>lp_phase := Some Mailed,
                 lp_mailed := Some (Some (if sr_ok r then 1 else 0)), lp_mode := Some mode\<rparr>))
            (ret TickMailed)
     else thn (saga_patch led (no_patch\<lparr>lp_attempts := Some (led_attempts led + 1), lp_mode := Some mode\<rparr>))
            (thn (noteFailure led) (ret TickMailFailed))))))"

subsection \<open>Purging and the end\<close>

definition try_call :: "'a io \<Rightarrow> (exn + 'a) io" where
  "try_call m = (\<lambda>w. case m w of (r, w') \<Rightarrow> (Inr r, w'))"

definition purgeStep :: "env \<Rightarrow> Ledger \<Rightarrow> TickOutcome io" where
  "purgeStep E led =
     bnd now (\<lambda>t.
     let day = utcDay t in
     bnd (run (usage_tryTake day ''purge_rows'' PURGE_STEP_ROWS (cf_purgeRowsDaily (e_cfg E)))) (\<lambda>taken.
     if \<not> taken then ret TickPurgeBudget
     else
       let svc = currentPurgeService led in
       bnd (try_call (external (e_purge E svc (led_tenantId led) PURGE_STEP_ROWS))) (\<lambda>r.
       thn (finally_do
              (case r of
                 Inl e \<Rightarrow> throw e
               | Inr (deleted, fin) \<Rightarrow>
                   (case advancePurge svc fin of (phase', svc') \<Rightarrow>
                      thn (saga_patch led (no_patch\<lparr>lp_phase := Some phase', lp_purgeSvc := Some (Some svc')\<rparr>))
                        (ret ())))
              (let unused = PURGE_STEP_ROWS
                     - min PURGE_STEP_ROWS (case r of Inl _ \<Rightarrow> 0 | Inr (deleted, fin) \<Rightarrow> deleted)
               in whenM (unused > 0) (exec (usage_adjust day ''purge_rows'' (- unused)))))
         (ret (TickPurge svc)))))"

text \<open>The first service, in purge order, that still holds rows of the workspace.\<close>

fun still_holding :: "env \<Rightarrow> string \<Rightarrow> LifecycleService list \<Rightarrow> LifecycleService option io" where
  "still_holding E tid [] = ret None"
| "still_holding E tid (s # ss) =
     bnd (external (e_count E s tid)) (\<lambda>n. if n > 0 then ret (Some s) else still_holding E tid ss)"

definition deleteAccountStep :: "env \<Rightarrow> Ledger \<Rightarrow> TickOutcome io" where
  "deleteAccountStep E led =
     bnd (still_holding E (led_tenantId led) PURGE_ORDER) (\<lambda>left.
     case left of
       Some svc \<Rightarrow>
         thn (saga_patch led (no_patch\<lparr>lp_phase := Some Purging, lp_purgeSvc := Some (Some svc)\<rparr>))
           (ret TickPurgeIncomplete)
     | None \<Rightarrow>
         bnd now (\<lambda>t.
         thn (attempt (deleteAccount (led_tenantId led) t))
         (bnd (if led_mode led = ModeArchive
               then bnd (query (archive_get (led_tenantId led))) (\<lambda>a. ret (a \<noteq> None))
               else ret False) (\<lambda>zipKept.
          thn (if zipKept
               then thn (saga_patch led (no_patch\<lparr>lp_phase := Some AccountDeleted\<rparr>)) (ret ())
               else thn (exec (ledger_delete (led_tenantId led)))
                      (whenM (led_attempts led > 0) (clearFailure (led_tenantId led))))
            (ret TickAccountDeleted)))))"

fun saga_step :: "env \<Rightarrow> Ledger \<Rightarrow> LedgerPhase \<Rightarrow> TickOutcome io" where
  "saga_step E led Exporting = exportStep E led"
| "saga_step E led Exported = mailStep E led"
| "saga_step E led Mailed = purgeStep E led"
| "saga_step E led Purging = purgeStep E led"
| "saga_step E led Purged = deleteAccountStep E led"
| "saga_step E led AccountDeleted = ret TickIdle"

definition tick_failed :: "Ledger \<Rightarrow> TickOutcome io" where
  "tick_failed led =
     bnd (query (ledger_get (led_tenantId led))) (\<lambda>fresh.
     case fresh of
       None \<Rightarrow> ret TickFailed
     | Some f \<Rightarrow>
         bnd now (\<lambda>t.
         thn (run (ledger_update (led_tenantId f) (led_updatedAt f)
                (no_patch\<lparr>lp_attempts := Some (led_attempts f + 1)\<rparr>) (max t (led_updatedAt f + 1))))
         (thn (noteFailure f) (ret TickFailed))))"

definition tick :: "env \<Rightarrow> TickOutcome io" where
  "tick E =
     bnd (query ledger_next) (\<lambda>led.
     case led of
       None \<Rightarrow> saga_start E
     | Some led \<Rightarrow> catch (saga_step E led (led_phase led)) (\<lambda>_. tick_failed led))"

context repo_inv
begin

lemma saga_patch_safe: "safe I (saga_patch led p)"
  unfolding saga_patch_def Let_def clearFailure_def by (intro keeps_intros run_step exec_step db_steps)

lemma noteFailure_safe: "safe I (noteFailure led)"
  unfolding noteFailure_def Let_def by (intro keeps_intros run_step exec_step db_steps)

lemma read_parts_safe: "safe I (read_parts E tid js)"
  by (induction js) (auto intro!: keeps_intros split: option.splits)

lemma still_holding_safe: "safe I (still_holding E tid ss)"
  by (induction ss) (auto intro!: keeps_intros)

lemma try_call_safe: "safe I m \<Longrightarrow> safe I (try_call m)"
  by (rule keepsI) (auto simp: try_call_def dest: keepsD split: prod.splits)

lemmas saga_parts = saga_patch_safe noteFailure_safe read_parts_safe still_holding_safe try_call_safe

lemma export_safe: "safe I (exportStep E led)"
  unfolding exportStep_def zipStep_def Let_def by (intro keeps_intros saga_parts)

lemma mail_safe: "safe I (mailStep E led)"
  unfolding mailStep_def Let_def
  by (intro keeps_intros saga_parts exec_step attempt_step db_steps send_safe)

lemma purge_safe: "safe I (purgeStep E led)"
  unfolding purgeStep_def Let_def
  by (intro keeps_intros saga_parts exec_step run_step db_steps)

lemma delete_safe: "safe I (deleteAccountStep E led)"
  unfolding deleteAccountStep_def clearFailure_def
  by (intro keeps_intros saga_parts exec_step attempt_step db_steps)

lemma start_safe: "safe I (saga_start E)"
  unfolding saga_start_def saga_resume_def Let_def
  by (intro keeps_intros exec_step run_step db_steps)

lemma tick_safe: "safe I (tick E)"
proof -
  have s: "safe I (saga_step E led p)" for led p
    by (cases p) (simp_all add: export_safe mail_safe purge_safe delete_safe keeps_intros)
  have f: "safe I (tick_failed led)" for led
    unfolding tick_failed_def by (intro keeps_intros run_step db_steps saga_parts)
  show ?thesis unfolding tick_def by (intro keeps_intros start_safe s f)
qed

end

end
