(* ===== verification/SagaProps.thy ===== *)
theory SagaProps
  imports Saga
begin

section \<open>What the archive saga guarantees\<close>

text \<open>
  The locale \<open>saga_store\<close> is the interface between the saga's steps and the tables they write: a
  predicate that survives the writes of a step other than its own ledger patch, and the patches the
  step may apply. Phases, the part budget and the account table are three instances.
\<close>

locale saga_store =
  fixes I :: "idb \<Rightarrow> bool" and led :: Ledger and allowed :: "ledger_patch \<Rightarrow> bool"
  assumes patch_keeps: "allowed p \<Longrightarrow> safe I (saga_patch led p)"
    and usage_keeps: "I db \<Longrightarrow> I (db\<lparr>db_usage := u\<rparr>)"
    and flag_keeps: "I db \<Longrightarrow> I (db\<lparr>db_flag := f\<rparr>)"
    and archive_keeps: "I db \<Longrightarrow> I (snd (archive_upsert a db))"
    and final_keeps: "I db \<Longrightarrow> I (archive_finalDelete (led_tenantId led) t db)"
begin

lemma usage_ops: "I db \<Longrightarrow> I (snd (usage_tryTake d k n c db))" "I db \<Longrightarrow> I (usage_adjust d k delta db)"
  by (simp_all add: usage_tryTake_def usage_adjust_def Let_def usage_keeps)

lemma flag_ops: "I db \<Longrightarrow> I (snd (flag_setOnce k v t db))" "I db \<Longrightarrow> I (flag_setValue k v db)"
    "I db \<Longrightarrow> I (flag_clear k db)"
  by (simp_all add: flag_setOnce_def flag_setValue_def flag_clear_def flag_keeps)

lemma mails: "mail_store I"
  by unfold_locales (rule usage_ops, assumption)+

lemma note_keeps: "safe I (noteFailure l)"
  unfolding noteFailure_def Let_def by (intro keeps_intros safe_run safe_exec flag_ops usage_ops)

lemma parts_keeps: "safe I (read_parts E tid js)"
  by (induction js) (auto intro!: keeps_intros split: option.splits)

lemma export_keeps:
  assumes "allowed (no_patch\<lparr>lp_phase := Some Exported\<rparr>)"
    and "\<And>n h. allowed (no_patch\<lparr>lp_phase := Some Exported, lp_sizeBytes := Some (Some n), lp_sha256 := Some (Some h)\<rparr>)"
    and "allowed (no_patch\<lparr>lp_exportSvc := Some None, lp_exportCursor := Some None, lp_parts := Some 0\<rparr>)"
    and "\<And>svc svc' c c'. currentExportService led = Some svc \<Longrightarrow>
      advanceExport svc (if c \<noteq> None \<and> isLastAllowedPart svc (led_parts led) then None else c) = (svc', c') \<Longrightarrow>
      allowed (no_patch\<lparr>lp_parts := Some (led_parts led + 1), lp_exportSvc := Some (Some svc'),
        lp_exportCursor := Some c'\<rparr>)"
  shows "safe I (exportStep E led)"
proof -
  have z: "safe I (zipStep E led)"
    unfolding zipStep_def Let_def by (intro keeps_intros parts_keeps patch_keeps assms(2,3))
  show ?thesis
    unfolding exportStep_def Let_def
    by (intro keeps_intros patch_keeps assms(1) z, rule assms(4))
qed

lemma mail_keeps:
  assumes "\<And>x m. allowed (no_patch\<lparr>lp_phase := Some Mailed, lp_mailed := Some (Some x), lp_mode := Some m\<rparr>)"
    and "\<And>n m. allowed (no_patch\<lparr>lp_attempts := Some n, lp_mode := Some m\<rparr>)"
  shows "safe I (mailStep E led)"
  unfolding mailStep_def Let_def
  by (intro keeps_intros patch_keeps assms note_keeps safe_exec safe_attempt archive_keeps final_keeps
      mail_store.send_safe [OF mails])

lemma purge_keeps:
  assumes "\<And>fin phase' svc'. advancePurge (currentPurgeService led) fin = (phase', svc') \<Longrightarrow>
      allowed (no_patch\<lparr>lp_phase := Some phase', lp_purgeSvc := Some (Some svc')\<rparr>)"
  shows "safe I (purgeStep E led)"
proof -
  have t: "safe I (try_call m)" if "safe I m" for m :: "'z io"
    using that by (intro keepsI) (auto simp: try_call_def dest: keepsD split: prod.splits)
  show ?thesis
    unfolding purgeStep_def Let_def
    by (intro keeps_intros t safe_run safe_exec usage_ops patch_keeps) (auto intro: assms)
qed

end

text \<open>
  The ledger seen from one tenant: the rows of the others are the given ones, the tenant has one row and
  it satisfies a predicate. \<open>gone_or\<close> also allows that the row is gone.
\<close>

definition others :: "string \<Rightarrow> idb \<Rightarrow> Ledger list" where
  "others tid db = filter (\<lambda>l. led_tenantId l \<noteq> tid) (db_ledger db)"

definition own :: "string \<Rightarrow> idb \<Rightarrow> Ledger list" where
  "own tid db = filter (\<lambda>l. led_tenantId l = tid) (db_ledger db)"

definition row_is :: "string \<Rightarrow> (Ledger \<Rightarrow> bool) \<Rightarrow> Ledger list \<Rightarrow> idb \<Rightarrow> bool" where
  "row_is tid R L db \<longleftrightarrow> others tid db = L \<and> (\<exists>l. own tid db = [l] \<and> R l)"

definition gone_or :: "string \<Rightarrow> (Ledger \<Rightarrow> bool) \<Rightarrow> Ledger list \<Rightarrow> idb \<Rightarrow> bool" where
  "gone_or tid R L db \<longleftrightarrow> others tid db = L \<and> (own tid db = [] \<or> (\<exists>l. own tid db = [l] \<and> R l))"

definition resets :: "Ledger \<Rightarrow> ledger_patch \<Rightarrow> ledger_patch" where
  "resets led p = (if lp_attempts p = None \<and> led_attempts led > 0 then p\<lparr>lp_attempts := Some 0\<rparr> else p)"

lemma rows_update:
  "others tid (snd (ledger_update tid e p t db)) = others tid db"
  "own tid (snd (ledger_update tid e p t db))
     = map (\<lambda>l. if led_updatedAt l = e then apply_patch p t l else l) (own tid db)"
proof -
  have "filter (\<lambda>l. led_tenantId l \<noteq> tid)
      (upd (\<lambda>l. led_tenantId l = tid \<and> led_updatedAt l = e) (apply_patch p t) ls)
    = filter (\<lambda>l. led_tenantId l \<noteq> tid) ls
    \<and> filter (\<lambda>l. led_tenantId l = tid)
      (upd (\<lambda>l. led_tenantId l = tid \<and> led_updatedAt l = e) (apply_patch p t) ls)
    = map (\<lambda>l. if led_updatedAt l = e then apply_patch p t l else l) (filter (\<lambda>l. led_tenantId l = tid) ls)" for ls
    by (induction ls) auto
  then show "others tid (snd (ledger_update tid e p t db)) = others tid db"
    "own tid (snd (ledger_update tid e p t db))
     = map (\<lambda>l. if led_updatedAt l = e then apply_patch p t l else l) (own tid db)"
    by (simp_all add: others_def own_def ledger_update_def Let_def)
qed

lemma rows_same:
  "db_ledger db' = db_ledger db \<Longrightarrow> others tid db' = others tid db \<and> own tid db' = own tid db"
  by (simp add: others_def own_def)

lemma row_is_frame: "row_is tid R L db \<Longrightarrow> db_ledger db' = db_ledger db \<Longrightarrow> row_is tid R L db'"
  by (simp add: row_is_def others_def own_def)

lemma gone_or_frame: "gone_or tid R L db \<Longrightarrow> db_ledger db' = db_ledger db \<Longrightarrow> gone_or tid R L db'"
  by (simp add: gone_or_def others_def own_def)

lemma row_is_update:
  "row_is tid R L db \<Longrightarrow> (\<And>l. R l \<Longrightarrow> R (apply_patch p t l)) \<Longrightarrow>
   row_is tid R L (snd (ledger_update tid e p t db))"
  by (auto simp: row_is_def rows_update)

lemma gone_or_update:
  "gone_or tid R L db \<Longrightarrow> (\<And>l. R l \<Longrightarrow> R (apply_patch p t l)) \<Longrightarrow>
   gone_or tid R L (snd (ledger_update tid e p t db))"
  by (auto simp: gone_or_def rows_update)

lemma gone_or_delete: "gone_or tid R L db \<Longrightarrow> gone_or tid R L (ledger_delete tid db)"
  by (auto simp: gone_or_def others_def own_def ledger_delete_def del_def filter_empty_conv)

lemma row_is_gone_or: "row_is tid R L db \<Longrightarrow> gone_or tid R L db"
  by (auto simp: row_is_def gone_or_def)

lemma archive_upsert_ledger [simp]: "db_ledger (snd (archive_upsert a db)) = db_ledger db"
  by (simp add: archive_upsert_def Let_def)

lemma deleteAccount_ledger [simp]: "db_ledger (snd (deleteAccount tid t db)) = db_ledger db"
proof -
  let ?P = "\<lambda>d. db_ledger d = db_ledger db"
  have "list_all (stmt_keeps ?P) ss \<Longrightarrow> ?P (snd (batch ss db))" for ss
    using batch_keeps [of ?P ss db] by simp
  then show ?thesis
    unfolding deleteAccount_def Let_def
    by (auto simp: stmt_keeps_def ok_stmt_def writeTombstone_def)
qed

lemma row_is_final:
  assumes "row_is tid R L db" "\<And>l. R l \<Longrightarrow> led_phase l \<noteq> AccountDeleted"
  shows "row_is tid R L (archive_finalDelete tid t db)"
proof -
  have "\<forall>l \<in> set (db_ledger db). \<not> (led_tenantId l = tid \<and> led_phase l = AccountDeleted)"
  proof
    fix l assume l: "l \<in> set (db_ledger db)"
    show "\<not> (led_tenantId l = tid \<and> led_phase l = AccountDeleted)"
    proof
      assume t: "led_tenantId l = tid \<and> led_phase l = AccountDeleted"
      with l have "l \<in> set (own tid db)" by (simp add: own_def)
      with assms t show False by (auto simp: row_is_def)
    qed
  qed
  then have "del (\<lambda>l. led_tenantId l = tid \<and> led_phase l = AccountDeleted) (db_ledger db) = db_ledger db"
    unfolding del_def by (simp add: filter_id_conv)
  then have "db_ledger (archive_finalDelete tid t db) = db_ledger db"
    by (simp add: archive_finalDelete_def Let_def)
  with assms(1) show ?thesis by (rule row_is_frame)
qed

lemma saga_rows:
  assumes "\<And>p t l. allowed p \<Longrightarrow> R l \<Longrightarrow> R (apply_patch (resets led p) t l)"
    and "\<And>l. R l \<Longrightarrow> led_phase l \<noteq> AccountDeleted"
  shows "saga_store (row_is (led_tenantId led) R L) led allowed"
proof
  fix p assume p: "allowed p"
  have u: "row_is (led_tenantId led) R L (snd (ledger_update (led_tenantId led) e (resets led p) t db))"
    if "row_is (led_tenantId led) R L db" for e t db
    using that assms(1) [OF p] by (rule row_is_update)
  have c: "safe (row_is (led_tenantId led) R L) (clearFailure tid)" for tid
    unfolding clearFailure_def by (rule safe_exec) (erule row_is_frame, simp add: flag_clear_def)
  show "safe (row_is (led_tenantId led) R L) (saga_patch led p)"
    unfolding saga_patch_def Let_def resets_def [symmetric] by (intro keeps_intros safe_run u c)
next
  fix db t assume "row_is (led_tenantId led) R L db"
  then show "row_is (led_tenantId led) R L (archive_finalDelete (led_tenantId led) t db)"
    using assms(2) by (rule row_is_final)
qed (erule row_is_frame, simp)+

subsection \<open>Phases\<close>

text \<open>The abstract saga: the phases one tick may lead to.\<close>

fun saga_edge :: "LedgerPhase \<Rightarrow> LedgerPhase set" where
  "saga_edge Exporting = {Exporting, Exported}"
| "saga_edge Exported = {Exported, Mailed}"
| "saga_edge Mailed = {Mailed, Purging, Purged}"
| "saga_edge Purging = {Purging, Purged}"
| "saga_edge Purged = {Purged, Purging, AccountDeleted}"
| "saga_edge AccountDeleted = {AccountDeleted}"

lemma saga_edge_refl [simp]: "p \<in> saga_edge p"
  by (cases p) simp_all

text \<open>The abstract state is the phase of each workspace's saga, if it has one.\<close>

type_synonym phases = "string \<Rightarrow> LedgerPhase option"

definition phases_of :: "idb \<Rightarrow> phases" where
  "phases_of db = (\<lambda>t. map_option led_phase (ledger_get t db))"

inductive saga_spec :: "phases \<Rightarrow> phases \<Rightarrow> bool" where
  idle: "saga_spec f f"
| begins: "f t = None \<Longrightarrow> saga_spec f (f(t := Some Exporting))"
| resumes: "f t = None \<Longrightarrow> saga_spec f (f(t := Some Mailed))"
| moves: "f t = Some p \<Longrightarrow> q \<in> saga_edge p \<Longrightarrow> saga_spec f (f(t := Some q))"
| ends: "f t = Some Purged \<Longrightarrow> saga_spec f (f(t := None))"

lemma sel1_filter: "(\<And>r. p r \<Longrightarrow> q r) \<Longrightarrow> sel1 p (filter q t) = sel1 p t"
  by (induction t) auto

lemma phases_of_rows:
  "phases_of db t = (if t = tid then (case own tid db of [] \<Rightarrow> None | l # _ \<Rightarrow> Some (led_phase l))
     else map_option led_phase (sel1 (\<lambda>l. led_tenantId l = t) (others tid db)))"
proof (cases "t = tid")
  case True
  have "sel1 (\<lambda>l. led_tenantId l = tid) ls = (case filter (\<lambda>l. led_tenantId l = tid) ls of [] \<Rightarrow> None | l # _ \<Rightarrow> Some l)" for ls
    by (induction ls) auto
  from this [of "db_ledger db"] show ?thesis
    by (simp add: True phases_of_def ledger_get_def own_def split: list.splits)
next
  case False
  then show ?thesis
    by (simp add: phases_of_def ledger_get_def others_def sel1_filter)
qed

lemma own_row:
  assumes "db_ok db" "led \<in> set (db_ledger db)"
  shows "own (led_tenantId led) db = [led]"
proof -
  have "keyed led_tenantId ls \<Longrightarrow> led \<in> set ls \<Longrightarrow> filter (\<lambda>l. led_tenantId l = led_tenantId led) ls = [led]" for ls
  proof (induction ls)
    case (Cons l ls)
    show ?case
    proof (cases "l = led")
      case True
      with Cons.prems(1) have "filter (\<lambda>l. led_tenantId l = led_tenantId led) ls = []"
        by (auto simp: filter_empty_conv image_iff)
      with True show ?thesis by simp
    next
      case False
      with Cons show ?thesis by (auto simp: image_iff)
    qed
  qed simp
  with assms db_ok_tables(6) show ?thesis by (simp add: own_def)
qed

lemma spec_row:
  assumes "own tid db = [led]" "gone_or tid R (others tid db) db'"
    and "\<And>l. R l \<Longrightarrow> led_phase l \<in> saga_edge (led_phase led)" "own tid db' = [] \<Longrightarrow> led_phase led = Purged"
  shows "saga_spec (phases_of db) (phases_of db')"
proof -
  let ?f = "phases_of db"
  have f: "?f tid = Some (led_phase led)" by (simp add: phases_of_rows [of _ _ tid] assms(1))
  from assms(2) consider "own tid db' = []" | l where "own tid db' = [l]" "R l"
    by (auto simp: gone_or_def)
  then show ?thesis
  proof cases
    case 1
    then have "phases_of db' = ?f(tid := None)"
      using assms(2) by (auto simp: fun_eq_iff phases_of_rows [of _ _ tid] gone_or_def)
    with f assms(4) [OF 1] show ?thesis by (simp add: saga_spec.ends)
  next
    case 2
    then have "phases_of db' = ?f(tid := Some (led_phase l))"
      using assms(2) by (auto simp: fun_eq_iff phases_of_rows [of _ _ tid] gone_or_def)
    with f assms(3) [OF 2(2)] show ?thesis by (simp add: saga_spec.moves)
  qed
qed


text \<open>One step on the row \<open>led\<close>: it may patch the phase to one of \<open>S\<close> and nothing else of the ledger.\<close>

abbreviation phase_row :: "idb \<Rightarrow> Ledger \<Rightarrow> LedgerPhase set \<Rightarrow> idb \<Rightarrow> bool" where
  "phase_row db0 led S \<equiv> row_is (led_tenantId led) (\<lambda>l. led_phase l \<in> S) (others (led_tenantId led) db0)"

definition phase_patch :: "LedgerPhase set \<Rightarrow> ledger_patch \<Rightarrow> bool" where
  "phase_patch S p \<longleftrightarrow> (case lp_phase p of None \<Rightarrow> True | Some q \<Rightarrow> q \<in> S)"

lemma phase_patch_apply: "phase_patch S p \<Longrightarrow> led_phase l \<in> S \<Longrightarrow> led_phase (apply_patch (resets led p) t l) \<in> S"
  by (auto simp: phase_patch_def apply_patch_def dflt_def resets_def split: option.splits)

lemma phase_store: "AccountDeleted \<notin> S \<Longrightarrow> saga_store (phase_row db0 led S) led (phase_patch S)"
  by (rule saga_rows) (auto simp: phase_patch_apply)

lemma no_patch_phase [simp]: "lp_phase no_patch = None"
  by (simp add: no_patch_def)

text \<open>The interface on the ledger's own rows, once per step that patches its phase.\<close>

interpretation exporting: saga_store "phase_row db0 led {Exporting, Exported}" led
  "phase_patch {Exporting, Exported}" for db0 led
  by (rule phase_store) simp

interpretation mailing: saga_store "phase_row db0 led {Exported, Mailed}" led "phase_patch {Exported, Mailed}"
  for db0 led
  by (rule phase_store) simp

interpretation purging: saga_store "phase_row db0 led {Mailed, Purging, Purged}" led
  "phase_patch {Mailed, Purging, Purged}" for db0 led
  by (rule phase_store) simp

interpretation repurging: saga_store "phase_row db0 led {Purging, Purged}" led "phase_patch {Purging, Purged}"
  for db0 led
  by (rule phase_store) simp

lemma advancePurge_phase: "advancePurge s fin = (q, s') \<Longrightarrow> q = Purging \<or> q = Purged"
  by (auto simp: advancePurge_def split: if_splits option.splits)

lemma step_phases:
  assumes "p \<noteq> Purged" "p \<noteq> AccountDeleted"
  shows "safe (phase_row db0 led (saga_edge p)) (saga_step E led p)"
proof (cases p)
  case Exporting
  show ?thesis
    unfolding Exporting saga_step.simps saga_edge.simps by (rule exporting.export_keeps) (simp_all add: phase_patch_def)
next
  case Exported
  show ?thesis
    unfolding Exported saga_step.simps saga_edge.simps by (rule mailing.mail_keeps) (simp_all add: phase_patch_def)
next
  case Mailed
  show ?thesis
    unfolding Mailed saga_step.simps saga_edge.simps
    by (rule purging.purge_keeps) (drule advancePurge_phase, auto simp: phase_patch_def)
next
  case Purging
  show ?thesis
    unfolding Purging saga_step.simps saga_edge.simps
    by (rule repurging.purge_keeps) (drule advancePurge_phase, auto simp: phase_patch_def)
qed (use assms in simp_all)

lemma still_holding_reads: "safe I (still_holding E tid ss)"
  by (induction ss) (auto intro!: keeps_intros)

lemma delete_phases:
  fixes led defines "R \<equiv> \<lambda>l. led_phase l \<in> saga_edge Purged"
  shows "safe (gone_or (led_tenantId led) R L) (deleteAccountStep E led)"
proof -
  let ?I = "gone_or (led_tenantId led) R L"
  have c: "safe ?I (clearFailure tid)" for tid
    unfolding clearFailure_def by (rule safe_exec) (erule gone_or_frame, simp add: flag_clear_def)
  have u: "phase_patch (saga_edge Purged) p \<Longrightarrow> safe ?I (saga_patch led p)" for p
    unfolding saga_patch_def Let_def resets_def [symmetric]
    unfolding R_def by (intro keeps_intros safe_run c [unfolded R_def] gone_or_update phase_patch_apply)
  have a: "safe ?I (attempt (deleteAccount (led_tenantId led) t))" for t
    by (rule safe_attempt) (erule gone_or_frame, simp)
  have d: "safe ?I (exec (ledger_delete (led_tenantId led)))"
    by (rule safe_exec) (rule gone_or_delete)
  show ?thesis
    unfolding deleteAccountStep_def
    by (intro keeps_intros still_holding_reads c u a d) (simp_all add: phase_patch_def)
qed

text \<open>A failed step only counts an attempt of the row it finds.\<close>

lemma keeps_query_bnd:
  assumes "\<And>db. I db \<Longrightarrow> safe I (f (q db))"
  shows "safe I (bnd (query q) f)"
  using assms by (intro keepsI) (simp add: bnd_app keeps_def)

lemma flag_note:
  assumes "\<And>db db'. I db \<Longrightarrow> db_ledger db' = db_ledger db \<Longrightarrow> I db'"
  shows "safe I (noteFailure l)"
proof -
  have "safe I (run (flag_setOnce k v t))" "safe I (run (usage_tryTake d k n c))"
    "safe I (exec (flag_setValue k v))" for k v t d n c
    by (rule safe_run safe_exec, erule assms, simp add: flag_setOnce_def usage_tryTake_def Let_def flag_setValue_def)+
  then show ?thesis unfolding noteFailure_def Let_def by (intro keeps_intros)
qed

lemma failed_keeps:
  assumes n: "\<And>f. safe I (noteFailure f)"
    and upd: "\<And>e n t db. I db \<Longrightarrow>
      I (snd (ledger_update (led_tenantId led) e (no_patch\<lparr>lp_attempts := Some n\<rparr>) t db))"
  shows "safe I (tick_failed led)"
proof -
  have f: "safe I (bnd now (\<lambda>t. thn (run (ledger_update (led_tenantId f) (led_updatedAt f)
                (no_patch\<lparr>lp_attempts := Some (led_attempts f + 1)\<rparr>) (max t (led_updatedAt f + 1))))
         (thn (noteFailure f) (ret TickFailed))))" if "ledger_get (led_tenantId led) db = Some f" for f db
  proof -
    have t: "led_tenantId f = led_tenantId led" using sel1_Some [OF that [unfolded ledger_get_def]] by simp
    show ?thesis unfolding t by (intro keeps_intros safe_run n upd)
  qed
  show ?thesis
    unfolding tick_failed_def by (rule keeps_query_bnd, rule keeps_case_option, rule keeps_ret, rule f)
qed

lemma failed_phase: "led_phase (apply_patch (no_patch\<lparr>lp_attempts := n\<rparr>) t l) = led_phase l"
  by (simp add: apply_patch_def dflt_def)

text \<open>A whole tick on the row \<open>led\<close>, the failure handler included.\<close>

lemma live_tick:
  assumes "db_ok (w_db w)" "led \<in> set (db_ledger (w_db w))" "led_phase led \<noteq> AccountDeleted"
    and "catch (saga_step E led (led_phase led)) (\<lambda>_. tick_failed led) w = (r, w')"
  shows "saga_spec (phases_of (w_db w)) (phases_of (w_db w'))"
proof -
  let ?tid = "led_tenantId led" and ?R = "\<lambda>l. led_phase l \<in> saga_edge (led_phase led)"
  let ?L = "others (led_tenantId led) (w_db w)"
  have own: "own ?tid (w_db w) = [led]" using assms(1,2) by (rule own_row)
  then have i: "gone_or ?tid ?R ?L (w_db w)" by (simp add: gone_or_def)
  have fail: "safe (gone_or ?tid ?R ?L) (tick_failed led)"
    by (rule failed_keeps, rule flag_note, erule (1) gone_or_frame, erule gone_or_update) (simp add: failed_phase)
  show ?thesis
  proof (cases "led_phase led = Purged")
    case True
    have "safe (gone_or ?tid ?R ?L) (saga_step E led (led_phase led))"
      unfolding True saga_step.simps by (rule delete_phases)
    from keeps_catch [OF this fail] i assms(4) have "gone_or ?tid ?R ?L (w_db w')" by (rule keepsD)
    from spec_row [OF own this] True show ?thesis by simp
  next
    case False
    note ne = False
    have "safe (row_is ?tid ?R ?L) (saga_step E led (led_phase led))"
      by (rule step_phases) (use assms(3) ne in simp_all)
    moreover have "safe (row_is ?tid ?R ?L) (tick_failed led)"
      by (rule failed_keeps, rule flag_note, erule (1) row_is_frame, erule row_is_update) (simp add: failed_phase)
    ultimately have "safe (row_is ?tid ?R ?L) (catch (saga_step E led (led_phase led)) (\<lambda>_. tick_failed led))"
      by (rule keeps_catch)
    moreover have "row_is ?tid ?R ?L (w_db w)" using own by (simp add: row_is_def)
    ultimately have "row_is ?tid ?R ?L (w_db w')" using assms(4) by (rule keepsD)
    then show ?thesis by (intro spec_row [OF own]) (auto simp: row_is_def gone_or_def)
  qed
qed


subsection \<open>A new saga\<close>

text \<open>While a workspace's saga is being created, its row is there or not yet.\<close>

definition creating :: "phases \<Rightarrow> string \<Rightarrow> LedgerPhase \<Rightarrow> idb \<Rightarrow> bool" where
  "creating f t p db \<longleftrightarrow> phases_of db = f \<or> (f t = None \<and> phases_of db = f(t := Some p))"

lemma creating_frame: "creating f t p db \<Longrightarrow> db_ledger db' = db_ledger db \<Longrightarrow> creating f t p db'"
  by (simp add: creating_def phases_of_def ledger_get_def)

lemma creating_create:
  assumes "creating f t p db" "led_tenantId l = t" "led_phase l = p"
  shows "creating f t p (snd (ledger_create l db))"
proof (cases "ledger_get t db")
  case None
  then have "phases_of (snd (ledger_create l db)) = (phases_of db)(t := Some p)"
    using assms(2,3) by (auto simp: fun_eq_iff ledger_create_def phases_of_def ledger_get_def sel1_append
        split: option.splits)
  moreover have "phases_of db t = None" using None by (simp add: phases_of_def)
  ultimately show ?thesis using assms(1) by (auto simp: creating_def)
next
  case (Some x)
  with assms show ?thesis by (simp add: ledger_create_def)
qed

lemma creating_spec: "creating f t p db \<Longrightarrow> p \<in> {Exporting, Mailed} \<Longrightarrow> saga_spec f (phases_of db)"
  by (auto simp: creating_def intro: saga_spec.intros)

lemma contact_reads: "contactOfTenant E t w = (r, w') \<Longrightarrow> w_db w' = w_db w"
proof -
  have "safe (\<lambda>db. db = w_db w) (contactOfTenant E t)"
    unfolding contactOfTenant_def contactOf_def by (intro keeps_intros)
  then show "contactOfTenant E t w = (r, w') \<Longrightarrow> w_db w' = w_db w" by (rule keepsD) simp
qed

lemma start_spec:
  assumes "saga_start E w = (r, w')"
  shows "saga_spec (phases_of (w_db w)) (phases_of (w_db w'))"
proof (cases "nextArchiveCandidate (w_now w - cf_archiveDelayMin (e_cfg E) * 60000) (w_db w)")
  case None
  with assms show ?thesis by (simp add: saga_start_def saga_spec.idle)
next
  case (Some c)
  let ?f = "phases_of (w_db w)" and ?t = "ws_tenantId c"
  let ?p = "if ws_status c = ARCHIVING then Mailed else Exporting"
  let ?I = "creating ?f ?t ?p"
  have create: "safe ?I (run (ledger_create (fresh_ledger ?t ?p m k lo tz e n)))" for m k lo tz e n
    by (rule safe_run, erule creating_create) (simp_all add: fresh_ledger_def)
  have mark: "safe ?I (exec (markArchiving ?t))"
    by (rule safe_exec, erule creating_frame) (simp add: markArchiving_def workspace_update_def Let_def)
  have resume: "safe ?I (saga_resume ?t e)" if "ws_status c = ARCHIVING" for e
    unfolding saga_resume_def by (intro keeps_intros) (use create that in simp)
  have contact: "safe ?I (contactOfTenant E ?t)"
    unfolding contactOfTenant_def contactOf_def by (intro keeps_intros)
  have "safe ?I (case Some c of None \<Rightarrow> ret TickIdle
     | Some w \<Rightarrow>
         if ws_status w = ARCHIVING then saga_resume (ws_tenantId w) (ws_expiredAt w)
         else bnd (if ws_deleteMode w \<noteq> Some DelNoArchive
                   then bnd (mapM (\<lambda>s. external (e_count E s (ws_tenantId w))) EXPORT_ORDER)
                          (\<lambda>counts. ret (sum_list counts))
                   else ret 0) (\<lambda>rows.
           let mode = chooseMode (ws_deleteMode w) rows in
           bnd (contactOfTenant E (ws_tenantId w)) (\<lambda>contact.
           bnd (if mode = ModeArchive
                then bnd (randomBytes E 16) (\<lambda>b. ret (Some (archiveObjectKey (ws_tenantId w) (toHex (bytes b)))))
                else ret None) (\<lambda>key.
           bnd (run (ledger_create (fresh_ledger (ws_tenantId w) Exporting mode key
                  (Some (case contact of Some c \<Rightarrow> ct_locale c | None \<Rightarrow> ZhCN))
                  (Some (case contact of Some c \<Rightarrow> ct_timeZone c | None \<Rightarrow> ''Asia/Shanghai''))
                  (dflt (ws_expiredAt w) (w_now w0)) (w_now w0)))) (\<lambda>created.
           thn (whenM created (exec (markArchiving (ws_tenantId w)))) (ret TickCreated))))))" for w0
    unfolding option.case Let_def
    by (intro keeps_intros contact mark resume create [simplified if_not_P]) (use create in simp_all)
  moreover have "?I (w_db w)" by (simp add: creating_def)
  ultimately have "?I (w_db w')"
    by (rule keepsD) (use assms Some in \<open>simp add: saga_start_def\<close>)
  then show ?thesis by (rule creating_spec) simp
qed

lemma ledger_next_in:
  assumes "ledger_next db = Some led"
  shows "led \<in> set (db_ledger db)" "led_phase led \<noteq> AccountDeleted"
proof -
  from assms have "led \<in> set (filter (\<lambda>l. led_phase l \<noteq> AccountDeleted) (db_ledger db))"
    using order_by_subset [of "\<lambda>l. (led_updatedAt l, led_tenantId l)" 1
        "filter (\<lambda>l. led_phase l \<noteq> AccountDeleted) (db_ledger db)"]
    by (auto simp: ledger_next_def first_row_def split: list.splits)
  then show "led \<in> set (db_ledger db)" "led_phase led \<noteq> AccountDeleted" by simp_all
qed

text \<open>C22: the saga moves every workspace only along its phases. Seen as the phase of each workspace's
ledger, a tick is a step of the abstract saga: nothing, a saga begun at \<^verbatim>\<open>exporting\<close> or resumed at
\<^verbatim>\<open>mailed\<close> where there was none, one row moved along an edge, or a row gone from \<^verbatim>\<open>purged\<close>. It
holds for every answer of the outside services, exceptions included.\<close>

theorem tick_refines_saga:
  assumes "db_ok (w_db w)" "tick E w = (r, w')"
  shows "saga_spec (phases_of (w_db w)) (phases_of (w_db w'))"
proof (cases "ledger_next (w_db w)")
  case None
  with assms(2) show ?thesis by (intro start_spec) (simp add: tick_def)
next
  case (Some led)
  with assms show ?thesis by (intro live_tick [OF assms(1) ledger_next_in [OF Some]]) (simp add: tick_def)
qed


definition demo_ledger :: "LedgerPhase \<Rightarrow> LedgerMode \<Rightarrow> Ledger" where
  "demo_ledger p m = (fresh_ledger ''t'' p m (Some ''k'') (Some EnUS) None 100 100)"

definition saga_db :: "LedgerPhase \<Rightarrow> LedgerMode \<Rightarrow> idb" where
  "saga_db p m = empty_db\<lparr>db_ledger := [demo_ledger p m]\<rparr>"

lemma saga_db_ok: "db_ok (saga_db p m)"
  unfolding saga_db_def by (rule db_ok_set) (simp_all add: db_ok_empty)

lemma ledger_next_one: "ledger_next (saga_db p m) = (if p = AccountDeleted then None else Some (demo_ledger p m))"
  by (simp add: saga_db_def ledger_next_def first_row_def order_by_def demo_ledger_def fresh_ledger_def)

theorem tick_refines_saga_witness:
  "saga_spec (phases_of (saga_db Exporting ModeEmpty))
     (phases_of (w_db (snd (tick demo_env (demo_world (saga_db Exporting ModeEmpty) 500)))))
   \<and> phases_of (w_db (snd (tick demo_env (demo_world (saga_db Exporting ModeEmpty) 500)))) ''t'' = Some Exported"
proof
  show "saga_spec (phases_of (saga_db Exporting ModeEmpty))
     (phases_of (w_db (snd (tick demo_env (demo_world (saga_db Exporting ModeEmpty) 500)))))"
    using tick_refines_saga [of "demo_world (saga_db Exporting ModeEmpty) 500", OF _ prod.collapse [symmetric]]
    by (simp add: saga_db_ok)
  show "phases_of (w_db (snd (tick demo_env (demo_world (saga_db Exporting ModeEmpty) 500)))) ''t'' = Some Exported"
    by (simp add: tick_def ledger_next_one)
       (simp add: demo_ledger_def fresh_ledger_def exportStep_def saga_patch_def Let_def catch_def thn_app bnd_app
        run_app saga_db_def ledger_update_def apply_patch_def dflt_def no_patch_def phases_of_def ledger_get_def)
qed

end
