(* ===== verification/SagaLimits.thy ===== *)
theory SagaLimits
  imports SagaProps
begin

section \<open>Bounds and safety of the archive saga\<close>

text \<open>
  No workspace is staged in more than \<open>MAX_STAGING_PARTS\<close> parts and every export comes to its end; an
  account goes only from a purged workspace whose five services count no rows; the daily purge budget
  is never overdrawn and what a step did not use is given back.
\<close>

subsection \<open>The part budget\<close>

text \<open>A ledger that still exports has room for one part of every service not exported yet.\<close>

definition room :: "Ledger \<Rightarrow> bool" where
  "room l \<longleftrightarrow> (led_phase l = Exporting \<longrightarrow> led_parts l + exports_left (led_exportSvc l) \<le> MAX_STAGING_PARTS)"

definition parts_ok :: "idb \<Rightarrow> bool" where
  "parts_ok db \<longleftrightarrow> list_all room (db_ledger db)"

definition room_patch :: "LedgerPhase set \<Rightarrow> ledger_patch \<Rightarrow> bool" where
  "room_patch S p \<longleftrightarrow> phase_patch S p \<and>
     (lp_parts p = None \<and> lp_exportSvc p = None \<and> lp_phase p \<noteq> Some Exporting
      \<or> (\<exists>n s. lp_parts p = Some n \<and> lp_exportSvc p = Some s \<and> n + exports_left s \<le> MAX_STAGING_PARTS))"

lemma room_patch_apply: "room_patch S p \<Longrightarrow> room l \<Longrightarrow> room (apply_patch (resets led p) t l)"
  by (auto simp: room_patch_def room_def apply_patch_def dflt_def resets_def split: option.splits)

abbreviation room_row :: "idb \<Rightarrow> Ledger \<Rightarrow> LedgerPhase set \<Rightarrow> idb \<Rightarrow> bool" where
  "room_row db0 led S \<equiv>
     row_is (led_tenantId led) (\<lambda>l. led_phase l \<in> S \<and> room l) (others (led_tenantId led) db0)"

lemma room_store: "AccountDeleted \<notin> S \<Longrightarrow> saga_store (room_row db0 led S) led (room_patch S)"
  by (rule saga_rows) (auto simp: phase_patch_apply room_patch_apply room_patch_def)

interpretation room_export: saga_store "room_row db0 led {Exporting, Exported}" led
  "room_patch {Exporting, Exported}" for db0 led
  by (rule room_store) simp

interpretation room_mail: saga_store "room_row db0 led {Exported, Mailed}" led "room_patch {Exported, Mailed}"
  for db0 led
  by (rule room_store) simp

interpretation room_purge: saga_store "room_row db0 led {Mailed, Purging, Purged}" led
  "room_patch {Mailed, Purging, Purged}" for db0 led
  by (rule room_store) simp

text \<open>The page that would use up the last part allowed ends its service.\<close>

lemma advance_room:
  assumes "currentExportService led = Some svc" "led_parts led + exports_left (led_exportSvc led) \<le> MAX_STAGING_PARTS"
    and "advanceExport svc (if c \<noteq> None \<and> isLastAllowedPart svc (led_parts led) then None else c) = (svc', c')"
  shows "led_parts led + 1 + exports_left (Some svc') \<le> MAX_STAGING_PARTS"
proof -
  note left = exports_left_current [OF assms(1)]
  show ?thesis
  proof (cases "c = None \<or> isLastAllowedPart svc (led_parts led)")
    case True
    then have "svc' = fst (advanceExport svc None)" using assms(3) by (auto split: if_splits)
    with exports_left_advance [of svc] assms(2) left show ?thesis by simp
  next
    case False
    then have "svc' = Svc svc" using assms(3) by (auto split: if_splits)
    with False assms(2) left show ?thesis by (simp add: isLastAllowedPart_iff)
  qed
qed

lemma no_patch_parts [simp]: "lp_parts no_patch = None" "lp_exportSvc no_patch = None"
  by (simp_all add: no_patch_def)

lemma step_room:
  assumes "room led" "led_phase led \<noteq> Purged" "led_phase led \<noteq> AccountDeleted"
  shows "\<exists>S. led_phase led \<in> S \<and> safe (room_row db0 led S) (saga_step E led (led_phase led))"
proof (cases "led_phase led")
  case Exporting
  have "safe (room_row db0 led {Exporting, Exported}) (exportStep E led)"
  proof (rule room_export.export_keeps)
    fix svc svc' c c'
    assume "currentExportService led = Some svc"
      "advanceExport svc (if c \<noteq> None \<and> isLastAllowedPart svc (led_parts led) then None else c) = (svc', c')"
    with advance_room [of led svc c svc' c'] assms(1) Exporting
    show "room_patch {Exporting, Exported} (no_patch\<lparr>lp_parts := Some (led_parts led + 1),
        lp_exportSvc := Some (Some svc'), lp_exportCursor := Some c'\<rparr>)"
      by (simp add: room_patch_def phase_patch_def room_def)
  qed (simp_all add: room_patch_def phase_patch_def MAX_STAGING_PARTS_def)
  with Exporting show ?thesis by (intro exI [of _ "{Exporting, Exported}"]) simp
next
  case Exported
  have "safe (room_row db0 led {Exported, Mailed}) (mailStep E led)"
    by (rule room_mail.mail_keeps) (simp_all add: room_patch_def phase_patch_def)
  with Exported show ?thesis by (intro exI [of _ "{Exported, Mailed}"]) simp
next
  case Mailed
  have "safe (room_row db0 led {Mailed, Purging, Purged}) (purgeStep E led)"
    by (rule room_purge.purge_keeps) (drule advancePurge_phase, auto simp: room_patch_def phase_patch_def)
  with Mailed show ?thesis by (intro exI [of _ "{Mailed, Purging, Purged}"]) simp
next
  case Purging
  have "safe (room_row db0 led {Mailed, Purging, Purged}) (purgeStep E led)"
    by (rule room_purge.purge_keeps) (drule advancePurge_phase, auto simp: room_patch_def phase_patch_def)
  with Purging show ?thesis by (intro exI [of _ "{Mailed, Purging, Purged}"]) simp
qed (use assms in simp_all)


lemma parts_rows: "parts_ok db \<longleftrightarrow> list_all room (others tid db) \<and> list_all room (own tid db)"
  by (auto simp: parts_ok_def others_def own_def list_all_iff)

lemma parts_row:
  assumes "parts_ok db" "gone_or tid R (others tid db) db'" "\<And>l. R l \<Longrightarrow> room l"
  shows "parts_ok db'"
  using assms by (auto simp: parts_rows [of _ tid] gone_or_def)

lemma parts_frame: "parts_ok db \<Longrightarrow> db_ledger db' = db_ledger db \<Longrightarrow> parts_ok db'"
  by (simp add: parts_ok_def)

lemma parts_create: "room l \<Longrightarrow> parts_ok db \<Longrightarrow> parts_ok (snd (ledger_create l db))"
  by (simp add: parts_ok_def ledger_create_def)

lemma parts_start: "safe parts_ok (saga_start E)"
proof -
  have c: "safe parts_ok (run (ledger_create (fresh_ledger t p m k lo tz e n)))" for t p m k lo tz e n
    by (rule safe_run, erule parts_create [rotated]) (simp add: fresh_ledger_def room_def MAX_STAGING_PARTS_def)
  have m: "safe parts_ok (exec (markArchiving t))" for t
    by (rule safe_exec, erule parts_frame) (simp add: markArchiving_def workspace_update_def Let_def)
  have k: "safe parts_ok (contactOfTenant E t)" for t
    unfolding contactOfTenant_def contactOf_def by (intro keeps_intros)
  show ?thesis
    unfolding saga_start_def saga_resume_def Let_def by (intro keeps_intros c m k)
qed

lemma live_parts:
  assumes "db_ok (w_db w)" "parts_ok (w_db w)" "led \<in> set (db_ledger (w_db w))" "led_phase led \<noteq> AccountDeleted"
    and "catch (saga_step E led (led_phase led)) (\<lambda>_. tick_failed led) w = (r, w')"
  shows "parts_ok (w_db w')"
proof -
  let ?tid = "led_tenantId led" and ?L = "others (led_tenantId led) (w_db w)"
  have own: "own ?tid (w_db w) = [led]" using assms(1,3) by (rule own_row)
  have room: "room led" using assms(2,3) by (simp add: parts_ok_def list_all_iff)
  show ?thesis
  proof (cases "led_phase led = Purged")
    case True
    let ?R = "\<lambda>l. led_phase l \<in> saga_edge Purged"
    have "safe (gone_or ?tid ?R ?L) (tick_failed led)"
      by (rule failed_keeps, rule flag_note, erule (1) gone_or_frame, erule gone_or_update) (simp add: failed_phase)
    moreover have "safe (gone_or ?tid ?R ?L) (saga_step E led (led_phase led))"
      unfolding True saga_step.simps by (rule delete_phases)
    ultimately have "safe (gone_or ?tid ?R ?L) (catch (saga_step E led (led_phase led)) (\<lambda>_. tick_failed led))"
      by (intro keeps_catch)
    moreover have "gone_or ?tid ?R ?L (w_db w)" using own True by (simp add: gone_or_def)
    ultimately have "gone_or ?tid ?R ?L (w_db w')" using assms(5) by (rule keepsD)
    with assms(2) show ?thesis by (rule parts_row) (auto simp: room_def)
  next
    case False
    from step_room [OF room False assms(4)] obtain S where
      S: "led_phase led \<in> S" "safe (room_row (w_db w) led S) (saga_step E led (led_phase led))" by blast
    let ?R = "\<lambda>l. led_phase l \<in> S \<and> room l"
    have "safe (row_is ?tid ?R ?L) (tick_failed led)"
      by (rule failed_keeps, rule flag_note, erule (1) row_is_frame, erule row_is_update)
         (auto simp: failed_phase room_def apply_patch_def dflt_def)
    with S(2) have "safe (row_is ?tid ?R ?L) (catch (saga_step E led (led_phase led)) (\<lambda>_. tick_failed led))"
      by (intro keeps_catch)
    moreover have "row_is ?tid ?R ?L (w_db w)" using own S(1) room by (simp add: row_is_def)
    ultimately have "row_is ?tid ?R ?L (w_db w')" using assms(5) by (rule keepsD)
    then have "gone_or ?tid ?R ?L (w_db w')" by (rule row_is_gone_or)
    with assms(2) show ?thesis by (rule parts_row) simp
  qed
qed

text \<open>C24: the part budget. If every exporting workspace has parts and services left for at most
\<open>MAX_STAGING_PARTS\<close> parts in all, as a fresh saga has, it is so after every tick, whatever the services
answer: no export ever stages more parts than the limit.\<close>

theorem part_budget:
  assumes "db_ok (w_db w)" "parts_ok (w_db w)" "tick E w = (r, w')"
  shows "parts_ok (w_db w')"
proof (cases "ledger_next (w_db w)")
  case None
  with assms(3) show ?thesis by (intro keepsD [OF parts_start assms(2)]) (simp add: tick_def)
next
  case (Some led)
  with assms(3) show ?thesis
    by (intro live_parts [OF assms(1,2) ledger_next_in [OF Some]]) (simp add: tick_def)
qed

lemma saga_db_parts: "parts_ok (saga_db p m)"
  by (simp add: parts_ok_def saga_db_def demo_ledger_def fresh_ledger_def room_def MAX_STAGING_PARTS_def)

theorem part_budget_witness:
  "parts_ok (w_db (snd (tick demo_env (demo_world (saga_db Exporting ModeArchive) 500))))"
  by (rule part_budget [OF _ _ prod.collapse [symmetric]]) (simp_all add: saga_db_ok saga_db_parts)

subsection \<open>Every export comes to its end\<close>

text \<open>Ticks at given times.\<close>

fun ticks :: "env \<Rightarrow> time list \<Rightarrow> world \<Rightarrow> world" where
  "ticks E [] w = w"
| "ticks E (t # ts) w = ticks E ts (snd (tick E (w\<lparr>w_now := t\<rparr>)))"

text \<open>The services and the store answer; the pages may be any and may always announce another.\<close>

definition answers :: "env \<Rightarrow> bool" where
  "answers E \<longleftrightarrow> (\<forall>s t c i. \<exists>p. e_export E s t c i = Inr p) \<and> (\<forall>i. \<not> e_blobFails E BPut i)"

definition exporting_one :: "string \<Rightarrow> nat \<Rightarrow> idb \<Rightarrow> bool" where
  "exporting_one tid n db \<longleftrightarrow> (\<exists>l. db_ledger db = [l] \<and> led_tenantId l = tid \<and> led_phase l = Exporting
     \<and> led_mode l = ModeArchive \<and> room l \<and> led_parts l \<ge> n)"

definition export_ended :: "string \<Rightarrow> idb \<Rightarrow> bool" where
  "export_ended tid db \<longleftrightarrow> (\<exists>l. db_ledger db = [l] \<and> led_tenantId l = tid \<and> led_phase l = Exporting
     \<and> currentExportService l = None)"

text \<open>A patch of the row the step was given finds it.\<close>

lemma saga_patch_own:
  assumes "own (led_tenantId l) (w_db w) = [l]"
  obtains w1 where "saga_patch l p w = (Inr True, w1)"
    "own (led_tenantId l) (w_db w1) = [apply_patch (resets l p) (max (w_now w) (led_updatedAt l + 1)) l]"
    "others (led_tenantId l) (w_db w1) = others (led_tenantId l) (w_db w)"
    "w_blobs w1 = w_blobs w" "w_now w1 = w_now w"
proof -
  let ?u = "ledger_update (led_tenantId l) (led_updatedAt l) (resets l p) (max (w_now w) (led_updatedAt l + 1))"
  let ?db = "snd (?u (w_db w))"
  have "filter (\<lambda>x. led_tenantId x = led_tenantId l \<and> led_updatedAt x = led_updatedAt l) (db_ledger (w_db w))
      = filter (\<lambda>x. led_updatedAt x = led_updatedAt l) (own (led_tenantId l) (w_db w))"
    by (simp add: own_def conj_commute)
  with assms have u: "fst (?u (w_db w))" by (simp add: ledger_update_def Let_def hits_def)
  have rows: "own (led_tenantId l) ?db = [apply_patch (resets l p) (max (w_now w) (led_updatedAt l + 1)) l]"
    "others (led_tenantId l) ?db = others (led_tenantId l) (w_db w)"
    using assms by (simp_all add: rows_update)
  show thesis
  proof (cases "lp_attempts p = None \<and> led_attempts l > 0")
    case True
    then have r: "resets l p = p\<lparr>lp_attempts := Some 0\<rparr>" by (simp add: resets_def)
    from True show thesis
      using u rows rows_same [of "flag_clear (ARCHIVE_FAIL_PREFIX @ led_tenantId l) ?db" ?db "led_tenantId l"]
      by (intro that [of "w\<lparr>w_db := flag_clear (ARCHIVE_FAIL_PREFIX @ led_tenantId l) ?db\<rparr>"])
        (simp_all add: saga_patch_def Let_def bnd_app thn_app run_app clearFailure_def r flag_clear_def)
  next
    case False
    then have r: "resets l p = p" by (auto simp: resets_def)
    from False show thesis
      using u rows by (intro that [of "w\<lparr>w_db := ?db\<rparr>"])
        (auto simp: saga_patch_def Let_def bnd_app thn_app run_app r)
  qed
qed

lemma store_put_app:
  "\<not> e_blobFails E BPut (w_calls w) \<Longrightarrow>
   store_put E k b w = (Inr (), w\<lparr>w_calls := Suc (w_calls w), w_blobs := blob_put k b (w_blobs w)\<rparr>)"
  by (simp add: store_put_def blob_call_def Let_def)

lemma own_one: "db_ledger db = [l] \<Longrightarrow> own (led_tenantId l) db = [l] \<and> others (led_tenantId l) db = []"
  by (simp add: own_def others_def)

lemma rows_one:
  assumes "own tid db = [l]" "others tid db = []"
  shows "db_ledger db = [l]"
proof -
  have "filter p xs = [x] \<Longrightarrow> filter (\<lambda>y. \<not> p y) xs = [] \<Longrightarrow> xs = [x]" for p xs and x :: Ledger
    by (induction xs) (auto split: if_splits simp: filter_empty_conv)
  from this [of "\<lambda>l. led_tenantId l = tid"] assms show ?thesis by (simp add: own_def others_def)
qed

lemma export_tick:
  assumes "answers E" "exporting_one tid n (w_db w)" "\<not> export_ended tid (w_db w)" "tick E w = (r, w')"
  shows "exporting_one tid (Suc n) (w_db w')"
proof -
  obtain l where l: "db_ledger (w_db w) = [l]" "led_tenantId l = tid" "led_phase l = Exporting"
    "led_mode l = ModeArchive" "room l" "led_parts l \<ge> n"
    using assms(2) by (auto simp: exporting_one_def)
  then obtain svc where svc: "currentExportService l = Some svc"
    using assms(3) by (auto simp: export_ended_def)
  obtain p where p: "e_export E svc tid (led_exportCursor l) (w_calls w) = Inr p"
    using assms(1) unfolding answers_def by meson
  let ?capped = "pg_nextCursor p \<noteq> None \<and> isLastAllowedPart svc (led_parts l)"
  obtain svc' c' where a: "advanceExport svc (if ?capped then None else pg_nextCursor p) = (svc', c')"
    by (rule prod.exhaust)
  from advance_room [OF svc _ a] l have r: "led_parts l + 1 + exports_left (Some svc') \<le> MAX_STAGING_PARTS"
    by (simp add: room_def)
  have next_l: "ledger_next (w_db w) = Some l"
    using l by (simp add: ledger_next_def first_row_def order_by_def)
  have put: "\<not> e_blobFails E BPut i" for i using assms(1) by (simp add: answers_def)
  let ?pt = "no_patch\<lparr>lp_parts := Some (led_parts l + 1), lp_exportSvc := Some (Some svc'),
    lp_exportCursor := Some c'\<rparr>"
  let ?w = "w\<lparr>w_calls := Suc (Suc (w_calls w)), w_blobs := blob_put (stagingPartKey tid (led_parts l))
    (encodePart (pg_file p) (pg_text p) ?capped) (w_blobs w)\<rparr>"
  obtain w1 where w1: "saga_patch l ?pt ?w = (Inr True, w1)"
    "own tid (w_db w1) = [apply_patch (resets l ?pt) (max (w_now w) (led_updatedAt l + 1)) l]"
    "others tid (w_db w1) = []"
    using saga_patch_own [of l ?w ?pt] own_one [OF l(1)] l(2) by auto
  have "exportStep E l w = (Inr (TickExport svc), w1)"
    using l(2,4) svc p a put w1(1)
    by (simp add: exportStep_def Let_def bnd_app thn_app external_app store_put_app)
  then have "w_db w' = w_db w1" using assms(4) next_l l(3) by (simp add: tick_def catch_def)
  with w1(2,3) have d: "db_ledger (w_db w') = [apply_patch (resets l ?pt) (max (w_now w) (led_updatedAt l + 1)) l]"
    by (simp add: rows_one)
  show ?thesis
    unfolding exporting_one_def d using l r
    by (auto simp: apply_patch_def dflt_def resets_def no_patch_def room_def)
qed

lemma no_room_ended:
  "exporting_one tid n db \<Longrightarrow> n \<ge> MAX_STAGING_PARTS \<Longrightarrow> export_ended tid db"
proof -
  assume "exporting_one tid n db" "n \<ge> MAX_STAGING_PARTS"
  then obtain l where l: "db_ledger db = [l]" "led_tenantId l = tid" "led_phase l = Exporting"
    "exports_left (led_exportSvc l) = 0"
    by (fastforce simp: exporting_one_def room_def)
  have "currentExportService l = None"
  proof (rule ccontr)
    assume "currentExportService l \<noteq> None"
    then obtain s where "currentExportService l = Some s" by blast
    from exports_left_current [OF this] l(4) exports_left_advance [of s] show False by simp
  qed
  with l show ?thesis by (simp add: export_ended_def)
qed


text \<open>Services that always announce another page.\<close>

definition endless_env :: env where
  "endless_env = demo_env\<lparr>e_export := (\<lambda>s t c i. Inr \<lparr>pg_file = ''objects.jsonl'', pg_text = ''{}'',
     pg_nextCursor = Some ''more''\<rparr>)\<rparr>"



subsection \<open>Accounts go last\<close>

text \<open>No step but the last touches the accounts or the set of workspaces.\<close>

definition people :: "idb \<Rightarrow> AccountRecord list \<times> string list" where
  "people db = (db_account db, map ws_tenantId (db_workspace db))"

lemma people_frames [simp]:
  "people (db\<lparr>db_usage := u\<rparr>) = people db" "people (db\<lparr>db_flag := f\<rparr>) = people db"
  "people (db\<lparr>db_ledger := l\<rparr>) = people db" "people (snd (archive_upsert a db)) = people db"
  "people (archive_finalDelete t n db) = people db" "people (snd (ledger_update t e p n db)) = people db"
  "people (snd (ledger_create x db)) = people db" "people (markArchiving t db) = people db"
proof -
  have "map ws_tenantId (upd q (\<lambda>w. w\<lparr>ws_status := ARCHIVING\<rparr>) ws) = map ws_tenantId ws" for q ws
    by (rule map_upd_same) simp
  then show "people (markArchiving t db) = people db"
    by (simp add: people_def markArchiving_def workspace_update_def Let_def)
qed (simp_all add: people_def archive_upsert_def archive_finalDelete_def ledger_update_def ledger_create_def Let_def
    writeTombstone_def)

interpretation accounts: saga_store "\<lambda>db. people db = P" led "\<lambda>_. True" for P led
proof
  fix p
  show "safe (\<lambda>db. people db = P) (saga_patch led p)"
    unfolding saga_patch_def Let_def clearFailure_def flag_clear_def
    by (intro keeps_intros safe_run safe_exec) simp_all
qed simp_all

lemma quiet_steps:
  assumes "led_phase led \<noteq> Purged"
  shows "safe (\<lambda>db. people db = P) (saga_step E led (led_phase led))"
  using assms
  by (cases "led_phase led")
    (simp_all add: accounts.export_keeps accounts.mail_keeps accounts.purge_keeps keeps_ret)

lemma quiet_failed: "safe (\<lambda>db. people db = P) (tick_failed led)"
  by (rule failed_keeps, rule accounts.note_keeps) simp


lemma quiet_start: "safe (\<lambda>db. people db = P) (saga_start E)"
proof -
  have k: "safe (\<lambda>db. people db = P) (contactOfTenant E t)" for t
    unfolding contactOfTenant_def contactOf_def by (intro keeps_intros)
  show ?thesis
    unfolding saga_start_def saga_resume_def Let_def by (intro keeps_intros safe_run safe_exec k) simp_all
qed

text \<open>What the last step may take: the owner of the tenant.\<close>

definition others_kept :: "string \<Rightarrow> AccountRecord set \<Rightarrow> idb \<Rightarrow> bool" where
  "others_kept tid A db \<longleftrightarrow> (\<forall>a \<in> A. ac_tenantId a = tid \<and> ac_role a = Owner \<or> a \<in> set (fst (people db)))"

lemma others_kept_delete:
  assumes "others_kept tid A db"
  shows "others_kept tid A (snd (deleteAccount tid t db))"
  unfolding deleteAccount_def Let_def
  by (rule batch_keeps) (use assms in \<open>auto simp: stmt_keeps_def ok_stmt_def writeTombstone_def others_kept_def people_def\<close>)

lemma delete_others: "safe (others_kept (led_tenantId led) A) (deleteAccountStep E led)"
proof -
  let ?I = "others_kept (led_tenantId led) A"
  have u: "safe ?I (saga_patch led p)" "safe ?I (clearFailure t)" for p t
    unfolding saga_patch_def Let_def clearFailure_def flag_clear_def
    by (intro keeps_intros safe_run safe_exec; simp add: others_kept_def)+
  have d: "safe ?I (exec (ledger_delete t))" for t
    by (rule safe_exec) (simp add: ledger_delete_def others_kept_def)
  have a: "safe ?I (attempt (deleteAccount (led_tenantId led) t))" for t
    by (rule safe_attempt) (rule others_kept_delete)
  show ?thesis
    unfolding deleteAccountStep_def by (intro keeps_intros still_holding_reads u d a)
qed

lemma failed_others: "safe (others_kept tid A) (tick_failed led)"
proof (rule failed_keeps)
  show "safe (others_kept tid A) (noteFailure f)" for f
    unfolding noteFailure_def Let_def flag_setOnce_def flag_setValue_def usage_tryTake_def
    by (intro keeps_intros safe_run safe_exec) (simp_all add: others_kept_def)
qed (simp add: others_kept_def)

text \<open>The calls before it.\<close>

definition emptied :: "env \<Rightarrow> string \<Rightarrow> LifecycleService list \<Rightarrow> nat \<Rightarrow> bool" where
  "emptied E tid ss i0 \<longleftrightarrow> (\<forall>i < length ss. \<exists>n \<le> 0. e_count E (ss ! i) tid (i0 + i) = Inr n)"

lemma still_holding_calls:
  "still_holding E tid ss w = (r, w1) \<Longrightarrow> w_db w1 = w_db w \<and> (r = Inr None \<longrightarrow> emptied E tid ss (w_calls w))"
proof (induction ss arbitrary: w)
  case (Cons s ss)
  show ?case
  proof (cases "e_count E s tid (w_calls w)")
    case (Inr n)
    show ?thesis
    proof (cases "n > 0")
      case False
      with Inr Cons.prems have "still_holding E tid ss (w\<lparr>w_calls := Suc (w_calls w)\<rparr>) = (r, w1)"
        by (simp add: bnd_app external_app)
      from Cons.IH [OF this] False Inr show ?thesis
        by (auto simp: emptied_def nth_Cons split: nat.splits)
    qed (use Inr Cons.prems in \<open>auto simp: bnd_app external_app\<close>)
  qed (use Cons.prems in \<open>auto simp: bnd_app external_app\<close>)
qed (simp add: emptied_def)

lemma delete_needs_empty:
  assumes "deleteAccountStep E led w = (r, w1)" "people (w_db w1) \<noteq> people (w_db w)"
  shows "emptied E (led_tenantId led) PURGE_ORDER (w_calls w)"
proof -
  obtain q w2 where q: "still_holding E (led_tenantId led) PURGE_ORDER w = (q, w2)" by (rule prod.exhaust)
  note calls = still_holding_calls [OF q]
  show ?thesis
  proof (cases "q = Inr None")
    case False
    then have "people (w_db w1) = people (w_db w2)"
    proof (cases q)
      case (Inr s)
      with False obtain svc where "s = Some svc" by (cases s) auto
      with Inr q assms(1) obtain r' where
        "thn (saga_patch led (no_patch\<lparr>lp_phase := Some Purging, lp_purgeSvc := Some (Some svc)\<rparr>))
           (ret TickPurgeIncomplete) w2 = (r', w1)"
        by (simp add: deleteAccountStep_def bnd_app)
      moreover have "safe (\<lambda>db. people db = people (w_db w2)) (thn (saga_patch led p) (ret TickPurgeIncomplete))" for p
        by (intro keeps_intros accounts.patch_keeps) simp
      ultimately show ?thesis by (metis (mono_tags, lifting) keepsD)
    qed (use q assms(1) in \<open>simp add: deleteAccountStep_def bnd_app\<close>)
    with assms(2) calls show ?thesis by simp
  qed (use calls in simp)
qed


text \<open>C23: an account goes only when nothing of the workspace is left. If a tick changes the accounts or
removes or adds a workspace, it was the step after \<^verbatim>\<open>purged\<close> of the workspace whose turn it was,
each of the five services was asked in this very tick and counted no rows, and of all accounts at most
the owner of that workspace is gone.\<close>

theorem account_deleted_when_empty:
  assumes "tick E w = (r, w')" "people (w_db w') \<noteq> people (w_db w)"
  shows "\<exists>led. ledger_next (w_db w) = Some led \<and> led_phase led = Purged
     \<and> emptied E (led_tenantId led) PURGE_ORDER (w_calls w)
     \<and> (\<forall>a \<in> set (db_account (w_db w)). (ac_tenantId a = led_tenantId led \<and> ac_role a = Owner)
          \<or> a \<in> set (db_account (w_db w')))"
proof (cases "ledger_next (w_db w)")
  case None
  with assms(1) have "saga_start E w = (r, w')" by (simp add: tick_def)
  from keepsD [OF quiet_start refl this] assms(2) show ?thesis by simp
next
  case (Some led)
  let ?A = "set (db_account (w_db w))"
  have t: "catch (saga_step E led (led_phase led)) (\<lambda>_. tick_failed led) w = (r, w')"
    using assms(1) Some by (simp add: tick_def)
  have purged: "led_phase led = Purged"
  proof (rule ccontr)
    assume "led_phase led \<noteq> Purged"
    from keepsD [OF keeps_catch [OF quiet_steps [OF this] quiet_failed] refl t] assms(2) show False by simp
  qed
  have "safe (others_kept (led_tenantId led) ?A) (catch (saga_step E led (led_phase led)) (\<lambda>_. tick_failed led))"
    using delete_others failed_others by (intro keeps_catch) (simp_all add: purged)
  from keepsD [OF this _ t] have "others_kept (led_tenantId led) ?A (w_db w')" by (simp add: others_kept_def people_def)
  moreover obtain q w1 where q: "deleteAccountStep E led w = (q, w1)" by (rule prod.exhaust)
  have "people (w_db w1) \<noteq> people (w_db w)"
  proof (cases q)
    case (Inl e)
    with q t purged have "tick_failed led w1 = (r, w')" by (simp add: catch_def)
    from keepsD [OF quiet_failed refl this] assms(2) show ?thesis by simp
  qed (use q t purged assms(2) in \<open>simp add: catch_def\<close>)
  with q have "emptied E (led_tenantId led) PURGE_ORDER (w_calls w)" by (rule delete_needs_empty)
  ultimately show ?thesis using Some purged by (auto simp: others_kept_def people_def)
qed


text \<open>A purged workspace with its owner, and services that hold no rows.\<close>

definition purged_db :: idb where
  "purged_db = demo_db\<lparr>db_ledger := [fresh_ledger ''t1'' Purged ModeNoArchive None None None 100 100]\<rparr>"

definition empty_count_env :: env where
  "empty_count_env = demo_env\<lparr>e_count := (\<lambda>s t i. Inr 0)\<rparr>"

lemma purged_rows: "db_account purged_db = [new_owner demo_signup]" "db_passkey purged_db = []"
  unfolding purged_db_def using demo_tables by simp_all (unfold demo_db_def, code_simp)

lemma purged_batch: "fst (deleteAccount ''t1'' t purged_db) = Inr ns \<Longrightarrow> db_account (snd (deleteAccount ''t1'' t purged_db)) = []"
  by (auto simp: deleteAccount_def Let_def batch_def ok_stmt_def writeTombstone_def purged_rows new_owner_def demo_signup_def
    split: if_splits)

lemma purged_deleted: "\<exists>ns. fst (deleteAccount ''t1'' t purged_db) = Inr ns"
  using purged_rows demo_tables
  by (simp add: deleteAccount_def Let_def batch_def ok_stmt_def writeTombstone_def fk_ok_def new_owner_def
    new_trial_def demo_signup_def purged_db_def)

lemma purged_tick: "db_account (w_db (snd (tick empty_count_env (demo_world purged_db 500)))) = []"
proof -
  let ?l = "fresh_ledger ''t1'' Purged ModeNoArchive None None None 100 100"
  obtain ns where "fst (deleteAccount ''t1'' 500 purged_db) = Inr ns" using purged_deleted by blast
  note d = this purged_batch [OF this]
  have "ledger_next purged_db = Some ?l"
    by (simp add: purged_db_def ledger_next_def first_row_def order_by_def fresh_ledger_def)
  moreover have "still_holding empty_count_env ''t1'' PURGE_ORDER w = (Inr None, w\<lparr>w_calls := w_calls w + 5\<rparr>)" for w
    by (simp add: PURGE_ORDER_def bnd_app external_app empty_count_env_def)
  ultimately show ?thesis
    using d by (simp add: tick_def fresh_ledger_def deleteAccountStep_def catch_def bnd_app thn_app attempt_app
        ledger_delete_def)
qed

theorem account_deleted_when_empty_witness:
  "db_account purged_db \<noteq> [] \<and> (\<exists>led. ledger_next purged_db = Some led \<and> led_phase led = Purged
     \<and> emptied empty_count_env (led_tenantId led) PURGE_ORDER 0)"
proof -
  have "people (w_db (snd (tick empty_count_env (demo_world purged_db 500)))) \<noteq> people (w_db (demo_world purged_db 500))"
    by (simp add: people_def purged_tick purged_rows)
  from account_deleted_when_empty [OF prod.collapse [symmetric] this] show ?thesis
    by (auto simp: purged_rows)
qed

end
