(* ===== verification/SagaArchive.thy ===== *)
theory SagaArchive
  imports SagaLimits
begin

section \<open>The archive and the purge budget\<close>

text \<open>
  What \<open>zipStep\<close> stores is built from every staged part, fits the limit and was checked against the
  store before the staging objects go; what \<open>purgeStep\<close> draws from the daily budget is what was
  deleted, also when the service fails.
\<close>

subsection \<open>The archive\<close>

definition staged :: "string \<Rightarrow> nat list \<Rightarrow> objects \<Rightarrow> StagedPart list option" where
  "staged tid js vs =
     (if list_all (\<lambda>i. blob_get (stagingPartKey tid i) vs \<noteq> None) js
      then Some (map (\<lambda>i. decodePart (the (blob_get (stagingPartKey tid i) vs))) js) else None)"

lemma read_parts_run:
  "read_parts E tid js w = (Inr ps, w1) \<Longrightarrow>
   ps = staged tid js (w_blobs w) \<and> w_blobs w1 = w_blobs w \<and> w_db w1 = w_db w \<and> w_now w1 = w_now w"
proof (induction js arbitrary: w ps)
  case (Cons i js)
  from Cons.prems obtain b w2 where b: "store_get E (stagingPartKey tid i) w = (Inr b, w2)"
    "(case b of None \<Rightarrow> ret None
      | Some b \<Rightarrow> bnd (read_parts E tid js) (\<lambda>r. ret (map_option ((#) (decodePart b)) r))) w2 = (Inr ps, w1)"
    by (auto elim!: bnd_InrE)
  then have w2: "b = blob_get (stagingPartKey tid i) (w_blobs w)" "w_blobs w2 = w_blobs w" "w_db w2 = w_db w"
    "w_now w2 = w_now w"
    by (auto simp: store_get_def blob_call_def Let_def split: if_splits)
  show ?case
  proof (cases b)
    case None
    with b w2 show ?thesis by (simp add: staged_def)
  next
    case (Some x)
    with b(2) obtain r where "read_parts E tid js w2 = (Inr r, w1)" "ps = map_option ((#) (decodePart x)) r"
      by (auto elim!: bnd_InrE)
    with Cons.IH [of w2 r] w2 Some show ?thesis by (auto simp: staged_def w2(1) [symmetric])
  qed
qed (simp add: staged_def)

lemma store_head_run:
  "store_head E k w = (Inr h, w1) \<Longrightarrow>
   h = map_option (\<lambda>b. e_headSize E (w_calls w) (length b)) (blob_get k (w_blobs w))
   \<and> w_blobs w1 = w_blobs w \<and> w_db w1 = w_db w \<and> w_now w1 = w_now w"
  by (auto simp: store_head_def blob_call_def Let_def split: if_splits)

lemma store_put_run:
  "store_put E k b w = (Inr u, w1) \<Longrightarrow>
   w_blobs w1 = blob_put k b (w_blobs w) \<and> w_db w1 = w_db w \<and> w_now w1 = w_now w"
  by (auto simp: store_put_def blob_call_def Let_def split: if_splits)

lemma store_deletePrefix_run:
  "store_deletePrefix E p w = (Inr n, w1) \<Longrightarrow>
   w_blobs w1 = snd (blob_deletePrefix p (w_blobs w)) \<and> w_db w1 = w_db w \<and> w_now w1 = w_now w"
  by (auto simp: store_deletePrefix_def blob_call_def Let_def split: if_splits)

lemma archive_key_not_staged: "\<not> starts_with (stagingPrefix t) (archiveObjectKey t' h)"
  by (simp add: starts_with_def stagingPrefix_def archiveObjectKey_def)

text \<open>The bytes of the archive of the staged parts.\<close>

definition archive_bytes :: "env \<Rightarrow> StagedPart list \<Rightarrow> time \<Rightarrow> string" where
  "archive_bytes E parts t =
     zip_rounds E (assembleFiles parts) (sp_file ` set (filter sp_truncated parts)) t 3
       (MAX_ARCHIVE_BYTES - ZIP_OVERHEAD_BYTES) []"

text \<open>What a finished export leaves. When the step reports \<^verbatim>\<open>zipped\<close>, every staged part was there;
the object stored under the ledger's key is the archive of exactly those parts, of at most two megabytes
and of the size the store reports; no staging object is left; and the workspace's ledger is exported and
carries that size and the hash of those bytes.\<close>

theorem archive_stored:
  assumes "own (led_tenantId led) (w_db w) = [led]" "object_key led = archiveObjectKey (led_tenantId led) h"
    and "zipStep E led w = (Inr TickZipped, w')"
  shows "\<exists>parts z l. staged (led_tenantId led) [0..<led_parts led] (w_blobs w) = Some parts
     \<and> z = archive_bytes E parts (w_now w) \<and> int (length z) \<le> MAX_ARCHIVE_BYTES
     \<and> blob_get (object_key led) (w_blobs w') = Some z
     \<and> (\<forall>k. starts_with (stagingPrefix (led_tenantId led)) k \<longrightarrow> blob_get k (w_blobs w') = None)
     \<and> own (led_tenantId led) (w_db w') = [l] \<and> led_phase l = Exported
     \<and> led_sizeBytes l = Some (int (length z)) \<and> led_sha256 l = Some (sha256Hex E z)"
proof -
  let ?tid = "led_tenantId led" and ?k = "object_key led"
  obtain ps w1 where r: "read_parts E ?tid [0..<led_parts led] w = (Inr ps, w1)"
    using assms(3) unfolding zipStep_def by (elim bnd_InrE) blast
  note r1 = read_parts_run [OF r]
  have "ps \<noteq> None"
  proof
    assume "ps = None"
    with assms(3) r have "thn (store_deletePrefix E (stagingPrefix ?tid))
         (thn (saga_patch led (no_patch\<lparr>lp_exportSvc := Some None, lp_exportCursor := Some None, lp_parts := Some 0\<rparr>))
           (ret TickExportRestarted)) w1 = (Inr TickZipped, w')"
      by (simp add: zipStep_def)
    then show False by (auto elim!: thn_InrE)
  qed
  then obtain parts where parts: "ps = Some parts" by blast
  let ?z = "archive_bytes E parts (w_now w)"
  let ?p = "no_patch\<lparr>lp_phase := Some Exported, lp_sizeBytes := Some (Some (int (length ?z))),
      lp_sha256 := Some (Some (sha256Hex E ?z))\<rparr>"
  have small: "int (length ?z) \<le> MAX_ARCHIVE_BYTES"
    using assms(3) r parts r1 by (rule_tac ccontr) (simp add: zipStep_def archive_bytes_def Let_def)
  with assms(3) r parts r1 have "thn (store_put E ?k ?z)
      (bnd (store_head E ?k) (\<lambda>head.
       if head \<noteq> Some (length ?z) then fail_d UNAVAILABLE ''ARCHIVE_HEAD_MISMATCH''
       else thn (store_deletePrefix E (stagingPrefix ?tid))
         (thn (saga_patch led ?p) (ret TickZipped)))) w1 = (Inr TickZipped, w')"
    unfolding archive_bytes_def by (simp add: zipStep_def Let_def cong: if_cong)
  then obtain u w2 hd w3 n w4 b where put: "store_put E ?k ?z w1 = (Inr u, w2)"
    and head: "store_head E ?k w2 = (Inr hd, w3)"
    and dl: "store_deletePrefix E (stagingPrefix ?tid) w3 = (Inr n, w4)"
    and patch: "saga_patch led ?p w4 = (Inr b, w')"
    by (auto elim!: thn_InrE bnd_InrE split: if_splits)
  note runs = store_put_run [OF put] store_head_run [OF head] store_deletePrefix_run [OF dl] r1
  have own4: "own ?tid (w_db w4) = [led]" using runs assms(1) by simp
  obtain w5 where w5: "saga_patch led ?p w4 = (Inr True, w5)"
    "own ?tid (w_db w5) = [apply_patch (resets led ?p) (max (w_now w4) (led_updatedAt led + 1)) led]"
    "w_blobs w5 = w_blobs w4"
    using saga_patch_own [OF own4, of ?p] by blast
  with patch have "w' = w5" by simp
  moreover have "blob_get ?k (w_blobs w4) = Some ?z"
    using runs archive_key_not_staged [of ?tid ?tid h]
    by (simp add: blob_get_deletePrefix blob_get_put assms(2))
  moreover have "starts_with (stagingPrefix ?tid) k \<longrightarrow> blob_get k (w_blobs w4) = None" for k
    using runs by (simp add: blob_get_deletePrefix)
  ultimately show ?thesis
    using w5 small parts r1
    by (intro exI [of _ parts] exI [of _ ?z] exI [of _ "apply_patch (resets led ?p) (max (w_now w4) (led_updatedAt led + 1)) led"])
      (simp add: apply_patch_def dflt_def resets_def no_patch_def)
qed


definition zip_led :: Ledger where
  "zip_led = fresh_ledger ''t'' Exporting ModeArchive (Some (archiveObjectKey ''t'' ''aa'')) None None 100 100"

definition zip_env :: env where
  "zip_env = demo_env\<lparr>e_zip := (\<lambda>fs t. ''PK'')\<rparr>"

lemma zip_led_run: "\<exists>w'. zipStep zip_env zip_led (demo_world (empty_db\<lparr>db_ledger := [zip_led]\<rparr>) 500) = (Inr TickZipped, w')"
proof -
  have b: "buildZip zip_env fs c t = ''PK''" for fs c t
    by (simp add: buildZip_def zip_env_def Let_def)
  have s: "int (length ''PK'') \<le> MAX_ARCHIVE_BYTES"
    by (simp add: MAX_ARCHIVE_BYTES_def LIFECYCLE_def)
  have z: "zip_rounds zip_env fs c t 3 n [] = ''PK''" for fs c t n
    using s by (simp add: numeral_3_eq_3 b Let_def split_beta)
  have e: "\<not> e_blobFails zip_env op i" "e_headSize zip_env i n = n" for op i n
    by (simp_all add: zip_env_def demo_env_def)
  show ?thesis
    using s by (simp add: zipStep_def zip_led_def fresh_ledger_def Let_def z e store_put_def store_head_def
      store_deletePrefix_def blob_call_def thn_app bnd_app saga_patch_def run_app object_key_def
      blob_get_put split: prod.splits)
qed

theorem archive_stored_witness:
  "\<exists>w'. zipStep zip_env zip_led (demo_world (empty_db\<lparr>db_ledger := [zip_led]\<rparr>) 500) = (Inr TickZipped, w')
     \<and> (\<exists>z. blob_get (archiveObjectKey ''t'' ''aa'') (w_blobs w') = Some z \<and> int (length z) \<le> MAX_ARCHIVE_BYTES)"
proof -
  obtain w' where w': "zipStep zip_env zip_led (demo_world (empty_db\<lparr>db_ledger := [zip_led]\<rparr>) 500) = (Inr TickZipped, w')"
    using zip_led_run by blast
  have "own (led_tenantId zip_led) (w_db (demo_world (empty_db\<lparr>db_ledger := [zip_led]\<rparr>) 500)) = [zip_led]"
    "object_key zip_led = archiveObjectKey (led_tenantId zip_led) ''aa''"
    by (simp_all add: own_def object_key_def zip_led_def fresh_ledger_def)
  from archive_stored [OF this w'] w' show ?thesis
    by (auto simp: object_key_def zip_led_def fresh_ledger_def)
qed

subsection \<open>The purge budget\<close>

lemma saga_patch_usage: "saga_patch led p w = (r, w') \<Longrightarrow> db_usage (w_db w') = db_usage (w_db w)"
proof -
  have "safe (\<lambda>db. db_usage db = db_usage (w_db w)) (saga_patch led p)"
    unfolding saga_patch_def Let_def clearFailure_def flag_clear_def ledger_update_def
    by (intro keeps_intros safe_run safe_exec) simp_all
  then show "saga_patch led p w = (r, w') \<Longrightarrow> db_usage (w_db w') = db_usage (w_db w)" by (rule keepsD) simp
qed

lemma saga_patch_returns: "\<exists>b w'. saga_patch led p w = (Inr b, w')"
  by (simp add: saga_patch_def Let_def bnd_app thn_app run_app clearFailure_def)

lemma usage_read_frame: "db_usage db' = db_usage db \<Longrightarrow> usage_read d k db' = usage_read d k db"
  by (simp add: usage_read_def)

lemma usage_take_row: "sel1 (\<lambda>r. usage_key r = (d, k)) (db_usage (snd (usage_tryTake d k n cap db))) \<noteq> None"
  by (simp add: usage_tryTake_def Let_def sel1_upd_key usage_read_ensure)

text \<open>The rows a purge call deleted, none when it failed.\<close>

definition deleted_rows :: "env \<Rightarrow> Ledger \<Rightarrow> nat \<Rightarrow> int" where
  "deleted_rows E led i = (case e_purge E (currentPurgeService led) (led_tenantId led) PURGE_STEP_ROWS i of
     Inl _ \<Rightarrow> 0 | Inr (n, _) \<Rightarrow> n)"

lemma adjust_unused:
  assumes "sel1 (\<lambda>r. usage_key r = (d, k)) (db_usage db) \<noteq> None" "usage_read d k db = v + s" "0 \<le> v" "0 \<le> n" "n \<le> s"
  shows "usage_read d k (usage_adjust d k (- (s - n)) db) = v + n"
  using assms by (auto simp: usage_adjust_value)


text \<open>What a granted step leaves in the counter, and how the step runs.\<close>

lemma purge_counter:
  assumes "usage_read d k db + PURGE_STEP_ROWS \<le> cap" "0 \<le> usage_read d k db" "0 \<le> n"
    and "db_usage db1 = db_usage (snd (usage_tryTake d k PURGE_STEP_ROWS cap db))"
  shows "usage_read d k (if PURGE_STEP_ROWS - min PURGE_STEP_ROWS n > 0
      then usage_adjust d k (- (PURGE_STEP_ROWS - min PURGE_STEP_ROWS n)) db1 else db1)
    = usage_read d k db + min PURGE_STEP_ROWS n"
proof -
  have v: "usage_read d k db1 = usage_read d k db + PURGE_STEP_ROWS"
    using usage_read_frame [OF assms(4)] assms(1) by (simp add: usage_take_value)
  have "sel1 (\<lambda>r. usage_key r = (d, k)) (db_usage db1) \<noteq> None"
    using usage_take_row assms(4) by simp
  then have "usage_read d k (usage_adjust d k (- (PURGE_STEP_ROWS - min PURGE_STEP_ROWS n)) db1)
      = usage_read d k db + min PURGE_STEP_ROWS n"
    by (rule adjust_unused) (use v assms(2,3) in \<open>simp_all add: PURGE_STEP_ROWS_def\<close>)
  with v show ?thesis
    by (cases "PURGE_STEP_ROWS \<le> n") (simp_all add: min_def)
qed

lemma purge_run:
  assumes "fst (usage_tryTake (utcDay (w_now w)) ''purge_rows'' PURGE_STEP_ROWS (cf_purgeRowsDaily (e_cfg E)) (w_db w))"
    and "purgeStep E led w = (r, w')"
  shows "\<exists>db. db_usage db = db_usage (snd (usage_tryTake (utcDay (w_now w)) ''purge_rows'' PURGE_STEP_ROWS
        (cf_purgeRowsDaily (e_cfg E)) (w_db w)))
     \<and> w_db w' = (if PURGE_STEP_ROWS - min PURGE_STEP_ROWS (deleted_rows E led (w_calls w)) > 0
         then usage_adjust (utcDay (w_now w)) ''purge_rows''
           (- (PURGE_STEP_ROWS - min PURGE_STEP_ROWS (deleted_rows E led (w_calls w)))) db else db)
     \<and> r = (case e_purge E (currentPurgeService led) (led_tenantId led) PURGE_STEP_ROWS (w_calls w) of
         Inl e \<Rightarrow> Inl e | Inr _ \<Rightarrow> Inr (TickPurge (currentPurgeService led)))"
proof -
  let ?db = "snd (usage_tryTake (utcDay (w_now w)) ''purge_rows'' PURGE_STEP_ROWS (cf_purgeRowsDaily (e_cfg E)) (w_db w))"
  let ?svc = "currentPurgeService led"
  let ?w1 = "w\<lparr>w_db := ?db, w_calls := Suc (w_calls w)\<rparr>"
  show ?thesis
  proof (cases "e_purge E ?svc (led_tenantId led) PURGE_STEP_ROWS (w_calls w)")
    case (Inl e)
    then have n: "deleted_rows E led (w_calls w) = 0" by (simp add: deleted_rows_def)
    from Inl assms n show ?thesis
      by (intro exI [of _ ?db]) (auto simp: purgeStep_def Let_def bnd_app thn_app run_app try_call_def
          external_app finally_do_def cong: if_cong split: if_splits)
  next
    case (Inr p)
    obtain del fin where p: "p = (del, fin)" by (rule prod.exhaust)
    with Inr have n: "deleted_rows E led (w_calls w) = del" by (simp add: deleted_rows_def)
    obtain ph svc' where a: "advancePurge ?svc fin = (ph, svc')" by (rule prod.exhaust)
    obtain b w2 where s: "saga_patch led (no_patch\<lparr>lp_phase := Some ph, lp_purgeSvc := Some (Some svc')\<rparr>) ?w1 = (Inr b, w2)"
      using saga_patch_returns by blast
    from saga_patch_usage [OF s] Inr p n a s assms show ?thesis
      by (intro exI [of _ "w_db w2"]) (auto simp: purgeStep_def Let_def bnd_app thn_app run_app try_call_def
          external_app finally_do_def cong: if_cong split: if_splits)
  qed
qed

text \<open>C26: the purge budget. A purge step whose reservation of 500 rows would pass the daily limit changes
no counter and reports it; any other ends with the counter raised by exactly the rows deleted (at most
500), also when the service throws: then nothing stays drawn and the error goes on.\<close>

theorem purge_budget:
  assumes "db_ok (w_db w)" "purgeStep E led w = (r, w')"
    and "0 \<le> usage_read (utcDay (w_now w)) ''purge_rows'' (w_db w)" "0 \<le> deleted_rows E led (w_calls w)"
  shows "usage_read (utcDay (w_now w)) ''purge_rows'' (w_db w')
       = usage_read (utcDay (w_now w)) ''purge_rows'' (w_db w)
         + (if usage_read (utcDay (w_now w)) ''purge_rows'' (w_db w) + PURGE_STEP_ROWS \<le> cf_purgeRowsDaily (e_cfg E)
            then min PURGE_STEP_ROWS (deleted_rows E led (w_calls w)) else 0)
     \<and> (r = Inr TickPurgeBudget \<longleftrightarrow>
          usage_read (utcDay (w_now w)) ''purge_rows'' (w_db w) + PURGE_STEP_ROWS > cf_purgeRowsDaily (e_cfg E))
     \<and> (\<forall>e. e_purge E (currentPurgeService led) (led_tenantId led) PURGE_STEP_ROWS (w_calls w) = Inl e \<longrightarrow>
          r = Inl e \<or> r = Inr TickPurgeBudget)"
proof (cases "usage_read (utcDay (w_now w)) ''purge_rows'' (w_db w) + PURGE_STEP_ROWS \<le> cf_purgeRowsDaily (e_cfg E)")
  case False
  with assms(2) usage_take_grants [OF assms(1)] show ?thesis
    by (auto simp: purgeStep_def Let_def bnd_app run_app usage_take_value)
next
  case True
  from purge_run [OF usage_take_grants [OF assms(1), THEN iffD2, OF True] assms(2)] obtain db where
    db: "db_usage db = db_usage (snd (usage_tryTake (utcDay (w_now w)) ''purge_rows'' PURGE_STEP_ROWS
        (cf_purgeRowsDaily (e_cfg E)) (w_db w)))"
    and run: "w_db w' = (if PURGE_STEP_ROWS - min PURGE_STEP_ROWS (deleted_rows E led (w_calls w)) > 0
         then usage_adjust (utcDay (w_now w)) ''purge_rows''
           (- (PURGE_STEP_ROWS - min PURGE_STEP_ROWS (deleted_rows E led (w_calls w)))) db else db)"
    "r = (case e_purge E (currentPurgeService led) (led_tenantId led) PURGE_STEP_ROWS (w_calls w) of
         Inl e \<Rightarrow> Inl e | Inr _ \<Rightarrow> Inr (TickPurge (currentPurgeService led)))" by blast
  from purge_counter [OF True assms(3,4) db] run(1) have
    "usage_read (utcDay (w_now w)) ''purge_rows'' (w_db w') = usage_read (utcDay (w_now w)) ''purge_rows'' (w_db w)
      + min PURGE_STEP_ROWS (deleted_rows E led (w_calls w))" by simp
  with True run(2) show ?thesis by (simp split: sum.splits)
qed

text \<open>A service that is down.\<close>

definition down_env :: env where
  "down_env = demo_env\<lparr>e_purge := (\<lambda>s t n i. Inl (Ext ''down''))\<rparr>"

theorem purge_budget_witness:
  "usage_read (utcDay 500) ''purge_rows''
     (w_db (snd (purgeStep down_env (demo_ledger Mailed ModeEmpty) (demo_world (saga_db Mailed ModeEmpty) 500)))) = 0"
proof -
  have "usage_read d k (saga_db p m) = 0" for d k p m
    by (simp add: usage_read_def saga_db_def empty_db_def)
  with purge_budget [OF _ prod.collapse [symmetric], of "demo_world (saga_db Mailed ModeEmpty) 500" down_env
      "demo_ledger Mailed ModeEmpty"] show ?thesis
    by (simp add: saga_db_ok deleted_rows_def down_env_def PURGE_STEP_ROWS_def)
qed

end
