(* ===== verification/AuditTrail.thy ===== *)
theory AuditTrail
  imports SagaArchive
begin

section \<open>The audit trail and idempotent writes\<close>

text \<open>
  \<^verbatim>\<open>application/platform_admin/audit_service.ts\<close> and the cursors of \<^verbatim>\<open>shared-kernel/page.ts\<close>:
  rows are appended behind the newest one, at strictly increasing times; a write with an
  idempotency key runs once and is replayed from the stored result. \<^verbatim>\<open>JSON.parse\<close> is \<open>e_parse\<close>.
\<close>

subsection \<open>page.ts\<close>

definition encodeCursor :: "json \<Rightarrow> string" where
  "encodeCursor v = base64url (stringify v)"

definition decodeCursor :: "env \<Rightarrow> string option \<Rightarrow> json option" where
  "decodeCursor E cursor =
     (case cursor of
        None \<Rightarrow> None
      | Some c \<Rightarrow> if c = [] then None
                else (case atob (replace_char CHR ''_'' CHR ''/'' (replace_char CHR ''-'' CHR ''+'' c)) of
                        None \<Rightarrow> None | Some t \<Rightarrow> e_parse E t))"

subsection \<open>Appending\<close>

record AuditRecord =
  ad_action :: string
  ad_targetTenantId :: "string option"
  ad_reason :: "string option"

definition APPEND_RETRIES :: nat where "APPEND_RETRIES = 5"

text \<open>The row for a head, a time and an identifier.\<close>

definition audit_row ::
  "env \<Rightarrow> AuditRecord \<Rightarrow> string option \<Rightarrow> json option \<Rightarrow> AuditRow option \<Rightarrow> time \<Rightarrow> string \<Rightarrow> AuditRow" where
  "audit_row E rec key result head t i =
     (let prevHash = dflt (map_option au_rowHash head) GENESIS_HASH;
          row = \<lparr>au_id = i, au_at = t, au_action = ad_action rec, au_targetTenantId = ad_targetTenantId rec,
                 au_targetUserId = None, au_reason = ad_reason rec, au_idempotencyKey = key,
                 au_result = map_option stringify result, au_prevHash = prevHash, au_rowHash = []\<rparr>
      in row\<lparr>au_rowHash := computeRowHash (sha256Hex E) prevHash row\<rparr>)"

fun append_tries ::
  "env \<Rightarrow> AuditRecord \<Rightarrow> string option \<Rightarrow> json option \<Rightarrow> nat \<Rightarrow> AuditRow io" where
  "append_tries E rec key result 0 = fail_d UNAVAILABLE ''AUDIT_BUSY''"
| "append_tries E rec key result (Suc n) =
     bnd (query audit_latest) (\<lambda>head.
     bnd now (\<lambda>t.
     let t' = max t (dflt (map_option au_at head) 0 + 1) in
     bnd (new_ulid E t') (\<lambda>i.
     let row = audit_row E rec key result head t' i in
     bnd (run (audit_append row)) (\<lambda>r.
     case r of
       AppendOk \<Rightarrow> ret row
     | AppendStale \<Rightarrow> append_tries E rec key result n
     | AppendDuplicate \<Rightarrow>
         bnd (case key of None \<Rightarrow> ret None | Some k \<Rightarrow> if k = [] then ret None else query (audit_findByKey k)) (\<lambda>first.
         case first of Some f \<Rightarrow> ret f | None \<Rightarrow> append_tries E rec key result n)))))"

definition audit_append_row :: "env \<Rightarrow> AuditRecord \<Rightarrow> string option \<Rightarrow> json option \<Rightarrow> AuditRow io" where
  "audit_append_row E rec key result = append_tries E rec key result APPEND_RETRIES"

definition audit_note :: "env \<Rightarrow> string \<Rightarrow> string option \<Rightarrow> string option \<Rightarrow> AuditRow io" where
  "audit_note E action tenantId reason =
     audit_append_row E \<lparr>ad_action = action, ad_targetTenantId = tenantId, ad_reason = reason\<rparr> None None"

subsection \<open>Idempotent writes\<close>

text \<open>
  The stored value of a result (\<open>None\<close> is \<^verbatim>\<open>undefined\<close>) and the response of a replay are the two
  options of the code; \<^verbatim>\<open>rec\<close> is a function of the result, constant where the code gives a record.
\<close>

definition replay_row :: "env \<Rightarrow> (json option \<Rightarrow> 'a io) \<Rightarrow> AuditRow \<Rightarrow> 'a io" where
  "replay_row E replay row =
     (case au_result row of
        None \<Rightarrow> replay None
      | Some t \<Rightarrow> (case e_parse E t of None \<Rightarrow> throw (Ext ''SyntaxError'') | Some v \<Rightarrow> replay (Some v)))"

definition idempotent ::
  "env \<Rightarrow> string \<Rightarrow> ('a \<Rightarrow> AuditRecord) \<Rightarrow> 'a io \<Rightarrow> ('a \<Rightarrow> json option) \<Rightarrow> (json option \<Rightarrow> 'a io) \<Rightarrow> 'a io" where
  "idempotent E key rec fn stored replay =
     (if \<not> isIdempotencyKey key
      then throw (App (AppError_new VALIDATION_FAILED (Some ''Idempotency-Key required'') None
             (Some [(''errors'', JArr [JObj [(''path'', JStr ''Idempotency-Key''),
                (''message'', JStr ''Required (16-64 chars)'')]])])))
      else bnd (query (audit_findByKey key)) (\<lambda>seen.
        case seen of
          Some row \<Rightarrow> replay_row E replay row
        | None \<Rightarrow>
            bnd fn (\<lambda>result.
            let v = dflt (stored result) JNull in
            bnd (audit_append_row E (rec result) (Some key) (Some v)) (\<lambda>row.
            if au_result row = None \<or> au_result row = Some (stringify v) then ret result
            else replay_row E replay row))))"

subsection \<open>Reads and the gateway's entries\<close>

record AuditEntry =
  ae_action :: string
  ae_targetTenantId :: string
  ae_reason :: "string option"

text \<open>\<^verbatim>\<open>slice(0, 200)\<close> keeps 200 characters; the operation identifiers of the gateway are ASCII.\<close>

definition audit_record :: "env \<Rightarrow> CallCtx \<Rightarrow> AuditEntry \<Rightarrow> unit io" where
  "audit_record E ctx entry =
     (if act_role (ctx_actor ctx) \<noteq> Human Admin then fail FORBIDDEN
      else if ae_action entry \<noteq> ''act_as.enter'' \<and> ae_action entry \<noteq> ''tenant.write''
      then fail_d VALIDATION_FAILED ''Unknown audit action''
      else bnd now (\<lambda>t.
        bnd (query (audit_hasSince ''act_as.enter'' (ae_targetTenantId entry) (t - HOUR_MS))) (\<lambda>recent.
        if ae_action entry = ''act_as.enter'' \<and> recent then ret ()
        else thn (audit_note E (ae_action entry) (Some (ae_targetTenantId entry))
                    (map_option (take 200) (ae_reason entry)))
               (ret ()))))"

record AdminAuditDto =
  aad_id :: string
  aad_at :: string
  aad_action :: string
  aad_targetTenantId :: "string option"
  aad_targetUserId :: "string option"
  aad_reason :: "string option"

record PageRequest =
  pr_cursor :: "string option"
  pr_limit :: "jsnum option"

text \<open>The position in a cursor; a binding of another type is refused by the database.\<close>

definition audit_cursor :: "json option \<Rightarrow> (time \<times> string) option io" where
  "audit_cursor c =
     (case c of
        None \<Rightarrow> ret None
      | Some JNull \<Rightarrow> ret None
      | Some v \<Rightarrow> (case (obj_get v ''at'', obj_get v ''id'') of
                    (Some (JNum t), Some (JStr i)) \<Rightarrow> ret (Some (t, i))
                  | _ \<Rightarrow> throw (Ext ''D1_TYPE_ERROR'')))"

definition audit_pages :: "env \<Rightarrow> PageRequest \<Rightarrow> (AdminAuditDto list \<times> string option \<times> bool) io" where
  "audit_pages E req =
     (let limit = nat (clampLimit (pr_limit req)) in
      bnd (audit_cursor (decodeCursor E (pr_cursor req))) (\<lambda>cursor.
      bnd (query (audit_page cursor (limit + 1))) (\<lambda>rows.
      bnd (query audit_all) (\<lambda>all.
      let items = take limit rows in
      ret (map (\<lambda>r. \<lparr>aad_id = au_id r, aad_at = toISOString (au_at r), aad_action = au_action r,
                 aad_targetTenantId = au_targetTenantId r, aad_targetUserId = au_targetUserId r,
                 aad_reason = au_reason r\<rparr>) items,
           if length rows > limit \<and> items \<noteq> []
           then Some (encodeCursor (JObj [(''at'', JNum (au_at (last items))), (''id'', JStr (au_id (last items)))]))
           else None,
           verifyChain (sha256Hex E) all)))))"

definition audit_head :: "AuditRow option io" where
  "audit_head = query audit_latest"

lemma keeps_case_append [keeps_intros]:
  "keeps P m \<Longrightarrow> keeps P m' \<Longrightarrow> keeps P m'' \<Longrightarrow>
   keeps P (case r of AppendOk \<Rightarrow> m | AppendStale \<Rightarrow> m' | AppendDuplicate \<Rightarrow> m'')"
  by (cases r) simp_all

context repo_inv
begin

lemma append_safe: "safe I (append_tries E rec key result n)"
proof (induction n)
  case (Suc n)
  show ?case
    unfolding append_tries.simps Let_def by (intro keeps_intros run_step db_steps Suc)
qed (simp add: keeps_intros)

lemma note_safe: "safe I (audit_note E a t r)" "safe I (audit_append_row E rec key result)"
  by (simp_all add: audit_note_def audit_append_row_def append_safe)

lemma replay_safe: "(\<And>v. safe I (replay v)) \<Longrightarrow> safe I (replay_row E replay row)"
  by (auto simp: replay_row_def intro!: keeps_intros split: option.splits)

lemma idempotent_safe: "safe I fn \<Longrightarrow> (\<And>v. safe I (replay v)) \<Longrightarrow> safe I (idempotent E key rec fn stored replay)"
  unfolding idempotent_def Let_def by (intro keeps_intros note_safe replay_safe)

lemma record_safe: "safe I (audit_record E ctx entry)"
  unfolding audit_record_def by (intro keeps_intros note_safe)

end


subsection \<open>The chain\<close>

lemma insort_snoc: "k a \<le> k r \<Longrightarrow> insort_key k a (xs @ [r]) = insort_key k a xs @ [r]"
  by (induction xs) auto

lemma sort_snoc: "\<forall>x \<in> set t. k x \<le> k r \<Longrightarrow> sort_key k (t @ [r]) = sort_key k t @ [r]"
  by (induction t) (auto simp: insort_snoc)

lemma audit_all_Nil: "audit_all db = [] \<longleftrightarrow> db_audit db = []"
proof -
  have "length (audit_all db) = length (db_audit db)" by (simp add: audit_all_def)
  then show ?thesis by (metis length_0_conv)
qed

lemma audit_latest_last:
  "audit_latest db = (if db_audit db = [] then None else Some (last (audit_all db)))"
proof (cases "db_audit db = []")
  case False
  then have "audit_all db \<noteq> []" by (simp add: audit_all_Nil)
  then show ?thesis
    using False by (cases "audit_all db" rule: rev_cases)
      (auto simp: audit_latest_def order_desc_def first_row_def audit_all_def)
qed (simp add: audit_latest_def order_desc_def first_row_def)

lemma latest_newest:
  assumes "audit_latest db = Some h" "r \<in> set (db_audit db)"
  shows "audit_order r \<le> audit_order h"
proof -
  have "sorted (map audit_order (audit_all db))" by (simp add: audit_all_def)
  moreover have "h = last (audit_all db)" "audit_all db \<noteq> []"
    using assms by (auto simp: audit_latest_last audit_all_Nil split: if_splits)
  moreover have "r \<in> set (audit_all db)" using assms(2) by (simp add: audit_all_def)
  ultimately show ?thesis
    by (cases "audit_all db" rule: rev_cases) (auto simp: sorted_append)
qed

text \<open>A row that was made for the newest one goes to the end of the trail and continues its chain.\<close>

lemma audit_row_sel:
  "au_prevHash (audit_row E rec key result head t i) = dflt (map_option au_rowHash head) GENESIS_HASH"
  "au_at (audit_row E rec key result head t i) = t" "au_idempotencyKey (audit_row E rec key result head t i) = key"
  "au_result (audit_row E rec key result head t i) = map_option stringify result"
  "au_rowHash (audit_row E rec key result head t i)
     = computeRowHash (sha256Hex E) (dflt (map_option au_rowHash head) GENESIS_HASH) (audit_row E rec key result head t i)"
  by (simp_all add: audit_row_def Let_def computeRowHash_def audit_content_def)

lemma append_extends:
  assumes "row = audit_row E rec key result (audit_latest db) t i"
    and "t \<ge> dflt (map_option au_at (audit_latest db)) 0 + 1"
    and "audit_append row db = (AppendOk, db')"
  shows "audit_all db' = audit_all db @ [row]" "db_audit db' = db_audit db @ [row]"
    "audit_uniq (db_audit db')"
    "verifyChain (sha256Hex E) (audit_all db) \<Longrightarrow> verifyChain (sha256Hex E) (audit_all db')"
proof -
  show d: "db_audit db' = db_audit db @ [row]" and "audit_uniq (db_audit db')"
    using assms(3) by (auto simp: audit_append_def Let_def split: if_splits)
  have "audit_order r \<le> audit_order row" if r: "r \<in> set (db_audit db)" for r
  proof -
    obtain h where h: "audit_latest db = Some h" using r by (cases "db_audit db = []") (auto simp: audit_latest_last)
    from latest_newest [OF h r] h assms(2) show ?thesis
      by (auto simp: audit_order_def assms(1) audit_row_sel dflt_def less_eq_prod_def)
  qed
  with d show all: "audit_all db' = audit_all db @ [row]"
    by (simp add: audit_all_def sort_snoc)
  assume v: "verifyChain (sha256Hex E) (audit_all db)"
  show "verifyChain (sha256Hex E) (audit_all db')"
    unfolding all
  proof (rule verifyChain_append [OF v])
    assume "audit_all db \<noteq> []"
    then have "audit_latest db = Some (last (audit_all db))"
      by (simp add: audit_latest_last audit_all_Nil)
    then show "au_prevHash row = au_rowHash (last (audit_all db))"
      by (simp add: assms(1) audit_row_sel dflt_def)
  qed (simp add: assms(1) audit_row_sel)
qed

text \<open>An append adds its row behind the others, or changes nothing.\<close>

lemma append_tries_cases:
  "append_tries E rec key result n w = (r, w') \<Longrightarrow>
   (w_db w' = w_db w \<and> (\<forall>row. r = Inr row \<longrightarrow> (\<exists>k. key = Some k \<and> audit_findByKey k (w_db w) = Some row)))
   \<or> (\<exists>row. r = Inr row \<and> audit_all (w_db w') = audit_all (w_db w) @ [row]
        \<and> db_audit (w_db w') = db_audit (w_db w) @ [row] \<and> audit_uniq (db_audit (w_db w'))
        \<and> au_idempotencyKey row = key \<and> au_result row = map_option stringify result
        \<and> (verifyChain (sha256Hex E) (audit_all (w_db w)) \<longrightarrow> verifyChain (sha256Hex E) (audit_all (w_db w'))))"
proof (induction n arbitrary: w)
  case (Suc n)
  let ?head = "audit_latest (w_db w)"
  let ?t = "max (w_now w) (dflt (map_option au_at ?head) 0 + 1)"
  let ?i = "ulid (nat ?t) (map (\<lambda>i. e_rnd E (w_rand w + i) mod 256) [0..<16])"
  let ?row = "audit_row E rec key result ?head ?t ?i"
  let ?w1 = "w\<lparr>w_rand := w_rand w + 16\<rparr>"
  obtain a db where ap: "audit_append ?row (w_db w) = (a, db)" by (rule prod.exhaust)
  show ?case
  proof (cases a)
    case AppendOk
    with ap Suc.prems have "r = Inr ?row" "w_db w' = db"
      by (auto simp: bnd_app run_app new_ulid_app Let_def)
    with append_extends [OF refl _ ap [unfolded AppendOk]] show ?thesis by (simp add: audit_row_sel)
  next
    case AppendStale
    with ap have db: "db = w_db w" by (auto simp: audit_append_def Let_def split: if_splits)
    have "append_tries E rec key result n (?w1\<lparr>w_db := w_db w\<rparr>) = (r, w')"
      using Suc.prems ap AppendStale db by (simp add: bnd_app run_app new_ulid_app Let_def)
    from Suc.IH [OF this] show ?thesis by simp
  next
    case AppendDuplicate
    with ap have db: "db = w_db w" by (auto simp: audit_append_def Let_def split: if_splits)
    let ?f = "case key of None \<Rightarrow> None | Some k \<Rightarrow> if k = [] then None else audit_findByKey k (w_db w)"
    have "(case ?f of Some f \<Rightarrow> ret f | None \<Rightarrow> append_tries E rec key result n) (?w1\<lparr>w_db := w_db w\<rparr>) = (r, w')"
      using Suc.prems ap AppendDuplicate db
      by (auto simp: bnd_app run_app new_ulid_app Let_def split: option.splits if_splits)
    with Suc.IH [of "?w1\<lparr>w_db := w_db w\<rparr>"] show ?thesis
      by (auto split: option.splits if_splits)
  qed
qed auto


lemma verify_dropWhile: "verify_from h None rs \<Longrightarrow> verify_from h None (dropWhile p rs)"
proof (induction rs)
  case (Cons r rs)
  then show ?case by (simp del: verify_from.simps(2) add: verify_from_drop)
qed simp

lemma sorted_filter_dropWhile:
  "sorted (map audit_order rs) \<Longrightarrow> filter (\<lambda>r. \<not> au_at r < b) rs = dropWhile (\<lambda>r. au_at r < b) rs"
proof (induction rs)
  case (Cons r rs)
  show ?case
  proof (cases "au_at r < b")
    case False
    with Cons.prems have "\<forall>x \<in> set rs. \<not> au_at x < b"
      by (auto simp: audit_order_def less_eq_prod_def)
    with False show ?thesis by simp
  qed (use Cons in simp)
qed simp

lemma sweep_chain:
  assumes "verifyChain h (audit_all db)"
  shows "verifyChain h (audit_all (snd (audit_sweep t before db)))"
proof -
  have "audit_all (db\<lparr>db_audit := del (\<lambda>r. au_at r < before) (db_audit db)\<rparr>)
      = filter (\<lambda>r. \<not> au_at r < before) (audit_all db)"
    by (simp add: audit_all_def del_def filter_sort)
  also have "\<dots> = dropWhile (\<lambda>r. au_at r < before) (audit_all db)"
    by (rule sorted_filter_dropWhile) (simp add: audit_all_def)
  finally show ?thesis
    using assms by (auto simp: audit_sweep_def verifyChain_def verify_dropWhile)
qed

text \<open>C27: the audit chain stays verifiable. If the stored trail verifies, it verifies after every append
and after every retention sweep that follows; an append adds one row behind all others or none, whatever
the clock, the identifiers drawn and the key, and never changes or removes a row.\<close>

theorem audit_chain_kept:
  assumes "verifyChain (sha256Hex E) (audit_all (w_db w))" "audit_append_row E rec key result w = (r, w')"
  shows "verifyChain (sha256Hex E) (audit_all (w_db w'))
     \<and> (\<exists>xs. audit_all (w_db w') = audit_all (w_db w) @ xs \<and> length xs \<le> 1)
     \<and> verifyChain (sha256Hex E) (audit_all (snd (audit_sweep t before (w_db w'))))"
proof -
  have "verifyChain (sha256Hex E) (audit_all (w_db w'))
     \<and> (\<exists>xs. audit_all (w_db w') = audit_all (w_db w) @ xs \<and> length xs \<le> 1)"
    using append_tries_cases [OF assms(2) [unfolded audit_append_row_def]] assms(1) by auto
  then show ?thesis by (simp add: sweep_chain)
qed

theorem audit_chain_kept_witness:
  "verifyChain (sha256Hex demo_env) (audit_all (w_db (snd (audit_append_row demo_env
     \<lparr>ad_action = ''admin.login'', ad_targetTenantId = None, ad_reason = None\<rparr> None None (demo_world empty_db 500)))))"
  using audit_chain_kept [OF _ prod.collapse [symmetric], of demo_env "demo_world empty_db 500"
      "\<lparr>ad_action = ''admin.login'', ad_targetTenantId = None, ad_reason = None\<rparr>" None None]
  by (simp add: audit_all_def empty_db_def verifyChain_def)

subsection \<open>Once per key\<close>

lemma append_keyed:
  assumes "append_tries E rec (Some key) result n w = (Inr row, w')"
  shows "audit_findByKey key (w_db w') = Some row"
  using append_tries_cases [OF assms]
proof (elim disjE exE conjE)
  fix row'
  assume r: "Inr row = Inr row'" and d: "db_audit (w_db w') = db_audit (w_db w) @ [row']"
    and u: "audit_uniq (db_audit (w_db w'))" and k: "au_idempotencyKey row' = Some key"
  have "\<forall>x \<in> set (db_audit (w_db w)). au_idempotencyKey x \<noteq> Some key"
    using u k by (auto simp: audit_uniq_def d keyed_append image_iff)
  then have "sel1 (\<lambda>r. au_idempotencyKey r = Some key) (db_audit (w_db w)) = None" by (simp add: sel1_None)
  with d k r show ?thesis by (simp add: audit_findByKey_def sel1_append)
qed auto

lemma idempotent_stores:
  assumes "idempotent E key rec fn stored replay w = (Inr x, w')" "\<And>v P. keeps P (replay v)"
  shows "isIdempotencyKey key \<and> (\<exists>row. audit_findByKey key (w_db w') = Some row)"
proof -
  have pure: "replay_row E replay row w1 = (r, w2) \<Longrightarrow> w2 = w1" for row r w1 w2
    by (erule keeps_all_snd) (auto simp: replay_row_def intro!: keeps_intros assms(2) split: option.splits)
  have k: "isIdempotencyKey key" using assms(1) by (auto simp: idempotent_def split: if_splits)
  show ?thesis
  proof (cases "audit_findByKey key (w_db w)")
    case (Some row)
    with k assms(1) have "replay_row E replay row w = (Inr x, w')" by (simp add: idempotent_def)
    from pure [OF this] k Some show ?thesis by auto
  next
    case None
    with k assms(1) obtain y w1 row w2 where
      "append_tries E (rec y) (Some key) (Some (dflt (stored y) JNull)) APPEND_RETRIES w1 = (Inr row, w2)"
      and rest: "(if au_result row = None \<or> au_result row = Some (stringify (dflt (stored y) JNull)) then ret y
         else replay_row E replay row) w2 = (Inr x, w')"
      by (auto simp: idempotent_def Let_def audit_append_row_def elim!: bnd_InrE)
    from append_keyed [OF this(1)] have "audit_findByKey key (w_db w2) = Some row" .
    moreover have "w' = w2" using rest pure by (auto split: if_splits)
    ultimately show ?thesis using k by auto
  qed
qed

text \<open>C28: an administrative write runs once per key. After a write with an idempotency key has returned,
the trail has a row for the key; and as long as it has that row, a second call with the key only reads it:
it answers with the replay of the stored result and runs neither this nor any other action \<open>fn2\<close>.\<close>

theorem idempotent_runs_once:
  assumes "idempotent E key rec fn stored replay w = (Inr x, w')" "\<And>v P. keeps P (replay v)"
  shows "\<exists>row. audit_findByKey key (w_db w') = Some row
     \<and> (\<forall>fn2 rec2 stored2 replay2 w2. audit_findByKey key (w_db w2) = Some row \<longrightarrow>
          idempotent E key rec2 fn2 stored2 replay2 w2 = replay_row E replay2 row w2)"
  using idempotent_stores [OF assms] by (auto simp: idempotent_def)

definition demo_key :: string where "demo_key = ''0123456789abcdef''"

definition demo_write :: "json io" where
  "demo_write = idempotent demo_env demo_key
     (\<lambda>_. \<lparr>ad_action = ''sessions.revoke'', ad_targetTenantId = Some ''t'', ad_reason = None\<rparr>)
     (ret (JNum 1)) Some (\<lambda>v. ret (dflt v JNull))"

lemma append_first:
  assumes "db_audit (w_db w) = []"
  shows "\<exists>row w1. append_tries E rec key result (Suc n) w = (Inr row, w1) \<and> au_result row = map_option stringify result"
proof -
  have "audit_append (audit_row E rec key result None t i) (w_db w)
      = (AppendOk, (w_db w)\<lparr>db_audit := [audit_row E rec key result None t i]\<rparr>)" for t i
    using assms by (simp add: audit_append_def audit_latest_def order_desc_def first_row_def audit_row_sel
      audit_uniq_def dflt_def)
  moreover have "audit_latest (w_db w) = None" using assms by (simp add: audit_latest_last)
  ultimately show ?thesis
    by (simp add: bnd_app run_app new_ulid_app Let_def audit_row_sel)
qed

lemma demo_write_returns: "\<exists>x. fst (demo_write (demo_world empty_db 500)) = Inr x"
proof -
  have k: "isIdempotencyKey demo_key" unfolding demo_key_def by code_simp
  have r: "APPEND_RETRIES = Suc 4" by (simp add: APPEND_RETRIES_def)
  have "db_audit (w_db (demo_world empty_db 500)) = []" by (simp add: empty_db_def)
  from append_first [OF this] obtain row w1 where
    "append_tries demo_env \<lparr>ad_action = ''sessions.revoke'', ad_targetTenantId = Some ''t'', ad_reason = None\<rparr>
      (Some demo_key) (Some (JNum 1)) (Suc 4) (demo_world empty_db 500) = (Inr row, w1)"
    "au_result row = map_option stringify (Some (JNum 1))" by blast
  moreover have "audit_findByKey demo_key empty_db = None" by (simp add: audit_findByKey_def empty_db_def)
  ultimately show ?thesis
    using k by (simp add: demo_write_def idempotent_def audit_append_row_def r dflt_def del: append_tries.simps)
qed

theorem idempotent_runs_once_witness:
  "\<exists>row. audit_findByKey demo_key (w_db (snd (demo_write (demo_world empty_db 500)))) = Some row"
proof -
  obtain x where "fst (demo_write (demo_world empty_db 500)) = Inr x" using demo_write_returns by blast
  then have "demo_write (demo_world empty_db 500) = (Inr x, snd (demo_write (demo_world empty_db 500)))"
    by (metis prod.collapse)
  from idempotent_runs_once [OF this [unfolded demo_write_def]] show ?thesis
    by (auto simp: demo_write_def keeps_ret)
qed

end
