(* ===== verification/Passkeys.thy ===== *)
theory Passkeys
  imports AuditTrail
begin

section \<open>The administrator's passkeys\<close>

text \<open>
  \<^verbatim>\<open>application/identity/passkey_service.ts\<close>: set-up, registration, sign-in and step-up with
  passkeys, recovery codes, and the gate in front of every administrator call. The WebAuthn library
  is outside (\<open>e_regOptions\<close>, \<open>e_registration\<close>, \<open>e_authOptions\<close>, \<open>e_assertion\<close>).
\<close>

definition RECOVERY_METHODS :: "string list" where
  "RECOVERY_METHODS = [''getMe'', ''usage'', ''logout'', ''adminListPasskeys'', ''adminPasskeyOptions'', ''adminAddPasskey'']"

definition SETUP_METHODS :: "string list" where
  "SETUP_METHODS = RECOVERY_METHODS @ [''passkeyOptions'', ''passkeyAssertion'']"

definition GATE_REASON_recovery :: string where "GATE_REASON_recovery = ''RECOVERY_PENDING''"
definition GATE_REASON_setup :: string where "GATE_REASON_setup = ''PASSKEY_SETUP_INCOMPLETE''"

definition gateError :: "string \<Rightarrow> exn" where
  "gateError reason = App (AppError_new FORBIDDEN (Some reason) None (Some [(''reason'', JStr reason)]))"

datatype PasskeyAuth = AuthPre string | AuthCtx CallCtx

record PasskeyDto =
  pd_id :: string
  pd_label :: "string option"
  pd_createdAt :: string
  pd_lastUsedAt :: "string option"

record PasskeyRegistered =
  pg_passkey :: PasskeyDto
  pg_total :: nat
  pg_recoveryCodes :: "string list option"
  pg_session :: "IssuedSession option"

record AdminSessionStatus =
  as_valid :: bool
  as_recoveryPending :: bool
  as_setupIncomplete :: bool

definition passkey_toDto :: "PasskeyRecord \<Rightarrow> PasskeyDto" where
  "passkey_toDto p =
     \<lparr>pd_id = pk_credentialId p, pd_label = pk_label p, pd_createdAt = toISOString (pk_createdAt p),
      pd_lastUsedAt = map_option toISOString (pk_lastUsedAt p)\<rparr>"

subsection \<open>Who calls\<close>

definition passkey_admin :: "string \<Rightarrow> AccountRecord io" where
  "passkey_admin userId =
     bnd (query (account_findById userId)) (\<lambda>a.
     case a of
       None \<Rightarrow> fail UNAUTHENTICATED
     | Some a \<Rightarrow> if ac_role a \<noteq> Admin \<or> ac_bannedAt a \<noteq> None then fail UNAUTHENTICATED else ret a)"

definition passkey_resolve :: "env \<Rightarrow> PasskeyAuth \<Rightarrow> AccountRecord io" where
  "passkey_resolve E auth =
     (case auth of
        AuthPre t \<Rightarrow> bnd (verifyPreAuth E t) passkey_admin
      | AuthCtx ctx \<Rightarrow>
          if act_role (ctx_actor ctx) \<noteq> Human Admin then fail FORBIDDEN
          else passkey_admin (caller_id ctx))"

definition requireAdmin :: "CallCtx \<Rightarrow> AccountRecord io" where
  "requireAdmin ctx =
     (if act_role (ctx_actor ctx) \<noteq> Human Admin then fail FORBIDDEN
      else catch (passkey_admin (caller_id ctx)) (\<lambda>_. fail FORBIDDEN))"

definition setupIncomplete :: "string \<Rightarrow> bool io" where
  "setupIncomplete userId =
     bnd (query (passkey_count userId)) (\<lambda>n.
     bnd (query recoveryStats) (\<lambda>rec.
     ret (passkeySetupIncomplete n (fst rec))))"

definition sessionStatus :: "string \<Rightarrow> AdminSessionStatus io" where
  "sessionStatus sid =
     bnd (adminSessionOf sid) (\<lambda>s.
     case s of
       None \<Rightarrow> ret \<lparr>as_valid = False, as_recoveryPending = False, as_setupIncomplete = False\<rparr>
     | Some s \<Rightarrow>
         bnd (setupIncomplete (ss_userId s)) (\<lambda>inc.
         ret \<lparr>as_valid = True, as_recoveryPending = recoveryPending (ss_amr s), as_setupIncomplete = inc\<rparr>))"

definition passkey_gate :: "string \<Rightarrow> CallCtx option \<Rightarrow> unit io" where
  "passkey_gate rpc ctx =
     (case ctx of
        None \<Rightarrow> ret ()
      | Some ctx \<Rightarrow>
          if act_role (ctx_actor ctx) \<noteq> Human Admin then ret ()
          else
            let userId = caller_id ctx;
                setup = (if rpc \<in> set SETUP_METHODS then ret ()
                         else bnd (setupIncomplete userId) (\<lambda>inc.
                              if inc then throw (gateError GATE_REASON_setup) else ret ()))
            in case ctx_sid ctx of
                 None \<Rightarrow> setup
               | Some sid \<Rightarrow>
                   bnd (liveSession (Some sid) userId) (\<lambda>s.
                   case s of
                     None \<Rightarrow> if rpc = ''logout'' then ret ()
                             else fail_d UNAUTHENTICATED ''Admin session revoked''
                   | Some s \<Rightarrow>
                       if recoveryPending (ss_amr s) \<and> rpc \<notin> set RECOVERY_METHODS
                       then throw (gateError GATE_REASON_recovery)
                       else setup))"

subsection \<open>Registration\<close>

definition checkSetupCode :: "env \<Rightarrow> string \<Rightarrow> string \<Rightarrow> unit io" where
  "checkSetupCode E userId setupCode =
     (let ok = (case cf_bootstrapSetupCode (e_cfg E) of
                  None \<Rightarrow> False
                | Some c \<Rightarrow> length c > 0 \<and> secretEquals E setupCode c)
      in if \<not> ok then fail_d FORBIDDEN ''SETUP_CODE_INVALID''
         else bnd (query (hasFlag SETUP_CODE_USED_FLAG)) (\<lambda>used.
           if used then fail_d FORBIDDEN ''SETUP_CODE_USED''
           else bnd (query (passkey_count userId)) (\<lambda>n.
             if n > 0 then fail_d FORBIDDEN ''SETUP_DONE'' else ret ())))"

definition registrationOptions :: "env \<Rightarrow> AccountRecord \<Rightarrow> json io" where
  "registrationOptions E a =
     bnd (query (passkey_list (ac_userId a))) (\<lambda>existing.
     bnd (decryptEmail E (ac_emailEnc a)) (\<lambda>email.
     bnd (external (e_regOptions E (ac_userId a) email
            (map (\<lambda>p. (pk_credentialId p, pk_transports p)) existing))) (\<lambda>oc.
     bnd now (\<lambda>t.
     thn (attempt (putChallenge (snd oc) (ac_userId a) ChRegister (t + TTL_challengeMs))) (ret (fst oc))))))"

definition passkey_consume :: "env \<Rightarrow> json \<Rightarrow> string \<Rightarrow> ChallengePurpose \<Rightarrow> string io" where
  "passkey_consume E credential userId purpose =
     bnd now (\<lambda>t.
     case challengeOf (e_parse E) credential of
       None \<Rightarrow> fail_d UNAUTHENTICATED ''CHALLENGE_INVALID''
     | Some c \<Rightarrow>
         if c = [] then fail_d UNAUTHENTICATED ''CHALLENGE_INVALID''
         else bnd (run (consumeChallenge c userId purpose t)) (\<lambda>ok.
           if \<not> ok then fail_d UNAUTHENTICATED ''CHALLENGE_INVALID'' else ret c))"

definition verifyNew :: "env \<Rightarrow> AccountRecord \<Rightarrow> json \<Rightarrow> string option \<Rightarrow> PasskeyRecord io" where
  "verifyNew E a credential label =
     bnd (passkey_consume E credential (ac_userId a) ChRegister) (\<lambda>challenge.
     bnd (external (e_registration E credential challenge)) (\<lambda>v.
     case v of
       None \<Rightarrow> fail_d UNAUTHENTICATED ''PASSKEY_INVALID''
     | Some v \<Rightarrow>
         bnd (query (passkey_find (vr_credentialId v))) (\<lambda>known.
         if known \<noteq> None then fail_d CONFLICT ''PASSKEY_EXISTS''
         else bnd now (\<lambda>t.
           ret \<lparr>pk_credentialId = vr_credentialId v, pk_userId = ac_userId a, pk_publicKey = vr_publicKey v,
                pk_signCount = vr_counter v, pk_transports = vr_transports v,
                pk_label = (case label of None \<Rightarrow> None
                            | Some l \<Rightarrow> if trim l = [] then None else Some (trim l)),
                pk_createdAt = t, pk_lastUsedAt = None\<rparr>))))"

definition passkey_register :: "env \<Rightarrow> AccountRecord \<Rightarrow> json \<Rightarrow> string option \<Rightarrow> PasskeyRecord io" where
  "passkey_register E a credential label =
     bnd (verifyNew E a credential label) (\<lambda>rec.
     thn (attempt (passkey_insert rec)) (ret rec))"

definition adminSession ::
  "env \<Rightarrow> AccountRecord \<Rightarrow> AuthMethod list \<Rightarrow> RequestMeta \<Rightarrow> AuthMethod \<Rightarrow> bool \<Rightarrow> IssuedSession io" where
  "adminSession E a amr meta how newDevice =
     bnd (query (workspace_get (ac_tenantId a))) (\<lambda>w.
     case w of
       None \<Rightarrow> fail_d INTERNAL ''ADMIN_WORKSPACE_MISSING''
     | Some w \<Rightarrow>
         thn (audit_note E ''admin.login'' (Some (ac_tenantId a)) (Some (amr_name how)))
         (bnd (issue_session E a w amr meta) (\<lambda>session.
          thn (whenM newDevice
                 (bnd (contactOf E a) (\<lambda>c.
                  bnd now (\<lambda>t.
                  thn (notification_send E (admin_new_device t (ct_timeZone c) (rm_client meta) how)
                         (ct_email c) (ct_locale c)
                         (''admin_new_device:'' @ me_userId (is_me session) @ '':'' @ int_str t))
                    (ret ())))))
            (ret session))))"

definition setupOptions :: "env \<Rightarrow> string \<Rightarrow> string \<Rightarrow> json io" where
  "setupOptions E preAuth setupCode =
     bnd (passkey_resolve E (AuthPre preAuth)) (\<lambda>a.
     thn (checkSetupCode E (ac_userId a) setupCode) (registrationOptions E a))"

definition passkey_setup :: "env \<Rightarrow> string \<Rightarrow> string \<Rightarrow> json \<Rightarrow> RequestMeta \<Rightarrow> PasskeyRegistered io" where
  "passkey_setup E preAuth setupCode credential meta =
     bnd (passkey_resolve E (AuthPre preAuth)) (\<lambda>a.
     thn (checkSetupCode E (ac_userId a) setupCode)
     (bnd (verifyNew E a credential (Some ''setup'')) (\<lambda>rec.
      bnd now (\<lambda>t.
      bnd (run (setFlagOnce SETUP_CODE_USED_FLAG t)) (\<lambda>first.
      if \<not> first then fail_d FORBIDDEN ''SETUP_CODE_USED''
      else
        let rec = rec\<lparr>pk_lastUsedAt := Some t\<rparr> in
        thn (attempt (passkey_insert rec))
        (thn (audit_note E ''passkey.add'' (Some (ac_tenantId a)) (Some ''setup''))
        (bnd (adminSession E a [AmrOtp, AmrPasskey] meta AmrPasskey True) (\<lambda>session.
         ret \<lparr>pg_passkey = passkey_toDto rec, pg_total = 1, pg_recoveryCodes = None,
              pg_session = Some session\<rparr>))))))))"

definition addOptions :: "env \<Rightarrow> CallCtx \<Rightarrow> json io" where
  "addOptions E ctx = bnd (requireAdmin ctx) (registrationOptions E)"

definition draw_recovery :: "env \<Rightarrow> string io" where
  "draw_recovery E = (\<lambda>w. case generateRecoveryCode (e_rnd E) (w_rand w) of (c, p) \<Rightarrow> (Inr c, w\<lparr>w_rand := p\<rparr>))"

definition passkey_add ::
  "env \<Rightarrow> CallCtx \<Rightarrow> json \<Rightarrow> string option \<Rightarrow> string option \<Rightarrow> PasskeyRegistered io" where
  "passkey_add E ctx credential label stepUp =
     bnd (requireAdmin ctx) (\<lambda>a.
     bnd (recoverySessionActive (ac_userId a) (ctx_sid ctx)) (\<lambda>recovering.
     thn (whenM (\<not> recovering) (verifyStepUp E stepUp (ac_userId a)))
     (bnd (passkey_register E a credential label) (\<lambda>rec.
      thn (whenM recovering (upgradeRecovery (dflt (ctx_sid ctx) [])))
      (thn (audit_note E ''passkey.add'' (Some (ac_tenantId a)) (if recovering then Some ''recovery'' else None))
      (bnd (query (passkey_count (ac_userId a))) (\<lambda>n.
       bnd (query recoveryStats) (\<lambda>stats.
       if n \<ge> minPasskeys \<and> snd stats = 0
       then bnd (mapM (\<lambda>_. draw_recovery E) [0..<recoveryCodes]) (\<lambda>cs.
            thn (attempt (replaceRecoveryCodes (map (\<lambda>c. recoveryHash E (normalizeRecoveryCode c)) cs)))
              (ret \<lparr>pg_passkey = passkey_toDto rec, pg_total = n, pg_recoveryCodes = Some cs, pg_session = None\<rparr>))
       else ret \<lparr>pg_passkey = passkey_toDto rec, pg_total = n, pg_recoveryCodes = None, pg_session = None\<rparr>))))))))"

definition passkeys_of :: "CallCtx \<Rightarrow> PasskeyDto list io" where
  "passkeys_of ctx = bnd (requireAdmin ctx) (\<lambda>a. bnd (query (passkey_list (ac_userId a))) (\<lambda>ps. ret (map passkey_toDto ps)))"

definition passkey_remove :: "env \<Rightarrow> CallCtx \<Rightarrow> string \<Rightarrow> string option \<Rightarrow> unit io" where
  "passkey_remove E ctx i stepUp =
     bnd (requireAdmin ctx) (\<lambda>a.
     thn (verifyStepUp E stepUp (ac_userId a))
     (bnd (query (passkey_find i)) (\<lambda>p.
      case p of
        None \<Rightarrow> fail NOT_FOUND
      | Some p \<Rightarrow>
          if pk_userId p \<noteq> ac_userId a then fail NOT_FOUND
          else bnd (run (deleteKeeping i (ac_userId a) minPasskeys)) (\<lambda>gone.
            if \<not> gone then fail_d CONFLICT ''MIN_PASSKEYS''
            else thn (audit_note E ''passkey.delete'' (Some (ac_tenantId a)) None) (ret ())))))"

subsection \<open>Assertions\<close>

datatype AssertPurpose = ForLogin | ForStepUp

datatype AssertionResult = AssertedSession IssuedSession | StepUpToken string int

definition challenge_for :: "AssertPurpose \<Rightarrow> ChallengePurpose" where
  "challenge_for purpose = (if purpose = ForLogin then ChAssert else ChStepUp)"

definition authFor :: "env \<Rightarrow> PasskeyAuth \<Rightarrow> AssertPurpose \<Rightarrow> AccountRecord io" where
  "authFor E auth purpose =
     (case (purpose, auth) of
        (ForLogin, AuthCtx _) \<Rightarrow> fail_d UNAUTHENTICATED ''PREAUTH_REQUIRED''
      | (ForStepUp, AuthPre _) \<Rightarrow> fail FORBIDDEN
      | _ \<Rightarrow> passkey_resolve E auth)"

definition assertionOptions :: "env \<Rightarrow> PasskeyAuth \<Rightarrow> AssertPurpose \<Rightarrow> json io" where
  "assertionOptions E auth purpose =
     bnd (authFor E auth purpose) (\<lambda>a.
     bnd (query (passkey_list (ac_userId a))) (\<lambda>ks.
     if length ks = 0 then fail_d FORBIDDEN ''PASSKEY_SETUP_REQUIRED''
     else bnd (external (e_authOptions E (map (\<lambda>p. (pk_credentialId p, pk_transports p)) ks))) (\<lambda>oc.
       bnd now (\<lambda>t.
       thn (attempt (putChallenge (snd oc) (ac_userId a) (challenge_for purpose) (t + TTL_challengeMs)))
         (ret (fst oc))))))"

text \<open>From the credential to the account whose passkey signed: the part before a session or a token.\<close>

definition verified_passkey :: "env \<Rightarrow> AccountRecord \<Rightarrow> AssertPurpose \<Rightarrow> json \<Rightarrow> PasskeyRecord io" where
  "verified_passkey E a purpose credential =
     bnd (passkey_consume E credential (ac_userId a) (challenge_for purpose)) (\<lambda>challenge.
     bnd (case credentialIdOf credential of None \<Rightarrow> ret None | Some i \<Rightarrow> query (passkey_find i)) (\<lambda>p.
     case p of
       None \<Rightarrow> fail_d UNAUTHENTICATED ''PASSKEY_UNKNOWN''
     | Some p \<Rightarrow>
         if pk_userId p \<noteq> ac_userId a then fail_d UNAUTHENTICATED ''PASSKEY_UNKNOWN''
         else bnd (external (e_assertion E credential challenge p)) (\<lambda>v.
           case v of
             None \<Rightarrow> fail_d UNAUTHENTICATED ''PASSKEY_INVALID''
           | Some newCounter \<Rightarrow>
               if \<not> signCountOk (pk_signCount p) newCounter then fail_d UNAUTHENTICATED ''PASSKEY_COUNTER''
               else bnd now (\<lambda>t.
                 bnd (run (updateCounter (pk_credentialId p) (pk_signCount p) newCounter t)) (\<lambda>ok.
                 if \<not> ok then fail_d UNAUTHENTICATED ''PASSKEY_COUNTER'' else ret p)))))"

definition assertion :: "env \<Rightarrow> PasskeyAuth \<Rightarrow> AssertPurpose \<Rightarrow> json \<Rightarrow> RequestMeta \<Rightarrow> AssertionResult io" where
  "assertion E auth purpose credential meta =
     bnd (authFor E auth purpose) (\<lambda>a.
     bnd (verified_passkey E a purpose credential) (\<lambda>p.
     if purpose = ForStepUp
     then thn (audit_note E ''admin.step_up'' (Some (ac_tenantId a)) None)
            (bnd (token_stepUp E (ac_userId a)) (\<lambda>tok. ret (StepUpToken tok TTL_stepUpS)))
     else bnd (adminSession E a [AmrOtp, AmrPasskey] meta AmrPasskey (pk_lastUsedAt p = None)) (\<lambda>s.
          ret (AssertedSession s))))"

definition recoveryLogin :: "env \<Rightarrow> string \<Rightarrow> string \<Rightarrow> RequestMeta \<Rightarrow> IssuedSession io" where
  "recoveryLogin E preAuth recovery_code meta =
     bnd (passkey_resolve E (AuthPre preAuth)) (\<lambda>a.
     bnd now (\<lambda>t.
     bnd (run (useRecoveryCode (recoveryHash E (normalizeRecoveryCode recovery_code)) t)) (\<lambda>ok.
     if \<not> ok then fail_d UNAUTHENTICATED ''RECOVERY_CODE_INVALID''
     else adminSession E a [AmrOtp, AmrRecovery] meta AmrRecovery True)))"

definition passkey_verifyStepUp :: "env \<Rightarrow> CallCtx \<Rightarrow> string option \<Rightarrow> AccountRecord io" where
  "passkey_verifyStepUp E ctx stepUp =
     bnd (requireAdmin ctx) (\<lambda>a. thn (verifyStepUp E stepUp (ac_userId a)) (ret a))"

subsection \<open>Invariants\<close>

lemma safe_admins [keeps_intros]:
  "safe I (passkey_admin u)" "safe I (passkey_resolve E auth)" "safe I (requireAdmin ctx)"
  "safe I (setupIncomplete u)" "safe I (sessionStatus s)" "safe I (passkey_gate m c)"
  "safe I (checkSetupCode E u sc)" "safe I (passkeys_of ctx)" "safe I (authFor E auth p)"
  "safe I (passkey_verifyStepUp E ctx st)" "safe I (draw_recovery E)"
proof -
  have a: "safe I (passkey_admin u)" for u
    unfolding passkey_admin_def by (intro keeps_intros)
  have r: "safe I (requireAdmin ctx)" for ctx
    unfolding requireAdmin_def by (intro keeps_intros a)
  have s: "safe I (setupIncomplete u)" for u
    unfolding setupIncomplete_def by (intro keeps_intros)
  have re: "safe I (passkey_resolve E auth)" for E auth
    by (cases auth) (auto simp: passkey_resolve_def intro!: keeps_intros a)
  show "safe I (passkey_admin u)" "safe I (passkey_resolve E auth)" "safe I (requireAdmin ctx)"
    "safe I (setupIncomplete u)"
    using a r s re by auto
  show "safe I (sessionStatus s)" "safe I (passkey_gate m c)" "safe I (checkSetupCode E u sc)"
    "safe I (passkeys_of ctx)" "safe I (passkey_verifyStepUp E ctx st)"
    unfolding sessionStatus_def passkey_gate_def checkSetupCode_def passkeys_of_def passkey_verifyStepUp_def Let_def
    by (intro keeps_intros s r)+
  show "safe I (authFor E auth p)"
    by (cases auth; cases p) (auto simp: authFor_def intro!: keeps_intros re)
  show "safe I (draw_recovery E)"
    by (rule keepsI) (simp add: draw_recovery_def split: prod.splits)
qed

context repo_inv
begin

lemma passkey_parts:
  "safe I (registrationOptions E a)" "safe I (passkey_consume E c u p)" "safe I (verifyNew E a c l)"
  "safe I (passkey_register E a c l)" "safe I (adminSession E a amr meta how dev)" "safe I (verified_passkey E a pu c)"
proof -
  show r: "safe I (registrationOptions E a)"
    unfolding registrationOptions_def by (intro keeps_intros attempt_step db_steps)
  have c: "safe I (passkey_consume E c u p)" for c u p
    unfolding passkey_consume_def by (intro keeps_intros run_step db_steps)
  then show "safe I (passkey_consume E c u p)" .
  have v: "safe I (verifyNew E a c l)"
    unfolding verifyNew_def by (intro keeps_intros c)
  then show "safe I (verifyNew E a c l)" .
  show "safe I (passkey_register E a c l)"
    unfolding passkey_register_def by (intro keeps_intros v attempt_step db_steps)
  show "safe I (adminSession E a amr meta how dev)"
    unfolding adminSession_def by (intro keeps_intros note_safe session_safe send_safe)
  show "safe I (verified_passkey E a pu c)"
    unfolding verified_passkey_def by (intro keeps_intros c run_step db_steps)
qed

lemma passkey_safe:
  "safe I (setupOptions E t sc)" "safe I (passkey_setup E t sc c meta)" "safe I (addOptions E ctx)"
  "safe I (passkey_add E ctx c l st)" "safe I (passkey_remove E ctx i st)" "safe I (assertionOptions E auth p)"
  "safe I (assertion E auth p c meta)" "safe I (recoveryLogin E t rc meta)"
  unfolding setupOptions_def passkey_setup_def addOptions_def passkey_add_def passkey_remove_def
    assertionOptions_def assertion_def recoveryLogin_def Let_def
  by (intro keeps_intros passkey_parts note_safe session_safe run_step attempt_step db_steps)+

end

end
