(* ===== verification/PasskeyProps.thy ===== *)
theory PasskeyProps
  imports Passkeys
begin

section \<open>What a passkey proves\<close>

text \<open>
  The gate decides by the session and the state of the set-up alone, and an assertion that is
  accepted was made by a registered key of the administrator for a challenge that cannot be used
  again.
\<close>

subsection \<open>The gate\<close>

text \<open>The rule of the gate, as the file's comment states it.\<close>

definition live_in :: "idb \<Rightarrow> time \<Rightarrow> string \<Rightarrow> string \<Rightarrow> SessionRecord option" where
  "live_in db t i userId =
     (if i = [] then None
      else case session_findById i db of
             None \<Rightarrow> None
           | Some s \<Rightarrow> if ss_userId s = userId \<and> t < ss_expiresAt s then Some s else None)"

definition gate_allows :: "string \<Rightarrow> CallCtx \<Rightarrow> idb \<Rightarrow> time \<Rightarrow> bool" where
  "gate_allows rpc ctx db t \<longleftrightarrow>
     act_role (ctx_actor ctx) \<noteq> Human Admin
     \<or> ((case ctx_sid ctx of
           None \<Rightarrow> True
         | Some i \<Rightarrow> (case live_in db t i (caller_id ctx) of
                        None \<Rightarrow> rpc = ''logout''
                      | Some s \<Rightarrow> recoveryPending (ss_amr s) \<longrightarrow> rpc \<in> set RECOVERY_METHODS))
        \<and> (passkeySetupIncomplete (passkey_count (caller_id ctx) db) (fst (recoveryStats db))
             \<longrightarrow> rpc \<in> set SETUP_METHODS))"

lemma liveSession_live: "liveSession (Some i) u w = (Inr (live_in (w_db w) (w_now w) i u), w)"
  by (auto simp: liveSession_def live_in_def bnd_app split: option.splits)

lemma logout_setup [simp]: "''logout'' \<in> set SETUP_METHODS"
  by (simp add: SETUP_METHODS_def RECOVERY_METHODS_def)


subsection \<open>Assertions\<close>

lemma admin_read [keeps_intros]: "keeps P (passkey_admin u)" "keeps P (passkey_resolve E auth)"
proof -
  show a: "keeps P (passkey_admin u)" for u
    unfolding passkey_admin_def by (intro keeps_intros)
  show "keeps P (passkey_resolve E auth)"
    by (cases auth) (auto simp: passkey_resolve_def intro!: keeps_intros a)
qed

lemma authFor_read: "authFor E auth purpose w = (r, w') \<Longrightarrow> w' = w"
  by (erule keeps_all_snd) (cases auth; cases purpose; auto simp: authFor_def intro!: keeps_intros)

lemma passkey_admin_Inr:
  "passkey_admin u w = (Inr a, w') \<Longrightarrow> a \<in> set (db_account (w_db w)) \<and> ac_role a = Admin \<and> ac_bannedAt a = None"
  by (auto simp: passkey_admin_def account_findById_def bnd_app split: option.splits if_splits dest: sel1_Some)

lemma authFor_admin:
  assumes "authFor E auth purpose w = (Inr a, w')"
  shows "a \<in> set (db_account (w_db w)) \<and> ac_role a = Admin \<and> ac_bannedAt a = None"
proof -
  have "\<exists>u. passkey_admin u w = (Inr a, w')"
  proof (cases auth)
    case (AuthPre t)
    with assms obtain u w1 where v: "verifyPreAuth E t w = (Inr u, w1)" and p: "passkey_admin u w1 = (Inr a, w')"
      by (cases purpose) (auto simp: authFor_def passkey_resolve_def elim!: inrE)
    have "w1 = w" using v by (rule keeps_all_snd) (rule keeps_intros)
    with p show ?thesis by blast
  next
    case (AuthCtx c)
    with assms show ?thesis
      by (cases purpose) (auto simp: authFor_def passkey_resolve_def split: if_splits)
  qed
  then show ?thesis using passkey_admin_Inr by blast
qed

text \<open>What an accepted credential was: a pending challenge, a stored key, a fresh counter.\<close>

lemma filter_one: "length (filter p xs) = 1 \<Longrightarrow> \<exists>x \<in> set xs. p x"
  by (induction xs) (auto split: if_splits)

lemma consume_Inr:
  assumes "passkey_consume E c u p w = (Inr x, w')"
  shows "challengeOf (e_parse E) c = Some x"
    "\<exists>r \<in> set (db_challenge (w_db w)). ch_challenge r = x \<and> ch_userId r = u \<and> ch_purpose r = p \<and> w_now w < ch_expiresAt r"
    "db_challenge (w_db w') = filter (\<lambda>r. \<not> (ch_challenge r = x \<and> ch_userId r = u \<and> ch_purpose r = p
       \<and> w_now w < ch_expiresAt r)) (db_challenge (w_db w))"
    "db_passkey (w_db w') = db_passkey (w_db w)" "db_account (w_db w') = db_account (w_db w)"
proof -
  obtain y where y: "challengeOf (e_parse E) c = Some y" "y = x"
    "hits (\<lambda>r. ch_challenge r = x \<and> ch_userId r = u \<and> ch_purpose r = p \<and> w_now w < ch_expiresAt r) (db_challenge (w_db w)) = 1"
    "w_db w' = snd (consumeChallenge x u p (w_now w) (w_db w))"
    using assms
    by (auto simp: passkey_consume_def bnd_app run_app consumeChallenge_def Let_def split: option.splits if_splits)
  then show "challengeOf (e_parse E) c = Some x" by simp
  from y(3) show "\<exists>r \<in> set (db_challenge (w_db w)). ch_challenge r = x \<and> ch_userId r = u \<and> ch_purpose r = p
      \<and> w_now w < ch_expiresAt r"
    unfolding hits_def by (rule filter_one)
  show "db_challenge (w_db w') = filter (\<lambda>r. \<not> (ch_challenge r = x \<and> ch_userId r = u \<and> ch_purpose r = p
       \<and> w_now w < ch_expiresAt r)) (db_challenge (w_db w))"
    "db_passkey (w_db w') = db_passkey (w_db w)" "db_account (w_db w') = db_account (w_db w)"
    by (simp_all add: y(4) consumeChallenge_def Let_def del_def)
qed

lemma verified_Inr:
  assumes "verified_passkey E a purpose c w = (Inr p, w')"
  shows "\<exists>x n k. challengeOf (e_parse E) c = Some x
     \<and> (\<exists>r \<in> set (db_challenge (w_db w)). ch_challenge r = x \<and> ch_userId r = ac_userId a
          \<and> ch_purpose r = challenge_for purpose \<and> w_now w < ch_expiresAt r)
     \<and> p \<in> set (db_passkey (w_db w)) \<and> pk_userId p = ac_userId a \<and> credentialIdOf c = Some (pk_credentialId p)
     \<and> e_assertion E c x p k = Inr (Some n) \<and> signCountOk (pk_signCount p) n
     \<and> db_challenge (w_db w') = filter (\<lambda>r. \<not> (ch_challenge r = x \<and> ch_userId r = ac_userId a
          \<and> ch_purpose r = challenge_for purpose \<and> w_now w < ch_expiresAt r)) (db_challenge (w_db w))
     \<and> (\<exists>q \<in> set (db_passkey (w_db w')). pk_credentialId q = pk_credentialId p \<and> pk_signCount q = n)"
proof -
  from assms obtain x w1 where c: "passkey_consume E c (ac_userId a) (challenge_for purpose) w = (Inr x, w1)"
    and rest: "bnd (case credentialIdOf c of None \<Rightarrow> ret None | Some i \<Rightarrow> query (passkey_find i)) (\<lambda>p.
     case p of
       None \<Rightarrow> fail_d UNAUTHENTICATED ''PASSKEY_UNKNOWN''
     | Some p \<Rightarrow>
         if pk_userId p \<noteq> ac_userId a then fail_d UNAUTHENTICATED ''PASSKEY_UNKNOWN''
         else bnd (external (e_assertion E c x p)) (\<lambda>v.
           case v of
             None \<Rightarrow> fail_d UNAUTHENTICATED ''PASSKEY_INVALID''
           | Some newCounter \<Rightarrow>
               if \<not> signCountOk (pk_signCount p) newCounter then fail_d UNAUTHENTICATED ''PASSKEY_COUNTER''
               else bnd now (\<lambda>t.
                 bnd (run (updateCounter (pk_credentialId p) (pk_signCount p) newCounter t)) (\<lambda>ok.
                 if \<not> ok then fail_d UNAUTHENTICATED ''PASSKEY_COUNTER'' else ret p)))) w1 = (Inr p, w')"
    unfolding verified_passkey_def by (erule bnd_InrE)
  from rest obtain n k where r: "credentialIdOf c \<noteq> None"
    "passkey_find (the (credentialIdOf c)) (w_db w1) = Some p" "pk_userId p = ac_userId a"
    "e_assertion E c x p k = Inr (Some n)" "signCountOk (pk_signCount p) n"
    "fst (updateCounter (pk_credentialId p) (pk_signCount p) n (w_now w1) (w_db w1))"
    "w_db w' = snd (updateCounter (pk_credentialId p) (pk_signCount p) n (w_now w1) (w_db w1))"
    by (auto simp: bnd_app run_app external_app split: option.splits if_splits sum.splits prod.splits)
  from consume_Inr [OF c] have f: "passkey_find (the (credentialIdOf c)) (w_db w) = Some p"
    using r(2) by (simp add: passkey_find_def)
  then have p: "p \<in> set (db_passkey (w_db w))" "pk_credentialId p = the (credentialIdOf c)"
    by (auto simp: passkey_find_def dest: sel1_Some)
  have "\<exists>q \<in> set (db_passkey (w_db w')). pk_credentialId q = pk_credentialId p \<and> pk_signCount q = n"
    using p(1) by (auto simp: r(7) updateCounter_def Let_def upd_def consume_Inr(4) [OF c] 
        intro!: bexI [of _ "p\<lparr>pk_signCount := n, pk_lastUsedAt := Some (w_now w1)\<rparr>"])
  moreover have "db_challenge (w_db w') = db_challenge (w_db w1)"
    by (simp add: r(7) updateCounter_def Let_def)
  ultimately show ?thesis
    using consume_Inr(1-3) [OF c] r(1,3-5) p by (intro exI [of _ x] exI [of _ n] exI [of _ k]) auto
qed

text \<open>What follows the verification leaves challenges and passkeys alone.\<close>

abbreviation keys_are :: "challenge_row list \<Rightarrow> PasskeyRecord list \<Rightarrow> idb \<Rightarrow> bool" where
  "keys_are cs ps db \<equiv> db_challenge db = cs \<and> db_passkey db = ps"

lemma keys_mail: "mail_store (keys_are cs ps)"
  by unfold_locales (auto simp: usage_tryTake_def usage_adjust_def Let_def)

lemma keys_note: "safe (keys_are cs ps) (audit_append_row E rec key result)"
proof -
  have "safe (keys_are cs ps) (append_tries E rec key result n)" for n
  proof (induction n)
    case (Suc n)
    then show ?case
      unfolding append_tries.simps Let_def
      by (intro keeps_intros safe_run) (auto simp: audit_append_def Let_def split: if_splits)
  qed (simp add: keeps_intros)
  then show ?thesis by (simp add: audit_append_row_def)
qed

lemma keys_create: "keys_are cs ps db \<Longrightarrow> keys_are cs ps (snd (session_create s n db))"
  unfolding session_create_def
  by (rule batch_keeps)
     (auto simp: insert_stmt_def ok_stmt_def Let_def stmt_keeps_def split: if_splits)

lemma keys_session: "safe (keys_are cs ps) (issue_session E a w amr meta)"
  unfolding issue_session_def Let_def
  by (intro keeps_intros safe_attempt keys_create)

lemma keys_admin: "safe (keys_are cs ps) (adminSession E a amr meta how dev)"
  unfolding adminSession_def audit_note_def
  by (intro keeps_intros keys_note keys_session mail_store.send_safe [OF keys_mail])


text \<open>A challenge is spent.\<close>

lemma replay_refused:
  assumes "challengeOf (e_parse E) c = Some x"
    "ch = filter (\<lambda>r. \<not> (ch_challenge r = x \<and> ch_userId r = u \<and> ch_purpose r = p \<and> t < ch_expiresAt r)) chs"
    "t \<le> w_now w2" "db_challenge (w_db w2) = ch"
  shows "fst (passkey_consume E c u p w2) = Inl (App (app_error_d UNAUTHENTICATED ''CHALLENGE_INVALID''))"
proof -
  have "filter (\<lambda>r. ch_challenge r = x \<and> ch_userId r = u \<and> ch_purpose r = p \<and> w_now w2 < ch_expiresAt r) ch = []"
    using assms(2,3) by (auto simp: filter_empty_conv)
  then show ?thesis
    using assms(1,4) by (simp add: passkey_consume_def bnd_app run_app consumeChallenge_def Let_def hits_def)
qed

text \<open>C30: a passkey assertion that is accepted, for sign-in or for a step-up, is the proof it claims to be.
The account is the unbanned administrator, the signed challenge was pending for that account and purpose
and unexpired, the key is one of the account's, the outside verifier accepted the signature over that
challenge with a counter that has not gone back, the stored counter is the new one, and the challenge is
gone: the same credential is refused from then on, at any time, until someone puts the challenge back.\<close>

theorem assertion_proof:
  assumes "assertion E auth purpose credential meta w = (Inr res, w')"
  shows "\<exists>a p x n k. a \<in> set (db_account (w_db w)) \<and> ac_role a = Admin \<and> ac_bannedAt a = None
     \<and> challengeOf (e_parse E) credential = Some x
     \<and> (\<exists>r \<in> set (db_challenge (w_db w)). ch_challenge r = x \<and> ch_userId r = ac_userId a
          \<and> ch_purpose r = challenge_for purpose \<and> w_now w < ch_expiresAt r)
     \<and> p \<in> set (db_passkey (w_db w)) \<and> pk_userId p = ac_userId a
     \<and> credentialIdOf credential = Some (pk_credentialId p)
     \<and> e_assertion E credential x p k = Inr (Some n) \<and> signCountOk (pk_signCount p) n
     \<and> (\<exists>q \<in> set (db_passkey (w_db w')). pk_credentialId q = pk_credentialId p \<and> pk_signCount q = n)
     \<and> (\<forall>w2. w_now w \<le> w_now w2 \<longrightarrow> db_challenge (w_db w2) = db_challenge (w_db w') \<longrightarrow>
          fst (passkey_consume E credential (ac_userId a) (challenge_for purpose) w2)
            = Inl (App (app_error_d UNAUTHENTICATED ''CHALLENGE_INVALID'')))"
proof -
  from assms obtain a w1 where f: "authFor E auth purpose w = (Inr a, w1)"
    and r1: "bnd (verified_passkey E a purpose credential) (\<lambda>p.
       if purpose = ForStepUp
       then thn (audit_note E ''admin.step_up'' (Some (ac_tenantId a)) None)
              (bnd (token_stepUp E (ac_userId a)) (\<lambda>tok. ret (StepUpToken tok TTL_stepUpS)))
       else bnd (adminSession E a [AmrOtp, AmrPasskey] meta AmrPasskey (pk_lastUsedAt p = None)) (\<lambda>s.
            ret (AssertedSession s))) w1 = (Inr res, w')"
    unfolding assertion_def by (erule bnd_InrE)
  have w1: "w1 = w" using f by (rule authFor_read)
  from r1 obtain p w2 where v: "verified_passkey E a purpose credential w = (Inr p, w2)"
    and r2: "(if purpose = ForStepUp
       then thn (audit_note E ''admin.step_up'' (Some (ac_tenantId a)) None)
              (bnd (token_stepUp E (ac_userId a)) (\<lambda>tok. ret (StepUpToken tok TTL_stepUpS)))
       else bnd (adminSession E a [AmrOtp, AmrPasskey] meta AmrPasskey (pk_lastUsedAt p = None)) (\<lambda>s.
            ret (AssertedSession s))) w2 = (Inr res, w')"
    unfolding w1 by (erule bnd_InrE)
  have "safe (keys_are (db_challenge (w_db w2)) (db_passkey (w_db w2)))
      (if purpose = ForStepUp
       then thn (audit_note E ''admin.step_up'' (Some (ac_tenantId a)) None)
              (bnd (token_stepUp E (ac_userId a)) (\<lambda>tok. ret (StepUpToken tok TTL_stepUpS)))
       else bnd (adminSession E a [AmrOtp, AmrPasskey] meta AmrPasskey (pk_lastUsedAt p = None)) (\<lambda>s.
            ret (AssertedSession s)))"
    unfolding audit_note_def by (intro keeps_intros keys_note keys_admin)
  from keepsD [OF this _ r2] have k: "db_challenge (w_db w') = db_challenge (w_db w2)"
    "db_passkey (w_db w') = db_passkey (w_db w2)" by auto
  from verified_Inr [OF v] authFor_admin [OF f] show ?thesis
    unfolding k w1 by (blast intro: replay_refused)
qed


definition key_admin :: AccountRecord where
  "key_admin =
     \<lparr>ac_userId = ''a'', ac_tenantId = ''t'', ac_role = Admin, ac_emailHmac = ''h'', ac_emailEnc = ''e'',
      ac_locale = EnUS, ac_timeZone = ''UTC'', ac_verifiedAt = 0, ac_remindedAt = None, ac_bannedAt = None\<rparr>"

definition key_db :: idb where
  "key_db = empty_db\<lparr>db_account := [key_admin],
     db_challenge := [\<lparr>ch_challenge = ''ch'', ch_userId = ''a'', ch_purpose = ChStepUp, ch_expiresAt = 900\<rparr>],
     db_passkey := [\<lparr>pk_credentialId = ''k'', pk_userId = ''a'', pk_publicKey = [], pk_signCount = 4, pk_transports = [],
       pk_label = None, pk_createdAt = 0, pk_lastUsedAt = None\<rparr>]\<rparr>"

definition key_env :: env where
  "key_env = demo_env\<lparr>e_parse := (\<lambda>s. Some (JObj [(''challenge'', JStr ''ch'')])),
     e_assertion := (\<lambda>r c p i. Inr (Some 5))\<rparr>"

definition key_credential :: json where
  "key_credential = JObj [(''id'', JStr ''k''), (''response'', JObj [(''clientDataJSON'', JStr [])])]"

definition key_ctx :: CallCtx where
  "key_ctx = \<lparr>ctx_tid = ''t'', ctx_sub = ''a'', ctx_actor = \<lparr>act_role = Human Admin, act_userId = Some ''a'', act_actingAs = False\<rparr>,
     ctx_requestId = [], ctx_locale = EnUS, ctx_sid = None\<rparr>"

definition key_step_up :: "AssertionResult io" where
  "key_step_up = assertion key_env (AuthCtx key_ctx) ForStepUp key_credential \<lparr>rm_ip = [], rm_client = None\<rparr>"

lemma key_challenge: "challengeOf (e_parse key_env) key_credential = Some ''ch''"
  "credentialIdOf key_credential = Some ''k''"
proof -
  have "base64urlDecode [] = Some []" by code_simp
  then show "challengeOf (e_parse key_env) key_credential = Some ''ch''"
    by (simp add: challengeOf_def key_env_def key_credential_def obj_get_def)
  show "credentialIdOf key_credential = Some ''k''" by (simp add: credentialIdOf_def key_credential_def obj_get_def)
qed

lemma key_assertion: "e_assertion key_env c x p k = Inr (Some 5)"
  by (simp add: key_env_def)

lemma key_verified:
  "\<exists>p w2. verified_passkey key_env key_admin ForStepUp key_credential (demo_world key_db 500) = (Inr p, w2)
     \<and> db_audit (w_db w2) = []"
  by (simp add: verified_passkey_def passkey_consume_def key_challenge key_assertion bnd_app run_app external_app
      consumeChallenge_def updateCounter_def signCountOk_def challenge_for_def key_db_def key_admin_def Let_def hits_def
      passkey_find_def empty_db_def)

lemma key_token: "\<exists>tok. token_stepUp key_env u w = (Inr tok, w)"
  by (simp add: token_stepUp_def token_typed_def nowSec_def signJwt_def Let_def key_env_def demo_env_def demo_cfg_def)

lemma key_step_up_returns: "\<exists>r. fst (key_step_up (demo_world key_db 500)) = Inr r"
proof -
  obtain p w2 where v: "verified_passkey key_env key_admin ForStepUp key_credential (demo_world key_db 500) = (Inr p, w2)"
    and "db_audit (w_db w2) = []" using key_verified by blast
  from append_first [OF this(2)] obtain row w3 where
    "append_tries key_env \<lparr>ad_action = ''admin.step_up'', ad_targetTenantId = Some ''t'', ad_reason = None\<rparr> None None (Suc 4) w2
     = (Inr row, w3)" by blast
  then have n: "audit_note key_env ''admin.step_up'' (Some ''t'') None w2 = (Inr row, w3)"
    by (simp add: audit_note_def audit_append_row_def APPEND_RETRIES_def del: append_tries.simps)
  have f: "authFor key_env (AuthCtx key_ctx) ForStepUp (demo_world key_db 500) = (Inr key_admin, demo_world key_db 500)"
    by (simp add: authFor_def passkey_resolve_def key_ctx_def passkey_admin_def caller_id_def bnd_app account_findById_def
        key_db_def key_admin_def)
  have t: "ac_tenantId key_admin = ''t''" by (simp add: key_admin_def)
  obtain tok where "token_stepUp key_env (ac_userId key_admin) w3 = (Inr tok, w3)" using key_token by blast
  then show ?thesis
    by (simp add: key_step_up_def assertion_def bnd_app thn_app f v n t)
qed

theorem assertion_proof_witness:
  "fst (passkey_consume key_env key_credential ''a'' ChStepUp 
     ((snd (key_step_up (demo_world key_db 500)))\<lparr>w_now := 600\<rparr>)) = Inl (App (app_error_d UNAUTHENTICATED ''CHALLENGE_INVALID''))"
proof -
  obtain r where "fst (key_step_up (demo_world key_db 500)) = Inr r" using key_step_up_returns by blast
  then have "key_step_up (demo_world key_db 500) = (Inr r, snd (key_step_up (demo_world key_db 500)))"
    by (metis prod.collapse)
  from assertion_proof [OF this [unfolded key_step_up_def], folded key_step_up_def]
  have "fst (passkey_consume key_env key_credential (ac_userId key_admin) (challenge_for ForStepUp)
      ((snd (key_step_up (demo_world key_db 500)))\<lparr>w_now := 600\<rparr>)) = Inl (App (app_error_d UNAUTHENTICATED ''CHALLENGE_INVALID''))"
    by (auto simp: key_db_def)
  then show ?thesis by (simp add: key_admin_def challenge_for_def)
qed

end
