(* ===== verification/Admin.thy ===== *)
theory Admin
  imports PasskeyProps
begin

section \<open>Platform administration\<close>

text \<open>
  \<^verbatim>\<open>application/platform_admin/admin_service.ts\<close> and \<^verbatim>\<open>ops_flags.ts\<close>: the overview, accounts,
  archives, settings and block lists. A result that \<^verbatim>\<open>idempotent\<close> stores and replays as it is, is
  kept as the JSON value it is. What \<^verbatim>\<open>zod\<close> makes of a request body is an argument: the issues it
  reports or the parsed value (with \<^verbatim>\<open>trialExpiresAt\<close> as the instant \<^verbatim>\<open>Date.parse\<close> gives).
\<close>

subsection \<open>validation.ts\<close>

type_synonym 'a checked = "(string \<times> string) list + 'a"

definition issue_json :: "string \<times> string \<Rightarrow> json" where
  "issue_json i = JObj [(''path'', JStr (fst i)), (''message'', JStr (snd i))]"

definition parseOrThrow :: "'a checked \<Rightarrow> 'a io" where
  "parseOrThrow result =
     (case result of
        Inr v \<Rightarrow> ret v
      | Inl issues \<Rightarrow>
          throw (App (AppError_new VALIDATION_FAILED
            (Some (case issues of [] \<Rightarrow> ''Invalid input'' | i # _ \<Rightarrow> snd i)) None
            (Some [(''errors'', JArr (map issue_json issues))]))))"

subsection \<open>ops\_flags.ts\<close>

definition SIGN_KEY_FLAG_PREFIX :: string where "SIGN_KEY_FLAG_PREFIX = ''b2_sign_key:''"
definition SIGN_KEY_MAX_AGE_MS :: int where "SIGN_KEY_MAX_AGE_MS = 30 * DAY_MS"
definition SIGN_KEY_CHECK_EVERY :: int where "SIGN_KEY_CHECK_EVERY = 12"
definition CRON_TICK_MS :: int where "CRON_TICK_MS = 2 * 60000"

definition signKeyFlag :: "env \<Rightarrow> string \<Rightarrow> string" where
  "signKeyFlag E keyId = SIGN_KEY_FLAG_PREFIX @ take 32 (sha256Hex E (''b2:'' @ keyId))"

definition isSignKeyTick :: "time \<Rightarrow> bool" where
  "isSignKeyTick t \<longleftrightarrow> (t div CRON_TICK_MS) mod SIGN_KEY_CHECK_EVERY = 0"

definition signKeyRotationDue :: "time \<Rightarrow> time \<Rightarrow> bool" where
  "signKeyRotationDue firstSeenAt t \<longleftrightarrow> t - firstSeenAt > SIGN_KEY_MAX_AGE_MS"

subsection \<open>Shapes\<close>

fun ANALYTICS_KEYS :: "AnalyticsMetric \<Rightarrow> string" where
  "ANALYTICS_KEYS MWorkers = ''analytics:workers''"
| "ANALYTICS_KEYS MD1Writes = ''analytics:d1Writes''"
| "ANALYTICS_KEYS MNeurons = ''analytics:neurons''"
| "ANALYTICS_KEYS MQueues = ''analytics:queues''"

definition ANALYTICS_AT_KEY :: string where "ANALYTICS_AT_KEY = ''analytics:at''"

datatype FreeQuotaKey = QuotaOf AnalyticsMetric | QuotaEmailResend

record RecentAction =
  ra_at :: string
  ra_action :: string
  ra_target :: "string option"
  ra_kind :: AuditKind

record PlatformOverview =
  ov_activeTrials :: "int \<times> int"
  ov_signupsToday :: "int \<times> int"
  ov_archives :: "int \<times> int"
  ov_purgeBacklog :: "int \<times> int"
  ov_signup :: SignupState
  ov_freeQuota :: "(FreeQuotaKey \<times> int \<times> int) list"
  ov_analyticsAt :: "string option"
  ov_analyticsConfigured :: bool
  ov_stuckArchives :: nat
  ov_signKeyRotationDue :: bool
  ov_recentActions :: "RecentAction list"

record AdminUserRow =
  ur_userId :: "string option"
  ur_tenant :: string
  ur_email :: "string option"
  ur_status :: string
  ur_trialExpiresAt :: "string option"
  ur_zipExpiresAt :: "string option"
  ur_sessions :: nat
  ur_banned :: bool
  ur_objects :: int
  ur_links :: int

record AdminUserDto = AdminUserRow +
  ud_locale :: Locale
  ud_timeZone :: string
  ud_verifiedAt :: string
  ud_expiredAt :: "string option"
  ud_archivePhase :: "LedgerPhase option"

record AdminUserPatch =
  up_trialExpiresAt :: "time option"
  up_expired :: bool
  up_banned :: "bool option"
  up_reason :: string

record ArchiveIndexDto =
  ai_tenantId :: string
  ai_sizeBytes :: int
  ai_sha256 :: string
  ai_createdAt :: string
  ai_expiresAt :: string

definition toArchiveDto :: "ArchiveIndexRecord \<Rightarrow> ArchiveIndexDto" where
  "toArchiveDto r =
     \<lparr>ai_tenantId = ar_tenantId r, ai_sizeBytes = ar_sizeBytes r, ai_sha256 = ar_sha256 r,
      ai_createdAt = toISOString (ar_createdAt r), ai_expiresAt = toISOString (ar_expiresAt r)\<rparr>"

definition USER_RESULT_MARKER :: json where
  "USER_RESULT_MARKER = JObj [(''user'', JStr ''reread'')]"

subsection \<open>Who is asked about\<close>

definition statsOf :: "env \<Rightarrow> string list \<Rightarrow> (string \<times> (int \<times> int)) list io" where
  "statsOf E tids =
     (case e_tenantStats E of
        None \<Rightarrow> ret []
      | Some stats \<Rightarrow> if tids = [] then ret [] else catch (external (stats tids)) (\<lambda>_. ret []))"

definition signKeyDue :: "env \<Rightarrow> time \<Rightarrow> bool io" where
  "signKeyDue E t =
     (case cf_b2SignKeyId (e_cfg E) of
        None \<Rightarrow> ret False
      | Some k \<Rightarrow>
          if k = [] then ret False
          else bnd (query (flag_get (signKeyFlag E k))) (\<lambda>f.
            ret (case f of None \<Rightarrow> False | Some f \<Rightarrow> signKeyRotationDue (fl_at f) t)))"

definition admin_target :: "string \<Rightarrow> AccountRecord io" where
  "admin_target uid =
     bnd (query (account_findById uid)) (\<lambda>a.
     case a of
       None \<Rightarrow> fail NOT_FOUND
     | Some a \<Rightarrow> if ac_role a = Admin then fail_d FORBIDDEN ''ADMIN_IMMUTABLE'' else ret a)"

subsection \<open>Overview\<close>

definition overview :: "env \<Rightarrow> CallCtx \<Rightarrow> PlatformOverview io" where
  "overview E ctx =
     bnd (requireAdmin ctx) (\<lambda>_.
     bnd now (\<lambda>t.
     let day = utcDay t; resend = channelKeys ''resend'' t; configured = (e_analytics E \<noteq> None) in
     bnd (query (\<lambda>db. db)) (\<lambda>db.
     bnd (signKeyDue E t) (\<lambda>keyDue.
     let s = settings_get db; analyticsAt = usage_read day ANALYTICS_AT_KEY db in
     ret \<lparr>ov_activeTrials = (int (countTrials [ACTIVE] db), sv_activeWorkspaceLimit s),
          ov_signupsToday = (usage_read day ''signup'' db, sv_signupDailyLimit s),
          ov_archives = (int (archive_count db), ARCHIVE_CAPACITY),
          ov_purgeBacklog = (int (countTrials [EXPIRED, ARCHIVING] db), cf_purgeBacklogLimit (e_cfg E)),
          ov_signup = signupState (sv_signupEnabled s) (usage_read day ''signup_closed'' db \<ge> 1),
          ov_freeQuota =
            map (\<lambda>(m, n). (QuotaOf m, usage_read day (ANALYTICS_KEYS m) db, n)) FREE_TIER_DAILY
            @ [(QuotaEmailResend, usage_read (ck_day resend) (ck_key resend) db, cf_resendDailyCap (e_cfg E))],
          ov_analyticsAt = (if configured \<and> analyticsAt > 0 then Some (toISOString analyticsAt) else None),
          ov_analyticsConfigured = configured,
          ov_stuckArchives = flag_countPrefix ARCHIVE_FAIL_PREFIX (t - ARCHIVE_STUCK_AFTER_MS) db,
          ov_signKeyRotationDue = keyDue,
          ov_recentActions =
            map (\<lambda>r. \<lparr>ra_at = toISOString (au_at r), ra_action = au_action r,
                      ra_target = (case au_targetTenantId r of Some x \<Rightarrow> Some x | None \<Rightarrow> au_targetUserId r),
                      ra_kind = auditKind (au_action r)\<rparr>)
              (recentAudit 10 db)\<rparr>))))"

subsection \<open>Users\<close>

text \<open>The number of code units of the text that a UTF-8 byte string encodes.\<close>

definition js_length :: "string \<Rightarrow> nat" where
  "js_length s = sum_list (map (\<lambda>c. if code c \<ge> 240 then 2 else if 128 \<le> code c \<and> code c < 192 then 0 else 1) s)"

definition user_row :: "env \<Rightarrow> (string \<times> (int \<times> int)) list \<Rightarrow> AdminListRow \<Rightarrow> AdminUserRow io" where
  "user_row E stats r =
     bnd (case al_emailEnc r of
            None \<Rightarrow> ret None
          | Some e \<Rightarrow> if e = [] then ret None else bnd (decryptEmail E e) (\<lambda>m. ret (Some m))) (\<lambda>email.
     let st = dflt (map_of stats (al_tenantId r)) (0, 0) in
     ret \<lparr>ur_userId = al_userId r, ur_tenant = al_tenantId r, ur_email = email, ur_status = al_status r,
          ur_trialExpiresAt = map_option toISOString (al_trialExpiresAt r),
          ur_zipExpiresAt = map_option toISOString (al_zipExpiresAt r), ur_sessions = al_sessions r,
          ur_banned = (al_bannedAt r \<noteq> None), ur_objects = fst st, ur_links = snd st\<rparr>)"

text \<open>The \<^verbatim>\<open>t\<close> of a cursor; one that is neither a text nor absent is refused by the database.\<close>

definition tenant_cursor :: "json option \<Rightarrow> string option io" where
  "tenant_cursor c =
     (case c of
        None \<Rightarrow> ret None
      | Some v \<Rightarrow> (case obj_get v ''t'' of
                    None \<Rightarrow> ret None
                  | Some JNull \<Rightarrow> ret None
                  | Some (JStr t) \<Rightarrow> ret (Some t)
                  | Some _ \<Rightarrow> throw (Ext ''D1_TYPE_ERROR'')))"

definition next_tenant :: "nat \<Rightarrow> nat \<Rightarrow> string list \<Rightarrow> string option" where
  "next_tenant limit found tids =
     (if found > limit then Some (encodeCursor (JObj [(''t'', JStr (last tids))])) else None)"

definition admin_listUsers ::
  "env \<Rightarrow> CallCtx \<Rightarrow> string option \<Rightarrow> PageRequest \<Rightarrow> (AdminUserRow list \<times> string option) io" where
  "admin_listUsers E ctx status req =
     bnd (requireAdmin ctx) (\<lambda>_.
     if (case status of None \<Rightarrow> False | Some s \<Rightarrow> s \<notin> set ADMIN_LIST_STATUSES)
     then fail_d VALIDATION_FAILED ''Unknown status''
     else
       let limit = nat (clampLimit (pr_limit req)) in
       bnd (tenant_cursor (decodeCursor E (pr_cursor req))) (\<lambda>cursor.
       bnd now (\<lambda>t.
       bnd (query (listUsers status cursor (limit + 1) t)) (\<lambda>rows.
       let slice = take limit rows in
       bnd (statsOf E (map al_tenantId (filter (\<lambda>r. al_userId r \<noteq> None) slice))) (\<lambda>stats.
       bnd (mapM (user_row E stats) slice) (\<lambda>items.
       ret (items, next_tenant limit (length rows) (map ur_tenant items))))))))"

definition userDto :: "env \<Rightarrow> AccountRecord \<Rightarrow> AdminUserDto io" where
  "userDto E a =
     bnd now (\<lambda>t.
     bnd (query (\<lambda>db. db)) (\<lambda>db.
     bnd (decryptEmail E (ac_emailEnc a)) (\<lambda>email.
     bnd (statsOf E [ac_tenantId a]) (\<lambda>stats.
     case workspace_get (ac_tenantId a) db of
       None \<Rightarrow> fail NOT_FOUND
     | Some w \<Rightarrow>
         let st = dflt (map_of stats (ac_tenantId a)) (0, 0) in
         ret \<lparr>ur_userId = Some (ac_userId a), ur_tenant = ac_tenantId a, ur_email = Some email,
              ur_status = status_name (ws_status w),
              ur_trialExpiresAt = map_option toISOString (ws_trialExpiresAt w),
              ur_zipExpiresAt = map_option (\<lambda>i. toISOString (ar_expiresAt i)) (archive_get (ac_tenantId a) db),
              ur_sessions = countActive (ac_userId a) t db, ur_banned = (ac_bannedAt a \<noteq> None),
              ur_objects = fst st, ur_links = snd st, ud_locale = ac_locale a, ud_timeZone = ac_timeZone a,
              ud_verifiedAt = toISOString (ac_verifiedAt a),
              ud_expiredAt = map_option toISOString (ws_expiredAt w),
              ud_archivePhase = map_option led_phase (ledger_get (ac_tenantId a) db)\<rparr>))))"

definition getUser :: "env \<Rightarrow> CallCtx \<Rightarrow> string \<Rightarrow> AdminUserDto io" where
  "getUser E ctx uid =
     bnd (requireAdmin ctx) (\<lambda>_.
     bnd (query (account_findById uid)) (\<lambda>a.
     case a of
       None \<Rightarrow> fail NOT_FOUND
     | Some a \<Rightarrow>
         if ac_role a = Admin then fail NOT_FOUND
         else bnd (userDto E a) (\<lambda>dto.
           thn (audit_note E ''email.view'' (Some (ac_tenantId a)) None) (ret dto))))"

definition apply_user_patch :: "env \<Rightarrow> AccountRecord \<Rightarrow> AdminUserPatch \<Rightarrow> AdminUserDto io" where
  "apply_user_patch E a patch =
     bnd now (\<lambda>t.
     thn (case up_trialExpiresAt patch of
            None \<Rightarrow> ret ()
          | Some till \<Rightarrow>
              thn (if till \<le> t then thn (trial_end E (ac_tenantId a)) (ret ())
                   else bnd (run (setTrialExpiry (ac_tenantId a) till)) (\<lambda>ok.
                     if \<not> ok then fail_d CONFLICT ''WORKSPACE_ARCHIVING'' else ret ()))
                (thn (revokeUser (ac_userId a)) (ret ())))
     (thn (whenM (up_expired patch) (thn (trial_end E (ac_tenantId a)) (ret ())))
     (thn (case up_banned patch of
             None \<Rightarrow> ret ()
           | Some True \<Rightarrow>
               thn (exec (setBanned (ac_userId a) (Some t)))
               (thn (exec (blockEmail (ac_emailHmac a) t))
               (thn (revokeUser (ac_userId a)) (ret ())))
           | Some False \<Rightarrow>
               thn (exec (setBanned (ac_userId a) None)) (exec (unblockEmail (ac_emailHmac a))))
     (bnd (query (account_findById (ac_userId a))) (\<lambda>fresh. userDto E (dflt fresh a))))))"

definition reread_user :: "env \<Rightarrow> string \<Rightarrow> AdminUserDto io" where
  "reread_user E uid =
     bnd (query (account_findById uid)) (\<lambda>cur.
     case cur of
       None \<Rightarrow> fail NOT_FOUND
     | Some cur \<Rightarrow> if ac_role cur = Admin then fail NOT_FOUND else userDto E cur)"

definition patchUser ::
  "env \<Rightarrow> CallCtx \<Rightarrow> string \<Rightarrow> AdminUserPatch checked \<Rightarrow> string \<Rightarrow> string \<Rightarrow> AdminUserDto io" where
  "patchUser E ctx uid raw stepUp key =
     bnd (passkey_verifyStepUp E ctx (Some stepUp)) (\<lambda>_.
     bnd (parseOrThrow raw) (\<lambda>patch.
     bnd (admin_target uid) (\<lambda>a.
     idempotent E key
       (\<lambda>_. \<lparr>ad_action = ''user.patch'', ad_targetTenantId = Some (ac_tenantId a), ad_reason = Some (up_reason patch)\<rparr>)
       (apply_user_patch E a patch) (\<lambda>_. Some USER_RESULT_MARKER) (\<lambda>_. reread_user E uid))))"

text \<open>A write whose result is stored and replayed as it is.\<close>

definition write_once :: "env \<Rightarrow> string \<Rightarrow> AuditRecord \<Rightarrow> json io \<Rightarrow> json io" where
  "write_once E key rec fn = idempotent E key (\<lambda>_. rec) fn Some (\<lambda>v. ret (dflt v JNull))"

definition admin_revokeSessions :: "env \<Rightarrow> CallCtx \<Rightarrow> string \<Rightarrow> string \<Rightarrow> json io" where
  "admin_revokeSessions E ctx uid key =
     bnd (requireAdmin ctx) (\<lambda>_.
     bnd (admin_target uid) (\<lambda>a.
     write_once E key
       \<lparr>ad_action = ''sessions.revoke'', ad_targetTenantId = Some (ac_tenantId a), ad_reason = None\<rparr>
       (bnd (revokeUser (ac_userId a)) (\<lambda>n. ret (JObj [(''revoked'', JNum (int n))])))))"

definition schedule_deletion :: "env \<Rightarrow> AccountRecord \<Rightarrow> DeleteMode \<Rightarrow> json io" where
  "schedule_deletion E a mode =
     bnd (run (setDeleteMode (ac_tenantId a) mode)) (\<lambda>ok.
     if \<not> ok then fail_d CONFLICT ''WORKSPACE_ARCHIVING''
     else thn (trial_end E (ac_tenantId a)) (thn (revokeUser (ac_userId a)) (ret JNull)))"

definition deleteUser ::
  "env \<Rightarrow> CallCtx \<Rightarrow> string \<Rightarrow> bool \<Rightarrow> string option \<Rightarrow> string \<Rightarrow> string \<Rightarrow> unit io" where
  "deleteUser E ctx uid archive reason stepUp key =
     bnd (passkey_verifyStepUp E ctx (Some stepUp)) (\<lambda>_.
     let reason = (case reason of None \<Rightarrow> [] | Some r \<Rightarrow> trim r) in
     if js_length reason = 0 \<or> js_length reason > 500
     then throw (App (AppError_new VALIDATION_FAILED (Some ''Reason required'') None
            (Some [(''errors'', JArr [issue_json (''reason'', ''Required (1-500 chars)'')])])))
     else bnd (admin_target uid) (\<lambda>a.
       thn (write_once E key
              \<lparr>ad_action = ''user.delete'', ad_targetTenantId = Some (ac_tenantId a),
               ad_reason = Some ((if archive then ''archive'' else ''no_archive'') @ '': '' @ reason)\<rparr>
              (schedule_deletion E a (if archive then DelArchive else DelNoArchive)))
         (ret ())))"

subsection \<open>Archives\<close>

definition listArchives :: "env \<Rightarrow> CallCtx \<Rightarrow> PageRequest \<Rightarrow> (ArchiveIndexDto list \<times> string option) io" where
  "listArchives E ctx req =
     bnd (requireAdmin ctx) (\<lambda>_.
     let limit = nat (clampLimit (pr_limit req)) in
     bnd (tenant_cursor (decodeCursor E (pr_cursor req))) (\<lambda>cursor.
     bnd (query (archive_list cursor (limit + 1))) (\<lambda>rows.
     let items = take limit rows in
     ret (map toArchiveDto items, next_tenant limit (length rows) (map ar_tenantId items)))))"

definition archiveOf :: "string \<Rightarrow> ArchiveIndexRecord io" where
  "archiveOf tid =
     bnd (query (archive_get tid)) (\<lambda>idx. case idx of None \<Rightarrow> fail NOT_FOUND | Some i \<Rightarrow> ret i)"

definition archiveLink :: "env \<Rightarrow> CallCtx \<Rightarrow> string \<Rightarrow> string \<Rightarrow> json io" where
  "archiveLink E ctx tid key =
     bnd (requireAdmin ctx) (\<lambda>_.
     bnd (archiveOf tid) (\<lambda>idx.
     write_once E key \<lparr>ad_action = ''archive.download'', ad_targetTenantId = Some tid, ad_reason = None\<rparr>
       (bnd (external (e_presign E (ar_objectKey idx) ADMIN_LINK_TTL_S
               (''attachment; filename=\"ontodecide-archive-'' @ tid @ ''.zip\"''))) (\<lambda>url.
        bnd now (\<lambda>t.
        ret (JObj [(''url'', JStr url), (''expiresAt'', JStr (toISOString (t + ADMIN_LINK_TTL_S * 1000)))]))))))"

definition admin_deleteArchive :: "env \<Rightarrow> CallCtx \<Rightarrow> string \<Rightarrow> string \<Rightarrow> string \<Rightarrow> unit io" where
  "admin_deleteArchive E ctx tid stepUp key =
     bnd (passkey_verifyStepUp E ctx (Some stepUp)) (\<lambda>_.
     bnd (archiveOf tid) (\<lambda>idx.
     thn (write_once E key \<lparr>ad_action = ''archive.delete'', ad_targetTenantId = Some tid, ad_reason = None\<rparr>
            (thn (finalDelete E idx) (ret JNull)))
       (ret ())))"

subsection \<open>Settings and block lists\<close>

definition settingsDto :: "env \<Rightarrow> json io" where
  "settingsDto E =
     bnd (query settings_get) (\<lambda>s.
     ret (JObj [(''signupEnabled'', JBool (sv_signupEnabled s)),
                (''signupDailyLimit'', JNum (sv_signupDailyLimit s)),
                (''activeWorkspaceLimit'', JNum (sv_activeWorkspaceLimit s)),
                (''trialHours'', JNum (cf_trialHours (e_cfg E))),
                (''archiveDays'', JNum (cf_archiveDays (e_cfg E))),
                (''version'', JNum (sv_version s))]))"

definition getSettings :: "env \<Rightarrow> CallCtx \<Rightarrow> json io" where
  "getSettings E ctx = bnd (requireAdmin ctx) (\<lambda>_. settingsDto E)"

definition opt_field :: "string \<Rightarrow> ('a \<Rightarrow> json) \<Rightarrow> 'a option \<Rightarrow> (string \<times> json) list" where
  "opt_field k f v = (case v of None \<Rightarrow> [] | Some x \<Rightarrow> [(k, f x)])"

definition settings_patch_json :: "SettingsPatch \<Rightarrow> json" where
  "settings_patch_json p =
     JObj (opt_field ''signupEnabled'' JBool (sp_signupEnabled p)
           @ opt_field ''signupDailyLimit'' JNum (sp_signupDailyLimit p)
           @ opt_field ''activeWorkspaceLimit'' JNum (sp_activeWorkspaceLimit p))"

definition apply_settings :: "env \<Rightarrow> SettingsPatch \<Rightarrow> int \<Rightarrow> json io" where
  "apply_settings E patch ifMatch =
     bnd (query settings_get) (\<lambda>current.
     if sv_version current \<noteq> ifMatch then fail PRECONDITION_FAILED
     else bnd now (\<lambda>t.
       bnd (run (settings_patch patch ifMatch (max t (sv_version current + 1)))) (\<lambda>r.
       case r of
         Inl e \<Rightarrow> throw (App e)
       | Inr ok \<Rightarrow> if \<not> ok then fail PRECONDITION_FAILED else settingsDto E)))"

definition patchSettings ::
  "env \<Rightarrow> CallCtx \<Rightarrow> SettingsPatch checked \<Rightarrow> int \<Rightarrow> string \<Rightarrow> string \<Rightarrow> json io" where
  "patchSettings E ctx raw ifMatch stepUp key =
     bnd (passkey_verifyStepUp E ctx (Some stepUp)) (\<lambda>_.
     bnd (parseOrThrow raw) (\<lambda>patch.
     write_once E key
       \<lparr>ad_action = ''settings.update'', ad_targetTenantId = None,
        ad_reason = Some (stringify (settings_patch_json patch))\<rparr>
       (apply_settings E patch ifMatch)))"

definition getBlockedDomains :: "CallCtx \<Rightarrow> string list io" where
  "getBlockedDomains ctx = bnd (requireAdmin ctx) (\<lambda>_. query blockedDomains)"

definition putBlockedDomains :: "env \<Rightarrow> CallCtx \<Rightarrow> string list checked \<Rightarrow> string \<Rightarrow> json io" where
  "putBlockedDomains E ctx raw key =
     bnd (requireAdmin ctx) (\<lambda>_.
     bnd (parseOrThrow raw) (\<lambda>parsed.
     let unique = sort (remdups parsed) in
     write_once E key
       \<lparr>ad_action = ''domains.replace'', ad_targetTenantId = None,
        ad_reason = Some (nat_str (length unique) @ '' domains'')\<rparr>
       (bnd now (\<lambda>t.
        thn (exec (replaceDomains unique t))
          (bnd (query blockedDomains) (\<lambda>ds. ret (JArr (map JStr ds))))))))"

subsection \<open>Invariants\<close>

lemma keeps_case_bool [keeps_intros]:
  "keeps P m \<Longrightarrow> keeps P k \<Longrightarrow> keeps P (case b of True \<Rightarrow> m | False \<Rightarrow> k)"
  by (cases b) simp_all

lemma admin_reads [keeps_intros]:
  "safe I (parseOrThrow r)" "safe I (statsOf E ts)" "safe I (signKeyDue E t)" "safe I (admin_target u)"
  "safe I (user_row E st row)" "safe I (tenant_cursor c)" "safe I (archiveOf tid)" "safe I (settingsDto E)"
  "safe I (userDto E a)" "safe I (reread_user E u)" "safe I (overview E ctx)" "safe I (listArchives E ctx req)"
  "safe I (getSettings E ctx)" "safe I (getBlockedDomains ctx)" "safe I (admin_listUsers E ctx status req)"
proof -
  show p: "safe I (parseOrThrow r)" for r :: "'b checked"
    unfolding parseOrThrow_def by (intro keeps_intros)
  show s: "safe I (statsOf E ts)" for E ts
    unfolding statsOf_def by (intro keeps_intros)
  show k: "safe I (signKeyDue E t)" for E t
    unfolding signKeyDue_def by (intro keeps_intros)
  show "safe I (admin_target u)" "safe I (archiveOf tid)"
    unfolding admin_target_def archiveOf_def by (intro keeps_intros)+
  show u: "safe I (user_row E st row)" for E st row
    unfolding user_row_def Let_def by (intro keeps_intros)
  show c: "safe I (tenant_cursor c)" for c
    by (auto simp: tenant_cursor_def intro!: keeps_intros split: option.splits json.splits)
  show d: "safe I (settingsDto E)" for E
    unfolding settingsDto_def by (intro keeps_intros)
  show dto: "safe I (userDto E a)" for E a
    unfolding userDto_def Let_def by (intro keeps_intros s)
  show "safe I (reread_user E u)" unfolding reread_user_def by (intro keeps_intros dto)
  show "safe I (overview E ctx)" "safe I (listArchives E ctx req)" "safe I (getSettings E ctx)"
    "safe I (getBlockedDomains ctx)" "safe I (admin_listUsers E ctx status req)"
    unfolding overview_def listArchives_def getSettings_def getBlockedDomains_def admin_listUsers_def Let_def
    by (intro keeps_intros k c d s u)+
qed

context repo_inv
begin

lemma write_safe: "safe I fn \<Longrightarrow> safe I (write_once E key rec fn)"
  unfolding write_once_def by (rule idempotent_safe) (auto intro: keeps_intros)

lemma apply_patch_safe: "safe I (apply_user_patch E a patch)"
  unfolding apply_user_patch_def
  by (intro keeps_intros run_step exec_step db_steps trial_safe session_safe)

lemma admin_safe:
  "safe I (getUser E ctx u)" "safe I (patchUser E ctx u raw st key)" "safe I (admin_revokeSessions E ctx u key)"
  "safe I (deleteUser E ctx u ar re st key)" "safe I (archiveLink E ctx tid key)"
  "safe I (admin_deleteArchive E ctx tid st key)" "safe I (patchSettings E ctx sraw m st key)"
  "safe I (putBlockedDomains E ctx draw key)"
proof -
  show "safe I (getUser E ctx u)" "safe I (patchUser E ctx u raw st key)"
    unfolding getUser_def patchUser_def by (intro keeps_intros note_safe idempotent_safe apply_patch_safe)+
  show "safe I (admin_revokeSessions E ctx u key)" "safe I (deleteUser E ctx u ar re st key)"
    "safe I (archiveLink E ctx tid key)" "safe I (admin_deleteArchive E ctx tid st key)"
    "safe I (patchSettings E ctx sraw m st key)" "safe I (putBlockedDomains E ctx draw key)"
    unfolding admin_revokeSessions_def deleteUser_def archiveLink_def admin_deleteArchive_def patchSettings_def
      putBlockedDomains_def schedule_deletion_def apply_settings_def Let_def
    by (intro keeps_intros write_safe run_step exec_step db_steps trial_safe session_safe)+
qed

end

end
