(* ===== verification/Ops.thy ===== *)
theory Ops
  imports Admin
begin

section \<open>Bootstrap, maintenance, housekeeping, export and the cron\<close>

text \<open>
  \<^verbatim>\<open>application/identity/bootstrap_admin.ts\<close>, \<^verbatim>\<open>export_service.ts\<close>,
  \<^verbatim>\<open>application/platform_admin/maintenance_service.ts\<close>, \<^verbatim>\<open>application/housekeeping_service.ts\<close>
  and \<^verbatim>\<open>interface/cron.ts\<close>. The memo of an isolate (\<^verbatim>\<open>done\<close>) is an argument and the answer of
  \<open>bootstrap_ensure\<close>; the calls an isolate makes at the same time share one run.
\<close>

subsection \<open>bootstrap\_admin.ts\<close>

definition bootstrap_run :: "env \<Rightarrow> bool io" where
  "bootstrap_run E =
     bnd (query account_findAdmin) (\<lambda>a.
     if a \<noteq> None then ret True
     else case cf_bootstrapAdminEmail (e_cfg E) of
       None \<Rightarrow> ret False
     | Some email \<Rightarrow>
         if email = [] then ret False
         else bnd now (\<lambda>t.
           bnd (new_ulid E t) (\<lambda>userId.
           bnd (new_ulid E t) (\<lambda>tenantId.
           bnd (encryptEmail E email) (\<lambda>enc.
           bnd (attempt (createAdmin \<lparr>ad_userId = userId, ad_tenantId = tenantId,
                  ad_emailHmac = emailHmac E email, ad_emailEnc = enc, ad_now = t\<rparr>)) (\<lambda>created.
           if created then ret True
           else bnd (query account_findAdmin) (\<lambda>a. ret (a \<noteq> None))))))))"

definition bootstrap_ensure :: "env \<Rightarrow> bool \<Rightarrow> bool io" where
  "bootstrap_ensure E already = (if already then ret True else bootstrap_run E)"

subsection \<open>export\_service.ts\<close>

definition parse_text :: "env \<Rightarrow> string \<Rightarrow> json io" where
  "parse_text E t = (case e_parse E t of None \<Rightarrow> throw (Ext ''SyntaxError'') | Some v \<Rightarrow> ret v)"

definition export_record :: "ArchiveFile \<Rightarrow> json \<Rightarrow> string" where
  "export_record file data = stringify (JObj [(''file'', JStr file), (''data'', data)]) @ [CHR 0x0A]"

definition pageToRecords :: "env \<Rightarrow> ExportPage_r \<Rightarrow> string io" where
  "pageToRecords E page =
     bnd (mapM (parse_text E)
            (if isJsonLines (pg_file page)
             then filter (\<lambda>l. trim l \<noteq> []) (split_on (CHR 0x0A) (pg_text page))
             else if trim (pg_text page) \<noteq> [] then [pg_text page] else []))
       (\<lambda>vs. ret (concat (map (export_record (pg_file page)) vs)))"

text \<open>The position in a cursor: the service by number, and that service's own cursor.\<close>

definition export_position :: "env \<Rightarrow> string option \<Rightarrow> (int \<times> json) io" where
  "export_position E cursor =
     (case cursor of
        None \<Rightarrow> ret (0, JNull)
      | Some c \<Rightarrow>
          if c = [] then ret (0, JNull)
          else case decodeCursor E cursor of
            None \<Rightarrow> fail_d VALIDATION_FAILED ''Bad cursor''
          | Some v \<Rightarrow> (case obj_get v ''s'' of
                        Some (JNum s) \<Rightarrow> ret (s, dflt (obj_get v ''c'') JNull)
                      | _ \<Rightarrow> fail_d VALIDATION_FAILED ''Bad cursor''))"

definition export_cursor :: "nat \<Rightarrow> string option \<Rightarrow> string" where
  "export_cursor s c = encodeCursor (JObj [(''s'', JNum (int s)), (''c'', json_opt c)])"

definition export_chunk :: "env \<Rightarrow> CallCtx \<Rightarrow> string option \<Rightarrow> (string \<times> string option) io" where
  "export_chunk E ctx cursor =
     (if act_role (ctx_actor ctx) = ServiceRole then fail FORBIDDEN
      else bnd (export_position E cursor) (\<lambda>p.
        if fst p < 0 \<or> fst p \<ge> int (length EXPORT_ORDER) then fail_d VALIDATION_FAILED ''Bad cursor''
        else bnd (case snd p of
                    JNull \<Rightarrow> ret None
                  | JStr c \<Rightarrow> ret (Some c)
                  | _ \<Rightarrow> throw (Ext ''cursor of another type'')) (\<lambda>c.
          let s = nat (fst p) in
          bnd (external (e_export E (EXPORT_ORDER ! s) (ctx_tid ctx) c)) (\<lambda>page.
          bnd (pageToRecords E page) (\<lambda>text.
          ret (text,
               (case pg_nextCursor page of
                  Some n \<Rightarrow> Some (export_cursor s (Some n))
                | None \<Rightarrow> if s + 1 < length EXPORT_ORDER then Some (export_cursor (s + 1) None) else None)))))))"

subsection \<open>maintenance\_service.ts\<close>

definition PENDING_CHANGE_COOLDOWN_MS :: int where "PENDING_CHANGE_COOLDOWN_MS = DAY_MS"

definition parseJson :: "env \<Rightarrow> string option \<Rightarrow> json \<Rightarrow> json" where
  "parseJson E text fallback =
     (case text of None \<Rightarrow> fallback | Some t \<Rightarrow> if t = [] then fallback else dflt (e_parse E t) fallback)"

definition newEmailOf :: "env \<Rightarrow> string option \<Rightarrow> string option io" where
  "newEmailOf E payload =
     (let p = parseJson E payload (JObj []) in
      bnd (js_get p ''emailEnc'') (\<lambda>enc.
      bnd (js_get p ''email'') (\<lambda>email.
      let legacy = (case email of
                      Some (JStr m) \<Rightarrow> if CHR ''@'' \<in> set m then Some m else None
                    | _ \<Rightarrow> None)
      in case enc of
           Some (JStr e) \<Rightarrow>
             if e = [] then ret legacy
             else catch (bnd (decryptEmail E e) (\<lambda>m. ret (if CHR ''@'' \<in> set m then Some m else None)))
                    (\<lambda>_. ret None)
         | _ \<Rightarrow> ret legacy)))"

definition notify_change :: "env \<Rightarrow> Contact \<Rightarrow> PendingChange \<Rightarrow> unit io" where
  "notify_change E contact c =
     bnd (notification_send E
            (admin_pending_change (cg_kind c)
               (max (cg_effectiveAt c) (cg_requestedAt c + PENDING_CHANGE_COOLDOWN_MS)) (ct_timeZone contact))
            (ct_email contact) (ct_locale contact) (''pending_change:'' @ cg_id c)) (\<lambda>r.
     whenM (sr_ok r) (bnd now (\<lambda>t. exec (markNotified (cg_id c) t))))"

definition finish_change :: "AccountRecord \<Rightarrow> PendingChange \<Rightarrow> time \<Rightarrow> unit io" where
  "finish_change admin c t =
     thn (revokeUser (ac_userId admin)) (thn (run (markApplied (cg_id c) t)) (ret ()))"

definition apply_change :: "env \<Rightarrow> AccountRecord \<Rightarrow> time \<Rightarrow> PendingChange \<Rightarrow> unit io" where
  "apply_change E admin t c =
     (if cg_notifiedAt c = None then ret ()
      else if t < cg_requestedAt c + PENDING_CHANGE_COOLDOWN_MS then ret ()
      else if cg_kind c = ChangeEmail
      then bnd (newEmailOf E (cg_payload c)) (\<lambda>m.
        case m of
          None \<Rightarrow> ret ()
        | Some email \<Rightarrow>
            bnd (encryptEmail E email) (\<lambda>enc.
            thn (attempt (replaceEmail (ac_userId admin) (emailHmac E email) enc))
              (finish_change admin c t)))
      else thn (exec (passkey_deleteAll (ac_userId admin)))
           (thn (attempt (replaceRecoveryCodes []))
           (thn (exec (clearFlag SETUP_CODE_USED_FLAG)) (finish_change admin c t))))"

definition apply_due :: "env \<Rightarrow> AccountRecord \<Rightarrow> unit io" where
  "apply_due E admin =
     bnd now (\<lambda>t.
     bnd (query (change_dueForApply t)) (\<lambda>due.
     thn (mapM (apply_change E admin t) due) (ret ())))"

definition pendingChanges :: "env \<Rightarrow> unit io" where
  "pendingChanges E =
     bnd (query account_findAdmin) (\<lambda>admin.
     case admin of
       None \<Rightarrow> ret ()
     | Some admin \<Rightarrow>
         bnd (contactOf E admin) (\<lambda>contact.
         bnd (query change_unnotified) (\<lambda>cs.
         thn (mapM (notify_change E contact) cs) (apply_due E admin))))"

definition set_metrics :: "string \<Rightarrow> (AnalyticsMetric \<Rightarrow> int option) \<Rightarrow> unit io" where
  "set_metrics day snapshot =
     foldM (\<lambda>_ (m, _). exec (usage_set day (ANALYTICS_KEYS m) (dflt (snapshot m) 0))) () FREE_TIER_DAILY"

text \<open>The figures of the analytics API are whole numbers here, so \<^verbatim>\<open>Math.round\<close> keeps them.\<close>

definition analyticsCheck :: "env \<Rightarrow> bool io" where
  "analyticsCheck E =
     (case e_analytics E of
        None \<Rightarrow> ret False
      | Some dailyUsage \<Rightarrow>
          bnd now (\<lambda>t.
          let day = utcDay t in
          bnd (catch (bnd (external (dailyUsage day)) (\<lambda>s. ret (Some s))) (\<lambda>_. ret None)) (\<lambda>snapshot.
          case snapshot of
            None \<Rightarrow> ret False
          | Some snapshot \<Rightarrow>
              thn (set_metrics day snapshot)
              (thn (exec (usage_set day ANALYTICS_AT_KEY t))
              (thn (whenM (crossesAutoClose snapshot) (exec (usage_set day ''signup_closed'' 1)))
              (ret (crossesAutoClose snapshot)))))))"

definition anchor_text :: "AuditRow option \<Rightarrow> time \<Rightarrow> string" where
  "anchor_text row t =
     (case row of
        Some h \<Rightarrow> au_rowHash h @ '' '' @ au_id h @ '' '' @ toISOString (au_at h) @ [CHR 0x0A]
      | None \<Rightarrow> replicate 64 (CHR ''0'') @ '' - '' @ toISOString t @ [CHR 0x0A])"

definition auditAnchor :: "env \<Rightarrow> bool io" where
  "auditAnchor E =
     bnd now (\<lambda>t.
     let day = utcDay t in
     bnd (run (usage_tryTake day ''audit_anchor'' 1 1)) (\<lambda>taken.
     if \<not> taken then ret False
     else bnd audit_head (\<lambda>h.
       catch (thn (store_put E (''audit-anchors/'' @ day @ ''.txt'') (anchor_text h t)) (ret True))
         (\<lambda>e. thn (exec (usage_adjust day ''audit_anchor'' (- 1))) (throw e)))))"

definition signKeyCheck :: "env \<Rightarrow> bool io" where
  "signKeyCheck E =
     (case cf_b2SignKeyId (e_cfg E) of
        None \<Rightarrow> ret False
      | Some k \<Rightarrow>
          if k = [] then ret False
          else bnd now (\<lambda>t.
            thn (run (flag_setOnce (signKeyFlag E k) 0 t))
            (bnd (query (flag_get (signKeyFlag E k))) (\<lambda>f.
             ret (case f of None \<Rightarrow> False | Some f \<Rightarrow> signKeyRotationDue (fl_at f) t)))))"

definition isHourlyTick :: "time \<Rightarrow> bool" where
  "isHourlyTick t \<longleftrightarrow> t mod HOUR_MS < 2 * 60000"

subsection \<open>housekeeping\_service.ts\<close>

definition COUNTER_KEEP_DAYS :: int where "COUNTER_KEEP_DAYS = 40"

text \<open>The clock of the database, read by the delete trigger of the audit table, counts whole seconds.\<close>

definition db_clock :: "time \<Rightarrow> time" where
  "db_clock t = (t div 1000) * 1000"

definition housekeeping_run :: "unit io" where
  "housekeeping_run =
     bnd now (\<lambda>t.
     thn (exec (code_sweep t (utcDay (t - DAY_MS))))
     (thn (exec (session_sweep t))
     (thn (exec (sweepChallenges t))
     (thn (exec (sweepTombstones t))
     (thn (attempt (audit_sweep (db_clock t) (t - AUDIT_RETENTION_DAYS * DAY_MS)))
     (exec (usage_sweep (utcDay (t - COUNTER_KEEP_DAYS * DAY_MS)))))))))"

subsection \<open>cron.ts\<close>

record CronReport =
  cr_reminders :: nat
  cr_expired :: nat
  cr_archive :: TickOutcome
  cr_finalDeleted :: nat
  cr_hourly :: bool
  cr_signKeyChecked :: bool
  cr_errors :: "string list"

text \<open>A stage: its answer, or the value the report starts with and the stage among the errors.\<close>

definition cron_stage :: "string \<Rightarrow> 'a \<Rightarrow> 'a io \<Rightarrow> ('a \<times> string list) io" where
  "cron_stage name start fn = catch (bnd fn (\<lambda>x. ret (x, []))) (\<lambda>_. ret (start, [name]))"

definition cron_hourly :: "env \<Rightarrow> bool \<Rightarrow> string list io" where
  "cron_hourly E hourly =
     (if \<not> hourly then ret []
      else bnd (cron_stage ''analytics'' () (thn (analyticsCheck E) (ret ()))) (\<lambda>a.
        bnd (cron_stage ''audit_anchor'' () (thn (auditAnchor E) (ret ()))) (\<lambda>b.
        ret (snd a @ snd b))))"

definition cron_sign_key :: "env \<Rightarrow> bool \<Rightarrow> string list io" where
  "cron_sign_key E due =
     (if \<not> due then ret []
      else bnd (cron_stage ''sign_key'' () (thn (signKeyCheck E) (ret ()))) (\<lambda>a. ret (snd a)))"

definition runCron :: "env \<Rightarrow> bool \<Rightarrow> time \<Rightarrow> CronReport io" where
  "runCron E already t =
     bnd (cron_stage ''bootstrap'' () (thn (bootstrap_ensure E already) (ret ()))) (\<lambda>b.
     bnd (cron_stage ''reminders'' 0 (sendReminders E)) (\<lambda>r.
     bnd (cron_stage ''expire'' 0 (expireDue E)) (\<lambda>x.
     bnd (cron_stage ''archive'' TickIdle (tick E)) (\<lambda>a.
     bnd (cron_stage ''final_delete'' 0 (finalDeleteDue E 1)) (\<lambda>f.
     bnd (cron_stage ''housekeeping'' () housekeeping_run) (\<lambda>h.
     bnd (cron_stage ''pending_changes'' () (pendingChanges E)) (\<lambda>p.
     bnd (cron_sign_key E (isSignKeyTick t)) (\<lambda>k.
     bnd (cron_hourly E (isHourlyTick t)) (\<lambda>y.
     ret \<lparr>cr_reminders = fst r, cr_expired = fst x, cr_archive = fst a, cr_finalDeleted = fst f,
          cr_hourly = isHourlyTick t, cr_signKeyChecked = isSignKeyTick t,
          cr_errors = snd b @ snd r @ snd x @ snd a @ snd f @ snd h @ snd p @ k @ y\<rparr>)))))))))"

subsection \<open>Invariants\<close>

lemma keeps_case_json [keeps_intros]:
  "keeps P n \<Longrightarrow> (\<And>b. keeps P (fb b)) \<Longrightarrow> (\<And>i. keeps P (fi i)) \<Longrightarrow> (\<And>t. keeps P (ft t))
   \<Longrightarrow> (\<And>xs. keeps P (fa xs)) \<Longrightarrow> (\<And>kvs. keeps P (fo kvs)) \<Longrightarrow>
   keeps P (case v of JNull \<Rightarrow> n | JBool b \<Rightarrow> fb b | JNum i \<Rightarrow> fi i | JStr t \<Rightarrow> ft t
            | JArr xs \<Rightarrow> fa xs | JObj kvs \<Rightarrow> fo kvs)"
  by (cases v) simp_all

lemma ops_reads [keeps_intros]:
  "safe I (export_chunk E ctx c)" "safe I (newEmailOf E p)" "safe I audit_head"
proof -
  have p: "safe I (parse_text E t)" for t
    by (auto simp: parse_text_def intro!: keeps_intros split: option.splits)
  have r: "safe I (pageToRecords E page)" for page
    unfolding pageToRecords_def by (intro keeps_intros p)
  have e: "safe I (export_position E c)" for c
    by (auto simp: export_position_def intro!: keeps_intros split: option.splits json.splits)
  have j: "safe I (js_get v k)" for v k
    by (auto simp: js_get_def intro!: keeps_intros)
  show "safe I (export_chunk E ctx c)"
    unfolding export_chunk_def Let_def by (intro keeps_intros p r e)
  show "safe I (newEmailOf E p)" unfolding newEmailOf_def Let_def by (intro keeps_intros j)
  show "safe I audit_head" by (simp add: audit_head_def safe_query)
qed

context repo_inv
begin

lemma bootstrap_safe: "safe I (bootstrap_run E)" "safe I (bootstrap_ensure E d)"
proof -
  show "safe I (bootstrap_run E)"
    unfolding bootstrap_run_def by (intro keeps_intros attempt_step db_steps)
  then show "safe I (bootstrap_ensure E d)" unfolding bootstrap_ensure_def by (intro keeps_intros)
qed

lemma pending_safe: "safe I (pendingChanges E)"
proof -
  have f: "safe I (finish_change a c t)" for a c t
    unfolding finish_change_def by (intro keeps_intros session_safe run_step db_steps)
  have a: "safe I (apply_change E a t c)" for a t c
    unfolding apply_change_def by (intro keeps_intros f attempt_step exec_step db_steps)
  have n: "safe I (notify_change E ct c)" for ct c
    unfolding notify_change_def by (intro keeps_intros send_safe exec_step db_steps)
  show ?thesis unfolding pendingChanges_def apply_due_def contactOf_def by (intro keeps_intros a n)
qed

lemma ops_safe:
  "safe I (analyticsCheck E)" "safe I (auditAnchor E)" "safe I (signKeyCheck E)" "safe I housekeeping_run"
proof -
  have "safe I (set_metrics d s)" for d s
    unfolding set_metrics_def by (intro keeps_intros exec_step db_steps)
  then show "safe I (analyticsCheck E)"
    unfolding analyticsCheck_def Let_def by (intro keeps_intros exec_step db_steps)
  show "safe I (auditAnchor E)" "safe I (signKeyCheck E)" "safe I housekeeping_run"
    unfolding auditAnchor_def signKeyCheck_def housekeeping_run_def Let_def
    by (intro keeps_intros run_step exec_step attempt_step db_steps)+
qed

lemma stage_safe: "safe I m \<Longrightarrow> safe I (cron_stage n s m)"
  unfolding cron_stage_def by (intro keeps_intros)

lemma cron_safe: "safe I (runCron E d t)"
  unfolding runCron_def cron_hourly_def cron_sign_key_def
  by (intro keeps_intros stage_safe bootstrap_safe trial_safe tick_safe ops_safe pending_safe)

end

end
