(* ===== verification/Rpc.thy ===== *)
theory Rpc
  imports Ops
begin

section \<open>The RPC surface of the identity worker\<close>

text \<open>
  \<^verbatim>\<open>interface/identity_rpc.ts\<close>: one constructor per method of the contract with its arguments, the
  method's body, and the wrapper around every call: make sure the administrator exists, apply the
  gate, then delegate.
\<close>

datatype RpcCall =
    RSendCode "AppError + SendCodeInput" RequestMeta
  | RSendMeCode CallCtx CodePurpose
  | RCreateSession "AppError + CreateSessionInput" RequestMeta
  | RRefresh string
  | RLogout CallCtx string
  | RVerifyAdminSession string
  | RAdminSessionStatus string
  | RPasskeyOptions PasskeyAuth AssertPurpose
  | RPasskeyAssertion PasskeyAuth AssertPurpose json RequestMeta
  | RPasskeySetupOptions string string
  | RPasskeySetup string string json RequestMeta
  | RRecoveryLogin string string RequestMeta
  | RGetMe CallCtx
  | RPatchMe CallCtx "Locale option" "string option"
  | RUsage CallCtx
  | RExportChunk CallCtx "string option"
  | RTerminateTrial CallCtx string
  | RWorkspaceStatus string
  | RGetArchiveDeletion string
  | RDeleteArchiveByToken string
  | RAudit CallCtx AuditEntry
  | RAdminOverview CallCtx
  | RAdminListUsers CallCtx "string option" PageRequest
  | RAdminGetUser CallCtx string
  | RAdminPatchUser CallCtx string "AdminUserPatch checked" string string
  | RAdminRevokeSessions CallCtx string string
  | RAdminDeleteUser CallCtx string bool "string option" string string
  | RAdminListArchives CallCtx PageRequest
  | RAdminArchiveLink CallCtx string string
  | RAdminDeleteArchive CallCtx string string string
  | RAdminGetSettings CallCtx
  | RAdminPatchSettings CallCtx "SettingsPatch checked" int string string
  | RAdminGetBlockedDomains CallCtx
  | RAdminPutBlockedDomains CallCtx "string list checked" string
  | RAdminAuditLog CallCtx PageRequest
  | RAdminListPasskeys CallCtx
  | RAdminPasskeyOptions CallCtx
  | RAdminAddPasskey CallCtx json "string option" "string option"
  | RAdminDeletePasskey CallCtx string "string option"

text \<open>The first argument of a call, as \<^verbatim>\<open>ctxArg\<close> reads it.\<close>

datatype RpcArg = ArgCtx CallCtx | ArgAuth PasskeyAuth | ArgText string | ArgOther

fun rpc_head :: "RpcCall \<Rightarrow> string \<times> RpcArg" where
  "rpc_head (RSendCode i m) = (''sendCode'', ArgOther)"
| "rpc_head (RSendMeCode c p) = (''sendMeCode'', ArgCtx c)"
| "rpc_head (RCreateSession i m) = (''createSession'', ArgOther)"
| "rpc_head (RRefresh t) = (''refresh'', ArgText t)"
| "rpc_head (RLogout c s) = (''logout'', ArgCtx c)"
| "rpc_head (RVerifyAdminSession s) = (''verifyAdminSession'', ArgText s)"
| "rpc_head (RAdminSessionStatus s) = (''adminSessionStatus'', ArgText s)"
| "rpc_head (RPasskeyOptions a p) = (''passkeyOptions'', ArgAuth a)"
| "rpc_head (RPasskeyAssertion a p c m) = (''passkeyAssertion'', ArgAuth a)"
| "rpc_head (RPasskeySetupOptions p s) = (''passkeySetupOptions'', ArgText p)"
| "rpc_head (RPasskeySetup p s c m) = (''passkeySetup'', ArgText p)"
| "rpc_head (RRecoveryLogin p s m) = (''recoveryLogin'', ArgText p)"
| "rpc_head (RGetMe c) = (''getMe'', ArgCtx c)"
| "rpc_head (RPatchMe c l z) = (''patchMe'', ArgCtx c)"
| "rpc_head (RUsage c) = (''usage'', ArgCtx c)"
| "rpc_head (RExportChunk c x) = (''exportChunk'', ArgCtx c)"
| "rpc_head (RTerminateTrial c x) = (''terminateTrial'', ArgCtx c)"
| "rpc_head (RWorkspaceStatus t) = (''workspaceStatus'', ArgText t)"
| "rpc_head (RGetArchiveDeletion t) = (''getArchiveDeletion'', ArgText t)"
| "rpc_head (RDeleteArchiveByToken t) = (''deleteArchiveByToken'', ArgText t)"
| "rpc_head (RAudit c e) = (''audit'', ArgCtx c)"
| "rpc_head (RAdminOverview c) = (''adminOverview'', ArgCtx c)"
| "rpc_head (RAdminListUsers c s p) = (''adminListUsers'', ArgCtx c)"
| "rpc_head (RAdminGetUser c u) = (''adminGetUser'', ArgCtx c)"
| "rpc_head (RAdminPatchUser c u r s k) = (''adminPatchUser'', ArgCtx c)"
| "rpc_head (RAdminRevokeSessions c u k) = (''adminRevokeSessions'', ArgCtx c)"
| "rpc_head (RAdminDeleteUser c u a r s k) = (''adminDeleteUser'', ArgCtx c)"
| "rpc_head (RAdminListArchives c p) = (''adminListArchives'', ArgCtx c)"
| "rpc_head (RAdminArchiveLink c t k) = (''adminArchiveLink'', ArgCtx c)"
| "rpc_head (RAdminDeleteArchive c t s k) = (''adminDeleteArchive'', ArgCtx c)"
| "rpc_head (RAdminGetSettings c) = (''adminGetSettings'', ArgCtx c)"
| "rpc_head (RAdminPatchSettings c r m s k) = (''adminPatchSettings'', ArgCtx c)"
| "rpc_head (RAdminGetBlockedDomains c) = (''adminGetBlockedDomains'', ArgCtx c)"
| "rpc_head (RAdminPutBlockedDomains c r k) = (''adminPutBlockedDomains'', ArgCtx c)"
| "rpc_head (RAdminAuditLog c p) = (''adminAuditLog'', ArgCtx c)"
| "rpc_head (RAdminListPasskeys c) = (''adminListPasskeys'', ArgCtx c)"
| "rpc_head (RAdminPasskeyOptions c) = (''adminPasskeyOptions'', ArgCtx c)"
| "rpc_head (RAdminAddPasskey c j l s) = (''adminAddPasskey'', ArgCtx c)"
| "rpc_head (RAdminDeletePasskey c i s) = (''adminDeletePasskey'', ArgCtx c)"

definition AUTH_FIRST :: "string list" where "AUTH_FIRST = [''passkeyOptions'', ''passkeyAssertion'']"

definition NO_CTX :: "string list" where
  "NO_CTX = [''sendCode'', ''createSession'', ''refresh'', ''verifyAdminSession'', ''adminSessionStatus'',
     ''passkeySetupOptions'', ''passkeySetup'', ''recoveryLogin'', ''workspaceStatus'', ''getArchiveDeletion'',
     ''deleteArchiveByToken'']"

definition ctxArg :: "string \<Rightarrow> RpcArg \<Rightarrow> CallCtx option" where
  "ctxArg name first =
     (if name \<in> set NO_CTX then None
      else if name \<in> set AUTH_FIRST then (case first of ArgAuth (AuthCtx c) \<Rightarrow> Some c | _ \<Rightarrow> None)
      else (case first of ArgCtx c \<Rightarrow> Some c | _ \<Rightarrow> None))"

definition adminOnly :: "CallCtx \<Rightarrow> unit io" where
  "adminOnly ctx = (if act_role (ctx_actor ctx) \<noteq> Human Admin then fail FORBIDDEN else ret ())"

datatype RpcValue =
    VUnit | VJson json | VBool bool | VSession SessionResult | VIssued IssuedSession | VRefresh RefreshResult
  | VStatus AdminSessionStatus | VAssertion AssertionResult | VRegistered PasskeyRegistered | VMe MeDto
  | VUsed "nat \<times> nat" | VChunk "string \<times> string option" | VWorkspace "(WorkspaceKind \<times> WorkspaceStatus) option"
  | VArchive "string \<times> int" | VOverview PlatformOverview | VUsers "AdminUserRow list \<times> string option"
  | VUser AdminUserDto | VArchives "ArchiveIndexDto list \<times> string option" | VDomains "string list"
  | VAudit "AdminAuditDto list \<times> string option \<times> bool" | VPasskeys "PasskeyDto list"

definition reply :: "('a \<Rightarrow> RpcValue) \<Rightarrow> 'a io \<Rightarrow> RpcValue io" where
  "reply V m = bnd m (\<lambda>x. ret (V x))"

fun rpc_method :: "env \<Rightarrow> RpcCall \<Rightarrow> RpcValue io" where
  "rpc_method E (RSendCode i m) = reply (\<lambda>_. VUnit) (sendCode E i m)"
| "rpc_method E (RSendMeCode c p) = reply (\<lambda>_. VUnit) (sendMeCode E c p)"
| "rpc_method E (RCreateSession i m) = reply VSession (createSession E i m)"
| "rpc_method E (RRefresh t) = reply VRefresh (refresh E t)"
| "rpc_method E (RLogout c s) = reply (\<lambda>_. VUnit) (logout c s)"
| "rpc_method E (RVerifyAdminSession s) = reply VBool (verifyAdmin s)"
| "rpc_method E (RAdminSessionStatus s) = reply VStatus (sessionStatus s)"
| "rpc_method E (RPasskeyOptions a p) = reply VJson (assertionOptions E a p)"
| "rpc_method E (RPasskeyAssertion a p c m) = reply VAssertion (assertion E a p c m)"
| "rpc_method E (RPasskeySetupOptions p s) = reply VJson (setupOptions E p s)"
| "rpc_method E (RPasskeySetup p s c m) = reply VRegistered (passkey_setup E p s c m)"
| "rpc_method E (RRecoveryLogin p s m) = reply VIssued (recoveryLogin E p s m)"
| "rpc_method E (RGetMe c) = reply VMe (bnd (caller c) (\<lambda>a. me E a (ctx_sid c)))"
| "rpc_method E (RPatchMe c l z) = reply VMe (patchMe E c l z)"
| "rpc_method E (RUsage c) = reply VUsed (sessions_usage E c)"
| "rpc_method E (RExportChunk c x) = reply VChunk (export_chunk E c x)"
| "rpc_method E (RTerminateTrial c x) = reply (\<lambda>_. VUnit) (terminate_trial E c x)"
| "rpc_method E (RWorkspaceStatus t) = reply VWorkspace (workspaces_status t)"
| "rpc_method E (RGetArchiveDeletion t) = reply VArchive (archiveDeletionInfo E t)"
| "rpc_method E (RDeleteArchiveByToken t) = reply (\<lambda>_. VUnit) (deleteArchiveByToken E t)"
| "rpc_method E (RAudit c e) = reply (\<lambda>_. VUnit) (audit_record E c e)"
| "rpc_method E (RAdminOverview c) = reply VOverview (overview E c)"
| "rpc_method E (RAdminListUsers c s p) = reply VUsers (admin_listUsers E c s p)"
| "rpc_method E (RAdminGetUser c u) = reply VUser (getUser E c u)"
| "rpc_method E (RAdminPatchUser c u r s k) = reply VUser (patchUser E c u r s k)"
| "rpc_method E (RAdminRevokeSessions c u k) = reply VJson (admin_revokeSessions E c u k)"
| "rpc_method E (RAdminDeleteUser c u a r s k) = reply (\<lambda>_. VUnit) (deleteUser E c u a r s k)"
| "rpc_method E (RAdminListArchives c p) = reply VArchives (listArchives E c p)"
| "rpc_method E (RAdminArchiveLink c t k) = reply VJson (archiveLink E c t k)"
| "rpc_method E (RAdminDeleteArchive c t s k) = reply (\<lambda>_. VUnit) (admin_deleteArchive E c t s k)"
| "rpc_method E (RAdminGetSettings c) = reply VJson (getSettings E c)"
| "rpc_method E (RAdminPatchSettings c r m s k) = reply VJson (patchSettings E c r m s k)"
| "rpc_method E (RAdminGetBlockedDomains c) = reply VDomains (getBlockedDomains c)"
| "rpc_method E (RAdminPutBlockedDomains c r k) = reply VJson (putBlockedDomains E c r k)"
| "rpc_method E (RAdminAuditLog c p) = reply VAudit (thn (adminOnly c) (thn (requireAdmin c) (audit_pages E p)))"
| "rpc_method E (RAdminListPasskeys c) = reply VPasskeys (passkeys_of c)"
| "rpc_method E (RAdminPasskeyOptions c) = reply VJson (addOptions E c)"
| "rpc_method E (RAdminAddPasskey c j l s) = reply VRegistered (passkey_add E c j l s)"
| "rpc_method E (RAdminDeletePasskey c i s) = reply (\<lambda>_. VUnit) (passkey_remove E c i s)"

definition ensure_quietly :: "env \<Rightarrow> bool \<Rightarrow> unit io" where
  "ensure_quietly E already = catch (thn (bootstrap_ensure E already) (ret ())) (\<lambda>_. ret ())"

definition rpc_call :: "env \<Rightarrow> bool \<Rightarrow> RpcCall \<Rightarrow> RpcValue io" where
  "rpc_call E already call =
     thn (ensure_quietly E already)
     (thn (passkey_gate (fst (rpc_head call)) (case_prod ctxArg (rpc_head call)))
       (rpc_method E call))"

subsection \<open>Invariants\<close>

lemma keeps_reply [keeps_intros]: "keeps P m \<Longrightarrow> keeps P (reply V m)"
  unfolding reply_def by (intro keeps_intros)

lemma safe_audit_reads [keeps_intros]: "safe I (audit_pages E p)" "safe I (adminOnly c)" "safe I (workspaces_status t)"
proof -
  have c: "safe I (audit_cursor v)" for v
    by (auto simp: audit_cursor_def intro!: keeps_intros split: option.splits json.splits)
  show "safe I (audit_pages E p)" "safe I (adminOnly c)" "safe I (workspaces_status t)"
    unfolding audit_pages_def adminOnly_def workspaces_status_def Let_def by (intro keeps_intros c)+
qed

context repo_inv
begin

lemmas service_safe = passkey_safe admin_safe auth_safe session_safe trial_safe record_safe

lemma rpc_safe: "safe I (rpc_call E already call)"
proof -
  have "safe I (rpc_method E call)"
    by (cases call) (simp_all, (intro keeps_intros service_safe)+)
  moreover have "safe I (ensure_quietly E already)"
    unfolding ensure_quietly_def by (intro keeps_intros bootstrap_safe)
  ultimately show ?thesis
    unfolding rpc_call_def by (intro keeps_intros)
qed

end

subsection \<open>Any sequence of calls and cron runs\<close>

text \<open>
  One step of the worker: an RPC call with any arguments, environment and isolate, a cron run, or
  time passing.
\<close>

inductive worker_step :: "world \<Rightarrow> world \<Rightarrow> bool" where
  on_call: "rpc_call E already call w = (r, w') \<Longrightarrow> worker_step w w'"
| on_cron: "runCron E already t w = (r, w') \<Longrightarrow> worker_step w w'"
| on_clock: "w_now w \<le> t \<Longrightarrow> worker_step w (w\<lparr>w_now := t\<rparr>)"

lemma worker_step_db: "worker_step w w' \<Longrightarrow> db_step\<^sup>*\<^sup>* (w_db w) (w_db w')"
proof (induction rule: worker_step.induct)
  case (on_call E already call w r w')
  show ?case by (rule keepsD [OF repo_inv.rpc_safe [OF repo_steps] _ on_call]) simp
next
  case (on_cron E already t w r w')
  show ?case by (rule keepsD [OF repo_inv.cron_safe [OF repo_steps] _ on_cron]) simp
qed simp

lemma worker_run_db: "worker_step\<^sup>*\<^sup>* w w' \<Longrightarrow> db_step\<^sup>*\<^sup>* (w_db w) (w_db w')"
  by (induction rule: rtranclp_induct) (auto dest: worker_step_db)

lemma admin_kept_trans: "admin_kept db db' \<Longrightarrow> admin_kept db' db'' \<Longrightarrow> admin_kept db db''"
  unfolding admin_kept_def
  by (elim conjE, rule conjI, metis, blast)

lemma steps_admin_kept: "db_step\<^sup>*\<^sup>* db db' \<Longrightarrow> admin_kept db db'"
proof (induction rule: rtranclp_induct)
  case base
  show ?case by (auto simp: admin_kept_def)
next
  case (step y z)
  from step.IH step_admin_kept [OF step.hyps(2)] show ?case by (rule admin_kept_trans)
qed

text \<open>C31: whatever calls the gateway makes and however cron runs fall between them, with any answers of the
outside services, the database only moves by repository steps; so the schema holds throughout, the
administrator and its workspace are never lost, and there is at most one of each.\<close>

theorem worker_refines:
  assumes "worker_step\<^sup>*\<^sup>* w w'" "db_ok (w_db w)"
  shows "db_step\<^sup>*\<^sup>* (w_db w) (w_db w')
     \<and> db_ok (w_db w') \<and> admin_kept (w_db w) (w_db w')
     \<and> at_most_one (\<lambda>a. ac_role a = Admin) (db_account (w_db w'))"
proof -
  have s: "db_step\<^sup>*\<^sup>* (w_db w) (w_db w')" using assms(1) by (rule worker_run_db)
  then have "db_ok (w_db w')" using assms(2) by (induction rule: rtranclp_induct) (auto intro: db_step_ok)
  with s steps_admin_kept [OF s] show ?thesis by (simp add: db_ok_defs)
qed

theorem worker_refines_witness:
  "db_ok (w_db (snd (runCron demo_env False 0 (demo_world empty_db 0))))"
  using worker_refines [OF r_into_rtranclp [of worker_step], OF on_cron [OF prod.collapse [symmetric]],
      of "demo_world empty_db 0" demo_env False 0]
  by (simp add: db_ok_empty)

subsection \<open>Administrators only\<close>

definition admin_call :: "RpcCall \<Rightarrow> CallCtx option" where
  "admin_call c =
     (case rpc_head c of
        (name, ArgCtx ctx) \<Rightarrow> if starts_with ''admin'' name \<or> name = ''audit'' then Some ctx else None
      | _ \<Rightarrow> None)"

lemma not_admin_refused:
  assumes "act_role (ctx_actor ctx) \<noteq> Human Admin"
  shows "requireAdmin ctx = fail FORBIDDEN" "passkey_verifyStepUp E ctx st = fail FORBIDDEN"
    "adminOnly ctx = fail FORBIDDEN" "passkey_gate n (Some ctx) = ret ()"
  using assms by (simp_all add: requireAdmin_def passkey_verifyStepUp_def adminOnly_def passkey_gate_def fail_def)

lemma bnd_fail [simp]: "bnd (fail c) f = fail c"
  by (simp add: fail_def)

lemma thn_fail [simp]: "thn (fail c) k = fail c"
  by (simp add: thn_def)

text \<open>C32: the console is closed to everyone else. An administrator's method called for an actor that is not
the administrator throws \<^verbatim>\<open>FORBIDDEN\<close> whatever its arguments, and changes nothing beyond the creation
of the bootstrap administrator that precedes every call.\<close>

theorem console_forbidden:
  assumes "admin_call c = Some ctx" "act_role (ctx_actor ctx) \<noteq> Human Admin"
  shows "rpc_call E already c w = (Inl (App (app_error FORBIDDEN)), snd (ensure_quietly E already w))"
proof -
  have m: "rpc_method E c = fail FORBIDDEN"
    using assms
    by (cases c) (simp_all add: admin_call_def starts_with_def reply_def not_admin_refused overview_def
      admin_listUsers_def getUser_def patchUser_def admin_revokeSessions_def deleteUser_def listArchives_def
      archiveLink_def admin_deleteArchive_def getSettings_def patchSettings_def getBlockedDomains_def
      putBlockedDomains_def passkeys_of_def addOptions_def passkey_add_def passkey_remove_def audit_record_def)
  have g: "passkey_gate n (ctxArg n (ArgCtx ctx)) = ret ()" for n
    using not_admin_refused(4) [OF assms(2)] by (auto simp: ctxArg_def passkey_gate_def)
  have h: "case_prod ctxArg (rpc_head c) = ctxArg (fst (rpc_head c)) (ArgCtx ctx)"
    using assms(1) by (auto simp: admin_call_def split: prod.splits RpcArg.splits if_splits)
  show ?thesis
    unfolding rpc_call_def h g m
    by (simp add: thn_app ensure_quietly_def catch_def split: prod.splits sum.splits)
qed

definition owner_ctx :: CallCtx where
  "owner_ctx = key_ctx\<lparr>ctx_actor := \<lparr>act_role = Human Owner, act_userId = None, act_actingAs = False\<rparr>\<rparr>"

theorem console_forbidden_witness:
  "fst (rpc_call demo_env True (RAdminDeleteUser owner_ctx ''u'' True (Some ''x'') ''s'' ''k'') (demo_world key_db 5))
     = Inl (App (app_error FORBIDDEN))"
  using console_forbidden [of "RAdminDeleteUser owner_ctx ''u'' True (Some ''x'') ''s'' ''k''" owner_ctx demo_env True
      "demo_world key_db 5"]
  by (simp add: admin_call_def starts_with_def owner_ctx_def)

end
