(* ===== verification/OpsProps.thy ===== *)
theory OpsProps
  imports Rpc
begin

section \<open>What a cron run does\<close>

text \<open>
  The stages of a run are isolated, a controlled change of the administrator waits out its cool-down,
  and housekeeping removes exactly what has lapsed.
\<close>

subsection \<open>Isolated stages\<close>

text \<open>The reference: every stage runs on the world the one before left, thrown or not.\<close>

definition void :: "'a io \<Rightarrow> unit io" where
  "void m = thn m (ret ())"

definition cron_stages :: "env \<Rightarrow> bool \<Rightarrow> time \<Rightarrow> (string \<times> unit io) list" where
  "cron_stages E already t =
     [(''bootstrap'', void (bootstrap_ensure E already)), (''reminders'', void (sendReminders E)),
      (''expire'', void (expireDue E)), (''archive'', void (tick E)), (''final_delete'', void (finalDeleteDue E 1)),
      (''housekeeping'', void housekeeping_run), (''pending_changes'', void (pendingChanges E))]
     @ (if isSignKeyTick t then [(''sign_key'', void (signKeyCheck E))] else [])
     @ (if isHourlyTick t then [(''analytics'', void (analyticsCheck E)), (''audit_anchor'', void (auditAnchor E))]
        else [])"

fun run_stages :: "(string \<times> unit io) list \<Rightarrow> world \<Rightarrow> string list \<times> world" where
  "run_stages [] w = ([], w)"
| "run_stages ((n, m) # ms) w =
     (case m w of
        (Inl _, w1) \<Rightarrow> (n # fst (run_stages ms w1), snd (run_stages ms w1))
      | (Inr _, w1) \<Rightarrow> run_stages ms w1)"

lemma run_stages_append:
  "run_stages (ms @ ns) w =
     (fst (run_stages ms w) @ fst (run_stages ns (snd (run_stages ms w))), snd (run_stages ns (snd (run_stages ms w))))"
  by (induction ms w rule: run_stages.induct) (auto split: prod.splits sum.splits)

lemma run_stages_Cons:
  "run_stages [a] w = (es, w1) \<Longrightarrow> run_stages ms w1 = (es2, w2) \<Longrightarrow> run_stages (a # ms) w = (es @ es2, w2)"
  using run_stages_append [of "[a]" ms w] by simp

lemma stage_runs:
  assumes "run_stages [(n, void m)] w = (es, w1)"
  obtains x where "cron_stage n s m w = (Inr (x, es), w1)"
proof (cases "m w")
  case (Pair r w2)
  then show ?thesis
    using assms that by (cases r) (auto simp: cron_stage_def catch_def bnd_app thn_app void_def)
qed

lemma void_stage:
  assumes "run_stages [(n, void m)] w = (es, w1)"
  shows "cron_stage n () (thn m (ret ())) w = (Inr ((), es), w1)"
proof (cases "m w")
  case (Pair r w2)
  then show ?thesis
    using assms by (cases r) (auto simp: cron_stage_def catch_def bnd_app thn_app void_def)
qed

lemma sign_key_runs:
  assumes "run_stages (if due then [(''sign_key'', void (signKeyCheck E))] else []) w = (es, w1)"
  shows "cron_sign_key E due w = (Inr es, w1)"
proof (cases due)
  case True
  with assms have "run_stages [(''sign_key'', void (signKeyCheck E))] w = (es, w1)" by simp
  from void_stage [OF this] True show ?thesis by (simp add: cron_sign_key_def bnd_app)
qed (use assms in \<open>simp add: cron_sign_key_def\<close>)

lemma hourly_runs:
  assumes "run_stages (if h then [(''analytics'', void (analyticsCheck E)), (''audit_anchor'', void (auditAnchor E))]
     else []) w = (es, w2)"
  shows "cron_hourly E h w = (Inr es, w2)"
proof (cases h)
  case True
  obtain ea wa where a: "run_stages [(''analytics'', void (analyticsCheck E))] w = (ea, wa)" by (rule prod.exhaust)
  obtain eb wb where b: "run_stages [(''audit_anchor'', void (auditAnchor E))] wa = (eb, wb)" by (rule prod.exhaust)
  from True assms run_stages_Cons [OF a b] have "es = ea @ eb" "w2 = wb" by (simp_all del: run_stages.simps)
  with True void_stage [OF a] void_stage [OF b] show ?thesis by (simp add: cron_hourly_def bnd_app)
qed (use assms in \<open>simp add: cron_hourly_def\<close>)

text \<open>C33: a cron run always returns its report, whatever fails. Each stage runs, in order, on the world the
stages before it left, whether they returned or threw, and the report names exactly the ones that threw.\<close>

theorem cron_isolated:
  "\<exists>rep. runCron E already t w = (Inr rep, snd (run_stages (cron_stages E already t) w))
     \<and> cr_errors rep = fst (run_stages (cron_stages E already t) w)
     \<and> cr_hourly rep = isHourlyTick t \<and> cr_signKeyChecked rep = isSignKeyTick t"
proof -
  obtain e1 w1 where r1: "run_stages [(''bootstrap'', void (bootstrap_ensure E already))] w = (e1, w1)" by (rule prod.exhaust)
  obtain e2 w2 where r2: "run_stages [(''reminders'', void (sendReminders E))] w1 = (e2, w2)" by (rule prod.exhaust)
  obtain e3 w3 where r3: "run_stages [(''expire'', void (expireDue E))] w2 = (e3, w3)" by (rule prod.exhaust)
  obtain e4 w4 where r4: "run_stages [(''archive'', void (tick E))] w3 = (e4, w4)" by (rule prod.exhaust)
  obtain e5 w5 where r5: "run_stages [(''final_delete'', void (finalDeleteDue E 1))] w4 = (e5, w5)" by (rule prod.exhaust)
  obtain e6 w6 where r6: "run_stages [(''housekeeping'', void housekeeping_run)] w5 = (e6, w6)" by (rule prod.exhaust)
  obtain e7 w7 where r7: "run_stages [(''pending_changes'', void (pendingChanges E))] w6 = (e7, w7)" by (rule prod.exhaust)
  obtain e8 w8 where r8: "run_stages (if isSignKeyTick t then [(''sign_key'', void (signKeyCheck E))] else []) w7 = (e8, w8)"
    by (rule prod.exhaust)
  obtain e9 w9 where r9: "run_stages (if isHourlyTick t then [(''analytics'', void (analyticsCheck E)),
      (''audit_anchor'', void (auditAnchor E))] else []) w8 = (e9, w9)"
    by (rule prod.exhaust)
  have "run_stages (cron_stages E already t) w = (e1 @ e2 @ e3 @ e4 @ e5 @ e6 @ e7 @ e8 @ e9, w9)"
    unfolding cron_stages_def append_Cons append_Nil
    by (intro run_stages_Cons [OF r1] run_stages_Cons [OF r2] run_stages_Cons [OF r3] run_stages_Cons [OF r4]
        run_stages_Cons [OF r5] run_stages_Cons [OF r6] run_stages_Cons [OF r7])
       (simp only: run_stages_append r8 r9 fst_conv snd_conv)
  moreover obtain x2 where "cron_stage ''reminders'' 0 (sendReminders E) w1 = (Inr (x2, e2), w2)" using r2 by (rule stage_runs)
  moreover obtain x3 where "cron_stage ''expire'' 0 (expireDue E) w2 = (Inr (x3, e3), w3)" using r3 by (rule stage_runs)
  moreover obtain x4 where "cron_stage ''archive'' TickIdle (tick E) w3 = (Inr (x4, e4), w4)" using r4 by (rule stage_runs)
  moreover obtain x5 where "cron_stage ''final_delete'' 0 (finalDeleteDue E 1) w4 = (Inr (x5, e5), w5)" using r5 by (rule stage_runs)
  moreover obtain x6 where "cron_stage ''housekeeping'' () housekeeping_run w5 = (Inr (x6, e6), w6)" using r6 by (rule stage_runs)
  moreover obtain x7 where "cron_stage ''pending_changes'' () (pendingChanges E) w6 = (Inr (x7, e7), w7)" using r7 by (rule stage_runs)
  ultimately show ?thesis
    using void_stage [OF r1] sign_key_runs [OF r8] hourly_runs [OF r9] by (simp add: runCron_def bnd_app)
qed

subsection \<open>The cool-down of controlled changes\<close>

text \<open>What a row keeps while changes are applied, and when a row may carry its mark.\<close>

definition change_facts :: "PendingChange \<Rightarrow> string \<times> time \<times> time \<times> time option" where
  "change_facts c = (cg_id c, cg_requestedAt c, cg_effectiveAt c, cg_notifiedAt c)"

definition cooled :: "PendingChange list \<Rightarrow> PendingChange \<Rightarrow> bool" where
  "cooled old c \<longleftrightarrow> (\<forall>t. cg_appliedAt c = Some t \<longrightarrow>
     (\<exists>c0 \<in> set old. cg_id c0 = cg_id c \<and> cg_appliedAt c0 = Some t)
     \<or> (cg_notifiedAt c \<noteq> None \<and> cg_requestedAt c + DAY_MS \<le> t \<and> cg_effectiveAt c \<le> t))"

definition changes_ok :: "PendingChange list \<Rightarrow> idb \<Rightarrow> bool" where
  "changes_ok old db \<longleftrightarrow> keyed cg_id (db_change db) \<and> (\<forall>c \<in> set (db_change db). cooled old c)"

abbreviation applying where
  "applying old M db \<equiv> changes_ok old db \<and> map change_facts (db_change db) = M"

lemma changes_mail: "mail_store (changes_ok old)"
  by unfold_locales (auto simp: changes_ok_def usage_tryTake_def usage_adjust_def Let_def)

lemma changes_map:
  "changes_ok old db \<Longrightarrow> (\<And>c. cg_id (f c) = cg_id c) \<Longrightarrow> (\<And>c. c \<in> set (db_change db) \<Longrightarrow> cooled old (f c)) \<Longrightarrow>
   changes_ok old (db\<lparr>db_change := map f (db_change db)\<rparr>)"
  by (simp add: changes_ok_def keyed_def comp_def)

lemma notified_keeps: "changes_ok old db \<Longrightarrow> changes_ok old (markNotified i t db)"
  unfolding markNotified_def upd_def
proof (rule changes_map)
  fix c assume "changes_ok old db" "c \<in> set (db_change db)"
  then have "cooled old c" by (simp add: changes_ok_def)
  then show "cooled old (if cg_id c = i then c\<lparr>cg_notifiedAt := Some t\<rparr> else c)"
    by (cases "cg_id c = i") (auto simp: cooled_def)
qed auto

lemma applied_keeps:
  assumes "applying old M db" "change_facts c \<in> set M" "cg_notifiedAt c \<noteq> None"
    "cg_requestedAt c + DAY_MS \<le> t" "cg_effectiveAt c \<le> t"
  shows "applying old M (snd (markApplied (cg_id c) t db))"
proof -
  let ?u = "\<lambda>c'. if cg_id c' = cg_id c \<and> cg_appliedAt c' = None then c'\<lparr>cg_appliedAt := Some t, cg_payload := None\<rparr> else c'"
  have d: "snd (markApplied (cg_id c) t db) = db\<lparr>db_change := map ?u (db_change db)\<rparr>"
    by (simp add: markApplied_def Let_def upd_def)
  have f: "map change_facts (map ?u (db_change db)) = M"
    using assms(1) by (auto simp: change_facts_def)
  from assms(1,2) obtain c1 where c1: "c1 \<in> set (db_change db)" "change_facts c1 = change_facts c" by auto
  have "cooled old (?u c')" if c': "c' \<in> set (db_change db)" for c'
  proof (cases "cg_id c' = cg_id c \<and> cg_appliedAt c' = None")
    case True
    then have "cg_id c' = cg_id c1" using c1(2) by (simp add: change_facts_def)
    then have "c' = c1" using assms(1) c1(1) c' by (auto simp: changes_ok_def keyed_def distinct_map inj_on_def)
    with True c1(2) assms(3-5) show ?thesis by (simp add: cooled_def change_facts_def)
  next
    case False
    with c' assms(1) show ?thesis by (auto simp: changes_ok_def)
  qed
  then have "changes_ok old (db\<lparr>db_change := map ?u (db_change db)\<rparr>)"
    using assms(1) by (intro changes_map) auto
  with f show ?thesis by (simp add: d)
qed

lemma applying_frame: "db_change db' = db_change db \<Longrightarrow> applying old M db \<Longrightarrow> applying old M db'"
  by (simp add: changes_ok_def)

lemma change_frames:
  "db_change (snd (replaceEmail u h e db)) = db_change db" "db_change (passkey_deleteAll u db) = db_change db"
  "db_change (snd (replaceRecoveryCodes [] db)) = db_change db" "db_change (clearFlag k db) = db_change db"
  "db_change (snd (session_deleteByUser u db)) = db_change db"
  by (auto simp: replaceEmail_def passkey_deleteAll_def clearFlag_def session_deleteByUser_def
      session_delete_where_def replaceRecoveryCodes_def batch_def ok_stmt_def Let_def split: sum.splits if_splits)

lemma apply_change_cooled:
  assumes "change_facts c \<in> set M" "cg_effectiveAt c \<le> t"
  shows "safe (applying old M) (apply_change E admin t c)"
proof -
  have f: "safe (applying old M) (finish_change admin c t)" if "cg_notifiedAt c \<noteq> None" "\<not> t < cg_requestedAt c + DAY_MS"
    unfolding finish_change_def revokeUser_def
    using that by (intro keeps_intros safe_run applied_keeps assms applying_frame [OF change_frames(5)]) auto
  show ?thesis
    unfolding apply_change_def PENDING_CHANGE_COOLDOWN_MS_def
    by (intro keeps_intros f safe_attempt safe_exec applying_frame [OF change_frames(1)]
        applying_frame [OF change_frames(2)] applying_frame [OF change_frames(3)] applying_frame [OF change_frames(4)])
       assumption+
qed

text \<open>C34: a controlled change of the administrator waits out its cool-down. Any row of the table that a run
marks as applied had been announced to the original address, was requested at least 24 hours before and
had reached its effective time; all other marks were there before.\<close>

theorem change_cooldown:
  assumes "pendingChanges E w = (r, w')" "keyed cg_id (db_change (w_db w))"
    "c \<in> set (db_change (w_db w'))" "cg_appliedAt c = Some t"
  shows "(\<exists>c0 \<in> set (db_change (w_db w)). cg_id c0 = cg_id c \<and> cg_appliedAt c0 = Some t)
     \<or> (cg_notifiedAt c \<noteq> None \<and> cg_requestedAt c + DAY_MS \<le> t \<and> cg_effectiveAt c \<le> t)"
proof -
  let ?old = "db_change (w_db w)"
  have n: "safe (changes_ok ?old) (notify_change E ct c)" for ct c
    unfolding notify_change_def by (intro keeps_intros mail_store.send_safe [OF changes_mail] safe_exec notified_keeps)
  have a: "changes_ok ?old (w_db w2)"
    if "changes_ok ?old (w_db w1)" "mapM (apply_change E admin t1) (change_dueForApply t1 (w_db w1)) w1 = (x, w2)" for w1 w2 x admin t1
  proof -
    have due: "change_facts c \<in> set (map change_facts (db_change (w_db w1))) \<and> cg_effectiveAt c \<le> t1"
      if "c \<in> set (change_dueForApply t1 (w_db w1))" for c
      using that by (auto simp: change_dueForApply_def order_by_def intro!: imageI dest: in_set_takeD)
    have "safe (applying ?old (map change_facts (db_change (w_db w1)))) (mapM (apply_change E admin t1) cs)"
      if "set cs \<subseteq> set (change_dueForApply t1 (w_db w1))" for cs
      using that
    proof (induction cs)
      case (Cons c cs)
      then show ?case
        using apply_change_cooled [of c "map change_facts (db_change (w_db w1))" t1 ?old E admin] due [of c]
        by (auto intro!: keeps_intros simp del: set_map)
    qed (auto intro!: keeps_intros)
    from keepsD [OF this [OF order.refl] _ that(2)] that(1) show ?thesis by simp
  qed
  have "safe (changes_ok ?old) (apply_due E admin)" for admin
    unfolding apply_due_def
    by (rule keepsI) (auto simp: bnd_app thn_app split: prod.splits sum.splits intro: a)
  then have "safe (changes_ok ?old) (pendingChanges E)"
    unfolding pendingChanges_def contactOf_def by (intro keeps_intros n)
  moreover have "changes_ok ?old (w_db w)" using assms(2) by (auto simp: changes_ok_def cooled_def)
  ultimately have "changes_ok ?old (w_db w')" using assms(1) by (rule keepsD)
  then show ?thesis using assms(3,4) by (auto simp: changes_ok_def cooled_def)
qed

definition change_row :: PendingChange where
  "change_row =
     \<lparr>cg_id = ''c'', cg_kind = ChangePasskeyReset, cg_payload = None, cg_requestedAt = 0, cg_effectiveAt = 0,
      cg_notifiedAt = Some 1, cg_appliedAt = None\<rparr>"

definition change_db :: idb where
  "change_db = (snd (createAdmin \<lparr>ad_userId = ''u'', ad_tenantId = ''t'', ad_emailHmac = ''h'', ad_emailEnc = ''.'', ad_now = 0\<rparr>
     empty_db))\<lparr>db_change := [change_row]\<rparr>"

lemma change_run: "map cg_appliedAt (db_change (w_db (snd (pendingChanges demo_env (demo_world change_db 90000000))))) = [Some 90000000]"
  unfolding change_db_def change_row_def by code_simp

theorem change_cooldown_witness:
  "\<exists>c \<in> set (db_change (w_db (snd (pendingChanges demo_env (demo_world change_db 90000000))))).
     cg_appliedAt c = Some 90000000 \<and> cg_notifiedAt c \<noteq> None \<and> cg_requestedAt c + DAY_MS \<le> 90000000"
proof -
  let ?w = "demo_world change_db 90000000"
  obtain c where c: "c \<in> set (db_change (w_db (snd (pendingChanges demo_env ?w))))" "cg_appliedAt c = Some 90000000"
    using change_run by (cases "db_change (w_db (snd (pendingChanges demo_env ?w)))") auto
  have "keyed cg_id (db_change (w_db ?w))" "\<forall>c0 \<in> set (db_change (w_db ?w)). cg_appliedAt c0 = None"
    by (simp_all add: change_db_def keyed_def change_row_def)
  with change_cooldown [OF prod.collapse [symmetric] _ c] c show ?thesis by auto
qed

subsection \<open>Housekeeping\<close>

text \<open>
  The audit rows that are past retention for the code, which counts milliseconds, and not yet for
  the delete trigger, which counts whole seconds.
\<close>

definition half_expired :: "time \<Rightarrow> AuditRow \<Rightarrow> bool" where
  "half_expired t r \<longleftrightarrow> au_at r < t - 90 * DAY_MS \<and> au_at r > db_clock t - 90 * DAY_MS"

text \<open>What housekeeping removes. Expired sessions and challenges go in any case. The audit rows past
retention and the old counters go exactly if no audit row is in the last second before its retention
ends; with such a row the delete trigger aborts the sweep, the run throws, and both tables stay as they
were until the next run.\<close>

theorem housekeeping_exact:
  "let w' = snd (housekeeping_run w); t = w_now w; stuck = list_ex (half_expired t) (db_audit (w_db w)) in
   fst (housekeeping_run w) = (if stuck then Inl (Db TriggerAbort) else Inr ())
   \<and> db_session (w_db w') = filter (\<lambda>s. t < ss_expiresAt s) (db_session (w_db w))
   \<and> db_challenge (w_db w') = filter (\<lambda>c. t < ch_expiresAt c) (db_challenge (w_db w))
   \<and> db_audit (w_db w') = (if stuck then db_audit (w_db w)
                           else filter (\<lambda>r. t - 90 * DAY_MS \<le> au_at r) (db_audit (w_db w)))
   \<and> db_usage (w_db w') = (if stuck then db_usage (w_db w)
                           else filter (\<lambda>u. utcDay (t - 40 * DAY_MS) \<le> us_day u) (db_usage (w_db w)))"
  by (simp add: Let_def housekeeping_run_def thn_app attempt_app audit_sweep_def half_expired_def [abs_def]
      AUDIT_RETENTION_DAYS_def COUNTER_KEEP_DAYS_def code_sweep_def session_sweep_def sweepChallenges_def
      sweepTombstones_def usage_sweep_def del_def not_less not_le)

end
