(* ===== verification/JsVal.thy ===== *)
theory JsVal
  imports KernelLimits
begin

section \<open>JavaScript values and numbers\<close>

text \<open>
  The dynamically typed values (\<^verbatim>\<open>unknown\<close>) that object properties, rule expressions and action
  parameters are made of. A number is an IEEE double: a rational that is the result of an operation
  is rounded to the nearest double (ties to even, overflow to an infinity). The sign of a zero is
  not kept: the code never divides by a zero and prints both zeros alike. An object is the list of
  its own keys in insertion order. What the language leaves to the implementation is a \<open>platform\<close>:
  the fallback of \<^verbatim>\<open>Date.parse\<close>, \<^verbatim>\<open>**\<close>, and whether two objects of equal content are the same object.
\<close>

subsection \<open>IEEE doubles\<close>

definition pow2 :: "int \<Rightarrow> rat" where
  "pow2 e = (if 0 \<le> e then 2 ^ nat e else 1 / 2 ^ nat (- e))"

definition pow10 :: "int \<Rightarrow> rat" where
  "pow10 e = (if 0 \<le> e then 10 ^ nat e else 1 / 10 ^ nat (- e))"

fun bitlen_nat :: "nat \<Rightarrow> nat" where
  "bitlen_nat n = (if n = 0 then 0 else Suc (bitlen_nat (n div 2)))"

declare bitlen_nat.simps [simp del]

text \<open>The exponent \<open>e\<close> with \<open>2 ^ e \<le> r < 2 ^ (e + 1)\<close>, for a positive \<open>r\<close>.\<close>

definition ilog2 :: "rat \<Rightarrow> int" where
  "ilog2 r =
     (let (p, q) = quotient_of r;
          e = int (bitlen_nat (nat p)) - int (bitlen_nat (nat q))
      in if pow2 e \<le> r then e else e - 1)"

definition round_even :: "rat \<Rightarrow> int" where
  "round_even q =
     (let f = \<lfloor>q\<rfloor>; d = q - of_int f
      in if d < 1 / 2 then f else if 1 / 2 < d then f + 1 else if even f then f else f + 1)"

definition fl :: "rat \<Rightarrow> jsnum" where
  "fl r =
     (if r = 0 then Fin 0
      else let a = \<bar>r\<bar>;
               u = pow2 (max (ilog2 a - 52) (- 1074));
               v = of_int (round_even (a / u)) * u
           in if pow2 1024 \<le> v then (if 0 < r then PosInf else NegInf)
              else Fin (if 0 < r then v else - v))"

fun num_neg :: "jsnum \<Rightarrow> jsnum" where
  "num_neg (Fin r) = Fin (- r)"
| "num_neg NaN = NaN"
| "num_neg PosInf = NegInf"
| "num_neg NegInf = PosInf"

fun num_add :: "jsnum \<Rightarrow> jsnum \<Rightarrow> jsnum" where
  "num_add (Fin a) (Fin b) = fl (a + b)"
| "num_add NaN _ = NaN"
| "num_add _ NaN = NaN"
| "num_add PosInf NegInf = NaN"
| "num_add NegInf PosInf = NaN"
| "num_add PosInf _ = PosInf"
| "num_add NegInf _ = NegInf"
| "num_add _ PosInf = PosInf"
| "num_add _ NegInf = NegInf"

definition num_sub :: "jsnum \<Rightarrow> jsnum \<Rightarrow> jsnum" where
  "num_sub a b = num_add a (num_neg b)"

fun num_sgn :: "jsnum \<Rightarrow> int" where
  "num_sgn (Fin r) = (if 0 < r then 1 else if r < 0 then - 1 else 0)"
| "num_sgn PosInf = 1"
| "num_sgn NegInf = - 1"
| "num_sgn NaN = 0"

definition inf_of_sgn :: "int \<Rightarrow> jsnum" where
  "inf_of_sgn s = (if s = 0 then NaN else if 0 < s then PosInf else NegInf)"

fun num_mul :: "jsnum \<Rightarrow> jsnum \<Rightarrow> jsnum" where
  "num_mul (Fin a) (Fin b) = fl (a * b)"
| "num_mul NaN _ = NaN"
| "num_mul _ NaN = NaN"
| "num_mul a b = inf_of_sgn (num_sgn a * num_sgn b)"

text \<open>Division; a zero divisor gives the infinity of the dividend's sign (the code tests for it first).\<close>

fun num_div :: "jsnum \<Rightarrow> jsnum \<Rightarrow> jsnum" where
  "num_div NaN _ = NaN"
| "num_div _ NaN = NaN"
| "num_div (Fin a) (Fin b) = (if b = 0 then inf_of_sgn (num_sgn (Fin a)) else fl (a / b))"
| "num_div (Fin a) _ = Fin 0"
| "num_div a (Fin b) = inf_of_sgn (num_sgn a * (if num_sgn (Fin b) < 0 then - 1 else 1))"
| "num_div _ _ = NaN"

definition trunc :: "rat \<Rightarrow> int" where
  "trunc r = (if 0 \<le> r then \<lfloor>r\<rfloor> else \<lceil>r\<rceil>)"

fun num_mod :: "jsnum \<Rightarrow> jsnum \<Rightarrow> jsnum" where
  "num_mod (Fin a) (Fin b) = (if b = 0 then NaN else Fin (a - b * of_int (trunc (a / b))))"
| "num_mod (Fin a) PosInf = Fin a"
| "num_mod (Fin a) NegInf = Fin a"
| "num_mod _ _ = NaN"

fun num_lt :: "jsnum \<Rightarrow> jsnum \<Rightarrow> bool" where
  "num_lt (Fin a) (Fin b) = (a < b)"
| "num_lt NaN _ = False"
| "num_lt _ NaN = False"
| "num_lt a b = (a \<noteq> b \<and> (a = NegInf \<or> b = PosInf))"

definition num_eq :: "jsnum \<Rightarrow> jsnum \<Rightarrow> bool" where
  "num_eq a b \<longleftrightarrow> a = b \<and> a \<noteq> NaN"

definition num_le :: "jsnum \<Rightarrow> jsnum \<Rightarrow> bool" where
  "num_le a b \<longleftrightarrow> num_lt a b \<or> num_eq a b"

definition num_min :: "jsnum \<Rightarrow> jsnum \<Rightarrow> jsnum" where
  "num_min a b = (if a = NaN \<or> b = NaN then NaN else if num_lt b a then b else a)"

definition num_max :: "jsnum \<Rightarrow> jsnum \<Rightarrow> jsnum" where
  "num_max a b = (if a = NaN \<or> b = NaN then NaN else if num_lt a b then b else a)"

fun num_abs :: "jsnum \<Rightarrow> jsnum" where
  "num_abs (Fin r) = Fin \<bar>r\<bar>"
| "num_abs NaN = NaN"
| "num_abs _ = PosInf"

text \<open>\<^verbatim>\<open>Math.round\<close>: halves go up.\<close>

fun num_round :: "jsnum \<Rightarrow> jsnum" where
  "num_round (Fin r) = Fin (of_int \<lfloor>r + 1 / 2\<rfloor>)"
| "num_round n = n"

fun isFinite :: "jsnum \<Rightarrow> bool" where
  "isFinite (Fin _) = True"
| "isFinite _ = False"

fun isInteger :: "jsnum \<Rightarrow> bool" where
  "isInteger (Fin r) = (of_int \<lfloor>r\<rfloor> = r)"
| "isInteger _ = False"

abbreviation num_of_int :: "int \<Rightarrow> jsnum" where
  "num_of_int i \<equiv> Fin (of_int i)"

subsection \<open>Numbers as text\<close>

text \<open>
  \<^verbatim>\<open>Number::toString\<close>: the shortest decimal that rounds to the number, of at most 17 digits,
  written as a decimal fraction or in exponent notation.
\<close>

definition ilog10 :: "rat \<Rightarrow> int" where
  "ilog10 r =
     (let (p, q) = quotient_of r;
          d = int (length (nat_str (nat p))) - int (length (nat_str (nat q)))
      in if r < pow10 d then d - 1 else d)"

fun shortest :: "nat \<Rightarrow> rat \<Rightarrow> int \<Rightarrow> int \<Rightarrow> nat \<times> int" where
  "shortest 0 m n k = (nat (round_even (m * pow10 (17 - n))), n)"
| "shortest (Suc fuel) m n k =
     (let s = round_even (m * pow10 (k - n))
      in if fl (of_int s * pow10 (n - k)) = Fin m
         then (if s = 10 ^ nat k then (1, n + 1) else (nat s, n))
         else shortest fuel m n (k + 1))"

definition decimal :: "nat \<Rightarrow> int \<Rightarrow> string" where
  "decimal s n =
     (let ds = nat_str s; k = int (length ds); zeros = (\<lambda>i. replicate (nat i) CHR ''0'')
      in if k \<le> n \<and> n \<le> 21 then ds @ zeros (n - k)
         else if 0 < n \<and> n \<le> 21 then take (nat n) ds @ ''.'' @ drop (nat n) ds
         else if - 6 < n \<and> n \<le> 0 then ''0.'' @ zeros (- n) @ ds
         else let e = n - 1;
                  ex = (if e < 0 then ''e-'' else ''e+'') @ nat_str (nat \<bar>e\<bar>)
              in if k = 1 then ds @ ex else take 1 ds @ ''.'' @ drop 1 ds @ ex)"

fun num_str :: "jsnum \<Rightarrow> string" where
  "num_str NaN = ''NaN''"
| "num_str PosInf = ''Infinity''"
| "num_str NegInf = ''-Infinity''"
| "num_str (Fin r) =
     (if r = 0 then ''0''
      else case shortest 16 \<bar>r\<bar> (ilog10 \<bar>r\<bar> + 1) 1 of
        (s, n) \<Rightarrow> (if r < 0 then ''-'' else []) @ decimal s n)"

text \<open>\<^verbatim>\<open>Number(text)\<close>: white space around it is ignored, the empty text is zero.\<close>

definition digits_val :: "nat \<Rightarrow> (char \<Rightarrow> nat option) \<Rightarrow> string \<Rightarrow> jsnum" where
  "digits_val base dv s =
     (if s \<noteq> [] \<and> (\<forall>c \<in> set s. case dv c of None \<Rightarrow> False | Some v \<Rightarrow> v < base)
      then fl (of_nat (foldl (\<lambda>a c. a * base + the (dv c)) 0 s)) else NaN)"

definition hex_val :: "char \<Rightarrow> nat option" where
  "hex_val c =
     (let n = code c in
      if 48 \<le> n \<and> n \<le> 57 then Some (n - 48)
      else if 97 \<le> n \<and> n \<le> 102 then Some (n - 87)
      else if 65 \<le> n \<and> n \<le> 70 then Some (n - 55) else None)"

definition dec_exponent :: "string \<Rightarrow> int option" where
  "dec_exponent s =
     (case s of
        [] \<Rightarrow> Some 0
      | c # r \<Rightarrow>
          if c \<noteq> CHR ''e'' \<and> c \<noteq> CHR ''E'' then None
          else let neg = (r \<noteq> [] \<and> hd r = CHR ''-'');
                   ds = (if r \<noteq> [] \<and> (hd r = CHR ''-'' \<or> hd r = CHR ''+'') then tl r else r)
               in if ds \<noteq> [] \<and> list_all is_digit ds
                  then Some (if neg then - int (nat_of_digits ds) else int (nat_of_digits ds)) else None)"

definition unsigned_decimal :: "string \<Rightarrow> jsnum" where
  "unsigned_decimal s =
     (if s = ''Infinity'' then PosInf
      else let ip = takeWhile is_digit s; r1 = dropWhile is_digit s;
               dot = (r1 \<noteq> [] \<and> hd r1 = CHR ''.'');
               fp = (if dot then takeWhile is_digit (tl r1) else []);
               r2 = (if dot then dropWhile is_digit (tl r1) else r1)
           in if ip @ fp = [] then NaN
              else case dec_exponent r2 of
                     None \<Rightarrow> NaN
                   | Some e \<Rightarrow> fl (of_nat (nat_of_digits (ip @ fp)) * pow10 (e - int (length fp))))"

definition str_num :: "string \<Rightarrow> jsnum" where
  "str_num text =
     (let s = trim text; rest = drop 2 s
      in if s = [] then Fin 0
         else if take 2 s = ''0x'' \<or> take 2 s = ''0X'' then digits_val 16 hex_val rest
         else if take 2 s = ''0o'' \<or> take 2 s = ''0O'' then digits_val 8 hex_val rest
         else if take 2 s = ''0b'' \<or> take 2 s = ''0B'' then digits_val 2 hex_val rest
         else if hd s = CHR ''-'' then num_neg (unsigned_decimal (tl s))
         else if hd s = CHR ''+'' then unsigned_decimal (tl s)
         else unsigned_decimal s)"

subsection \<open>Values\<close>

datatype jv =
    VUndef
  | VNull
  | VBool bool
  | VNum jsnum
  | VStr string
  | VArr "jv list"
  | VObj "(string \<times> jv) list"

type_synonym obj = "(string \<times> jv) list"

record platform =
  dateParse :: "string \<Rightarrow> int option"
  js_pow :: "jsnum \<Rightarrow> jsnum \<Rightarrow> jsnum"
  same_ref :: "jv \<Rightarrow> jv \<Rightarrow> bool"

definition lookup :: "string \<Rightarrow> obj \<Rightarrow> jv" where
  "lookup k o1 = (case map_of o1 k of Some v \<Rightarrow> v | None \<Rightarrow> VUndef)"

text \<open>\<^verbatim>\<open>[...new Set(xs)]\<close>: the first occurrence of each element.\<close>

definition dedup :: "'v list \<Rightarrow> 'v list" where
  "dedup xs = rev (remdups (rev xs))"

lemma set_dedup [simp]: "set (dedup xs) = set xs"
  by (simp add: dedup_def)

lemma distinct_dedup [simp]: "distinct (dedup xs)"
  by (simp add: dedup_def)

text \<open>\<^verbatim>\<open>o[k] = v\<close>, and \<^verbatim>\<open>delete o[k]\<close>.\<close>

definition obj_put :: "string \<Rightarrow> 'v \<Rightarrow> (string \<times> 'v) list \<Rightarrow> (string \<times> 'v) list" where
  "obj_put k v o1 =
     (if k \<in> fst ` set o1 then map (\<lambda>e. if fst e = k then (k, v) else e) o1 else o1 @ [(k, v)])"

definition obj_del :: "string \<Rightarrow> (string \<times> 'v) list \<Rightarrow> (string \<times> 'v) list" where
  "obj_del k o1 = filter (\<lambda>e. fst e \<noteq> k) o1"

definition is_nullish :: "jv \<Rightarrow> bool" where
  "is_nullish v \<longleftrightarrow> v = VNull \<or> v = VUndef"

definition is_object :: "jv \<Rightarrow> bool" where
  "is_object v \<longleftrightarrow> (case v of VArr _ \<Rightarrow> True | VObj _ \<Rightarrow> True | _ \<Rightarrow> False)"

fun val_str :: "jv \<Rightarrow> string" where
  "val_str VUndef = ''undefined''"
| "val_str VNull = ''null''"
| "val_str (VBool b) = (if b then ''true'' else ''false'')"
| "val_str (VNum n) = num_str n"
| "val_str (VStr s) = s"
| "val_str (VArr vs) =
     join '','' (map (\<lambda>v. case v of VNull \<Rightarrow> [] | VUndef \<Rightarrow> [] | _ \<Rightarrow> val_str v) vs)"
| "val_str (VObj _) = ''[object Object]''"

fun val_num :: "jv \<Rightarrow> jsnum" where
  "val_num VUndef = NaN"
| "val_num VNull = Fin 0"
| "val_num (VBool b) = (if b then Fin 1 else Fin 0)"
| "val_num (VNum n) = n"
| "val_num (VStr s) = str_num s"
| "val_num v = str_num (val_str v)"

fun js_bool :: "jv \<Rightarrow> bool" where
  "js_bool VUndef = False"
| "js_bool VNull = False"
| "js_bool (VBool b) = b"
| "js_bool (VNum n) = (n \<noteq> Fin 0 \<and> n \<noteq> NaN)"
| "js_bool (VStr s) = (s \<noteq> [])"
| "js_bool _ = True"

text \<open>\<^verbatim>\<open>===\<close> and \<^verbatim>\<open>==\<close>.\<close>

definition strict_eq :: "platform \<Rightarrow> jv \<Rightarrow> jv \<Rightarrow> bool" where
  "strict_eq P a b =
     (case (a, b) of
        (VNum x, VNum y) \<Rightarrow> num_eq x y
      | _ \<Rightarrow> if is_object a \<and> is_object b then a = b \<and> same_ref P a b else a = b)"

definition to_primitive :: "jv \<Rightarrow> jv" where
  "to_primitive v = (if is_object v then VStr (val_str v) else v)"

definition loose_eq :: "platform \<Rightarrow> jv \<Rightarrow> jv \<Rightarrow> bool" where
  "loose_eq P a b =
     (if is_nullish a \<or> is_nullish b then is_nullish a \<and> is_nullish b
      else if is_object a \<and> is_object b then strict_eq P a b
      else case (to_primitive a, to_primitive b) of
             (VStr x, VStr y) \<Rightarrow> x = y
           | (x, y) \<Rightarrow> num_eq (val_num x) (val_num y))"

text \<open>\<^verbatim>\<open>Array.prototype.includes\<close> (\<^verbatim>\<open>SameValueZero\<close>).\<close>

definition js_includes :: "platform \<Rightarrow> jv list \<Rightarrow> jv \<Rightarrow> bool" where
  "js_includes P vs v = list_ex (\<lambda>x. strict_eq P x v \<or> (x = VNum NaN \<and> v = VNum NaN)) vs"

text \<open>\<^verbatim>\<open>new Date(v).getTime()\<close>, \<open>None\<close> for an invalid date.\<close>

definition date_of :: "platform \<Rightarrow> jv \<Rightarrow> int option" where
  "date_of P v =
     (case to_primitive v of
        VStr s \<Rightarrow> dateParse P s
      | x \<Rightarrow> (case val_num x of
                Fin r \<Rightarrow> if \<bar>r\<bar> \<le> 8640000000000000 then Some (trunc r) else None
              | _ \<Rightarrow> None))"

text \<open>\<^verbatim>\<open>toISOString\<close> for every year: outside 0 to 9999 a sign and six digits.\<close>

definition iso_full :: "int \<Rightarrow> string" where
  "iso_full t =
     (case civil (t div 86400000) of (y, m, d) \<Rightarrow>
        if 0 \<le> y \<and> y \<le> 9999 then toISOString t
        else (if y < 0 then ''-'' else ''+'') @ zpad 6 (nat \<bar>y\<bar>) @ drop 4 (toISOString t))"

subsection \<open>JSON text of a value\<close>

text \<open>
  \<^verbatim>\<open>JSON.stringify\<close> of a value other than \<^verbatim>\<open>undefined\<close>: a key without a value is left out, an
  element without one is \<^verbatim>\<open>null\<close>, and so is a number that is not finite.
\<close>

fun val_json :: "jv \<Rightarrow> string" where
  "val_json VUndef = ''null''"
| "val_json VNull = ''null''"
| "val_json (VBool b) = (if b then ''true'' else ''false'')"
| "val_json (VNum n) = (if isFinite n then num_str n else ''null'')"
| "val_json (VStr s) = quote_str s"
| "val_json (VArr vs) = ''['' @ join '','' (map val_json vs) @ '']''"
| "val_json (VObj kvs) =
     ''{'' @ join '','' (concat (map (\<lambda>kv. if snd kv = VUndef then []
                                         else [quote_str (fst kv) @ '':'' @ val_json (snd kv)]) kvs)) @ ''}''"

fun val_sort :: "jv \<Rightarrow> jv" where
  "val_sort (VArr vs) = VArr (map val_sort vs)"
| "val_sort (VObj kvs) =
     VObj (sort_key fst (map (\<lambda>kv. (fst kv, val_sort (snd kv))) (filter (\<lambda>kv. snd kv \<noteq> VUndef) kvs)))"
| "val_sort v = v"

definition val_canonical :: "jv \<Rightarrow> string" where
  "val_canonical v = val_json (val_sort v)"

end
