(* ===== verification/RuleLogic.thy ===== *)
theory RuleLogic
  imports JsVal
begin

section \<open>Rule expressions and filters\<close>

text \<open>
  \<^verbatim>\<open>shared-kernel/json_logic.ts\<close>: an expression is a JSON value, an operator application an object
  with one key. Evaluation threads the number of steps taken and stops with an error past
  \<open>JSON_LOGIC_MAX_STEPS\<close>. \<^verbatim>\<open>shared-kernel/filter.ts\<close>: declarative filters over properties.
\<close>

definition JSON_LOGIC_MAX_STEPS :: nat where
  "JSON_LOGIC_MAX_STEPS = 1000"

definition OPS :: "string list" where
  "OPS = [''var'', ''if'', ''=='', ''!='', ''==='', ''!=='', ''>'', ''>='', ''<'', ''<='', ''!'', ''!!'',
          ''and'', ''or'', ''+'', ''-'', ''*'', ''/'', ''%'', ''min'', ''max'', ''in'', ''cat'', ''abs'',
          ''round'']"

fun get_path :: "jv \<Rightarrow> string list \<Rightarrow> jv" where
  "get_path cur [] = cur"
| "get_path cur (k # ks) =
     (case cur of
        VObj kvs \<Rightarrow> get_path (lookup k kvs) ks
      | VArr vs \<Rightarrow>
          get_path (if k = ''length'' then VNum (num_of_int (int (length vs)))
                    else if list_all is_digit k \<and> k = nat_str (nat_of_digits k) \<and> nat_of_digits k < length vs
                    then vs ! nat_of_digits k else VUndef) ks
      | _ \<Rightarrow> VUndef)"

definition getVar :: "jv \<Rightarrow> string \<Rightarrow> jv" where
  "getVar data path = (if path = [] then data else get_path data (split_on CHR ''.'' path))"

definition truthy :: "jv \<Rightarrow> bool" where
  "truthy v = (case v of VArr vs \<Rightarrow> vs \<noteq> [] | _ \<Rightarrow> js_bool v)"

text \<open>\<^verbatim>\<open>Array.isArray(raw) ? raw : [raw]\<close>.\<close>

definition args_of :: "jv \<Rightarrow> jv list" where
  "args_of raw = (case raw of VArr as \<Rightarrow> as | _ \<Rightarrow> [raw])"

definition nth_num :: "jsnum list \<Rightarrow> nat \<Rightarrow> jsnum" where
  "nth_num n i = (if i < length n then n ! i else NaN)"

definition nth_val :: "jv list \<Rightarrow> nat \<Rightarrow> jv" where
  "nth_val v i = (if i < length v then v ! i else VUndef)"

text \<open>The operators that evaluate all their arguments first.\<close>

definition apply_op :: "platform \<Rightarrow> string \<Rightarrow> jv list \<Rightarrow> jv" where
  "apply_op P opn v =
     (let n = map val_num v; a = nth_num n 0; b = nth_num n 1; c = nth_num n 2;
          places = (if b = NaN \<or> b = Fin 0 then Fin 0 else b)
      in if opn = ''=='' then VBool (loose_eq P (nth_val v 0) (nth_val v 1))
         else if opn = ''!='' then VBool (\<not> loose_eq P (nth_val v 0) (nth_val v 1))
         else if opn = ''==='' then VBool (strict_eq P (nth_val v 0) (nth_val v 1))
         else if opn = ''!=='' then VBool (\<not> strict_eq P (nth_val v 0) (nth_val v 1))
         else if opn = ''>'' then VBool (num_lt b a)
         else if opn = ''>='' then VBool (num_le b a)
         else if opn = ''<'' then VBool (if length v = 3 then num_lt a b \<and> num_lt b c else num_lt a b)
         else if opn = ''<='' then VBool (if length v = 3 then num_le a b \<and> num_le b c else num_le a b)
         else if opn = ''!'' then VBool (\<not> truthy (nth_val v 0))
         else if opn = ''!!'' then VBool (truthy (nth_val v 0))
         else if opn = ''+'' then VNum (foldl num_add (Fin 0) n)
         else if opn = ''-'' then VNum (if length n = 1 then num_neg a else num_sub a b)
         else if opn = ''*'' then VNum (foldl num_mul (Fin 1) n)
         else if opn = ''/'' then (if b = Fin 0 then VNull else VNum (num_div a b))
         else if opn = ''%'' then (if b = Fin 0 then VNull else VNum (num_mod a b))
         else if opn = ''min'' then VNum (foldl num_min PosInf n)
         else if opn = ''max'' then VNum (foldl num_max NegInf n)
         else if opn = ''abs'' then VNum (num_abs a)
         else if opn = ''round'' then
           VNum (num_div (num_round (num_mul a (js_pow P (Fin 10) places))) (js_pow P (Fin 10) places))
         else if opn = ''cat'' then
           VStr (concat (map (\<lambda>x. if is_nullish x then [] else val_str x) v))
         else \<comment> \<open>in\<close>
           (case nth_val v 1 of
              VArr xs \<Rightarrow> VBool (js_includes P xs (nth_val v 0))
            | VStr s \<Rightarrow> VBool (has_sub (val_str (nth_val v 0)) s)
            | _ \<Rightarrow> VBool False))"

definition unsupported :: "string \<Rightarrow> AppError" where
  "unsupported opn = app_error_d VALIDATION_FAILED (''Unsupported operator: '' @ opn)"

definition step_limit :: AppError where
  "step_limit = app_error_d VALIDATION_FAILED ''Expression exceeded the step limit''"

text \<open>
  \<open>run\<close> is the closure of \<^verbatim>\<open>evalLogic\<close>; \<open>run_list\<close> is \<^verbatim>\<open>map(run)\<close>, the others are the loops of
  \<^verbatim>\<open>if\<close>, \<^verbatim>\<open>and\<close> and \<^verbatim>\<open>or\<close>. The state is the step counter.
\<close>

definition tick_step :: "(nat, AppError, unit) eff" where
  "tick_step = (\<lambda>n. if JSON_LOGIC_MAX_STEPS < Suc n then (Inl step_limit, Suc n) else (Inr (), Suc n))"

lemma size_args_of_list: "size_list size (args_of raw) \<le> Suc (size raw)"
  by (cases raw) (auto simp: args_of_def)

lemma double_args [simp]: "2 * size_list size (args_of raw) \<le> Suc (Suc (Suc (Suc (2 * size raw))))"
  using size_args_of_list[of raw] by simp

lemma size_arg_hd: "args_of raw = a # rest \<Longrightarrow> 2 * size a \<le> Suc (Suc (Suc (Suc (Suc (2 * size raw)))))"
  using size_args_of_list[of raw] by simp

lemma size_arg_snd: "args_of raw = a # b # rest \<Longrightarrow> 2 * size b \<le> Suc (Suc (Suc (Suc (Suc (2 * size raw)))))"
  using size_args_of_list[of raw] by simp

function (sequential)
  run_logic :: "platform \<Rightarrow> jv \<Rightarrow> jv \<Rightarrow> (nat, AppError, jv) eff"
  and run_list :: "platform \<Rightarrow> jv \<Rightarrow> jv list \<Rightarrow> (nat, AppError, jv list) eff"
  and run_if :: "platform \<Rightarrow> jv \<Rightarrow> jv list \<Rightarrow> (nat, AppError, jv) eff"
  and run_and :: "platform \<Rightarrow> jv \<Rightarrow> jv \<Rightarrow> jv list \<Rightarrow> (nat, AppError, jv) eff"
  and run_or :: "platform \<Rightarrow> jv \<Rightarrow> jv \<Rightarrow> jv list \<Rightarrow> (nat, AppError, jv) eff"
where
  "run_logic P d e =
     thn tick_step
       (case e of
          VArr es \<Rightarrow> bnd (run_list P d es) (\<lambda>vs. ret (VArr vs))
        | VObj [(opn, raw)] \<Rightarrow>
            (if opn \<notin> set OPS then throw (unsupported opn)
             else if opn = ''var'' then
               (case args_of raw of
                  [] \<Rightarrow> thn tick_step (ret (getVar d []))
                | a # rest \<Rightarrow>
                    bnd (run_logic P d a) (\<lambda>path.
                      let v = getVar d (if is_nullish path then [] else val_str path)
                      in case rest of
                           [] \<Rightarrow> ret v
                         | b # _ \<Rightarrow> if v = VUndef then run_logic P d b else ret v))
             else if opn = ''if'' then run_if P d (args_of raw)
             else if opn = ''and'' then run_and P d (VBool True) (args_of raw)
             else if opn = ''or'' then run_or P d (VBool False) (args_of raw)
             else bnd (run_list P d (args_of raw)) (\<lambda>vs. ret (apply_op P opn vs)))
        | _ \<Rightarrow> ret e)"
| "run_list P d [] = ret []"
| "run_list P d (e # es) = bnd (run_logic P d e) (\<lambda>v. bnd (run_list P d es) (\<lambda>vs. ret (v # vs)))"
| "run_if P d [] = ret VNull"
| "run_if P d [e] = run_logic P d e"
| "run_if P d (c # t # es) =
     bnd (run_logic P d c) (\<lambda>v. if truthy v then run_logic P d t else run_if P d es)"
| "run_and P d prev [] = ret prev"
| "run_and P d prev (e # es) =
     bnd (run_logic P d e) (\<lambda>v. if \<not> truthy v then ret v else run_and P d v es)"
| "run_or P d prev [] = ret prev"
| "run_or P d prev (e # es) =
     bnd (run_logic P d e) (\<lambda>v. if truthy v then ret v else run_or P d v es)"
  by pat_completeness auto

termination
  apply (relation "measure (\<lambda>x. case x of
       Inl (Inl (P, d, e)) \<Rightarrow> 2 * size e
     | Inl (Inr (P, d, es)) \<Rightarrow> 2 * size_list size es + 1
     | Inr (Inl (P, d, es)) \<Rightarrow> 2 * size_list size es + 1
     | Inr (Inr (Inl (P, d, v, es))) \<Rightarrow> 2 * size_list size es + 1
     | Inr (Inr (Inr (P, d, v, es))) \<Rightarrow> 2 * size_list size es + 1)")
  apply (auto simp: less_Suc_eq_le size_arg_hd size_arg_snd)
  done

declare run_logic.simps [simp del]

definition evalLogic :: "platform \<Rightarrow> jv \<Rightarrow> jv \<Rightarrow> AppError + jv" where
  "evalLogic P e d = fst (run_logic P d e 0)"

text \<open>\<^verbatim>\<open>assertLogic\<close>: operator names are checked without evaluating.\<close>

fun assertLogic :: "jv \<Rightarrow> AppError + unit" and assert_all :: "jv list \<Rightarrow> AppError + unit" where
  "assertLogic (VArr es) = assert_all es"
| "assertLogic (VObj kvs) =
     (case kvs of
        [(opn, raw)] \<Rightarrow> if opn \<notin> set OPS then Inl (unsupported opn) else assert_all (map snd kvs)
      | _ \<Rightarrow> assert_all (map snd kvs))"
| "assertLogic _ = Inr ()"
| "assert_all [] = Inr ()"
| "assert_all (e # es) = (case assertLogic e of Inl x \<Rightarrow> Inl x | Inr _ \<Rightarrow> assert_all es)"

text \<open>\<^verbatim>\<open>logicVars\<close>: the top-level names an expression reads, in order of first use.\<close>

fun var_uses :: "jv \<Rightarrow> string list" where
  "var_uses (VArr es) = concat (map var_uses es)"
| "var_uses (VObj kvs) =
     concat (map (\<lambda>kv.
       if fst kv = ''var'' then
         (case (case snd kv of VArr [] \<Rightarrow> VUndef | VArr (a # _) \<Rightarrow> a | v \<Rightarrow> v) of
            VStr s \<Rightarrow> if s = [] then [] else [hd (split_on CHR ''.'' s)]
          | _ \<Rightarrow> [])
       else var_uses (snd kv)) kvs)"
| "var_uses _ = []"

definition logicVars :: "jv \<Rightarrow> string list" where
  "logicVars e = dedup (var_uses e)"

subsection \<open>filter.ts\<close>

datatype FilterValue = FStr string | FNum jsnum | FBool bool

datatype CmpOp = Fgt | Fgte | Flt | Flte

datatype FilterExpr =
    FAnd "FilterExpr list"
  | FOr "FilterExpr list"
  | FNot FilterExpr
  | FEq string FilterValue
  | FNeq string FilterValue
  | FCmp CmpOp string FilterValue
  | FIn string "FilterValue list"
  | FContains string string
  | FExists string

fun fval :: "FilterValue \<Rightarrow> jv" where
  "fval (FStr s) = VStr s"
| "fval (FNum n) = VNum n"
| "fval (FBool b) = VBool b"

text \<open>\<^verbatim>\<open>===\<close> with a primitive on the right.\<close>

definition prim_eq :: "jv \<Rightarrow> FilterValue \<Rightarrow> bool" where
  "prim_eq v f = (case (v, f) of (VNum x, FNum y) \<Rightarrow> num_eq x y | _ \<Rightarrow> v = fval f)"

fun filterProps :: "FilterExpr \<Rightarrow> string list" where
  "filterProps (FAnd es) = dedup (concat (map filterProps es))"
| "filterProps (FOr es) = dedup (concat (map filterProps es))"
| "filterProps (FNot e) = filterProps e"
| "filterProps (FEq p _) = [p]"
| "filterProps (FNeq p _) = [p]"
| "filterProps (FCmp _ p _) = [p]"
| "filterProps (FIn p _) = [p]"
| "filterProps (FContains p _) = [p]"
| "filterProps (FExists p) = [p]"

text \<open>\<^verbatim>\<open>compare\<close>: numbers by difference, everything else as text; \<open>None\<close> for an absent value.\<close>

definition filter_compare :: "jv \<Rightarrow> FilterValue \<Rightarrow> jsnum option" where
  "filter_compare a b =
     (case (a, b) of
        (VNum x, FNum y) \<Rightarrow> Some (num_sub x y)
      | _ \<Rightarrow> if is_nullish a then None
             else let sa = val_str a; sb = val_str (fval b)
                  in Some (if sa < sb then Fin (- 1) else if sb < sa then Fin 1 else Fin 0))"

fun cmp_holds :: "CmpOp \<Rightarrow> jsnum \<Rightarrow> bool" where
  "cmp_holds Fgt c = num_lt (Fin 0) c"
| "cmp_holds Fgte c = num_le (Fin 0) c"
| "cmp_holds Flt c = num_lt c (Fin 0)"
| "cmp_holds Flte c = num_le c (Fin 0)"

fun match_expr :: "FilterExpr \<Rightarrow> obj \<Rightarrow> bool" where
  "match_expr (FAnd es) props = list_all (\<lambda>e. match_expr e props) es"
| "match_expr (FOr es) props = list_ex (\<lambda>e. match_expr e props) es"
| "match_expr (FNot e) props = (\<not> match_expr e props)"
| "match_expr (FExists p) props = (\<not> is_nullish (lookup p props))"
| "match_expr (FIn p vs) props = list_ex (prim_eq (lookup p props)) vs"
| "match_expr (FContains p s) props =
     (case lookup p props of VStr v \<Rightarrow> has_sub (to_lower s) (to_lower v) | _ \<Rightarrow> False)"
| "match_expr (FEq p v) props = prim_eq (lookup p props) v"
| "match_expr (FNeq p v) props = (\<not> prim_eq (lookup p props) v)"
| "match_expr (FCmp c p v) props =
     (case filter_compare (lookup p props) v of None \<Rightarrow> False | Some d \<Rightarrow> cmp_holds c d)"

definition matchFilter :: "FilterExpr option \<Rightarrow> obj \<Rightarrow> bool" where
  "matchFilter e props = (case e of None \<Rightarrow> True | Some f \<Rightarrow> match_expr f props)"

subsection \<open>A checked expression evaluates\<close>

text \<open>The nodes of an expression; every node is evaluated at most once.\<close>

fun logic_nodes :: "jv \<Rightarrow> nat" where
  "logic_nodes (VArr es) = Suc (sum_list (map logic_nodes es))"
| "logic_nodes (VObj kvs) = Suc (sum_list (map (\<lambda>kv. logic_nodes (snd kv)) kvs))"
| "logic_nodes _ = 1"

abbreviation nodes_all :: "jv list \<Rightarrow> nat" where
  "nodes_all es \<equiv> sum_list (map logic_nodes es)"

definition returns_within :: "(nat, AppError, 'a) eff \<Rightarrow> nat \<Rightarrow> bool" where
  "returns_within m k \<longleftrightarrow>
     (\<forall>n. n + k \<le> JSON_LOGIC_MAX_STEPS \<longrightarrow> (\<exists>v n'. m n = (Inr v, n') \<and> n' \<le> n + k))"

lemma returns_within_mono: "returns_within m k \<Longrightarrow> k \<le> l \<Longrightarrow> returns_within m l"
  unfolding returns_within_def by (meson add_left_mono order_trans)

lemma returns_more: "returns_within m k \<Longrightarrow> returns_within m (k + l)"
  by (rule returns_within_mono) auto

lemma returns_ret: "returns_within (ret v) k"
  by (simp add: returns_within_def)

lemma returns_bnd:
  assumes "returns_within m k" "\<And>v. returns_within (f v) l" "k + l \<le> j"
  shows "returns_within (bnd m f) j"
  unfolding returns_within_def
proof (intro allI impI)
  fix n assume n: "n + j \<le> JSON_LOGIC_MAX_STEPS"
  with assms obtain v n' where 1: "m n = (Inr v, n')" "n' \<le> n + k"
    unfolding returns_within_def by (meson add_leD1 add_left_mono order_trans)
  with assms n have "n' + l \<le> JSON_LOGIC_MAX_STEPS" by linarith
  with assms(2) obtain u n'' where "f v n' = (Inr u, n'')" "n'' \<le> n' + l"
    unfolding returns_within_def by blast
  with 1 assms(3) show "\<exists>v n'. bnd m f n = (Inr v, n') \<and> n' \<le> n + j" by auto
qed

lemma returns_tick: "returns_within m k \<Longrightarrow> Suc k \<le> j \<Longrightarrow> returns_within (thn tick_step m) j"
  unfolding thn_def by (rule returns_bnd[of _ 1]) (auto simp: returns_within_def tick_step_def)

lemma assert_args: "assertLogic raw = Inr () \<Longrightarrow> assert_all (args_of raw) = Inr ()"
  by (cases raw) (auto simp: args_of_def)

lemma nodes_args: "nodes_all (args_of raw) \<le> logic_nodes raw"
  by (cases raw) (auto simp: args_of_def)

lemma assert_Cons [simp]:
  "assert_all (e # es) = Inr () \<longleftrightarrow> assertLogic e = Inr () \<and> assert_all es = Inr ()"
  by (auto split: sum.splits)

lemma assert_op:
  "assertLogic (VObj [(opn, raw)]) = Inr () \<longleftrightarrow> opn \<in> set OPS \<and> assertLogic raw = Inr ()"
  by (auto split: sum.splits)

declare assert_all.simps(2) [simp del]

lemma run_lists:
  assumes "\<And>e. e \<in> set es \<Longrightarrow> assertLogic e = Inr () \<Longrightarrow> returns_within (run_logic P d e) (logic_nodes e)"
    and "assert_all es = Inr ()"
  shows run_list_returns: "returns_within (run_list P d es) (nodes_all es)"
    and run_and_returns: "returns_within (run_and P d v es) (nodes_all es)"
    and run_or_returns: "returns_within (run_or P d v es) (nodes_all es)"
    and run_if_returns: "returns_within (run_if P d es) (nodes_all es)"
proof -
  show "returns_within (run_list P d es) (nodes_all es)"
    using assms by (induction es) (auto intro!: returns_ret returns_bnd)
  show "returns_within (run_and P d v es) (nodes_all es)"
    using assms by (induction es arbitrary: v) (auto intro!: returns_ret returns_bnd)
  show "returns_within (run_or P d v es) (nodes_all es)"
    using assms by (induction es arbitrary: v) (auto intro!: returns_ret returns_bnd)
  show "returns_within (run_if P d es) (nodes_all es)"
    using assms
  proof (induction es rule: induct_list012)
    case (3 c t es)
    then have "returns_within (if truthy v then run_logic P d t else run_if P d es)
        (logic_nodes t + nodes_all es)" for v
      by (auto intro: returns_within_mono[of _ "logic_nodes t"] returns_within_mono[of _ "nodes_all es"])
    with 3 show ?case by (auto intro!: returns_bnd)
  qed (auto intro!: returns_ret)
qed

lemma args_smaller: "a \<in> set (args_of raw) \<Longrightarrow> size a < Suc (Suc (size raw))"
  using size_args_of_list[of raw] size_list_estimation'[of a "args_of raw" "size a" size] by simp

lemma run_returns:
  "assertLogic e = Inr () \<Longrightarrow> returns_within (run_logic P d e) (logic_nodes e)"
proof (induction e rule: measure_induct_rule[of size])
  case (less e)
  show ?case
  proof (cases e)
    case (VArr es)
    then have "returns_within (run_list P d es) (nodes_all es)"
      using less by (intro run_list_returns) (auto simp: less_Suc_eq_le size_list_estimation')
    with VArr show ?thesis
      by (subst run_logic.simps) (auto intro!: returns_tick returns_bnd[OF _ returns_ret[of _ 0]])
  next
    case (VObj kvs)
    show ?thesis
    proof (cases "\<exists>opn raw. kvs = [(opn, raw)]")
      case False
      with VObj show ?thesis
        by (subst run_logic.simps)
           (auto intro!: returns_tick[of _ 0] returns_ret split: list.splits prod.splits)
    next
      case True
      then obtain opn raw where e: "e = VObj [(opn, raw)]" using VObj by auto
      with less.prems have op: "opn \<in> set OPS" and raw: "assertLogic raw = Inr ()"
        by (simp_all only: assert_op)
      let ?as = "args_of raw"
      have A: "assert_all ?as = Inr ()" using raw by (rule assert_args)
      have N: "nodes_all ?as \<le> logic_nodes raw" by (rule nodes_args)
      have IH: "returns_within (run_logic P d a) (logic_nodes a)"
        if "a \<in> set ?as" "assertLogic a = Inr ()" for a
        using less.IH[of a] that e args_smaller[of a raw] by auto
      have var: "returns_within (case ?as of
            [] \<Rightarrow> thn tick_step (ret (getVar d []))
          | a # rest \<Rightarrow>
              bnd (run_logic P d a) (\<lambda>path.
                let v = getVar d (if is_nullish path then [] else val_str path)
                in case rest of
                     [] \<Rightarrow> ret v
                   | b # _ \<Rightarrow> if v = VUndef then run_logic P d b else ret v)) (logic_nodes raw)"
      proof (cases ?as)
        case Nil
        then have "logic_nodes raw = 1" by (cases raw) (auto simp: args_of_def)
        with Nil show ?thesis by (auto intro!: returns_tick[of _ 0] returns_ret)
      next
        case (Cons a rest)
        with A IH N show ?thesis
          by (auto simp: Let_def intro!: returns_bnd[of _ "logic_nodes a" _ "nodes_all rest"] returns_ret returns_more
              split: list.split)
      qed
      show ?thesis
        using var e op N
        by (subst run_logic.simps)
           (auto intro!: returns_tick[of _ "logic_nodes raw"]
              returns_within_mono[OF run_if_returns[OF IH A] N]
              returns_within_mono[OF run_and_returns[OF IH A] N]
              returns_within_mono[OF run_or_returns[OF IH A] N]
              returns_bnd[OF run_list_returns[OF IH A] returns_ret[of _ 0]])
    qed
  qed (subst run_logic.simps, auto intro!: returns_tick[of _ 0] returns_ret)+
qed


definition demo_platform :: platform where
  "demo_platform = \<lparr>dateParse = (\<lambda>_. Some 0), js_pow = (\<lambda>_ _. Fin 1), same_ref = (\<lambda>_ _. True)\<rparr>"

definition demo_expr :: jv where
  "demo_expr = VObj [(''if'', VArr [VObj [(''var'', VStr ''a'')], VArr [VNull, VBool True], VStr ''no''])]"


end
