(* ===== verification/PropRules.thy ===== *)
theory PropRules
  imports RuleLogic
begin

section \<open>The ontology's schema and the validation of properties\<close>

text \<open>
  \<^verbatim>\<open>packages/ontology/contract\<close>: the types of \<^verbatim>\<open>schema.ts\<close> and \<^verbatim>\<open>validateProps\<close> of
  \<^verbatim>\<open>validate_props.ts\<close>, which the import and the object graph share. An optional flag that is absent is
  \<open>False\<close>; a lookup in a record of definitions is by its own keys.
\<close>

datatype DataType =
    DtString | DtInteger | DtDouble | DtBoolean | DtDate | DtTimestamp | DtGeopoint | DtEnum
  | DtRef string

fun dataType_str :: "DataType \<Rightarrow> string" where
  "dataType_str DtString = ''string''"
| "dataType_str DtInteger = ''integer''"
| "dataType_str DtDouble = ''double''"
| "dataType_str DtBoolean = ''boolean''"
| "dataType_str DtDate = ''date''"
| "dataType_str DtTimestamp = ''timestamp''"
| "dataType_str DtGeopoint = ''geopoint''"
| "dataType_str DtEnum = ''enum''"
| "dataType_str (DtRef t) = ''objectRef:'' @ t"

record PropertyDef =
  pd_apiName :: string
  pd_displayName :: I18nText
  pd_dataType :: DataType
  pd_required :: bool
  pd_unit :: "string option"
  pd_indexed :: bool
  pd_semanticTags :: "string list option"
  pd_sensitive :: bool
  pd_enumValues :: "string list option"
  pd_description :: "I18nText option"

record ObjectTypeDef =
  ot_apiName :: string
  ot_displayName :: I18nText
  ot_icon :: "string option"
  ot_primaryKey :: string
  ot_titleProperty :: string
  ot_properties :: "PropertyDef list"
  ot_description :: "I18nText option"

record CompiledObjectType = ObjectTypeDef +
  ct_propsByName :: "(string \<times> PropertyDef) list"
  ct_indexedProps :: "string list"
  ct_sensitiveProps :: "string list"

record LinkTypeDef =
  lt_apiName :: string
  lt_displayName :: I18nText
  lt_from :: string
  lt_to :: string
  lt_many :: bool
  lt_propagation :: "jsnum option"

datatype LinkDir = DirIn | DirOut

record ParamSuggestDef =
  sg_objectType :: string
  sg_filter :: "FilterExpr option"
  sg_orderBy :: "string \<times> bool" \<comment> \<open>the property, descending\<close>
  sg_sharesLink :: "(string \<times> LinkDir) option"

record ParamDef =
  pa_apiName :: string
  pa_displayName :: I18nText
  pa_dataType :: DataType
  pa_required :: bool
  pa_defaultValue :: jv
  pa_suggest :: "ParamSuggestDef option"

record PreconditionDef =
  pre_expr :: jv
  pre_message :: I18nText

datatype EffectDef =
    ESet string jv
  | EIncrement string jv
  | ERelink string LinkDir string
  | EUnlink string LinkDir "string option"

record ImpactHint =
  ih_property :: string
  ih_change :: jsnum

record ActionTypeDef =
  at_apiName :: string
  at_displayName :: I18nText
  at_targetType :: string
  at_parameters :: "ParamDef list"
  at_preconditions :: "PreconditionDef list"
  at_effects :: "EffectDef list"
  at_impact :: "ImpactHint list option"
  at_description :: "I18nText option"

record FunctionDef =
  fd_apiName :: string
  fd_objectType :: "string option"
  fd_expr :: jv
  fd_returns :: DataType

record SimulationKpiDef =
  sk_apiName :: string
  sk_displayName :: I18nText
  sk_objectType :: string
  sk_property :: "string option"
  sk_agg :: string
  sk_unit :: "string option"
  sk_higherIsBetter :: bool

record CompiledSchema =
  cs_templateId :: string
  cs_templateVersion :: string
  cs_custom :: bool
  cs_etag :: int
  cs_objectTypes :: "(string \<times> CompiledObjectType) list"
  cs_linkTypes :: "(string \<times> LinkTypeDef) list"
  cs_actionTypes :: "(string \<times> ActionTypeDef) list"
  cs_functions :: "(string \<times> FunctionDef) list"
  cs_simulationKpis :: "SimulationKpiDef list"
  cs_indexPlan :: "(string \<times> string) list"

subsection \<open>validate\_props.ts\<close>

datatype PropErrorCode = PeREQUIRED | PeTYPE | PeENUM | PeUNKNOWN_PROPERTY

fun prop_error_name :: "PropErrorCode \<Rightarrow> string" where
  "prop_error_name PeREQUIRED = ''REQUIRED''"
| "prop_error_name PeTYPE = ''TYPE''"
| "prop_error_name PeENUM = ''ENUM''"
| "prop_error_name PeUNKNOWN_PROPERTY = ''UNKNOWN_PROPERTY''"

record PropError =
  pe_prop :: string
  pe_code :: PropErrorCode
  pe_detail :: string

definition is_empty_value :: "jv \<Rightarrow> bool" where
  "is_empty_value v \<longleftrightarrow> v = VNull \<or> v = VUndef \<or> v = VStr []"

text \<open>A number, or the number of the text without its thousands separators.\<close>

definition num_or_parsed :: "jv \<Rightarrow> jsnum" where
  "num_or_parsed v =
     (case v of VNum n \<Rightarrow> n | _ \<Rightarrow> str_num (filter (\<lambda>c. c \<noteq> CHR '','') (val_str v)))"

text \<open>\<^verbatim>\<open>-?\d+(\.\d+)?\<close>\<close>

definition plain_decimal :: "string \<Rightarrow> bool" where
  "plain_decimal s =
     (let u = (if s \<noteq> [] \<and> hd s = CHR ''-'' then tl s else s);
          r = dropWhile is_digit u
      in takeWhile is_digit u \<noteq> []
         \<and> (r = [] \<or> hd r = CHR ''.'' \<and> tl r \<noteq> [] \<and> list_all is_digit (tl r)))"

definition parse_geopoint :: "string \<Rightarrow> jv option" where
  "parse_geopoint s =
     (case split_on CHR '','' s of
        [a, b] \<Rightarrow>
          if plain_decimal (trim a) \<and> plain_decimal (trim b)
          then Some (VObj [(''lat'', VNum (str_num a)), (''lon'', VNum (str_num b))]) else None
      | _ \<Rightarrow> None)"

definition coerce :: "platform \<Rightarrow> jv \<Rightarrow> DataType \<Rightarrow> PropertyDef \<Rightarrow> bool \<times> jv" where
  "coerce P v type pd =
     (if is_empty_value v then (True, VNull)
      else case type of
        DtString \<Rightarrow> (True, VStr (val_str v))
      | DtInteger \<Rightarrow>
          (case num_or_parsed v of Fin r \<Rightarrow> (True, VNum (num_of_int (trunc r))) | _ \<Rightarrow> (False, v))
      | DtDouble \<Rightarrow>
          (case num_or_parsed v of Fin r \<Rightarrow> (True, VNum (Fin r)) | _ \<Rightarrow> (False, v))
      | DtBoolean \<Rightarrow>
          (case v of
             VBool b \<Rightarrow> (True, VBool b)
           | _ \<Rightarrow> let s = to_lower (val_str v)
                 in if s \<in> {''true'', ''1'', ''yes'', ''y''} then (True, VBool True)
                    else if s \<in> {''false'', ''0'', ''no'', ''n''} then (True, VBool False)
                    else (False, v))
      | DtDate \<Rightarrow>
          (case date_of P v of None \<Rightarrow> (False, v) | Some t \<Rightarrow> (True, VStr (take 10 (iso_full t))))
      | DtTimestamp \<Rightarrow>
          (case date_of P v of None \<Rightarrow> (False, v) | Some t \<Rightarrow> (True, VStr (iso_full t)))
      | DtGeopoint \<Rightarrow>
          (case v of
             VObj kvs \<Rightarrow>
               if {''lat'', ''lon''} \<subseteq> fst ` set kvs then (True, v)
               else (case parse_geopoint (val_str v) of None \<Rightarrow> (False, v) | Some g \<Rightarrow> (True, g))
           | _ \<Rightarrow> (case parse_geopoint (val_str v) of None \<Rightarrow> (False, v) | Some g \<Rightarrow> (True, g)))
      | DtEnum \<Rightarrow>
          (let s = val_str v
           in (case pd_enumValues pd of None \<Rightarrow> True | Some xs \<Rightarrow> s \<in> set xs, VStr s))
      | DtRef _ \<Rightarrow> (True, VStr (val_str v)))"

type_synonym PropValidation = "obj \<times> PropError list"

definition validate_one :: "platform \<Rightarrow> bool \<Rightarrow> obj \<Rightarrow> PropertyDef \<Rightarrow> PropValidation \<Rightarrow> PropValidation" where
  "validate_one P partial input pd acc =
     (case acc of (props, errors) \<Rightarrow>
        if pd_apiName pd \<notin> fst ` set input \<and> partial then acc
        else case coerce P (lookup (pd_apiName pd) input) (pd_dataType pd) pd of
          (ok, v) \<Rightarrow>
            if \<not> ok then
              (props, errors @ [\<lparr>pe_prop = pd_apiName pd,
                 pe_code = (if pd_dataType pd = DtEnum then PeENUM else PeTYPE),
                 pe_detail = ''Expected '' @ dataType_str (pd_dataType pd)\<rparr>])
            else if is_nullish v \<and> pd_required pd then
              (props, errors @ [\<lparr>pe_prop = pd_apiName pd, pe_code = PeREQUIRED,
                 pe_detail = ''Value is required''\<rparr>])
            else if \<not> is_nullish v then (obj_put (pd_apiName pd) v props, errors)
            else acc)"

definition unknown_errors :: "CompiledObjectType \<Rightarrow> obj \<Rightarrow> PropError list" where
  "unknown_errors type input =
     map (\<lambda>kv. \<lparr>pe_prop = fst kv, pe_code = PeUNKNOWN_PROPERTY, pe_detail = ''Not defined in schema''\<rparr>)
       (filter (\<lambda>kv. fst kv \<notin> fst ` set (ct_propsByName type)) input)"

definition validateProps :: "platform \<Rightarrow> CompiledObjectType \<Rightarrow> obj \<Rightarrow> bool \<Rightarrow> bool \<Rightarrow> PropValidation" where
  "validateProps P type input strict partial =
     (case fold (validate_one P partial input) (ot_properties type) ([], []) of
        (props, errors) \<Rightarrow> (props, if strict then errors @ unknown_errors type input else errors))"

definition indexValue :: "jv \<Rightarrow> jsnum option \<times> string option" where
  "indexValue v =
     (case v of
        VNum n \<Rightarrow> (Some n, None)
      | VBool b \<Rightarrow> (Some (if b then Fin 1 else Fin 0), None)
      | VNull \<Rightarrow> (None, None)
      | VUndef \<Rightarrow> (None, None)
      | VStr s \<Rightarrow> (None, Some s)
      | _ \<Rightarrow> (None, Some (val_json v)))"

end
