(* ===== verification/GraphRules.thy ===== *)
theory GraphRules
  imports PropRules
begin

section \<open>The rules of the object graph\<close>

text \<open>
  The pure rules of \<^verbatim>\<open>packages/object-graph/domain\<close>: merge and merge patch
  (\<^verbatim>\<open>conflict_resolution.ts\<close>), the projection of stored objects (\<^verbatim>\<open>stored_object.ts\<close>), query
  planning (\<^verbatim>\<open>object_set_eval.ts\<close>), subgraphs (\<^verbatim>\<open>traversal.ts\<close>), event splitting
  (\<^verbatim>\<open>domain_events.ts\<close>) and the execution of actions (\<^verbatim>\<open>action_execution.ts\<close>). A result of type
  \<open>AppError + 'a\<close> is what the function throws or returns.
\<close>

subsection \<open>Events and provenance (shared-kernel/domain\_event.ts)\<close>

datatype DomainEventKind = ObjectsUpserted | ObjectPatched | ActionExecuted

record ObjectChangeRef =
  oc_rid :: string
  oc_type :: string
  oc_changed :: "string list"

record DomainEventMsg =
  ev_id :: string
  ev_tid :: string
  ev_occurredAt :: int
  ev_kind :: DomainEventKind
  ev_jobId :: "string option"
  ev_actionLogId :: "string option"
  ev_recommendationId :: "string option"
  ev_changes :: "ObjectChangeRef list"

record Provenance =
  pv_jobId :: string
  pv_row :: int
  pv_at :: int

type_synonym provs = "(string \<times> Provenance) list"

subsection \<open>conflict\_resolution.ts\<close>

record PropState =
  ps_props :: obj
  ps_provenance :: provs

type_synonym MergeOutcome = "PropState \<times> string list"

text \<open>\<^verbatim>\<open>isEmptyValue\<close> is \<open>is_empty_value\<close>, the same test as in \<^verbatim>\<open>coerce\<close>.\<close>

definition isEmptyValue :: "jv \<Rightarrow> bool" where
  "isEmptyValue v = is_empty_value v"

definition or_null :: "jv \<Rightarrow> jv" where
  "or_null v = (if is_nullish v then VNull else v)"

definition sameValue :: "jv \<Rightarrow> jv \<Rightarrow> bool" where
  "sameValue a b \<longleftrightarrow> val_canonical (or_null a) = val_canonical (or_null b)"

definition merge_one ::
  "Provenance \<Rightarrow> string \<times> jv \<Rightarrow> obj \<times> provs \<times> string list \<Rightarrow> obj \<times> provs \<times> string list" where
  "merge_one pv kv acc =
     (case acc of (props, prov, changed) \<Rightarrow>
        if isEmptyValue (snd kv) then acc
        else if fst kv \<in> fst ` set props \<and> sameValue (lookup (fst kv) props) (snd kv) then acc
        else (obj_put (fst kv) (snd kv) props, obj_put (fst kv) pv prov, changed @ [fst kv]))"

definition mergeLatestWins :: "PropState option \<Rightarrow> obj \<Rightarrow> Provenance \<Rightarrow> MergeOutcome" where
  "mergeLatestWins current incoming pv =
     (case fold (merge_one pv) incoming
             (case current of None \<Rightarrow> ([], [], []) | Some s \<Rightarrow> (ps_props s, ps_provenance s, [])) of
        (props, prov, changed) \<Rightarrow> (\<lparr>ps_props = props, ps_provenance = prov\<rparr>, changed))"

fun applyMergePatch :: "jv \<Rightarrow> jv \<Rightarrow> jv" and merge_fields :: "obj \<Rightarrow> obj \<Rightarrow> obj" where
  "applyMergePatch target (VObj patch) =
     VObj (merge_fields (case target of VObj t \<Rightarrow> t | _ \<Rightarrow> []) patch)"
| "applyMergePatch target patch = patch"
| "merge_fields out [] = out"
| "merge_fields out (kv # patch) =
     merge_fields
       (if snd kv = VNull then obj_del (fst kv) out
        else obj_put (fst kv) (applyMergePatch (lookup (fst kv) out) (snd kv)) out) patch"

definition patchProps :: "PropState \<Rightarrow> obj \<Rightarrow> MergeOutcome" where
  "patchProps current patch =
     (let props = merge_fields (ps_props current) patch;
          changed = filter (\<lambda>k. \<not> sameValue (lookup k (ps_props current)) (lookup k props)) (map fst patch)
      in (\<lparr>ps_props = props, ps_provenance = fold obj_del changed (ps_provenance current)\<rparr>, changed))"

subsection \<open>stored\_object.ts\<close>

record StoredObject =
  so_rid :: string
  so_type :: string
  so_primaryKey :: string
  so_title :: string
  so_props :: obj
  so_provenance :: provs
  so_propsHash :: string
  so_version :: int
  so_updatedAt :: int

record StoredLink =
  sl_src :: string
  sl_type :: string
  sl_dst :: string
  sl_weight :: "jsnum option"

definition date_re :: "string \<Rightarrow> bool" where
  "date_re s \<longleftrightarrow>
     length s = 10 \<and> s ! 4 = CHR ''-'' \<and> s ! 7 = CHR ''-''
     \<and> list_all is_digit (take 4 s) \<and> list_all is_digit (take 2 (drop 5 s)) \<and> list_all is_digit (drop 8 s)"

definition is_str :: "jv \<Rightarrow> bool" where
  "is_str v = (case v of VStr _ \<Rightarrow> True | _ \<Rightarrow> False)"

definition is_num :: "jv \<Rightarrow> bool" where
  "is_num v = (case v of VNum _ \<Rightarrow> True | _ \<Rightarrow> False)"

definition valueMatches :: "platform \<Rightarrow> PropertyDef \<Rightarrow> jv \<Rightarrow> bool" where
  "valueMatches P pd v =
     (if is_nullish v then True
      else case pd_dataType pd of
        DtString \<Rightarrow> is_str v
      | DtInteger \<Rightarrow> (case v of VNum n \<Rightarrow> isInteger n | _ \<Rightarrow> False)
      | DtDouble \<Rightarrow> (case v of VNum n \<Rightarrow> isFinite n | _ \<Rightarrow> False)
      | DtBoolean \<Rightarrow> (case v of VBool _ \<Rightarrow> True | _ \<Rightarrow> False)
      | DtDate \<Rightarrow> (case v of VStr s \<Rightarrow> date_re s | _ \<Rightarrow> False)
      | DtTimestamp \<Rightarrow> (case v of VStr s \<Rightarrow> dateParse P s \<noteq> None | _ \<Rightarrow> False)
      | DtGeopoint \<Rightarrow>
          (case v of VObj g \<Rightarrow> is_num (lookup ''lat'' g) \<and> is_num (lookup ''lon'' g) | _ \<Rightarrow> False)
      | DtEnum \<Rightarrow>
          (case v of VStr s \<Rightarrow> (case pd_enumValues pd of None \<Rightarrow> True | Some xs \<Rightarrow> s \<in> set xs) | _ \<Rightarrow> False)
      | DtRef _ \<Rightarrow> is_str v)"

record ProjectedProps =
  pp_props :: obj
  pp_provenance :: provs
  pp_invalidProps :: "string list"

definition projectProps ::
  "platform \<Rightarrow> CompiledObjectType option \<Rightarrow> obj \<Rightarrow> provs \<Rightarrow> ProjectedProps" where
  "projectProps P type props provenance =
     (case type of
        None \<Rightarrow> \<lparr>pp_props = [], pp_provenance = [], pp_invalidProps = []\<rparr>
      | Some t \<Rightarrow>
          (let kept = filter (\<lambda>kv. map_of (ct_propsByName t) (fst kv) \<noteq> None \<and> \<not> is_nullish (snd kv)) props
           in \<lparr>pp_props = kept,
               pp_provenance =
                 concat (map (\<lambda>kv. case map_of provenance (fst kv) of None \<Rightarrow> [] | Some pv \<Rightarrow> [(fst kv, pv)]) kept),
               pp_invalidProps =
                 map fst (filter (\<lambda>kv. \<not> valueMatches P (the (map_of (ct_propsByName t) (fst kv))) (snd kv)) kept)\<rparr>))"

definition functionsOf :: "CompiledSchema \<Rightarrow> string \<Rightarrow> FunctionDef list" where
  "functionsOf schema type =
     filter (\<lambda>f. fd_objectType f = Some type \<and> type \<noteq> []) (map snd (cs_functions schema))"

definition derived_value :: "platform \<Rightarrow> jv \<Rightarrow> obj \<Rightarrow> jv" where
  "derived_value P e props =
     (case evalLogic P e (VObj props) of
        Inl _ \<Rightarrow> VNull
      | Inr VUndef \<Rightarrow> VNull
      | Inr (VNum n) \<Rightarrow> if isFinite n then VNum n else VNull
      | Inr v \<Rightarrow> v)"

definition deriveValues :: "platform \<Rightarrow> CompiledSchema \<Rightarrow> string \<Rightarrow> obj \<Rightarrow> obj option" where
  "deriveValues P schema type props =
     (case functionsOf schema type of
        [] \<Rightarrow> None
      | fns \<Rightarrow> Some (fold (\<lambda>f out. obj_put (fd_apiName f) (derived_value P (fd_expr f) props) out) fns []))"

record ObjectDto =
  od_rid :: string
  od_type :: string
  od_primaryKey :: string
  od_title :: string
  od_props :: obj
  od_provenance :: provs
  od_version :: int
  od_updatedAt :: string
  od_invalidProps :: "string list option"
  od_derived :: "obj option"

definition toObjectDto :: "platform \<Rightarrow> CompiledSchema \<Rightarrow> StoredObject \<Rightarrow> ObjectDto" where
  "toObjectDto P schema so =
     (let p = projectProps P (map_of (cs_objectTypes schema) (so_type so)) (so_props so) (so_provenance so)
      in \<lparr>od_rid = so_rid so, od_type = so_type so, od_primaryKey = so_primaryKey so,
          od_title = so_title so, od_props = pp_props p, od_provenance = pp_provenance p,
          od_version = so_version so, od_updatedAt = iso_full (so_updatedAt so),
          od_invalidProps = (if pp_invalidProps p = [] then None else Some (pp_invalidProps p)),
          od_derived = deriveValues P schema (so_type so) (pp_props p)\<rparr>)"

record GraphNode =
  gn_rid :: string
  gn_type :: string
  gn_title :: string
  gn_props :: obj
  gn_hop :: int

definition toGraphNode :: "platform \<Rightarrow> CompiledSchema \<Rightarrow> StoredObject \<Rightarrow> int \<Rightarrow> GraphNode" where
  "toGraphNode P schema so hop =
     \<lparr>gn_rid = so_rid so, gn_type = so_type so, gn_title = so_title so,
      gn_props = pp_props (projectProps P (map_of (cs_objectTypes schema) (so_type so)) (so_props so) (so_provenance so)),
      gn_hop = hop\<rparr>"

definition titleOf :: "CompiledObjectType \<Rightarrow> obj \<Rightarrow> string \<Rightarrow> string" where
  "titleOf type props primaryKey =
     (let v = lookup (ot_titleProperty type) props
      in if is_empty_value v then primaryKey
         else case v of VStr s \<Rightarrow> s | _ \<Rightarrow> val_json v)"

definition indexEntries :: "CompiledObjectType \<Rightarrow> obj \<Rightarrow> (string \<times> jv) list" where
  "indexEntries type props =
     concat (map (\<lambda>p. let v = lookup p props in
       if is_nullish v then []
       else [(p, case v of VNum _ \<Rightarrow> v | VStr _ \<Rightarrow> v
                 | VBool b \<Rightarrow> VNum (if b then Fin 1 else Fin 0) | _ \<Rightarrow> VStr (val_json v))])
       (ct_indexedProps type))"

definition propsHash :: "(string \<Rightarrow> string) \<Rightarrow> obj \<Rightarrow> string" where
  "propsHash sha props = sha (val_canonical (VObj props))"

subsection \<open>object\_set\_eval.ts\<close>

record FilterSplit =
  fs_pushdown :: "FilterExpr option"
  fs_residual :: "FilterExpr option"

definition allIndexed :: "FilterExpr \<Rightarrow> string list \<Rightarrow> bool" where
  "allIndexed e indexed = list_all (\<lambda>p. p \<in> set indexed) (filterProps e)"

definition wrap_and :: "FilterExpr list \<Rightarrow> FilterExpr option" where
  "wrap_and args = (case args of [] \<Rightarrow> None | [a] \<Rightarrow> Some a | _ \<Rightarrow> Some (FAnd args))"

definition splitFilter :: "FilterExpr option \<Rightarrow> string list \<Rightarrow> FilterSplit" where
  "splitFilter expr indexed =
     (case expr of
        None \<Rightarrow> \<lparr>fs_pushdown = None, fs_residual = None\<rparr>
      | Some e \<Rightarrow>
          if allIndexed e indexed then \<lparr>fs_pushdown = Some e, fs_residual = None\<rparr>
          else case e of
            FAnd args \<Rightarrow>
              \<lparr>fs_pushdown = wrap_and (filter (\<lambda>a. allIndexed a indexed) args),
               fs_residual = wrap_and (filter (\<lambda>a. \<not> allIndexed a indexed) args)\<rparr>
          | _ \<Rightarrow> \<lparr>fs_pushdown = None, fs_residual = Some e\<rparr>)"

definition BUILTIN_SORT_KEYS :: "string list" where
  "BUILTIN_SORT_KEYS = [''title'', ''primaryKey'', ''updatedAt'']"

datatype SortPlan = SortDefault | SortColumn string bool | SortIndexed string bool

definition planSort :: "(string \<times> bool) option \<Rightarrow> string list \<Rightarrow> AppError + SortPlan" where
  "planSort orderBy indexed =
     (case orderBy of
        None \<Rightarrow> Inr SortDefault
      | Some (p, desc) \<Rightarrow>
          if p \<in> set BUILTIN_SORT_KEYS then Inr (SortColumn p desc)
          else if p \<in> set indexed then Inr (SortIndexed p desc)
          else Inl (app_error_d VALIDATION_FAILED (''orderBy '' @ p @ '' is not an indexed property'')))"

definition matchesText :: "string \<Rightarrow> string \<Rightarrow> string \<Rightarrow> string \<Rightarrow> bool" where
  "matchesText q rid title primaryKey =
     (let needle = to_lower (trim q)
      in needle = [] \<or> to_lower rid = needle \<or> has_sub needle (to_lower title)
         \<or> has_sub needle (to_lower primaryKey))"

subsection \<open>traversal.ts\<close>

definition GRAPH_maxDepth :: int where "GRAPH_maxDepth = 2"
definition GRAPH_subgraphNodesDefault :: int where "GRAPH_subgraphNodesDefault = 200"
definition GRAPH_subgraphNodesMax :: int where "GRAPH_subgraphNodesMax = 300"
definition GRAPH_batchMax :: nat where "GRAPH_batchMax = 100"

definition checkDepth :: "jv \<Rightarrow> AppError + int" where
  "checkDepth depth =
     (if depth = VNum (Fin 1) then Inr 1
      else if depth = VNum (Fin 2) then Inr 2
      else Inl (app_error_d VALIDATION_FAILED ''depth must be 1 or 2''))"

definition clampNodes :: "jsnum option \<Rightarrow> int" where
  "clampNodes limit =
     (case limit of
        Some (Fin r) \<Rightarrow> max 1 (min GRAPH_subgraphNodesMax \<lfloor>r\<rfloor>)
      | _ \<Rightarrow> GRAPH_subgraphNodesDefault)"

record WalkHit =
  wh_rid :: string
  wh_hop :: int

record GraphSlice =
  gs_nodes :: "GraphNode list"
  gs_edges :: "StoredLink list"
  gs_truncated :: bool

definition buildSlice ::
  "platform \<Rightarrow> CompiledSchema \<Rightarrow> WalkHit list \<Rightarrow> int \<Rightarrow> StoredObject list \<Rightarrow> StoredLink list \<Rightarrow> GraphSlice" where
  "buildSlice P schema found limit objects edges =
     (let kept = take (nat limit) found;
          byRid = (\<lambda>r. map_of (rev (map (\<lambda>so. (so_rid so, so)) objects)) r);
          nodes = map (\<lambda>h. toGraphNode P schema (the (byRid (wh_rid h))) (wh_hop h))
                    (filter (\<lambda>h. byRid (wh_rid h) \<noteq> None) kept);
          inSlice = set (map gn_rid nodes)
      in \<lparr>gs_nodes = nodes,
          gs_edges = filter (\<lambda>e. sl_src e \<in> inSlice \<and> sl_dst e \<in> inSlice) edges,
          gs_truncated = (limit < int (length found))\<rparr>)"

subsection \<open>domain\_events.ts\<close>

fun event_kind_name :: "DomainEventKind \<Rightarrow> string" where
  "event_kind_name ObjectsUpserted = ''ObjectsUpserted''"
| "event_kind_name ObjectPatched = ''ObjectPatched''"
| "event_kind_name ActionExecuted = ''ActionExecuted''"

definition opt_str :: "string option \<Rightarrow> jv" where
  "opt_str x = (case x of None \<Rightarrow> VUndef | Some s \<Rightarrow> VStr s)"

definition change_val :: "ObjectChangeRef \<Rightarrow> jv" where
  "change_val c =
     VObj [(''rid'', VStr (oc_rid c)), (''type'', VStr (oc_type c)),
           (''changed'', VArr (map VStr (oc_changed c)))]"

definition event_val :: "DomainEventMsg \<Rightarrow> jv" where
  "event_val m =
     VObj [(''eventId'', VStr (ev_id m)), (''tid'', VStr (ev_tid m)),
           (''occurredAt'', VNum (num_of_int (ev_occurredAt m))),
           (''kind'', VStr (event_kind_name (ev_kind m))),
           (''jobId'', opt_str (ev_jobId m)), (''actionLogId'', opt_str (ev_actionLogId m)),
           (''recommendationId'', opt_str (ev_recommendationId m)),
           (''changes'', VArr (map change_val (ev_changes m)))]"

definition jsonBytes :: "jv \<Rightarrow> int" where
  "jsonBytes v = int (length (val_json v))"

text \<open>The loop of \<^verbatim>\<open>splitEvent\<close>: the parts so far, the open part and its size.\<close>

fun split_changes ::
  "int \<Rightarrow> int \<Rightarrow> ObjectChangeRef list list \<Rightarrow> ObjectChangeRef list \<Rightarrow> int \<Rightarrow> ObjectChangeRef list
    \<Rightarrow> ObjectChangeRef list list" where
  "split_changes maxBytes base parts cur sz [] = (if cur \<noteq> [] then parts @ [cur] else parts)"
| "split_changes maxBytes base parts cur sz (c # cs) =
     (let n = jsonBytes (change_val c) + 1
      in if cur \<noteq> [] \<and> maxBytes < sz + n
         then split_changes maxBytes base (parts @ [cur]) [c] (base + n) cs
         else split_changes maxBytes base parts (cur @ [c]) (sz + n) cs)"

definition event_part :: "DomainEventMsg \<Rightarrow> nat \<Rightarrow> ObjectChangeRef list \<Rightarrow> DomainEventMsg" where
  "event_part msg i changes = msg\<lparr>ev_id := ev_id msg @ ''#'' @ nat_str (i + 1), ev_changes := changes\<rparr>"

definition splitEvent :: "DomainEventMsg \<Rightarrow> int \<Rightarrow> DomainEventMsg list" where
  "splitEvent msg maxBytes =
     (if jsonBytes (event_val msg) \<le> maxBytes then [msg]
      else let base = jsonBytes (event_val (msg\<lparr>ev_id := ev_id msg @ ''#0000'', ev_changes := []\<rparr>));
               parts = split_changes maxBytes base [] [] base (ev_changes msg)
           in map (\<lambda>(i, cs). event_part msg i cs) (enumerate 0 parts))"

subsection \<open>action\_execution.ts\<close>

text \<open>\<^verbatim>\<open>linkKey\<close> of \<^verbatim>\<open>entity_resolution.ts\<close>: the three parts with U+001F between them.\<close>

definition linkKey :: "string \<Rightarrow> string \<Rightarrow> string \<Rightarrow> string" where
  "linkKey src type dst = src @ [char_of (31::nat)] @ type @ [char_of (31::nat)] @ dst"

definition link_key :: "StoredLink \<Rightarrow> string" where
  "link_key l = linkKey (sl_src l) (sl_type l) (sl_dst l)"

record ParamRef =
  pr_param :: string
  pr_objectType :: string
  pr_rid :: string

type_synonym ResolvedParams = "obj \<times> ParamRef list"

definition param_property :: "ParamDef \<Rightarrow> PropertyDef" where
  "param_property p =
     \<lparr>pd_apiName = pa_apiName p, pd_displayName = pa_displayName p, pd_dataType = pa_dataType p,
      pd_required = pa_required p, pd_unit = None, pd_indexed = False, pd_semanticTags = None,
      pd_sensitive = False, pd_enumValues = None, pd_description = None\<rparr>"

definition param_type :: "ActionTypeDef \<Rightarrow> CompiledObjectType" where
  "param_type action =
     (let properties = map param_property (at_parameters action)
      in \<lparr>ot_apiName = at_apiName action, ot_displayName = at_displayName action, ot_icon = None,
          ot_primaryKey = [], ot_titleProperty = [], ot_properties = properties, ot_description = None,
          ct_propsByName = fold (\<lambda>p m. obj_put (pd_apiName p) p m) properties [],
          ct_indexedProps = [], ct_sensitiveProps = []\<rparr>)"

definition add_default :: "ParamDef \<Rightarrow> obj \<Rightarrow> obj" where
  "add_default p given =
     (if lookup (pa_apiName p) given = VUndef \<and> pa_defaultValue p \<noteq> VUndef
      then obj_put (pa_apiName p) (pa_defaultValue p) given else given)"

definition prop_errors_json :: "(string \<times> string) list \<Rightarrow> (string \<times> json) list" where
  "prop_errors_json es =
     [(''errors'', JArr (map (\<lambda>(p, c). JObj [(''prop'', JStr p), (''code'', JStr c)]) es))]"

definition resolveParams :: "platform \<Rightarrow> ActionTypeDef \<Rightarrow> obj \<Rightarrow> AppError + ResolvedParams" where
  "resolveParams P action input =
     (case validateProps P (param_type action) (fold add_default (at_parameters action) input) True False of
        (props, errors) \<Rightarrow>
          if errors \<noteq> [] then
            Inl (AppError_new VALIDATION_FAILED (Some ''Invalid action parameters'') None
                  (Some (prop_errors_json (map (\<lambda>e. (pe_prop e, prop_error_name (pe_code e))) errors))))
          else
            Inr (props, concat (map (\<lambda>p.
              case (lookup (pa_apiName p) props, pa_dataType p) of
                (VUndef, _) \<Rightarrow> []
              | (v, DtRef t) \<Rightarrow> [\<lparr>pr_param = pa_apiName p, pr_objectType = t, pr_rid = val_str v\<rparr>]
              | _ \<Rightarrow> []) (at_parameters action))))"

definition actionData :: "StoredObject \<Rightarrow> obj \<Rightarrow> jv" where
  "actionData target params =
     VObj [(''target'', VObj (obj_put ''primaryKey'' (VStr (so_primaryKey target))
                           (obj_put ''rid'' (VStr (so_rid target)) (so_props target)))),
           (''params'', VObj params)]"

fun locale_name :: "Locale \<Rightarrow> string" where
  "locale_name ZhCN = ''zh-CN''"
| "locale_name EnUS = ''en-US''"

fun unmetPreconditions :: "platform \<Rightarrow> PreconditionDef list \<Rightarrow> jv \<Rightarrow> string \<Rightarrow> AppError + string list" where
  "unmetPreconditions P [] data locale = Inr []"
| "unmetPreconditions P (pre # pres) data locale =
     (case evalLogic P (pre_expr pre) data of
        Inl e \<Rightarrow> Inl e
      | Inr v \<Rightarrow>
          (case unmetPreconditions P pres data locale of
             Inl e \<Rightarrow> Inl e
           | Inr ms \<Rightarrow>
               Inr (if \<not> js_bool v \<or> v = VArr []
                    then resolveText (Some (pre_message pre)) locale ''Precondition not met'' # ms else ms)))"

record EffectPlan =
  ep_after :: PropState
  ep_changed :: "string list"
  ep_removeLinks :: "StoredLink list"
  ep_addLinks :: "StoredLink list"

definition effectFailed :: "string \<Rightarrow> AppError + 'a" where
  "effectFailed detail = Inl (AppError_new VALIDATION_FAILED (Some detail) (Some 422) None)"

record effect_input =
  ei_schema :: CompiledSchema
  ei_action :: ActionTypeDef
  ei_type :: CompiledObjectType
  ei_target :: StoredObject
  ei_params :: obj
  ei_links :: "StoredLink list"
  ei_refTypes :: "(string \<times> string) list"

text \<open>The state of the loop over the effects: the next properties, the touched ones, the links by key.\<close>

record effect_state =
  es_next :: obj
  es_touched :: "string list"
  es_links :: "(string \<times> StoredLink) list"

definition touch :: "string \<Rightarrow> string list \<Rightarrow> string list" where
  "touch p ps = (if p \<in> set ps then ps else ps @ [p])"

definition links_by_key :: "StoredLink list \<Rightarrow> (string \<times> StoredLink) list" where
  "links_by_key ls = fold (\<lambda>l m. obj_put (link_key l) l m) ls []"

definition set_effect ::
  "platform \<Rightarrow> effect_input \<Rightarrow> string \<Rightarrow> jv \<Rightarrow> effect_state \<Rightarrow> AppError + effect_state" where
  "set_effect P i p e st =
     (if map_of (ct_propsByName (ei_type i)) p = None then effectFailed (''Unknown property '' @ p)
      else case evalLogic P e (actionData (ei_target i) (ei_params i)) of
        Inl x \<Rightarrow> Inl x
      | Inr v \<Rightarrow> Inr (st\<lparr>es_next := obj_put p v (es_next st), es_touched := touch p (es_touched st)\<rparr>))"

definition increment_effect ::
  "platform \<Rightarrow> effect_input \<Rightarrow> string \<Rightarrow> jv \<Rightarrow> effect_state \<Rightarrow> AppError + effect_state" where
  "increment_effect P i p e st =
     (if map_of (ct_propsByName (ei_type i)) p = None then effectFailed (''Unknown property '' @ p)
      else case evalLogic P e (actionData (ei_target i) (ei_params i)) of
        Inl x \<Rightarrow> Inl x
      | Inr v \<Rightarrow>
          (let by_n = val_num v;
               old = lookup p (es_next st);
               cur = (if is_nullish old then Fin 0 else val_num old)
           in if \<not> isFinite by_n \<or> \<not> isFinite cur then effectFailed (''Cannot increment '' @ p)
              else Inr (st\<lparr>es_next := obj_put p (VNum (num_add cur by_n)) (es_next st),
                           es_touched := touch p (es_touched st)\<rparr>)))"

text \<open>\<open>relink\<close>: the effect is \<^verbatim>\<open>relink\<close>; \<open>toParam\<close> is empty when absent.\<close>

definition ref_type :: "effect_input \<Rightarrow> jv \<Rightarrow> string option" where
  "ref_type i v = (case v of VStr s \<Rightarrow> map_of (ei_refTypes i) s | _ \<Rightarrow> None)"

definition link_other :: "effect_input \<Rightarrow> string \<Rightarrow> jv" where
  "link_other i toParam = (if toParam \<noteq> [] then lookup toParam (ei_params i) else VUndef)"

text \<open>The links of the target that the effect takes away, and the one a \<open>relink\<close> adds.\<close>

definition link_drops :: "effect_input \<Rightarrow> bool \<Rightarrow> string \<Rightarrow> LinkDir \<Rightarrow> string \<Rightarrow> StoredLink \<Rightarrow> bool" where
  "link_drops i relink link dir toParam l \<longleftrightarrow>
     (let near = (if dir = DirOut then sl_src l else sl_dst l);
          far = (if dir = DirOut then sl_dst l else sl_src l);
          other = link_other i toParam
      in sl_type l = link \<and> near = so_rid (ei_target i) \<and> (relink \<or> \<not> js_bool other \<or> VStr far = other))"

definition relinked :: "effect_input \<Rightarrow> string \<Rightarrow> LinkDir \<Rightarrow> string \<Rightarrow> StoredLink" where
  "relinked i link dir toParam =
     (let me = so_rid (ei_target i); other = val_str (link_other i toParam)
      in if dir = DirOut then \<lparr>sl_src = me, sl_type = link, sl_dst = other, sl_weight = None\<rparr>
         else \<lparr>sl_src = other, sl_type = link, sl_dst = me, sl_weight = None\<rparr>)"

definition link_effect ::
  "effect_input \<Rightarrow> bool \<Rightarrow> string \<Rightarrow> LinkDir \<Rightarrow> string \<Rightarrow> effect_state \<Rightarrow> AppError + effect_state" where
  "link_effect i relink link dir toParam st =
     (case map_of (cs_linkTypes (ei_schema i)) link of
        None \<Rightarrow> effectFailed (''Unknown link type '' @ link)
      | Some ld \<Rightarrow>
          (let outw = (dir = DirOut);
               other = link_other i toParam;
               left = filter (\<lambda>kl. \<not> link_drops i relink link dir toParam (snd kl)) (es_links st);
               l = relinked i link dir toParam
           in if (if outw then lt_from ld else lt_to ld) \<noteq> so_type (ei_target i)
              then effectFailed (''Link '' @ link @ '' does not fit the target'')
              else if (relink \<or> toParam \<noteq> []) \<and> \<not> js_bool other
              then effectFailed (''Missing parameter '' @ toParam)
              else if (relink \<or> toParam \<noteq> [])
                      \<and> ref_type i other \<noteq> Some (if outw then lt_to ld else lt_from ld)
              then effectFailed (''Parameter '' @ toParam @ '' has the wrong type'')
              else Inr (st\<lparr>es_links := if relink \<and> js_bool other then obj_put (link_key l) l left else left\<rparr>)))"

fun one_effect :: "platform \<Rightarrow> effect_input \<Rightarrow> EffectDef \<Rightarrow> effect_state \<Rightarrow> AppError + effect_state" where
  "one_effect P i (ESet p e) st = set_effect P i p e st"
| "one_effect P i (EIncrement p e) st = increment_effect P i p e st"
| "one_effect P i (ERelink link dir toParam) st = link_effect i True link dir toParam st"
| "one_effect P i (EUnlink link dir toParam) st =
     link_effect i False link dir (case toParam of None \<Rightarrow> [] | Some t \<Rightarrow> t) st"

fun run_effects ::
  "platform \<Rightarrow> effect_input \<Rightarrow> EffectDef list \<Rightarrow> effect_state \<Rightarrow> AppError + effect_state" where
  "run_effects P i [] st = Inr st"
| "run_effects P i (e # es) st =
     (case one_effect P i e st of Inl x \<Rightarrow> Inl x | Inr st' \<Rightarrow> run_effects P i es st')"

definition cleared :: "obj \<Rightarrow> string list \<Rightarrow> obj" where
  "cleared next touched =
     fold (\<lambda>p m. obj_put p VNull m) (filter (\<lambda>p. is_nullish (lookup p next)) touched) []"

definition to_coerce :: "obj \<Rightarrow> string list \<Rightarrow> obj" where
  "to_coerce next touched =
     fold (\<lambda>p m. obj_put p (lookup p next) m) (filter (\<lambda>p. \<not> is_nullish (lookup p next)) touched) []"

definition effect_patch :: "obj \<Rightarrow> string list \<Rightarrow> obj \<Rightarrow> obj" where
  "effect_patch next touched props =
     fold (\<lambda>p m. if p \<in> fst ` set props then obj_put p (lookup p props) m else m) touched
       (cleared next touched)"

definition cleared_required :: "CompiledObjectType \<Rightarrow> obj \<Rightarrow> string list \<Rightarrow> string option" where
  "cleared_required type next touched =
     find (\<lambda>p. is_nullish (lookup p next)
               \<and> (case map_of (ct_propsByName type) p of Some d \<Rightarrow> pd_required d | None \<Rightarrow> False)) touched"

definition applyEffects :: "platform \<Rightarrow> effect_input \<Rightarrow> AppError + EffectPlan" where
  "applyEffects P i =
     (let links0 = links_by_key (ei_links i) in
      case run_effects P i (at_effects (ei_action i))
             \<lparr>es_next = so_props (ei_target i), es_touched = [], es_links = links0\<rparr> of
        Inl x \<Rightarrow> Inl x
      | Inr st \<Rightarrow>
          (case validateProps P (ei_type i) (to_coerce (es_next st) (es_touched st)) False True of
             (props, errors) \<Rightarrow>
               if errors \<noteq> [] then
                 effectFailed (''Effect produced invalid values: '' @ join '','' (map pe_prop errors))
               else case cleared_required (ei_type i) (es_next st) (es_touched st) of
                 Some p \<Rightarrow> effectFailed (''Effect cleared required property '' @ p)
               | None \<Rightarrow>
                   (case patchProps \<lparr>ps_props = so_props (ei_target i), ps_provenance = so_provenance (ei_target i)\<rparr>
                           (effect_patch (es_next st) (es_touched st) props) of
                      (after, changed) \<Rightarrow>
                        Inr \<lparr>ep_after = after, ep_changed = changed,
                             ep_removeLinks =
                               map snd (filter (\<lambda>kl. fst kl \<notin> fst ` set (es_links st)) links0),
                             ep_addLinks =
                               map snd (filter (\<lambda>kl. fst kl \<notin> fst ` set links0) (es_links st))\<rparr>)))"

definition touchedLinkTypes :: "ActionTypeDef \<Rightarrow> string list" where
  "touchedLinkTypes action =
     dedup (concat (map (\<lambda>e. case e of ERelink l _ _ \<Rightarrow> [l] | EUnlink l _ _ \<Rightarrow> [l] | _ \<Rightarrow> [])
       (at_effects action)))"

definition pick :: "obj \<Rightarrow> string list \<Rightarrow> obj" where
  "pick props ks =
     fold (\<lambda>k m. if lookup k props = VUndef then m else obj_put k (lookup k props) m) ks []"

end
