(* ===== verification/GraphFacts.thy ===== *)
theory GraphFacts
  imports GraphRules
begin

section \<open>Facts about the rules of the object graph\<close>

text \<open>
  Lookups after updates of a record, the split of a filter and of an event, the types of validated
  properties, the idempotence of a merge and the reach of an action's effects.
\<close>

subsection \<open>Records\<close>

lemma map_of_replace:
  "map_of (map (\<lambda>e. if fst e = k then (k, v) else e) r) j
     = (if j = k \<and> k \<in> fst ` set r then Some v else map_of r j)"
  by (induction r) (auto, force simp: image_iff)

lemma map_of_put [simp]: "map_of (obj_put k v r) j = (if j = k then Some v else map_of r j)"
proof (cases "k \<in> fst ` set r")
  case True
  then show ?thesis by (simp add: obj_put_def map_of_replace)
next
  case False
  then have "map_of r k = None" by (metis map_of_eq_None_iff)
  with False show ?thesis by (auto simp: obj_put_def map_add_def split: option.splits)
qed

lemma map_of_del [simp]: "map_of (obj_del k r) j = (if j = k then None else map_of r j)"
  by (induction r) (auto simp: obj_del_def)

lemma lookup_put [simp]: "lookup j (obj_put k v r) = (if j = k then v else lookup j r)"
  by (simp add: lookup_def)

lemma lookup_del [simp]: "lookup j (obj_del k r) = (if j = k then VUndef else lookup j r)"
  by (simp add: lookup_def)

lemma keys_put [simp]: "fst ` set (obj_put k v r) = insert k (fst ` set r)"
proof (cases "k \<in> fst ` set r")
  case True
  have "map fst (map (\<lambda>e. if fst e = k then (k, v) else e) r) = map fst r" by (induction r) auto
  then have "fst ` set (map (\<lambda>e. if fst e = k then (k, v) else e) r) = fst ` set r"
    by (metis set_map)
  with True show ?thesis by (auto simp: obj_put_def)
qed (auto simp: obj_put_def)

lemma lookup_notin: "k \<notin> fst ` set r \<Longrightarrow> lookup k r = VUndef"
  by (metis (no_types) lookup_def map_of_eq_None_iff option.simps(4))

subsection \<open>Splitting a filter\<close>

lemma match_wrap: "matchFilter (wrap_and es) props = list_all (\<lambda>e. match_expr e props) es"
  by (auto simp: wrap_and_def matchFilter_def split: list.splits)

definition split_ok :: "FilterSplit \<Rightarrow> FilterExpr option \<Rightarrow> string list \<Rightarrow> bool" where
  "split_ok sp f indexed \<longleftrightarrow>
     (\<forall>props. matchFilter (fs_pushdown sp) props \<and> matchFilter (fs_residual sp) props
        \<longleftrightarrow> matchFilter f props)
     \<and> (case fs_pushdown sp of None \<Rightarrow> True | Some e \<Rightarrow> set (filterProps e) \<subseteq> set indexed)"

text \<open>C38: splitFilter loses nothing: an object passes the part sent to the database and the part
  evaluated in memory exactly when it passes the filter, and the part sent reads indexed properties only.\<close>

theorem splitFilter_sound: "split_ok (splitFilter f indexed) f indexed"
proof (cases f)
  case (Some e)
  show ?thesis
  proof (cases "\<exists>args. e = FAnd args \<and> \<not> allIndexed e indexed")
    case True
    then obtain args where e: "e = FAnd args" "\<not> allIndexed e indexed" by blast
    let ?down = "filter (\<lambda>a. allIndexed a indexed) args"
    have "\<forall>a \<in> set ?down. set (filterProps a) \<subseteq> set indexed"
      by (auto simp: allIndexed_def list_all_iff)
    then have "case wrap_and ?down of None \<Rightarrow> True | Some g \<Rightarrow> set (filterProps g) \<subseteq> set indexed"
      by (auto simp: wrap_and_def simp del: set_filter split: list.splits)
    moreover have "matchFilter (wrap_and ?down) props
        \<and> matchFilter (wrap_and (filter (\<lambda>a. \<not> allIndexed a indexed) args)) props
        \<longleftrightarrow> matchFilter f props" for props
      unfolding match_wrap Some e by (auto simp: matchFilter_def list_all_iff)
    ultimately show ?thesis
      using Some e by (simp add: split_ok_def splitFilter_def)
  next
    case False
    then show ?thesis
      using Some by (auto simp: split_ok_def splitFilter_def matchFilter_def allIndexed_def list_all_iff
          split: FilterExpr.splits)
  qed
qed (simp add: split_ok_def splitFilter_def matchFilter_def)

subsection \<open>Splitting an event\<close>

lemma length_join_comma: "xs \<noteq> [] \<Longrightarrow> Suc (length (join '','' xs)) = sum_list (map (\<lambda>x. Suc (length x)) xs)"
  by (induction xs rule: induct_list012) auto

definition changes_len :: "ObjectChangeRef list \<Rightarrow> int" where
  "changes_len cs = sum_list (map (\<lambda>c. jsonBytes (change_val c) + 1) cs)"

definition id_len :: "string \<Rightarrow> int" where
  "id_len s = sum_list (map (\<lambda>c. int (length (escape_char c))) s)"

text \<open>The length of an event is what its identifier and its changes add to a constant.\<close>

lemma len_changes:
  "cs \<noteq> [] \<Longrightarrow> int (length (join '','' (map (\<lambda>c. val_json (change_val c)) cs))) = changes_len cs - 1"
proof -
  assume "cs \<noteq> []"
  then have "int (Suc (length (join '','' (map (\<lambda>c. val_json (change_val c)) cs))))
      = int (sum_list (map (\<lambda>c. Suc (length (val_json (change_val c)))) cs))"
    using length_join_comma[of "map (\<lambda>c. val_json (change_val c)) cs"] by (simp add: o_def)
  also have "\<dots> = changes_len cs"
    by (induction cs) (auto simp: changes_len_def jsonBytes_def)
  finally show ?thesis by simp
qed

lemma length_quote: "int (length (quote_str s)) = id_len s + 2"
  by (induction s) (auto simp: quote_str_def id_len_def)

definition event_fixed :: "DomainEventMsg \<Rightarrow> int" where
  "event_fixed m = jsonBytes (event_val (m\<lparr>ev_id := [], ev_changes := []\<rparr>))"

lemma event_length:
  "jsonBytes (event_val (m\<lparr>ev_id := i, ev_changes := cs\<rparr>))
     = event_fixed m + id_len i + (if cs = [] then 0 else changes_len cs - 1)"
proof -
  have q: "int (length (quote_str i)) = id_len i + 2" "int (length (quote_str [])) = 2" for i
    by (simp_all add: length_quote id_len_def)
  have j: "int (length (join '','' (map (\<lambda>c. val_json (change_val c)) cs)))
      = (if cs = [] then 0 else changes_len cs - 1)" for cs
    using len_changes[of cs] by simp
  show ?thesis
    using q(1)[of i] q(2) j[of cs]
    by (cases "ev_jobId m"; cases "ev_actionLogId m"; cases "ev_recommendationId m")
       (auto simp: event_fixed_def jsonBytes_def event_val_def opt_str_def o_def)
qed

lemma id_len_append [simp]: "id_len (a @ b) = id_len a + id_len b"
  by (simp add: id_len_def)

lemma escape_digit: "is_digit c \<Longrightarrow> escape_char c = [c]"
  by (simp add: escape_char_def is_digit_def Let_def)

lemma id_len_digits: "\<forall>c \<in> set s. is_digit c \<Longrightarrow> id_len s = int (length s)"
  by (induction s) (auto simp: id_len_def escape_digit)

lemma id_len_suffix: "n < 100000 \<Longrightarrow> id_len (''#'' @ nat_str n) \<le> 6"
  using length_nat_str[of n 4] id_len_digits[OF nat_str_digits[of n]]
  by (simp add: id_len_def escape_char_def code_def)

text \<open>The parts: every change in order, none empty, and within the size when there are several.\<close>

definition parts_ok :: "int \<Rightarrow> int \<Rightarrow> ObjectChangeRef list list \<Rightarrow> bool" where
  "parts_ok maxBytes base ps \<longleftrightarrow>
     (\<forall>q \<in> set ps. q \<noteq> [] \<and> (length q \<le> 1 \<or> base + changes_len q \<le> maxBytes))"

lemma changes_len_snoc [simp]: "changes_len (cs @ [c]) = changes_len cs + (jsonBytes (change_val c) + 1)"
  by (simp add: changes_len_def)

lemma split_changes_ok:
  assumes "parts_ok maxBytes base ps" "sz = base + changes_len cur"
    and "length cur \<le> 1 \<or> base + changes_len cur \<le> maxBytes"
  shows "parts_ok maxBytes base (split_changes maxBytes base ps cur sz cs)
         \<and> concat (split_changes maxBytes base ps cur sz cs) = concat ps @ cur @ cs"
  using assms
proof (induction maxBytes base ps cur sz cs rule: split_changes.induct)
  case (2 maxBytes base ps cur sz c cs)
  let ?n = "jsonBytes (change_val c) + 1"
  show ?case
  proof (cases "cur \<noteq> [] \<and> maxBytes < sz + ?n")
    case True
    have "parts_ok maxBytes base (ps @ [cur])"
      using 2(3,5) True by (auto simp: parts_ok_def)
    with 2(1)[OF refl True] True show ?thesis by (simp add: changes_len_def)
  next
    case False
    have "sz + ?n = base + changes_len (cur @ [c])" using 2(4) by simp
    moreover have "length (cur @ [c]) \<le> 1 \<or> base + changes_len (cur @ [c]) \<le> maxBytes"
      using False 2(4) by auto
    moreover have "split_changes maxBytes base ps cur sz (c # cs)
        = split_changes maxBytes base ps (cur @ [c]) (sz + ?n) cs"
      using False by (auto simp: Let_def)
    ultimately show ?thesis using 2(2)[OF refl False 2(3)] by simp
  qed
qed (auto simp: parts_ok_def)

lemma event_part_bytes:
  assumes "q \<noteq> []" "base + changes_len q \<le> maxBytes" "i + 1 < 100000"
    and "base = jsonBytes (event_val (m\<lparr>ev_id := ev_id m @ ''#0000'', ev_changes := []\<rparr>))"
  shows "jsonBytes (event_val (event_part m i q)) \<le> maxBytes"
proof -
  have "id_len ''#0000'' = 5" by (simp add: id_len_def escape_char_def code_def)
  then show ?thesis
    using assms id_len_suffix[of "i + 1"]
    by (simp add: event_part_def event_length)
qed

definition split_bounds :: "DomainEventMsg \<Rightarrow> int \<Rightarrow> DomainEventMsg list \<Rightarrow> bool" where
  "split_bounds m b ps \<longleftrightarrow>
     concat (map ev_changes ps) = ev_changes m
     \<and> (\<forall>q \<in> set ps. length (ev_changes q) \<le> 1 \<or> jsonBytes (event_val q) \<le> b)
     \<and> distinct (map ev_id ps)"

lemma length_le_concat: "\<forall>q \<in> set ps. q \<noteq> [] \<Longrightarrow> length ps \<le> length (concat ps)"
proof (induction ps)
  case (Cons q ps)
  then have "1 \<le> length q" "length ps \<le> length (concat ps)" by (auto simp: Suc_le_eq)
  then show ?case by (simp only: concat.simps length_append list.size)
qed simp

text \<open>C39: an event too large for the queue is sent as messages that carry every change once and in
  order, each within the size unless it holds a single change, under identifiers that are all different.\<close>

theorem splitEvent_bounds:
  assumes "length (ev_changes m) < 99999"
  shows "split_bounds m b (splitEvent m b)"
proof (cases "jsonBytes (event_val m) \<le> b")
  case False
  obtain base where base_def: "base = jsonBytes (event_val (m\<lparr>ev_id := ev_id m @ ''#0000'', ev_changes := []\<rparr>))" by simp
  obtain ps where ps_def: "ps = split_changes b base [] [] base (ev_changes m)" by simp
  have ok: "parts_ok b base ps" and all: "concat ps = ev_changes m"
    using split_changes_ok[of b base "[]" base "[]" "ev_changes m"]
    by (auto simp: ps_def parts_ok_def changes_len_def)
  have few: "length ps < 99999"
    using length_le_concat[of ps] ok all assms by (auto simp: parts_ok_def)
  have eq: "splitEvent m b = map (\<lambda>(i, cs). event_part m i cs) (enumerate 0 ps)"
    using False by (simp add: splitEvent_def base_def ps_def Let_def)
  have "map ev_changes (splitEvent m b) = ps"
    by (simp add: eq event_part_def case_prod_beta o_def)
  moreover have "map ev_id (splitEvent m b)
      = map (\<lambda>i. ev_id m @ ''#'' @ nat_str (i + 1)) [0..<length ps]"
    by (rule nth_equalityI) (simp_all add: eq event_part_def case_prod_beta nth_enumerate_eq)
  moreover have "length (ev_changes q) \<le> 1 \<or> jsonBytes (event_val q) \<le> b"
    if "q \<in> set (splitEvent m b)" for q
  proof -
    from that obtain i where "i < length ps" "q = event_part m i (ps ! i)"
      by (auto simp: eq in_set_enumerate_eq)
    with ok few event_part_bytes[of "ps ! i" base b i m] show ?thesis
      by (auto simp: parts_ok_def base_def event_part_def)
  qed
  ultimately show ?thesis
    by (auto simp: split_bounds_def all distinct_map inj_on_def nat_str_inject)
qed (simp add: split_bounds_def splitEvent_def)

text \<open>A concrete event of two changes, split at 150 bytes.\<close>

definition demo_event :: DomainEventMsg where
  "demo_event = \<lparr>ev_id = ''E'', ev_tid = ''T'', ev_occurredAt = 0, ev_kind = ObjectPatched, ev_jobId = None,
     ev_actionLogId = None, ev_recommendationId = None,
     ev_changes = [\<lparr>oc_rid = ''a'', oc_type = ''A'', oc_changed = []\<rparr>, \<lparr>oc_rid = ''b'', oc_type = ''B'', oc_changed = []\<rparr>]\<rparr>"

lemma splitEvent_bounds_witness: "split_bounds demo_event 150 (splitEvent demo_event 150)"
  by (rule splitEvent_bounds) (simp add: demo_event_def)

subsection \<open>Validated properties have their types\<close>

text \<open>
  Two types are left out: a date past the year 9999 is cut inside its month, and a geographic point
  given as an object is taken as it is.
\<close>

definition typed_exactly :: "PropertyDef \<Rightarrow> bool" where
  "typed_exactly pd \<longleftrightarrow> pd_dataType pd \<noteq> DtDate \<and> pd_dataType pd \<noteq> DtGeopoint"

lemma coerce_matches:
  assumes "coerce P v (pd_dataType pd) pd = (True, u)" "typed_exactly pd"
    and iso: "\<And>t. dateParse P (iso_full t) \<noteq> None"
  shows "valueMatches P pd u"
proof (cases "is_empty_value v")
  case True
  with assms(1) show ?thesis by (simp add: coerce_def valueMatches_def is_nullish_def)
next
  case False
  with assms show ?thesis
    by (cases "pd_dataType pd")
       (auto simp: coerce_def valueMatches_def typed_exactly_def is_nullish_def is_str_def Let_def
             split: jsnum.splits jv.splits option.splits if_splits)
qed

definition props_typed :: "platform \<Rightarrow> PropertyDef list \<Rightarrow> obj \<Rightarrow> bool" where
  "props_typed P pds props \<longleftrightarrow>
     (\<forall>(k, v) \<in> set props. \<exists>pd \<in> set pds. pd_apiName pd = k \<and> (typed_exactly pd \<longrightarrow> valueMatches P pd v))"

lemma set_put_subset: "set (obj_put k v r) \<subseteq> insert (k, v) (set r)"
  by (auto simp: obj_put_def split: if_splits)

lemma validate_one_typed:
  assumes "props_typed P pds (fst acc)" "pd \<in> set pds" "\<And>t. dateParse P (iso_full t) \<noteq> None"
  shows "props_typed P pds (fst (validate_one P partial input pd acc))"
proof -
  obtain props errors where acc: "acc = (props, errors)" by (cases acc)
  obtain ok v where c: "coerce P (lookup (pd_apiName pd) input) (pd_dataType pd) pd = (ok, v)"
    by (cases "coerce P (lookup (pd_apiName pd) input) (pd_dataType pd) pd")
  have "props_typed P pds (obj_put (pd_apiName pd) v props)" if ok
    using assms acc c that coerce_matches[of P _ pd v] set_put_subset[of "pd_apiName pd" v props]
    unfolding props_typed_def by fastforce
  with assms(1) acc c show ?thesis by (auto simp: validate_one_def)
qed

lemma validate_fold_typed:
  assumes "\<And>t. dateParse P (iso_full t) \<noteq> None" "set qs \<subseteq> set pds" "props_typed P pds (fst acc)"
  shows "props_typed P pds (fst (fold (validate_one P partial input) qs acc))"
  using assms(2,3)
proof (induction qs arbitrary: acc)
  case (Cons pd qs)
  from Cons.prems have "props_typed P pds (fst (validate_one P partial input pd acc))"
    by (intro validate_one_typed assms(1)) auto
  with Cons show ?case by simp
qed simp


definition demo_prop :: "string \<Rightarrow> DataType \<Rightarrow> PropertyDef" where
  "demo_prop n t = \<lparr>pd_apiName = n, pd_displayName = Plain n, pd_dataType = t, pd_required = False,
     pd_unit = None, pd_indexed = True, pd_semanticTags = None, pd_sensitive = False,
     pd_enumValues = None, pd_description = None\<rparr>"

definition demo_type :: CompiledObjectType where
  "demo_type = \<lparr>ot_apiName = ''A'', ot_displayName = Plain ''A'', ot_icon = None, ot_primaryKey = ''k'',
     ot_titleProperty = ''k'', ot_properties = [demo_prop ''k'' DtString, demo_prop ''n'' DtInteger],
     ot_description = None,
     ct_propsByName = [(''k'', demo_prop ''k'' DtString), (''n'', demo_prop ''n'' DtInteger)],
     ct_indexedProps = [''n''], ct_sensitiveProps = []\<rparr>"


subsection \<open>The reach of an action\<close>

definition sep_free :: "string \<Rightarrow> bool" where
  "sep_free s \<longleftrightarrow> char_of (31::nat) \<notin> set s"

definition link_sep_free :: "StoredLink \<Rightarrow> bool" where
  "link_sep_free l \<longleftrightarrow> sep_free (sl_src l) \<and> sep_free (sl_type l) \<and> sep_free (sl_dst l)"

lemma split_linkKey:
  assumes "sep_free a" "sep_free b" "sep_free c"
  shows "split_on (char_of (31::nat)) (linkKey a b c) = [a, b, c]"
  using assms by (simp add: linkKey_def sep_free_def split_on_append split_on_notin)

lemma link_key_eqD:
  assumes "link_key l = link_key m" "link_sep_free l" "link_sep_free m"
  shows "sl_src l = sl_src m \<and> sl_type l = sl_type m \<and> sl_dst l = sl_dst m"
proof -
  have "split_on (char_of (31::nat)) (link_key l) = split_on (char_of (31::nat)) (link_key m)"
    using assms(1) by simp
  with assms(2,3) show ?thesis by (simp add: link_key_def link_sep_free_def split_linkKey)
qed

definition effect_props :: "EffectDef list \<Rightarrow> string set" where
  "effect_props es = {p. \<exists>x. ESet p x \<in> set es \<or> EIncrement p x \<in> set es}"

definition effect_links :: "EffectDef list \<Rightarrow> string set" where
  "effect_links es = {l. \<exists>d t u. ERelink l d t \<in> set es \<or> EUnlink l d u \<in> set es}"

definition at_target :: "effect_input \<Rightarrow> StoredLink \<Rightarrow> bool" where
  "at_target i l \<longleftrightarrow> sl_src l = so_rid (ei_target i) \<or> sl_dst l = so_rid (ei_target i)"

text \<open>A link an effect may add: declared, at the target, its other end a referenced object of the right type.\<close>

definition may_add :: "effect_input \<Rightarrow> StoredLink \<Rightarrow> bool" where
  "may_add i l \<longleftrightarrow>
     (\<exists>ld. map_of (cs_linkTypes (ei_schema i)) (sl_type l) = Some ld
       \<and> (sl_src l = so_rid (ei_target i) \<and> map_of (ei_refTypes i) (sl_dst l) = Some (lt_to ld)
          \<or> sl_dst l = so_rid (ei_target i) \<and> map_of (ei_refTypes i) (sl_src l) = Some (lt_from ld)))"

text \<open>The separator of link keys occurs in no identifier at hand.\<close>

definition input_sep_free :: "effect_input \<Rightarrow> bool" where
  "input_sep_free i \<longleftrightarrow>
     list_all link_sep_free (ei_links i) \<and> sep_free (so_rid (ei_target i))
     \<and> list_all (\<lambda>rt. sep_free (fst rt)) (ei_refTypes i)
     \<and> list_all (\<lambda>lt. sep_free (fst lt)) (cs_linkTypes (ei_schema i))"

definition state_ok :: "effect_input \<Rightarrow> EffectDef list \<Rightarrow> effect_state \<Rightarrow> bool" where
  "state_ok i es st \<longleftrightarrow>
     set (es_touched st) \<subseteq> effect_props es
     \<and> (\<forall>(k, l) \<in> set (es_links st). k = link_key l \<and> link_sep_free l
          \<and> ((k, l) \<in> set (links_by_key (ei_links i)) \<or> may_add i l \<and> sl_type l \<in> effect_links es))
     \<and> (\<forall>(k, l) \<in> set (links_by_key (ei_links i)). k \<in> fst ` set (es_links st)
          \<or> at_target i l \<and> sl_type l \<in> effect_links es)"

lemma effect_props_mono: "set es \<subseteq> set fs \<Longrightarrow> effect_props es \<subseteq> effect_props fs"
  by (auto simp: effect_props_def)

lemma effect_links_mono: "set es \<subseteq> set fs \<Longrightarrow> effect_links es \<subseteq> effect_links fs"
  by (auto simp: effect_links_def)

lemma links_by_key_ok:
  "(k, l) \<in> set (links_by_key ls) \<Longrightarrow> l \<in> set ls \<and> k = link_key l"
proof -
  have "(k, l) \<in> set (fold (\<lambda>l m. obj_put (link_key l) l m) ls m) \<Longrightarrow>
        (l \<in> set ls \<and> k = link_key l) \<or> (k, l) \<in> set m" for m
  proof (induction ls arbitrary: m)
    case (Cons x ls)
    then show ?case using set_put_subset[of "link_key x" x m] by auto
  qed simp
  from this[of "[]"] show "(k, l) \<in> set (links_by_key ls) \<Longrightarrow> ?thesis"
    by (auto simp: links_by_key_def)
qed

lemma prop_effect_ok:
  assumes "state_ok i es st" "p \<in> effect_props es"
  shows "state_ok i es (st\<lparr>es_next := n, es_touched := touch p (es_touched st)\<rparr>)"
  using assms by (auto simp: state_ok_def touch_def)

lemma link_effect_cases:
  assumes "link_effect i relink link dir toParam st = Inr st'"
  obtains drops and new :: StoredLink where
    "\<And>l. drops l \<Longrightarrow> sl_type l = link \<and> at_target i l"
    "es_touched st' = es_touched st"
    "es_links st' = filter (\<lambda>kl. \<not> drops (snd kl)) (es_links st)
     \<or> es_links st' = obj_put (link_key new) new (filter (\<lambda>kl. \<not> drops (snd kl)) (es_links st))
       \<and> may_add i new \<and> sl_type new = link"
proof -
  from assms obtain ld where ld: "map_of (cs_linkTypes (ei_schema i)) link = Some ld"
    by (auto simp: link_effect_def effectFailed_def split: option.splits)
  let ?other = "link_other i toParam" and ?new = "relinked i link dir toParam"
  have eqs: "es_touched st' = es_touched st"
    "es_links st' = filter (\<lambda>kl. \<not> link_drops i relink link dir toParam (snd kl)) (es_links st)
     \<or> es_links st' = obj_put (link_key ?new) ?new
         (filter (\<lambda>kl. \<not> link_drops i relink link dir toParam (snd kl)) (es_links st))
       \<and> ref_type i ?other = Some (if dir = DirOut then lt_to ld else lt_from ld)"
    using assms ld by (auto simp: link_effect_def effectFailed_def Let_def split: if_splits)
  have "may_add i ?new \<and> sl_type ?new = link"
    if "ref_type i ?other = Some (if dir = DirOut then lt_to ld else lt_from ld)"
    using that ld by (auto simp: may_add_def relinked_def ref_type_def Let_def split: jv.splits)
  with eqs show thesis
    by (intro that[of "link_drops i relink link dir toParam" ?new])
       (auto simp: link_drops_def at_target_def Let_def split: if_splits)
qed

lemma may_add_sep_free:
  assumes "may_add i l" "input_sep_free i"
  shows "link_sep_free l"
  using assms
  by (auto simp: may_add_def input_sep_free_def link_sep_free_def list_all_iff dest!: map_of_SomeD)

lemma link_effect_ok:
  assumes st: "state_ok i es st" and run: "link_effect i relink link dir toParam st = Inr st'"
    and link: "link \<in> effect_links es" and free: "input_sep_free i"
  shows "state_ok i es st'"
proof -
  from run obtain drops and new :: StoredLink where
    d: "\<And>l. drops l \<Longrightarrow> sl_type l = link \<and> at_target i l" and
    t: "es_touched st' = es_touched st" and
    l: "es_links st' = filter (\<lambda>kl. \<not> drops (snd kl)) (es_links st)
     \<or> es_links st' = obj_put (link_key new) new (filter (\<lambda>kl. \<not> drops (snd kl)) (es_links st))
       \<and> may_add i new \<and> sl_type new = link"
    by (rule link_effect_cases) blast
  let ?left = "filter (\<lambda>kl. \<not> drops (snd kl)) (es_links st)"
  have sub: "(k, m) \<in> set (es_links st) \<or> k = link_key m \<and> may_add i m \<and> sl_type m = link"
    if "(k, m) \<in> set (es_links st')" for k m
    using that l set_put_subset[of "link_key new" new ?left] by auto
  have keys: "fst ` set ?left \<subseteq> fst ` set (es_links st')"
    using l by (metis (no_types) keys_put order_refl subset_insertI)
  have kept: "k \<in> fst ` set (es_links st') \<or> at_target i m \<and> sl_type m \<in> effect_links es"
    if km: "(k, m) \<in> set (links_by_key (ei_links i))" and k: "k \<in> fst ` set (es_links st)" for k m
  proof (cases "k \<in> fst ` set ?left")
    case False
    from k obtain m' where m': "(k, m') \<in> set (es_links st)" by auto
    with False have "drops m'" by force
    moreover have "link_key m' = link_key m" "link_sep_free m'" "link_sep_free m"
      using st m' links_by_key_ok[OF km] free
      by (auto simp: state_ok_def input_sep_free_def list_all_iff)
    ultimately show ?thesis
      using d[of m'] link_key_eqD[of m' m] link by (auto simp: at_target_def)
  qed (use keys in blast)
  show ?thesis
    unfolding state_ok_def
  proof (intro conjI)
    show "set (es_touched st') \<subseteq> effect_props es" using st t by (simp add: state_ok_def)
    show "\<forall>(k, l) \<in> set (es_links st'). k = link_key l \<and> link_sep_free l
          \<and> ((k, l) \<in> set (links_by_key (ei_links i)) \<or> may_add i l \<and> sl_type l \<in> effect_links es)"
      using sub st link may_add_sep_free[OF _ free] unfolding state_ok_def by fastforce
    show "\<forall>(k, l) \<in> set (links_by_key (ei_links i)). k \<in> fst ` set (es_links st')
          \<or> at_target i l \<and> sl_type l \<in> effect_links es"
      using kept st unfolding state_ok_def by fastforce
  qed
qed

lemma run_effects_ok:
  assumes "run_effects P i fs st = Inr st'" "state_ok i es st" "set fs \<subseteq> set es" "input_sep_free i"
  shows "state_ok i es st'"
  using assms
proof (induction fs arbitrary: st)
  case (Cons f fs)
  then obtain s1 where s1: "one_effect P i f st = Inr s1" "run_effects P i fs s1 = Inr st'"
    by (auto split: sum.splits)
  have "state_ok i es s1"
  proof (cases f)
    case (ESet p e)
    with Cons.prems have "p \<in> effect_props es" by (auto simp: effect_props_def)
    with ESet s1 Cons.prems show ?thesis
      by (auto simp: set_effect_def effectFailed_def intro: prop_effect_ok
          split: option.splits sum.splits if_splits)
  next
    case (EIncrement p e)
    with Cons.prems have "p \<in> effect_props es" by (auto simp: effect_props_def)
    with EIncrement s1 Cons.prems show ?thesis
      by (auto simp: increment_effect_def effectFailed_def Let_def intro: prop_effect_ok
          split: option.splits sum.splits if_splits)
  next
    case (ERelink l d t)
    with Cons.prems have "l \<in> effect_links es" by (auto simp: effect_links_def)
    with ERelink s1 Cons.prems show ?thesis by (auto intro: link_effect_ok)
  next
    case (EUnlink l d t)
    with Cons.prems have "l \<in> effect_links es" by (auto simp: effect_links_def)
    with EUnlink s1 Cons.prems show ?thesis by (auto intro: link_effect_ok)
  qed
  with Cons s1 show ?case by auto
qed simp

lemma merge_fields_other: "k \<notin> fst ` set patch \<Longrightarrow> lookup k (merge_fields out patch) = lookup k out"
  by (induction patch arbitrary: out) auto

lemma patchProps_other:
  "k \<notin> fst ` set patch \<Longrightarrow> lookup k (ps_props (fst (patchProps st patch))) = lookup k (ps_props st)"
  by (simp add: patchProps_def merge_fields_other Let_def)

lemma patchProps_changed: "set (snd (patchProps st patch)) \<subseteq> fst ` set patch"
  by (auto simp: patchProps_def Let_def)

lemma keys_fold_put:
  "fst ` set (fold (\<lambda>p m. obj_put p (f p) m) ps m) = fst ` set m \<union> set ps"
  by (induction ps arbitrary: m) auto

lemma effect_patch_keys: "fst ` set (effect_patch next touched props) \<subseteq> set touched"
proof -
  have "fst ` set (fold (\<lambda>p m. if p \<in> fst ` set props then obj_put p (lookup p props) m else m) ps m)
      \<subseteq> fst ` set m \<union> set ps" for ps m
  proof (induction ps arbitrary: m)
    case (Cons p ps)
    have "fst ` set (if p \<in> fst ` set props then obj_put p (lookup p props) m else m) \<subseteq> insert p (fst ` set m)"
      by (simp add: subset_insertI)
    with Cons show ?case by (simp only: fold_Cons o_apply list.set) blast
  qed simp
  from this[of touched "cleared next touched"] show ?thesis
    by (auto simp: effect_patch_def cleared_def keys_fold_put)
qed

lemma state_ok_linkD:
  "state_ok i es st \<Longrightarrow> (k, l) \<in> set (es_links st) \<Longrightarrow>
     (k, l) \<in> set (links_by_key (ei_links i)) \<or> may_add i l \<and> sl_type l \<in> effect_links es"
  by (auto simp: state_ok_def)

lemma state_ok_goneD:
  "state_ok i es st \<Longrightarrow> (k, l) \<in> set (links_by_key (ei_links i)) \<Longrightarrow> k \<notin> fst ` set (es_links st) \<Longrightarrow>
     l \<in> set (ei_links i) \<and> at_target i l \<and> sl_type l \<in> effect_links es"
  using links_by_key_ok[of k l "ei_links i"] by (auto simp: state_ok_def)

definition plan_local :: "effect_input \<Rightarrow> EffectPlan \<Rightarrow> bool" where
  "plan_local i plan \<longleftrightarrow>
     (let es = at_effects (ei_action i); target = ei_target i in
      set (ep_changed plan) \<subseteq> effect_props es
      \<and> (\<forall>k. k \<notin> effect_props es \<longrightarrow> lookup k (ps_props (ep_after plan)) = lookup k (so_props target))
      \<and> (\<forall>l \<in> set (ep_removeLinks plan).
           l \<in> set (ei_links i) \<and> at_target i l \<and> sl_type l \<in> effect_links es)
      \<and> (\<forall>l \<in> set (ep_addLinks plan). may_add i l \<and> sl_type l \<in> effect_links es))"

text \<open>C35: an action changes only the properties its effects name, removes only links of the target of
  the types they name, and adds only links of those types between the target and an object passed as
  a parameter whose type the link declares.\<close>

theorem applyEffects_local:
  assumes "applyEffects P i = Inr plan" "input_sep_free i"
  shows "plan_local i plan"
proof -
  let ?es = "at_effects (ei_action i)" and ?before = "links_by_key (ei_links i)"
  let ?st0 = "\<lparr>es_next = so_props (ei_target i), es_touched = [], es_links = ?before\<rparr>"
  from assms(1) obtain st where run: "run_effects P i ?es ?st0 = Inr st"
    by (auto simp: applyEffects_def Let_def split: sum.splits)
  have "state_ok i ?es ?st0"
    using links_by_key_ok[of _ _ "ei_links i"] assms(2)
    by (auto simp: state_ok_def input_sep_free_def list_all_iff intro: rev_image_eqI)
  with run have st: "state_ok i ?es st" by (rule run_effects_ok) (simp_all add: assms(2))
  obtain props errors where v: "validateProps P (ei_type i) (to_coerce (es_next st) (es_touched st)) False True
      = (props, errors)" by fastforce
  let ?cur = "\<lparr>ps_props = so_props (ei_target i), ps_provenance = so_provenance (ei_target i)\<rparr>"
  let ?patch = "effect_patch (es_next st) (es_touched st) props"
  have plan: "plan = \<lparr>ep_after = fst (patchProps ?cur ?patch), ep_changed = snd (patchProps ?cur ?patch),
      ep_removeLinks = map snd (filter (\<lambda>kl. fst kl \<notin> fst ` set (es_links st)) ?before),
      ep_addLinks = map snd (filter (\<lambda>kl. fst kl \<notin> fst ` set ?before) (es_links st))\<rparr>"
    using assms(1) run v
    by (auto simp: applyEffects_def effectFailed_def Let_def case_prod_beta split: if_splits option.splits)
  have keys: "fst ` set ?patch \<subseteq> effect_props ?es"
  proof (rule subset_trans[OF effect_patch_keys])
    show "set (es_touched st) \<subseteq> effect_props ?es" using st by (simp add: state_ok_def)
  qed
  have "l \<in> set (ei_links i) \<and> at_target i l \<and> sl_type l \<in> effect_links ?es"
    if "l \<in> set (ep_removeLinks plan)" for l
    using that state_ok_goneD[OF st] by (auto simp: plan)
  moreover have "may_add i l \<and> sl_type l \<in> effect_links ?es" if "l \<in> set (ep_addLinks plan)" for l
  proof -
    from that obtain k where k: "(k, l) \<in> set (es_links st)" "k \<notin> fst ` set ?before" by (auto simp: plan)
    then have "(k, l) \<notin> set ?before" by (metis fst_conv image_eqI)
    with state_ok_linkD[OF st k(1)] show ?thesis by blast
  qed
  moreover have "set (ep_changed plan) \<subseteq> effect_props ?es"
    using patchProps_changed[of ?cur ?patch] keys by (simp add: plan)
  moreover have "lookup k (ps_props (ep_after plan)) = lookup k (so_props (ei_target i))"
    if "k \<notin> effect_props ?es" for k
    using that keys patchProps_other[of k ?patch ?cur] by (auto simp: plan)
  ultimately show ?thesis by (simp add: plan_local_def Let_def)
qed

definition demo_links :: "(string \<times> LinkTypeDef) list" where
  "demo_links = [(''on'', \<lparr>lt_apiName = ''on'', lt_displayName = Plain ''on'', lt_from = ''A'', lt_to = ''A'',
     lt_many = True, lt_propagation = None\<rparr>)]"

definition demo_schema :: CompiledSchema where
  "demo_schema = \<lparr>cs_templateId = [], cs_templateVersion = [], cs_custom = False, cs_etag = 0,
     cs_objectTypes = [(''A'', demo_type)], cs_linkTypes = demo_links, cs_actionTypes = [],
     cs_functions = [], cs_simulationKpis = [], cs_indexPlan = []\<rparr>"

definition demo_action :: ActionTypeDef where
  "demo_action = \<lparr>at_apiName = ''move'', at_displayName = Plain ''move'', at_targetType = ''A'',
     at_parameters = [], at_preconditions = [],
     at_effects = [ERelink ''on'' DirOut ''to''], at_impact = None, at_description = None\<rparr>"

definition demo_object :: StoredObject where
  "demo_object = \<lparr>so_rid = ''ri.A.1'', so_type = ''A'', so_primaryKey = ''x'', so_title = ''x'',
     so_props = [(''k'', VStr ''x'')], so_provenance = [], so_propsHash = [], so_version = 1, so_updatedAt = 0\<rparr>"

definition demo_effects :: effect_input where
  "demo_effects = \<lparr>ei_schema = demo_schema, ei_action = demo_action, ei_type = demo_type,
     ei_target = demo_object, ei_params = [(''to'', VStr ''ri.A.3'')],
     ei_links = [\<lparr>sl_src = ''ri.A.1'', sl_type = ''on'', sl_dst = ''ri.A.2'', sl_weight = None\<rparr>],
     ei_refTypes = [(''ri.A.3'', ''A'')]\<rparr>"

lemma applyEffects_local_witness:
  "case applyEffects demo_platform demo_effects of
     Inl _ \<Rightarrow> False
   | Inr plan \<Rightarrow> plan_local demo_effects plan \<and> length (ep_removeLinks plan) = 1 \<and> length (ep_addLinks plan) = 1"
proof -
  have "case applyEffects demo_platform demo_effects of Inl _ \<Rightarrow> False
    | Inr plan \<Rightarrow> length (ep_removeLinks plan) = 1 \<and> length (ep_addLinks plan) = 1"
    by code_simp
  moreover have "input_sep_free demo_effects" by code_simp
  ultimately show ?thesis
    using applyEffects_local[of demo_platform demo_effects] by (auto split: sum.splits)
qed
end
