(* ===== verification/Interleave.thy ===== *)
theory Interleave
  imports Prelude
begin

section \<open>Interleaved calls\<close>

text \<open>
  A call of an \<^verbatim>\<open>async\<close> method runs in pieces: between two \<^verbatim>\<open>await\<close>s of database statements or remote
  calls, other calls run. A \<open>prog\<close> is such a call: \<open>Act f\<close> performs one indivisible piece \<open>f\<close> on
  the shared world and goes on with the program that \<open>f\<close> returns. A pool is a world with the calls in
  progress; one step runs one piece of one of them, starts a call, or changes the world from outside
  (the clock). A call that is never scheduled again is a worker that died.
\<close>

datatype ('w, 'e, 'a) prog =
    Done "'e + 'a"
  | Act "'w \<Rightarrow> ('w, 'e, 'a) prog \<times> 'w"

definition pret :: "'a \<Rightarrow> ('w, 'e, 'a) prog" where
  "pret x = Done (Inr x)"

definition pthrow :: "'e \<Rightarrow> ('w, 'e, 'a) prog" where
  "pthrow e = Done (Inl e)"

primrec pbind :: "('w, 'e, 'a) prog \<Rightarrow> ('a \<Rightarrow> ('w, 'e, 'b) prog) \<Rightarrow> ('w, 'e, 'b) prog" where
  "pbind (Done r) k = (case r of Inl e \<Rightarrow> Done (Inl e) | Inr x \<Rightarrow> k x)"
| "pbind (Act f) k = Act (map_prod (\<lambda>p. pbind p k) id \<circ> f)"

primrec ptry :: "('w, 'e, 'a) prog \<Rightarrow> ('e \<Rightarrow> ('w, 'e, 'a) prog) \<Rightarrow> ('w, 'e, 'a) prog" where
  "ptry (Done r) h = (case r of Inl e \<Rightarrow> h e | Inr x \<Rightarrow> Done (Inr x))"
| "ptry (Act f) h = Act (map_prod (\<lambda>p. ptry p h) id \<circ> f)"

definition pthn :: "('w, 'e, 'a) prog \<Rightarrow> ('w, 'e, 'b) prog \<Rightarrow> ('w, 'e, 'b) prog" where
  "pthn p q = pbind p (\<lambda>_. q)"

definition pwhen :: "bool \<Rightarrow> ('w, 'e, unit) prog \<Rightarrow> ('w, 'e, unit) prog" where
  "pwhen b p = (if b then p else pret ())"

definition atomic :: "('w, 'e, 'a) eff \<Rightarrow> ('w, 'e, 'a) prog" where
  "atomic m = Act (\<lambda>w. case m w of (r, w') \<Rightarrow> (Done r, w'))"

fun pmapM :: "('a \<Rightarrow> ('w, 'e, 'b) prog) \<Rightarrow> 'a list \<Rightarrow> ('w, 'e, 'b list) prog" where
  "pmapM f [] = pret []"
| "pmapM f (x # xs) = pbind (f x) (\<lambda>y. pbind (pmapM f xs) (\<lambda>ys. pret (y # ys)))"

fun pfoldM :: "('b \<Rightarrow> 'a \<Rightarrow> ('w, 'e, 'b) prog) \<Rightarrow> 'b \<Rightarrow> 'a list \<Rightarrow> ('w, 'e, 'b) prog" where
  "pfoldM f b [] = pret b"
| "pfoldM f b (x # xs) = pbind (f b x) (\<lambda>b'. pfoldM f b' xs)"

definition pvoid :: "('w, 'e, 'a) prog \<Rightarrow> ('w, 'e, unit) prog" where
  "pvoid p = pbind p (\<lambda>_. pret ())"

text \<open>A call run alone, without interruption, is an effect.\<close>

primrec solo :: "('w, 'e, 'a) prog \<Rightarrow> ('w, 'e, 'a) eff" where
  "solo (Done r) = (\<lambda>w. (r, w))"
| "solo (Act f) = (\<lambda>w. (\<lambda>(m, w'). m w') (map_prod solo id (f w)))"

lemma solo_atomic [simp]: "solo (atomic m) = m"
  by (rule ext) (simp add: atomic_def split: prod.splits)

lemma solo_pret [simp]: "solo (pret x) = ret x"
  by (simp add: pret_def fun_eq_iff)

lemma solo_pthrow [simp]: "solo (pthrow e) = throw e"
  by (simp add: pthrow_def fun_eq_iff)

lemma solo_pbind [simp]: "solo (pbind p k) = bnd (solo p) (\<lambda>x. solo (k x))"
proof (induction p)
  case (Act f)
  have "solo (pbind (Act f) k) w = bnd (solo (Act f)) (\<lambda>x. solo (k x)) w" for w
  proof (cases "f w")
    case (Pair p w')
    have "p \<in> Basic_BNFs.fsts (f w)" by (simp add: Pair)
    with Act.IH[OF rangeI[of f w], of p] Pair show ?thesis by (simp add: bnd_def)
  qed
  then show ?case by blast
qed (auto simp: bnd_def fun_eq_iff split: sum.splits)

lemma solo_ptry [simp]: "solo (ptry p h) = catch (solo p) (\<lambda>e. solo (h e))"
proof (induction p)
  case (Act f)
  have "solo (ptry (Act f) h) w = catch (solo (Act f)) (\<lambda>e. solo (h e)) w" for w
  proof (cases "f w")
    case (Pair p w')
    have "p \<in> Basic_BNFs.fsts (f w)" by (simp add: Pair)
    with Act.IH[OF rangeI[of f w], of p] Pair show ?thesis by (simp add: catch_def)
  qed
  then show ?case by blast
qed (auto simp: catch_def fun_eq_iff split: sum.splits)

lemma solo_pthn [simp]: "solo (pthn p q) = thn (solo p) (solo q)"
  by (simp add: pthn_def thn_def)

lemma solo_pwhen [simp]: "solo (pwhen b p) = whenM b (solo p)"
  by (simp add: pwhen_def whenM_def)

lemma solo_pmapM [simp]: "solo (pmapM f xs) = mapM (\<lambda>x. solo (f x)) xs"
  by (induction xs) simp_all

lemma solo_pfoldM [simp]: "solo (pfoldM f b xs) = foldM (\<lambda>b x. solo (f b x)) b xs"
  by (induction xs arbitrary: b) simp_all

subsection \<open>Pools\<close>

type_synonym ('c, 'w, 'e, 'a) pool = "'w \<times> ('c \<times> ('w, 'e, 'a) prog) list"

inductive pool_step ::
  "('c \<Rightarrow> ('w, 'e, 'a) prog) \<Rightarrow> ('c \<Rightarrow> bool) \<Rightarrow> ('w \<Rightarrow> 'w \<Rightarrow> bool)
    \<Rightarrow> ('c, 'w, 'e, 'a) pool \<Rightarrow> ('c, 'w, 'e, 'a) pool \<Rightarrow> bool"
  for start allowed outside where
  pool_start: "allowed c \<Longrightarrow> pool_step start allowed outside (w, ps) (w, ps @ [(c, start c)])"
| pool_run: "\<lbrakk>i < length ps; ps ! i = (c, Act f); f w = (p, w')\<rbrakk>
     \<Longrightarrow> pool_step start allowed outside (w, ps) (w', ps[i := (c, p)])"
| pool_outside: "outside w w' \<Longrightarrow> pool_step start allowed outside (w, ps) (w', ps)"

inductive_cases pool_stepE: "pool_step start allowed outside p q"

subsection \<open>Rely and guarantee\<close>

text \<open>
  \<open>rg R Q p w\<close>: started in \<open>w\<close>, with other calls changing the world along \<open>R\<close> at any time, each
  piece of \<open>p\<close> changes it along \<open>R\<close> too, and the result satisfies \<open>Q\<close> from then on.
\<close>

primrec rg :: "('w \<Rightarrow> 'w \<Rightarrow> bool) \<Rightarrow> ('e + 'a \<Rightarrow> 'w \<Rightarrow> bool) \<Rightarrow> ('w, 'e, 'a) prog \<Rightarrow> 'w \<Rightarrow> bool" where
  "rg R Q (Done r) = (\<lambda>w. \<forall>w'. R w w' \<longrightarrow> Q r w')"
| "rg R Q (Act f) = (\<lambda>w. \<forall>w'. R w w' \<longrightarrow>
     R w' (snd (f w')) \<and> (\<lambda>(m, v). m v) (map_prod (rg R Q) id (f w')))"

lemma rg_Act:
  "rg R Q (Act f) w \<longleftrightarrow> (\<forall>w'. R w w' \<longrightarrow> R w' (snd (f w')) \<and> rg R Q (fst (f w')) (snd (f w')))"
  by (simp add: case_prod_beta)

locale rely =
  fixes R :: "'w \<Rightarrow> 'w \<Rightarrow> bool" and I :: "'w \<Rightarrow> bool"
  assumes R_refl: "R w w"
    and R_trans: "R u v \<Longrightarrow> R v w \<Longrightarrow> R u w"
    and I_stable: "I w \<Longrightarrow> R w w' \<Longrightarrow> I w'"
begin

lemma rg_stable: "rg R Q p w \<Longrightarrow> R w w' \<Longrightarrow> rg R Q p w'"
  by (cases p) (auto simp: rg_Act simp del: rg.simps(2) intro: R_trans)

lemma rg_done: "(\<And>w'. R w w' \<Longrightarrow> Q r w') \<Longrightarrow> rg R Q (Done r) w"
  by simp

lemma rg_pret: "(\<And>w'. R w w' \<Longrightarrow> Q (Inr x) w') \<Longrightarrow> rg R Q (pret x) w"
  by (simp add: pret_def)

lemma rg_pthrow: "(\<And>w'. R w w' \<Longrightarrow> Q (Inl e) w') \<Longrightarrow> rg R Q (pthrow e) w"
  by (simp add: pthrow_def)

lemma rg_bind:
  assumes "rg R M p w"
    and "\<And>x w'. M (Inr x) w' \<Longrightarrow> rg R Q (k x) w'"
    and "\<And>e w'. M (Inl e) w' \<Longrightarrow> Q (Inl e) w'"
  shows "rg R Q (pbind p k) w"
  using assms(1)
proof (induction p arbitrary: w)
  case (Done r)
  show ?case
  proof (cases r)
    case (Inl e)
    with Done assms(3) show ?thesis by auto
  next
    case (Inr x)
    with Done R_refl[of w] have "M (Inr x) w" by auto
    with Inr assms(2) show ?thesis by simp
  qed
next
  case (Act f)
  show ?case
  proof (simp only: pbind.simps rg_Act, intro allI impI)
    fix w' assume "R w w'"
    with Act.prems have 1: "R w' (snd (f w'))" "rg R M (fst (f w')) (snd (f w'))"
      by (simp_all add: rg_Act del: rg.simps(2))
    have "fst (f w') \<in> Basic_BNFs.fsts (f w')" by (cases "f w'") simp
    with Act.IH[OF rangeI[of f w'], of "fst (f w')"] 1
    show "R w' (snd ((map_prod (\<lambda>p. pbind p k) id \<circ> f) w'))
      \<and> rg R Q (fst ((map_prod (\<lambda>p. pbind p k) id \<circ> f) w')) (snd ((map_prod (\<lambda>p. pbind p k) id \<circ> f) w'))"
      by simp
  qed
qed

lemma rg_try:
  assumes "rg R M p w"
    and "\<And>e w'. M (Inl e) w' \<Longrightarrow> rg R Q (h e) w'"
    and "\<And>x w'. M (Inr x) w' \<Longrightarrow> Q (Inr x) w'"
  shows "rg R Q (ptry p h) w"
  using assms(1)
proof (induction p arbitrary: w)
  case (Done r)
  show ?case
  proof (cases r)
    case (Inr x)
    with Done assms(3) show ?thesis by auto
  next
    case (Inl e)
    with Done R_refl[of w] have "M (Inl e) w" by auto
    with Inl assms(2) show ?thesis by simp
  qed
next
  case (Act f)
  show ?case
  proof (simp only: ptry.simps rg_Act, intro allI impI)
    fix w' assume "R w w'"
    with Act.prems have 1: "R w' (snd (f w'))" "rg R M (fst (f w')) (snd (f w'))"
      by (simp_all add: rg_Act del: rg.simps(2))
    have "fst (f w') \<in> Basic_BNFs.fsts (f w')" by (cases "f w'") simp
    with Act.IH[OF rangeI[of f w'], of "fst (f w')"] 1
    show "R w' (snd ((map_prod (\<lambda>p. ptry p h) id \<circ> f) w'))
      \<and> rg R Q (fst ((map_prod (\<lambda>p. ptry p h) id \<circ> f) w')) (snd ((map_prod (\<lambda>p. ptry p h) id \<circ> f) w'))"
      by simp
  qed
qed

lemma rg_atomic:
  assumes "\<And>w'. R w w' \<Longrightarrow> R w' (snd (m w'))"
    and "\<And>w' w''. R w w' \<Longrightarrow> R (snd (m w')) w'' \<Longrightarrow> Q (fst (m w')) w''"
  shows "rg R Q (atomic m) w"
  using assms by (auto simp: atomic_def rg_Act case_prod_beta simp del: rg.simps(2))

lemma rg_weaken:
  assumes "rg R M p w" "\<And>r w'. M r w' \<Longrightarrow> Q r w'"
  shows "rg R Q p w"
  using assms(1)
proof (induction p arbitrary: w)
  case (Act f)
  show ?case
  proof (simp only: rg_Act, intro allI impI)
    fix w' assume "R w w'"
    with Act.prems have 1: "R w' (snd (f w'))" "rg R M (fst (f w')) (snd (f w'))"
      by (simp_all add: rg_Act del: rg.simps(2))
    have "fst (f w') \<in> Basic_BNFs.fsts (f w')" by (cases "f w'") simp
    with Act.IH[OF rangeI[of f w'], of "fst (f w')"] 1 show "R w' (snd (f w')) \<and> rg R Q (fst (f w')) (snd (f w'))"
      by blast
  qed
qed (use assms(2) in auto)

text \<open>The invariant holds wherever a piece starts or ends.\<close>

lemma rg_kept:
  assumes "rg R Q p w" "I w" "F w" "\<And>w w'. F w \<Longrightarrow> I w \<Longrightarrow> R w w' \<Longrightarrow> F w'"
  shows "rg R (\<lambda>r w. Q r w \<and> F w \<and> I w) p w"
  using assms(1-3)
proof (induction p arbitrary: w)
  case (Done r)
  with assms(4) show ?case by (auto intro: I_stable)
next
  case (Act f)
  show ?case
  proof (simp only: rg_Act, intro allI impI)
    fix w' assume "R w w'"
    with Act.prems assms(4) have 1: "R w' (snd (f w'))" "rg R Q (fst (f w')) (snd (f w'))" "I w'" "F w'"
      by (auto simp: rg_Act simp del: rg.simps(2) intro: I_stable)
    then have 2: "I (snd (f w'))" "F (snd (f w'))" by (auto intro: I_stable assms(4))
    have "fst (f w') \<in> Basic_BNFs.fsts (f w')" by (cases "f w'") simp
    with Act.IH[OF rangeI[of f w'], of "fst (f w')"] 1 2
    show "R w' (snd (f w')) \<and> rg R (\<lambda>r w. Q r w \<and> F w \<and> I w) (fst (f w')) (snd (f w'))" by blast
  qed
qed

lemma rg_inv: "rg R Q p w \<Longrightarrow> I w \<Longrightarrow> rg R (\<lambda>r w. Q r w \<and> I w) p w"
  using rg_kept[of Q p w "\<lambda>_. True"] by simp

text \<open>A calm call keeps to \<open>R\<close>, whatever it returns.\<close>

definition calm :: "('w, 'e, 'a) prog \<Rightarrow> bool" where
  "calm p \<longleftrightarrow> (\<forall>w. I w \<longrightarrow> rg R (\<lambda>_ _. True) p w)"

lemma calmI: "(\<And>w. I w \<Longrightarrow> rg R Q p w) \<Longrightarrow> calm p"
  unfolding calm_def by (auto intro: rg_weaken)

lemma rg_calm_bind:
  assumes "calm p" "I w" "\<And>x w'. I w' \<Longrightarrow> rg R Q (k x) w'" "\<And>e w'. Q (Inl e) w'"
  shows "rg R Q (pbind p k) w"
proof (rule rg_bind)
  show "rg R (\<lambda>r w. True \<and> I w) p w" using assms(1,2) by (intro rg_inv) (auto simp: calm_def)
qed (use assms in auto)

lemma rg_calm_thn:
  assumes "calm p" "I w" "\<And>w'. I w' \<Longrightarrow> rg R Q q w'" "\<And>e w'. Q (Inl e) w'"
  shows "rg R Q (pthn p q) w"
  unfolding pthn_def using assms by (rule rg_calm_bind)

lemma calm_kept:
  assumes "calm p" "I w" "F w" "\<And>w w'. F w \<Longrightarrow> I w \<Longrightarrow> R w w' \<Longrightarrow> F w'"
  shows "rg R (\<lambda>_ w. F w \<and> I w) p w"
  using rg_kept[of "\<lambda>_ _. True" p w F] assms by (auto simp: calm_def)

lemma calm_pret: "calm (pret x)"
  by (simp add: calm_def pret_def)

lemma calm_pthrow: "calm (pthrow e)"
  by (simp add: calm_def pthrow_def)

lemma calm_bind: "calm p \<Longrightarrow> (\<And>x. calm (k x)) \<Longrightarrow> calm (pbind p k)"
  by (rule calmI, rule rg_calm_bind) (auto simp: calm_def)

lemma calm_thn: "calm p \<Longrightarrow> calm q \<Longrightarrow> calm (pthn p q)"
  by (simp add: pthn_def calm_bind)

lemma calm_try:
  assumes "calm p" "\<And>e. calm (h e)"
  shows "calm (ptry p h)"
proof (rule calmI, rule rg_try)
  fix w assume "I w"
  with assms(1) show "rg R (\<lambda>r w. True \<and> I w) p w" by (intro rg_inv) (auto simp: calm_def)
qed (use assms(2) in \<open>auto simp: calm_def\<close>)

lemma calm_atomic: "(\<And>w. I w \<Longrightarrow> R w (snd (m w))) \<Longrightarrow> calm (atomic m)"
  unfolding calm_def by (blast intro: rg_atomic I_stable)

lemma calm_if: "(b \<Longrightarrow> calm p) \<Longrightarrow> (\<not> b \<Longrightarrow> calm q) \<Longrightarrow> calm (if b then p else q)"
  by simp

lemma calm_case_option: "calm p \<Longrightarrow> (\<And>x. calm (f x)) \<Longrightarrow> calm (case v of None \<Rightarrow> p | Some x \<Rightarrow> f x)"
  by (cases v) auto

lemma calm_case_sum: "(\<And>x. calm (f x)) \<Longrightarrow> (\<And>x. calm (g x)) \<Longrightarrow> calm (case v of Inl x \<Rightarrow> f x | Inr x \<Rightarrow> g x)"
  by (cases v) auto

lemma calm_case_prod: "(\<And>x y. calm (f x y)) \<Longrightarrow> calm (case v of (x, y) \<Rightarrow> f x y)"
  by (cases v) auto

lemma calm_mapM: "(\<And>x. calm (f x)) \<Longrightarrow> calm (pmapM f xs)"
  by (induction xs) (auto intro!: calm_bind calm_pret)

lemma calm_foldM: "(\<And>b x. calm (f b x)) \<Longrightarrow> calm (pfoldM f b xs)"
  by (induction xs arbitrary: b) (auto intro!: calm_bind calm_pret)

lemma calm_void: "calm p \<Longrightarrow> calm (pvoid p)"
  by (simp add: pvoid_def calm_bind calm_pret)

lemma calm_when: "calm p \<Longrightarrow> calm (pwhen b p)"
  by (simp add: pwhen_def calm_pret)

lemmas calm_rules = calm_pret calm_pthrow calm_bind calm_thn calm_try calm_if calm_case_option
  calm_case_sum calm_case_prod calm_mapM calm_foldM calm_void calm_when

text \<open>A pool of calls that keep to \<open>R\<close> moves along \<open>R\<close>, and each call that has ended has its \<open>Q\<close>.\<close>

definition pool_good :: "('c \<Rightarrow> 'e + 'a \<Rightarrow> 'w \<Rightarrow> bool) \<Rightarrow> ('c, 'w, 'e, 'a) pool \<Rightarrow> bool" where
  "pool_good Q q \<longleftrightarrow> I (fst q) \<and> list_all (\<lambda>cp. rg R (Q (fst cp)) (snd cp) (fst q)) (snd q)"

lemma pool_good_empty: "I w \<Longrightarrow> pool_good Q (w, [])"
  by (simp add: pool_good_def)

lemma pool_good_done: "pool_good Q (w, ps) \<Longrightarrow> (c, Done r) \<in> set ps \<Longrightarrow> Q c r w"
  by (fastforce simp: pool_good_def list_all_iff intro: R_refl)

lemma pool_step_good:
  assumes "pool_step start allowed outside q q'" "pool_good Q q"
    and "\<And>c w. allowed c \<Longrightarrow> I w \<Longrightarrow> rg R (Q c) (start c) w"
    and "\<And>w w'. I w \<Longrightarrow> outside w w' \<Longrightarrow> R w w'"
  shows "R (fst q) (fst q') \<and> pool_good Q q'"
  using assms(1)
proof cases
  case (pool_start c w ps)
  with assms R_refl show ?thesis by (simp add: pool_good_def)
next
  case (pool_run i ps c f w p w')
  have good: "I w" "\<forall>j < length ps. rg R (Q (fst (ps ! j))) (snd (ps ! j)) w"
    using assms(2) pool_run by (simp_all add: pool_good_def list_all_length)
  with pool_run(3,4) have "rg R (Q c) (Act f) w" by (metis fst_conv snd_conv)
  with good(1) R_refl pool_run(5) have r: "R w w'" "rg R (Q c) p w'" "I w'"
    by (fastforce simp: rg_Act simp del: rg.simps(2) intro: I_stable)+
  with assms(2) pool_run show ?thesis
    by (auto simp: pool_good_def list_all_length nth_list_update intro: rg_stable)
next
  case (pool_outside w w' ps)
  with assms show ?thesis by (auto simp: pool_good_def list_all_length intro: rg_stable I_stable)
qed

lemma pool_steps_good:
  assumes "(pool_step start allowed outside)\<^sup>*\<^sup>* q q'" "pool_good Q q"
    and "\<And>c w. allowed c \<Longrightarrow> I w \<Longrightarrow> rg R (Q c) (start c) w"
    and "\<And>w w'. I w \<Longrightarrow> outside w w' \<Longrightarrow> R w w'"
  shows "R (fst q) (fst q') \<and> pool_good Q q'"
  using assms(1)
proof (induction rule: rtranclp_induct)
  case base
  with assms(2) show ?case by (simp add: R_refl)
next
  case (step r s)
  with pool_step_good[OF step(2) _ assms(3,4)] show ?case by (blast intro: R_trans)
qed

end

text \<open>A call that runs alone is one of the ways a pool can go.\<close>

lemma pool_solo:
  assumes "solo p w = (r, w')"
  shows "(pool_step start allowed outside)\<^sup>*\<^sup>* (w, ps @ [(c, p)]) (w', ps @ [(c, Done r)])"
  using assms
proof (induction p arbitrary: w)
  case (Act f)
  obtain p v where f: "f w = (p, v)" by (cases "f w")
  with Act.prems have "solo p v = (r, w')" by simp
  with Act.IH[OF rangeI[of f w], of p v] f
  have "(pool_step start allowed outside)\<^sup>*\<^sup>* (v, ps @ [(c, p)]) (w', ps @ [(c, Done r)])" by simp
  moreover have "pool_step start allowed outside (w, ps @ [(c, Act f)]) (v, ps @ [(c, p)])"
    using pool_run[of "length ps" "ps @ [(c, Act f)]" c f w p v start allowed outside] f by simp
  ultimately show ?case by (rule converse_rtranclp_into_rtranclp[rotated])
qed simp

lemma pool_call:
  assumes "allowed c" "solo (start c) w = (r, w')"
  shows "(pool_step start allowed outside)\<^sup>*\<^sup>* (w, ps) (w', ps @ [(c, Done r)])"
  using pool_start[of allowed c start outside w ps, OF assms(1)] pool_solo[OF assms(2)]
  by (rule converse_rtranclp_into_rtranclp)

end
