(* ===== verification/GraphDb.thy ===== *)
theory GraphDb
  imports GraphFacts World Interleave "HOL-Library.Product_Lexorder"
begin

section \<open>The database of the object graph\<close>

text \<open>
  The tables of \<^verbatim>\<open>migrations/object-graph\<close> and the statements of the repositories
  (\<^verbatim>\<open>d1_object_reader.ts\<close>, \<^verbatim>\<open>d1_object_writer.ts\<close>, \<^verbatim>\<open>d1_repositories.ts\<close>,
  \<^verbatim>\<open>d1_lifecycle_store.ts\<close>, \<^verbatim>\<open>queue_outbox.ts\<close>). A column of JSON text holds the value that
  parsing it gives back (\<open>json_image\<close>). A batch is one transaction: the first constraint that a
  statement violates undoes all of it.
\<close>

fun json_image :: "jv \<Rightarrow> jv" where
  "json_image VUndef = VNull"
| "json_image (VNum n) = (if isFinite n then VNum n else VNull)"
| "json_image (VArr vs) = VArr (map json_image vs)"
| "json_image (VObj kvs) =
     VObj (map (\<lambda>kv. (fst kv, json_image (snd kv))) (filter (\<lambda>kv. snd kv \<noteq> VUndef) kvs))"
| "json_image v = v"

definition obj_image :: "obj \<Rightarrow> obj" where
  "obj_image props = (case json_image (VObj props) of VObj kvs \<Rightarrow> kvs | _ \<Rightarrow> [])"

record IndexRow =
  ix_tenant :: string
  ix_rid :: string
  ix_prop :: string
  ix_object_type :: string
  ix_value :: jv

record ActionResult =
  ar_actionLogId :: string
  ar_actionType :: string
  ar_rid :: string
  ar_version :: int
  ar_before :: obj
  ar_after :: obj
  ar_executedAt :: string
  ar_replayed :: bool

record ActionLogRow =
  al_id :: string
  al_actionType :: string
  al_targetRid :: string
  al_params :: obj
  al_before :: obj
  al_after :: obj
  al_actor :: string
  al_actorUserId :: "string option"
  al_recommendationId :: "string option"
  al_idempotencyKey :: string
  al_result :: ActionResult
  al_executedAt :: int

record OutboxRow =
  ob_id :: string
  ob_msg :: DomainEventMsg

text \<open>Every row is paired with its \<^verbatim>\<open>tenant_id\<close>.\<close>

record gdb =
  g_objects :: "(string \<times> StoredObject) list"
  g_index :: "IndexRow list"
  g_links :: "(string \<times> StoredLink) list"
  g_log :: "(string \<times> ActionLogRow) list"
  g_outbox :: "(string \<times> OutboxRow) list"
  g_tombs :: "(string \<times> int) list"

abbreviation of_tenant :: "string \<Rightarrow> string \<times> 'r \<Rightarrow> bool" where
  "of_tenant tid r \<equiv> fst r = tid"

definition rows_of :: "string \<Rightarrow> (string \<times> 'r) list \<Rightarrow> 'r list" where
  "rows_of tid rows = map snd (filter (of_tenant tid) rows)"

subsection \<open>Reads\<close>

record GraphCounts =
  gc_objects :: int
  gc_links :: int
  gc_tombstoned :: bool

definition og_counts :: "string \<Rightarrow> gdb \<Rightarrow> GraphCounts" where
  "og_counts tid db =
     \<lparr>gc_objects = int (length (rows_of tid (g_objects db))),
      gc_links = int (length (rows_of tid (g_links db))),
      gc_tombstoned = list_ex (of_tenant tid) (g_tombs db)\<rparr>"

definition og_findByKeys :: "string \<Rightarrow> (string \<times> string) list \<Rightarrow> gdb \<Rightarrow> StoredObject list" where
  "og_findByKeys tid ks db =
     filter (\<lambda>r. (so_type r, so_primaryKey r) \<in> set ks) (rows_of tid (g_objects db))"

definition og_get :: "string \<Rightarrow> string \<Rightarrow> gdb \<Rightarrow> StoredObject option" where
  "og_get tid rid db = sel1 (\<lambda>r. so_rid r = rid) (rows_of tid (g_objects db))"

definition og_getMany :: "string \<Rightarrow> string list \<Rightarrow> gdb \<Rightarrow> StoredObject list" where
  "og_getMany tid rids db = filter (\<lambda>r. so_rid r \<in> set rids) (rows_of tid (g_objects db))"

definition og_linksFrom :: "string \<Rightarrow> string list \<Rightarrow> gdb \<Rightarrow> StoredLink list" where
  "og_linksFrom tid rids db = filter (\<lambda>l. sl_src l \<in> set rids) (rows_of tid (g_links db))"

definition og_linksOf :: "string \<Rightarrow> string \<Rightarrow> string list \<Rightarrow> gdb \<Rightarrow> StoredLink list" where
  "og_linksOf tid rid types db =
     (if types = [] then []
      else filter (\<lambda>l. (sl_src l = rid \<or> sl_dst l = rid) \<and> sl_type l \<in> set types) (rows_of tid (g_links db)))"

definition og_edgesAmong :: "string \<Rightarrow> string list \<Rightarrow> string list option \<Rightarrow> gdb \<Rightarrow> StoredLink list" where
  "og_edgesAmong tid rids types db =
     filter (\<lambda>l. sl_src l \<in> set rids \<and> sl_dst l \<in> set rids
               \<and> (case types of None \<Rightarrow> True | Some [] \<Rightarrow> True | Some ts \<Rightarrow> sl_type l \<in> set ts))
       (rows_of tid (g_links db))"

definition og_findByKey :: "string \<Rightarrow> string \<Rightarrow> gdb \<Rightarrow> ActionLogRow option" where
  "og_findByKey tid key db = sel1 (\<lambda>r. al_idempotencyKey r = key) (rows_of tid (g_log db))"

definition log_before :: "(int \<times> string) option \<Rightarrow> ActionLogRow \<Rightarrow> bool" where
  "log_before after r =
     (case after of
        None \<Rightarrow> True
      | Some (t, i) \<Rightarrow> al_executedAt r < t \<or> al_executedAt r = t \<and> al_id r < i)"

definition og_listForTarget ::
  "string \<Rightarrow> string \<Rightarrow> (int \<times> string) option \<Rightarrow> int \<Rightarrow> gdb \<Rightarrow> ActionLogRow list" where
  "og_listForTarget tid rid after limit db =
     order_desc (\<lambda>r. (al_executedAt r, al_id r)) (nat limit)
       (filter (\<lambda>r. al_targetRid r = rid \<and> log_before after r) (rows_of tid (g_log db)))"

subsection \<open>Statements and batches\<close>

type_synonym gstmt = "gdb \<Rightarrow> exn + (nat \<times> gdb)"

fun g_run :: "gstmt list \<Rightarrow> gdb \<Rightarrow> exn + (nat list \<times> gdb)" where
  "g_run [] db = Inr ([], db)"
| "g_run (s # ss) db =
     (case s db of
        Inl e \<Rightarrow> Inl e
      | Inr (n, db') \<Rightarrow> (case g_run ss db' of Inl e \<Rightarrow> Inl e | Inr (ns, db'') \<Rightarrow> Inr (n # ns, db'')))"

definition g_batch :: "gstmt list \<Rightarrow> gdb \<Rightarrow> (exn + nat list) \<times> gdb" where
  "g_batch ss db = (case g_run ss db of Inl e \<Rightarrow> (Inl e, db) | Inr (ns, db') \<Rightarrow> (Inr ns, db'))"

definition unique_failed :: "string \<Rightarrow> exn" where
  "unique_failed table = Ext (''UNIQUE constraint failed: '' @ table @ ''.tenant_id'')"

text \<open>\<^verbatim>\<open>isUniqueViolation\<close> of \<^verbatim>\<open>rows.ts\<close>.\<close>

definition og_isUniqueViolation :: "exn \<Rightarrow> string \<Rightarrow> bool" where
  "og_isUniqueViolation e table \<longleftrightarrow>
     has_sub (to_lower ''UNIQUE constraint failed'') (to_lower (exn_message e))
     \<and> has_sub (table @ ''.'') (exn_message e)"

datatype CommitOutcome = CommitOk | CommitStale | CommitDuplicate

record GuardedUpdate =
  gu_rid :: string
  gu_expectedVersion :: int
  gu_state :: PropState
  gu_title :: string
  gu_hash :: string
  gu_index :: "(string \<times> jv) list option"
  gu_nowMs :: int

text \<open>The object at the expected version: the guard of every statement of the batch.\<close>

definition guarded :: "string \<Rightarrow> GuardedUpdate \<Rightarrow> string \<times> StoredObject \<Rightarrow> bool" where
  "guarded tid u r \<longleftrightarrow> fst r = tid \<and> so_rid (snd r) = gu_rid u \<and> so_version (snd r) = gu_expectedVersion u"

definition guard :: "string \<Rightarrow> GuardedUpdate \<Rightarrow> gdb \<Rightarrow> bool" where
  "guard tid u db = list_ex (guarded tid u) (g_objects db)"

text \<open>\<^verbatim>\<open>rid.split('.')[1] ?? ''\<close>.\<close>

definition rid_type :: "string \<Rightarrow> string" where
  "rid_type rid = (case split_on CHR ''.'' rid of _ # t # _ \<Rightarrow> t | _ \<Rightarrow> [])"

definition index_delete :: "string \<Rightarrow> GuardedUpdate \<Rightarrow> gstmt" where
  "index_delete tid u db =
     (let p = (\<lambda>r. ix_tenant r = tid \<and> ix_rid r = gu_rid u \<and> guard tid u db)
      in Inr (hits p (g_index db), db\<lparr>g_index := del p (g_index db)\<rparr>))"

definition index_key :: "IndexRow \<Rightarrow> string \<times> string \<times> string" where
  "index_key r = (ix_tenant r, ix_rid r, ix_prop r)"

definition index_insert :: "string \<Rightarrow> GuardedUpdate \<Rightarrow> (string \<times> jv) list \<Rightarrow> gstmt" where
  "index_insert tid u entries db =
     (let rows = (if guard tid u db
                  then map (\<lambda>(p, v). \<lparr>ix_tenant = tid, ix_rid = gu_rid u, ix_prop = p,
                                     ix_object_type = rid_type (gu_rid u), ix_value = v\<rparr>) entries
                  else [])
      in if distinct (map index_key rows) \<and> set (map index_key rows) \<inter> set (map index_key (g_index db)) = {}
         then Inr (length rows, db\<lparr>g_index := g_index db @ rows\<rparr>)
         else Inl (unique_failed ''og_prop_index''))"

definition indexStmts :: "string \<Rightarrow> GuardedUpdate \<Rightarrow> gstmt list" where
  "indexStmts tid u =
     (case gu_index u of
        None \<Rightarrow> []
      | Some [] \<Rightarrow> [index_delete tid u]
      | Some entries \<Rightarrow> [index_delete tid u, index_insert tid u entries])"

definition apply_update :: "GuardedUpdate \<Rightarrow> StoredObject \<Rightarrow> StoredObject" where
  "apply_update u so =
     so\<lparr>so_props := obj_image (ps_props (gu_state u)), so_propsHash := gu_hash u,
        so_provenance := ps_provenance (gu_state u), so_title := gu_title u,
        so_version := so_version so + 1, so_updatedAt := gu_nowMs u\<rparr>"

definition updateStmt :: "string \<Rightarrow> GuardedUpdate \<Rightarrow> gstmt" where
  "updateStmt tid u db =
     Inr (hits (guarded tid u) (g_objects db),
          db\<lparr>g_objects := upd (guarded tid u) (\<lambda>r. (fst r, apply_update u (snd r))) (g_objects db)\<rparr>)"

definition guardedOutbox :: "string \<Rightarrow> GuardedUpdate \<Rightarrow> OutboxRow \<Rightarrow> gstmt" where
  "guardedOutbox tid u row db =
     (if \<not> guard tid u db then Inr (0, db)
      else if list_ex (\<lambda>r. fst r = tid \<and> ob_id (snd r) = ob_id row) (g_outbox db)
      then Inl (unique_failed ''domain_event'')
      else Inr (1, db\<lparr>g_outbox := g_outbox db @ [(tid, row)]\<rparr>))"

definition commitPatch :: "string \<Rightarrow> GuardedUpdate \<Rightarrow> OutboxRow \<Rightarrow> gdb \<Rightarrow> (exn + CommitOutcome) \<times> gdb" where
  "commitPatch tid u row db =
     (case g_batch (indexStmts tid u @ [guardedOutbox tid u row, updateStmt tid u]) db of
        (Inl e, db') \<Rightarrow> (Inl e, db')
      | (Inr ns, db') \<Rightarrow> (Inr (if last ns = 1 then CommitOk else CommitStale), db'))"

definition link_in :: "StoredLink list \<Rightarrow> StoredLink \<Rightarrow> bool" where
  "link_in ls l \<longleftrightarrow> (sl_src l, sl_type l, sl_dst l) \<in> set (map (\<lambda>m. (sl_src m, sl_type m, sl_dst m)) ls)"

definition links_remove :: "string \<Rightarrow> GuardedUpdate \<Rightarrow> StoredLink list \<Rightarrow> gstmt" where
  "links_remove tid u ls db =
     (let p = (\<lambda>r. fst r = tid \<and> link_in ls (snd r) \<and> guard tid u db)
      in Inr (hits p (g_links db), db\<lparr>g_links := del p (g_links db)\<rparr>))"

text \<open>\<^verbatim>\<open>ON CONFLICT DO NOTHING\<close>: a link that is there stays as it is.\<close>

definition link_insert_ignore :: "string \<Rightarrow> StoredLink \<Rightarrow> (string \<times> StoredLink) list \<Rightarrow> (string \<times> StoredLink) list" where
  "link_insert_ignore tid l rows =
     (if list_ex (\<lambda>r. fst r = tid \<and> link_in [l] (snd r)) rows then rows else rows @ [(tid, l)])"

definition links_add :: "string \<Rightarrow> GuardedUpdate \<Rightarrow> StoredLink list \<Rightarrow> gstmt" where
  "links_add tid u ls db =
     (if guard tid u db
      then let rows = fold (link_insert_ignore tid) ls (g_links db)
           in Inr (length rows - length (g_links db), db\<lparr>g_links := rows\<rparr>)
      else Inr (0, db))"

definition log_image :: "ActionLogRow \<Rightarrow> ActionLogRow" where
  "log_image r =
     r\<lparr>al_params := obj_image (al_params r), al_before := obj_image (al_before r),
       al_after := obj_image (al_after r),
       al_result := (al_result r)\<lparr>ar_before := obj_image (ar_before (al_result r)),
                                  ar_after := obj_image (ar_after (al_result r))\<rparr>\<rparr>"

definition log_clash :: "string \<Rightarrow> ActionLogRow \<Rightarrow> gdb \<Rightarrow> bool" where
  "log_clash tid r db =
     list_ex (\<lambda>x. fst x = tid \<and> (al_id (snd x) = al_id r \<or> al_idempotencyKey (snd x) = al_idempotencyKey r))
       (g_log db)"

definition log_insert :: "string \<Rightarrow> GuardedUpdate \<Rightarrow> ActionLogRow \<Rightarrow> gstmt" where
  "log_insert tid u r db =
     (if \<not> guard tid u db then Inr (0, db)
      else if al_actor r \<notin> {''owner'', ''admin'', ''svc:decision-engine''} then Inl (Db CheckFailed)
      else if log_clash tid r db then Inl (unique_failed ''og_action_log'')
      else Inr (1, db\<lparr>g_log := g_log db @ [(tid, log_image r)]\<rparr>))"

record ActionCommit =
  cm_update :: GuardedUpdate
  cm_removeLinks :: "StoredLink list"
  cm_addLinks :: "StoredLink list"
  cm_log :: ActionLogRow
  cm_outbox :: OutboxRow

definition action_stmts :: "string \<Rightarrow> ActionCommit \<Rightarrow> gstmt list" where
  "action_stmts tid c =
     (let u = cm_update c in
      indexStmts tid u
      @ (if cm_removeLinks c = [] then [] else [links_remove tid u (cm_removeLinks c)])
      @ (if cm_addLinks c = [] then [] else [links_add tid u (cm_addLinks c)])
      @ [log_insert tid u (cm_log c), guardedOutbox tid u (cm_outbox c), updateStmt tid u])"

definition commitAction :: "string \<Rightarrow> ActionCommit \<Rightarrow> gdb \<Rightarrow> (exn + CommitOutcome) \<times> gdb" where
  "commitAction tid c db =
     (case g_batch (action_stmts tid c) db of
        (Inl e, db') \<Rightarrow>
          (if og_isUniqueViolation e ''og_action_log'' then Inr CommitDuplicate else Inl e, db')
      | (Inr ns, db') \<Rightarrow> (Inr (if last ns = 1 then CommitOk else CommitStale), db'))"

record ClearAudit =
  ca_id :: string
  ca_actor :: string
  ca_actorUserId :: "string option"
  ca_executedAt :: int

definition CLEAR_WORKSPACE_ACTION :: string where
  "CLEAR_WORKSPACE_ACTION = ''$clearWorkspace''"

text \<open>The counts also go into the \<^verbatim>\<open>result\<close> column, which no call reads back for this action type.\<close>

definition clear_log :: "string \<Rightarrow> ClearAudit \<Rightarrow> gstmt" where
  "clear_log tid a db =
     (let counts = [(''objects'', VNum (num_of_int (gc_objects (og_counts tid db)))),
                    (''links'', VNum (num_of_int (gc_links (og_counts tid db))))];
          r = \<lparr>al_id = ca_id a, al_actionType = CLEAR_WORKSPACE_ACTION, al_targetRid = [], al_params = counts,
               al_before = [], al_after = [], al_actor = ca_actor a, al_actorUserId = ca_actorUserId a,
               al_recommendationId = None, al_idempotencyKey = ''clear:'' @ ca_id a,
               al_result = \<lparr>ar_actionLogId = [], ar_actionType = [], ar_rid = [], ar_version = 0,
                  ar_before = [], ar_after = [], ar_executedAt = [], ar_replayed = False\<rparr>,
               al_executedAt = ca_executedAt a\<rparr>
      in if ca_actor a \<notin> {''owner'', ''admin'', ''svc:decision-engine''} then Inl (Db CheckFailed)
         else if log_clash tid r db then Inl (unique_failed ''og_action_log'')
         else Inr (1, db\<lparr>g_log := g_log db @ [(tid, r)]\<rparr>))"

definition clearAll :: "string \<Rightarrow> ClearAudit \<Rightarrow> gdb \<Rightarrow> (exn + (nat \<times> nat)) \<times> gdb" where
  "clearAll tid a db =
     (case g_batch
        [clear_log tid a,
         \<lambda>db. let p = (\<lambda>r. ix_tenant r = tid) in Inr (hits p (g_index db), db\<lparr>g_index := del p (g_index db)\<rparr>),
         \<lambda>db. Inr (hits (of_tenant tid) (g_links db), db\<lparr>g_links := del (of_tenant tid) (g_links db)\<rparr>),
         \<lambda>db. Inr (hits (of_tenant tid) (g_objects db), db\<lparr>g_objects := del (of_tenant tid) (g_objects db)\<rparr>),
         \<lambda>db. Inr (hits (of_tenant tid) (g_outbox db), db\<lparr>g_outbox := del (of_tenant tid) (g_outbox db)\<rparr>)] db of
        (Inl e, db') \<Rightarrow> (Inl e, db')
      | (Inr ns, db') \<Rightarrow> (Inr (ns ! 3, ns ! 2), db'))"

definition outbox_delete :: "string \<Rightarrow> string \<Rightarrow> gdb \<Rightarrow> gdb" where
  "outbox_delete tid i db = db\<lparr>g_outbox := del (\<lambda>r. fst r = tid \<and> ob_id (snd r) = i) (g_outbox db)\<rparr>"

end
