(* ===== verification/GraphCalls.thy ===== *)
theory GraphCalls
  imports GraphDb
begin

section \<open>The calls of the object graph\<close>

text \<open>
  \<^verbatim>\<open>packages/object-graph/application\<close> as interleavable programs: every \<^verbatim>\<open>await\<close> of a D1 statement or
  batch, of the ontology service, of the queue, and every reading of the clock or of random bytes is
  one piece. The ontology service and the queue answer by the number of the call. The world is a
  record the decision engine extends with its own database.
\<close>

record gworld =
  gw_db :: gdb
  gw_now :: int
  gw_pos :: nat
  gw_calls :: nat
  gw_sent :: "DomainEventMsg list"

record genv =
  ge_schema :: "nat \<Rightarrow> string \<Rightarrow> exn + CompiledSchema"
  ge_send :: "nat \<Rightarrow> exn + unit"
  ge_rand :: "nat \<Rightarrow> nat"
  ge_sha :: "string \<Rightarrow> string"
  ge_plat :: platform
  ge_maxObjects :: int
  ge_maxLinks :: int
  ge_maxEventBytes :: int

type_synonym ('z, 'a) gp = "('z gworld_scheme, exn, 'a) prog"

definition gq :: "(gdb \<Rightarrow> 'a) \<Rightarrow> ('z, 'a) gp" where
  "gq f = atomic (gets (\<lambda>w. f (gw_db w)))"

definition gdo :: "(gdb \<Rightarrow> (exn + 'a) \<times> gdb) \<Rightarrow> ('z, 'a) gp" where
  "gdo m = atomic (\<lambda>w. case m (gw_db w) of (r, db) \<Rightarrow> (r, w\<lparr>gw_db := db\<rparr>))"

definition gclock :: "('z, int) gp" where
  "gclock = atomic (gets gw_now)"

definition gext :: "(nat \<Rightarrow> exn + 'a) \<Rightarrow> ('z, 'a) gp" where
  "gext f = atomic (\<lambda>w. (f (gw_calls w), w\<lparr>gw_calls := Suc (gw_calls w)\<rparr>))"

definition gbytes :: "genv \<Rightarrow> nat \<Rightarrow> ('z, nat list) gp" where
  "gbytes E n = atomic (\<lambda>w. (Inr (map (\<lambda>i. ge_rand E (gw_pos w + i)) [0..<n]), w\<lparr>gw_pos := gw_pos w + n\<rparr>))"

definition gulid :: "genv \<Rightarrow> int \<Rightarrow> ('z, string) gp" where
  "gulid E t = pbind (gbytes E 16) (\<lambda>bs. pret (ulid (nat t) bs))"

definition gschema :: "genv \<Rightarrow> CallCtx \<Rightarrow> ('z, CompiledSchema) gp" where
  "gschema E ctx = gext (\<lambda>i. ge_schema E i (ctx_tid ctx))"

definition pfail :: "ErrorCode \<Rightarrow> string \<Rightarrow> ('w, exn, 'a) prog" where
  "pfail c d = pthrow (App (app_error_d c d))"

definition plift :: "AppError + 'a \<Rightarrow> ('w, exn, 'a) prog" where
  "plift r = (case r of Inl e \<Rightarrow> pthrow (App e) | Inr x \<Rightarrow> pret x)"

text \<open>The constructor of \<^verbatim>\<open>TenantRepository\<close>.\<close>

definition tenant_repos :: "string \<Rightarrow> ('w, exn, unit) prog" where
  "tenant_repos tid = (if tid = [] then pfail INTERNAL ''TENANT_ID_MISSING'' else pret ())"

subsection \<open>support.ts\<close>

definition outboxRow ::
  "genv \<Rightarrow> string \<Rightarrow> int \<Rightarrow> DomainEventKind \<Rightarrow> ObjectChangeRef list
    \<Rightarrow> string option \<Rightarrow> string option \<Rightarrow> string option \<Rightarrow> ('z, OutboxRow) gp" where
  "outboxRow E tid nowMs kind changes jobId actionLogId recId =
     pbind (gulid E nowMs) (\<lambda>i. pret
       \<lparr>ob_id = i,
        ob_msg = \<lparr>ev_id = i, ev_tid = tid, ev_occurredAt = nowMs, ev_kind = kind, ev_jobId = jobId,
                  ev_actionLogId = actionLogId, ev_recommendationId = recId, ev_changes = changes\<rparr>\<rparr>)"

text \<open>\<^verbatim>\<open>QueueEventPublisher.publish\<close>: the parts one after the other.\<close>

definition queue_send :: "genv \<Rightarrow> DomainEventMsg \<Rightarrow> ('z, unit) gp" where
  "queue_send E part = atomic (\<lambda>w. case ge_send E (gw_calls w) of
     Inl e \<Rightarrow> (Inl e, w\<lparr>gw_calls := Suc (gw_calls w)\<rparr>)
   | Inr _ \<Rightarrow> (Inr (), w\<lparr>gw_calls := Suc (gw_calls w), gw_sent := gw_sent w @ [part]\<rparr>))"

definition publish :: "genv \<Rightarrow> DomainEventMsg \<Rightarrow> ('z, unit) gp" where
  "publish E msg = pvoid (pmapM (queue_send E) (splitEvent msg (ge_maxEventBytes E)))"

definition deliver :: "genv \<Rightarrow> string \<Rightarrow> OutboxRow \<Rightarrow> ('z, bool) gp" where
  "deliver E tid row =
     pbind (ptry (pthn (publish E (ob_msg row)) (pret True)) (\<lambda>_. pret False)) (\<lambda>sent.
       if \<not> sent then pret False
       else pthn (ptry (gdo (\<lambda>db. (Inr (), outbox_delete tid (ob_id row) db))) (\<lambda>_. pret ())) (pret True))"

definition ensureNotTombstoned :: "bool \<Rightarrow> ('w, exn, unit) prog" where
  "ensureNotTombstoned b = (if b then pfail NOT_FOUND ''Workspace not found'' else pret ())"

subsection \<open>apply\_action.ts\<close>

record ApplyActionCmd =
  ac_actionType :: string
  ac_target :: string
  ac_params :: "obj option"
  ac_ifMatch :: "int option"
  ac_idempotencyKey :: string
  ac_recommendationId :: "string option"

definition ACTION_ACTORS :: "string list" where
  "ACTION_ACTORS = [''owner'', ''admin'', ''svc:decision-engine'']"

definition checkKey :: "CallCtx \<Rightarrow> string \<Rightarrow> AppError + string" where
  "checkKey ctx key =
     (let service = isServiceCtx ctx;
          mn = (if service then 1 else lim_idempotencyKeyMin CE_LIMITS);
          mx = (if service then 128 else lim_idempotencyKeyMax CE_LIMITS)
      in if int (length key) < mn \<or> mx < int (length key)
         then Inl (app_error_d VALIDATION_FAILED ''Invalid Idempotency-Key'') else Inr key)"

definition action_replay :: "string \<Rightarrow> ApplyActionCmd \<Rightarrow> string \<Rightarrow> ('z, ActionResult option) gp" where
  "action_replay tid cmd key =
     pbind (gq (og_findByKey tid key)) (\<lambda>prior.
       case prior of
         None \<Rightarrow> pret None
       | Some r \<Rightarrow>
           if al_actionType r \<noteq> ac_actionType cmd \<or> al_targetRid r \<noteq> ac_target cmd
           then pfail CONFLICT ''Idempotency-Key was used for another request''
           else pret (Some ((al_result r)\<lparr>ar_replayed := True\<rparr>)))"

definition version_mismatch :: "(string \<times> json) list option \<Rightarrow> exn" where
  "version_mismatch extras =
     App (AppError_new PRECONDITION_FAILED (Some ''Version mismatch'') None extras)"

definition check_ifMatch :: "CallCtx \<Rightarrow> int option \<Rightarrow> int \<Rightarrow> ('w, exn, unit) prog" where
  "check_ifMatch ctx ifMatch version =
     (case ifMatch of
        None \<Rightarrow> if \<not> isServiceCtx ctx then pfail PRECONDITION_FAILED ''If-Match is required'' else pret ()
      | Some v \<Rightarrow>
          if v \<noteq> version then pthrow (version_mismatch (Some [(''currentVersion'', JNum version)])) else pret ())"

definition load_refs :: "string \<Rightarrow> ParamRef list \<Rightarrow> ('z, (string \<times> string) list) gp" where
  "load_refs tid refs =
     (if refs = [] then pret []
      else pbind (gq (og_getMany tid (map pr_rid refs))) (\<lambda>found.
        let refTypes = fold (\<lambda>so m. obj_put (so_rid so) (so_type so) m) found [];
            bad = filter (\<lambda>r. map_of refTypes (pr_rid r) \<noteq> Some (pr_objectType r)) refs
        in if bad \<noteq> []
           then pthrow (App (AppError_new VALIDATION_FAILED (Some ''Referenced object not found'') None
                  (Some (prop_errors_json (map (\<lambda>r. (pr_param r, ''REF_MISSING'')) bad)))))
           else pret refTypes))"

definition unmet_error :: "string list \<Rightarrow> exn" where
  "unmet_error unmet =
     App (AppError_new VALIDATION_FAILED (Some ''Preconditions not met'') (Some 422)
            (Some [(''unmet'', JArr (map JStr unmet))]))"

text \<open>The changes an action announces: its target and the far ends of the links it changes.\<close>

definition action_changes :: "StoredObject \<Rightarrow> EffectPlan \<Rightarrow> ObjectChangeRef list" where
  "action_changes target plan =
     fold (\<lambda>l cs.
         let far = (if sl_src l = so_rid target then sl_dst l else sl_src l)
         in if list_ex (\<lambda>c. oc_rid c = far) cs then cs
            else cs @ [\<lparr>oc_rid = far, oc_type = rid_type far, oc_changed = []\<rparr>])
       (ep_removeLinks plan @ ep_addLinks plan)
       [\<lparr>oc_rid = so_rid target, oc_type = so_type target, oc_changed = ep_changed plan\<rparr>]"

definition exceeds_links :: "genv \<Rightarrow> GraphCounts \<Rightarrow> EffectPlan \<Rightarrow> bool" where
  "exceeds_links E counts plan \<longleftrightarrow>
     ge_maxLinks E < gc_links counts - int (length (ep_removeLinks plan)) + int (length (ep_addLinks plan))
     \<and> length (ep_removeLinks plan) < length (ep_addLinks plan)"

definition action_commit ::
  "genv \<Rightarrow> CallCtx \<Rightarrow> ApplyActionCmd \<Rightarrow> string \<Rightarrow> ActionTypeDef \<Rightarrow> CompiledObjectType \<Rightarrow> StoredObject \<Rightarrow> obj
    \<Rightarrow> EffectPlan \<Rightarrow> int \<Rightarrow> string \<Rightarrow> OutboxRow \<Rightarrow> ActionCommit" where
  "action_commit E ctx cmd key action type target params plan nowMs i row =
     (let result = \<lparr>ar_actionLogId = i, ar_actionType = at_apiName action, ar_rid = so_rid target,
                    ar_version = so_version target + 1, ar_before = pick (so_props target) (ep_changed plan),
                    ar_after = pick (ps_props (ep_after plan)) (ep_changed plan),
                    ar_executedAt = iso_full nowMs, ar_replayed = False\<rparr>
      in \<lparr>cm_update =
            \<lparr>gu_rid = so_rid target, gu_expectedVersion = so_version target, gu_state = ep_after plan,
             gu_title = titleOf type (ps_props (ep_after plan)) (so_primaryKey target),
             gu_hash = propsHash (ge_sha E) (ps_props (ep_after plan)),
             gu_index = (if ep_changed plan = [] then None
                         else Some (indexEntries type (ps_props (ep_after plan)))),
             gu_nowMs = nowMs\<rparr>,
          cm_removeLinks = ep_removeLinks plan, cm_addLinks = ep_addLinks plan,
          cm_log =
            \<lparr>al_id = i, al_actionType = at_apiName action, al_targetRid = so_rid target, al_params = params,
             al_before = ar_before result, al_after = ar_after result, al_actor = actorLabel ctx,
             al_actorUserId = (if act_role (ctx_actor ctx) = Human Admin then act_userId (ctx_actor ctx) else None),
             al_recommendationId = ac_recommendationId cmd, al_idempotencyKey = key, al_result = result,
             al_executedAt = nowMs\<rparr>,
          cm_outbox = row\<rparr>)"

text \<open>From the plan on: the result, the event, the batch and what its outcome means.\<close>

definition commit_plan ::
  "genv \<Rightarrow> CallCtx \<Rightarrow> ApplyActionCmd \<Rightarrow> string \<Rightarrow> ActionTypeDef \<Rightarrow> CompiledObjectType \<Rightarrow> StoredObject \<Rightarrow> obj
    \<Rightarrow> EffectPlan \<Rightarrow> ('z, ActionResult) gp" where
  "commit_plan E ctx cmd key action type target params plan =
     (let tid = ctx_tid ctx in
      pbind gclock (\<lambda>nowMs.
      pbind (gulid E nowMs) (\<lambda>i.
      pbind (outboxRow E tid nowMs ActionExecuted (action_changes target plan) None (Some i)
               (ac_recommendationId cmd)) (\<lambda>row.
      let c = action_commit E ctx cmd key action type target params plan nowMs i row in
      pbind (gdo (commitAction tid c)) (\<lambda>outcome.
        case outcome of
          CommitDuplicate \<Rightarrow>
            pbind (action_replay tid cmd key) (\<lambda>again.
              case again of Some r \<Rightarrow> pret r | None \<Rightarrow> pfail CONFLICT ''Concurrent execution'')
        | CommitStale \<Rightarrow> pthrow (version_mismatch None)
        | CommitOk \<Rightarrow> pthn (deliver E tid row) (pret (al_result (cm_log c))))))))"

text \<open>The part between the first replay and the plan: reads, checks and effects.\<close>

definition plan_action ::
  "genv \<Rightarrow> CallCtx \<Rightarrow> ApplyActionCmd \<Rightarrow> string \<Rightarrow> CompiledSchema \<Rightarrow> StoredObject option \<Rightarrow> GraphCounts
    \<Rightarrow> ('z, ActionResult) gp" where
  "plan_action E ctx cmd key schema found counts =
     (let tid = ctx_tid ctx; P = ge_plat E in
      pthn (ensureNotTombstoned (gc_tombstoned counts))
      (case (map_of (cs_actionTypes schema) (ac_actionType cmd), found) of
         (None, _) \<Rightarrow> pfail NOT_FOUND ''Unknown action type''
       | (Some _, None) \<Rightarrow> pthrow (App (app_error NOT_FOUND))
       | (Some action, Some target) \<Rightarrow>
           (case map_of (cs_objectTypes schema) (so_type target) of
              None \<Rightarrow> pfail VALIDATION_FAILED ''Target type does not match''
            | Some type \<Rightarrow>
                if so_type target \<noteq> at_targetType action
                then pfail VALIDATION_FAILED ''Target type does not match''
                else
                pthn (check_ifMatch ctx (ac_ifMatch cmd) (so_version target))
                (pbind (plift (resolveParams P action (case ac_params cmd of None \<Rightarrow> [] | Some ps \<Rightarrow> ps)))
                (\<lambda>(params, refs).
                pbind (load_refs tid refs) (\<lambda>refTypes.
                pbind (plift (unmetPreconditions P (at_preconditions action) (actionData target params)
                         (locale_name (ctx_locale ctx)))) (\<lambda>unmet.
                if unmet \<noteq> [] then pthrow (unmet_error unmet)
                else
                pbind (if touchedLinkTypes action = [] then pret []
                       else gq (og_linksOf tid (so_rid target) (touchedLinkTypes action))) (\<lambda>links.
                pbind (plift (applyEffects P
                         \<lparr>ei_schema = schema, ei_action = action, ei_type = type, ei_target = target,
                          ei_params = params, ei_links = links, ei_refTypes = refTypes\<rparr>)) (\<lambda>plan.
                if exceeds_links E counts plan then pfail QUOTA_EXCEEDED ''LINK_LIMIT''
                else commit_plan E ctx cmd key action type target params plan)))))))))"

definition applyAction :: "genv \<Rightarrow> CallCtx \<Rightarrow> ApplyActionCmd \<Rightarrow> ('z, ActionResult) gp" where
  "applyAction E ctx cmd =
     pbind (plift (checkKey ctx (ac_idempotencyKey cmd))) (\<lambda>key.
     if actorLabel ctx \<notin> set ACTION_ACTORS then pfail FORBIDDEN ''This principal cannot execute actions''
     else if \<not> isRid (ac_target cmd) then pfail VALIDATION_FAILED ''actionType and target required''
     else
     pthn (tenant_repos (ctx_tid ctx))
     (pbind (action_replay (ctx_tid ctx) cmd key) (\<lambda>first.
        case first of
          Some r \<Rightarrow> pret r
        | None \<Rightarrow>
            pbind (gschema E ctx) (\<lambda>schema.
            pbind (gq (og_get (ctx_tid ctx) (ac_target cmd))) (\<lambda>target.
            pbind (gq (og_counts (ctx_tid ctx))) (\<lambda>counts.
            plan_action E ctx cmd key schema target counts))))))"

subsection \<open>patch\_object.ts\<close>

definition invalid_props :: "(string \<times> string) list \<Rightarrow> exn" where
  "invalid_props errors =
     App (AppError_new VALIDATION_FAILED (Some ''Invalid properties'') None (Some (prop_errors_json errors)))"

text \<open>The checks of the patch: unknown names, types, required values; what is not set is \<^verbatim>\<open>null\<close>.\<close>

definition coerce_patch :: "platform \<Rightarrow> CompiledObjectType \<Rightarrow> obj \<Rightarrow> exn + obj" where
  "coerce_patch P type patch =
     (let unknown = filter (\<lambda>k. map_of (ct_propsByName type) k = None) (map fst patch) in
      if unknown \<noteq> [] then Inl (invalid_props (map (\<lambda>k. (k, ''UNKNOWN_PROPERTY'')) unknown))
      else case validateProps P type (filter (\<lambda>kv. snd kv \<noteq> VNull) patch) False True of
        (props, errors) \<Rightarrow>
          if errors \<noteq> [] then Inl (invalid_props (map (\<lambda>e. (pe_prop e, prop_error_name (pe_code e))) errors))
          else let coerced = map (\<lambda>kv. (fst kv, if fst kv \<in> fst ` set props then lookup (fst kv) props else VNull)) patch;
                   missing = filter (\<lambda>kv. snd kv = VNull
                               \<and> (case map_of (ct_propsByName type) (fst kv) of Some d \<Rightarrow> pd_required d | None \<Rightarrow> False)) coerced
               in if missing \<noteq> [] then Inl (invalid_props (map (\<lambda>kv. (fst kv, ''REQUIRED'')) missing))
                  else Inr coerced)"

definition pk_changed :: "CompiledObjectType \<Rightarrow> obj \<Rightarrow> StoredObject \<Rightarrow> bool" where
  "pk_changed type coerced cur \<longleftrightarrow>
     (case map_of coerced (ot_primaryKey type) of None \<Rightarrow> False | Some v \<Rightarrow> val_str v \<noteq> so_primaryKey cur)"

definition patch_update ::
  "genv \<Rightarrow> CompiledObjectType \<Rightarrow> StoredObject \<Rightarrow> PropState \<Rightarrow> int \<Rightarrow> GuardedUpdate" where
  "patch_update E type cur st nowMs =
     \<lparr>gu_rid = so_rid cur, gu_expectedVersion = so_version cur, gu_state = st,
      gu_title = titleOf type (ps_props st) (so_primaryKey cur),
      gu_hash = propsHash (ge_sha E) (ps_props st),
      gu_index = Some (indexEntries type (ps_props st)), gu_nowMs = nowMs\<rparr>"

definition patched :: "GuardedUpdate \<Rightarrow> StoredObject \<Rightarrow> StoredObject" where
  "patched u cur =
     cur\<lparr>so_title := gu_title u, so_props := ps_props (gu_state u), so_provenance := ps_provenance (gu_state u),
         so_propsHash := gu_hash u, so_version := so_version cur + 1, so_updatedAt := gu_nowMs u\<rparr>"

definition commit_patch ::
  "genv \<Rightarrow> CallCtx \<Rightarrow> CompiledSchema \<Rightarrow> CompiledObjectType \<Rightarrow> StoredObject \<Rightarrow> obj \<Rightarrow> ('z, ObjectDto) gp" where
  "commit_patch E ctx schema type cur coerced =
     (let tid = ctx_tid ctx; P = ge_plat E;
          out = patchProps \<lparr>ps_props = so_props cur, ps_provenance = so_provenance cur\<rparr> coerced
      in if snd out = [] then pret (toObjectDto P schema cur)
         else
         pbind gclock (\<lambda>nowMs.
         pbind (outboxRow E tid nowMs ObjectPatched
           [\<lparr>oc_rid = so_rid cur, oc_type = so_type cur, oc_changed = snd out\<rparr>] None None None) (\<lambda>row.
         let u = patch_update E type cur (fst out) nowMs in
         pbind (gdo (commitPatch tid u row)) (\<lambda>res.
           if res \<noteq> CommitOk then pthrow (version_mismatch None)
           else pthn (deliver E tid row) (pret (toObjectDto P schema (patched u cur)))))))"

definition patch_found ::
  "genv \<Rightarrow> CallCtx \<Rightarrow> CompiledSchema \<Rightarrow> StoredObject \<Rightarrow> obj \<Rightarrow> int \<Rightarrow> ('z, ObjectDto) gp" where
  "patch_found E ctx schema cur patch v =
     (if so_version cur \<noteq> v
      then pthrow (version_mismatch (Some [(''currentVersion'', JNum (so_version cur))]))
      else case map_of (cs_objectTypes schema) (so_type cur) of
        None \<Rightarrow> pfail VALIDATION_FAILED ''Unknown object type''
      | Some type \<Rightarrow>
          (case coerce_patch (ge_plat E) type patch of
             Inl e \<Rightarrow> pthrow e
           | Inr coerced \<Rightarrow>
               if pk_changed type coerced cur
               then pthrow (App (AppError_new VALIDATION_FAILED (Some ''The primary key cannot be changed'')
                      None (Some (prop_errors_json [(ot_primaryKey type, ''TYPE'')]))))
               else commit_patch E ctx schema type cur coerced))"

text \<open>\<open>body\<close> is the JSON body, \<open>ifMatch\<close> the version of the request (\<open>None\<close> when not an integer).\<close>

definition patchObject ::
  "genv \<Rightarrow> CallCtx \<Rightarrow> string \<Rightarrow> jv \<Rightarrow> int option \<Rightarrow> ('z, ObjectDto) gp" where
  "patchObject E ctx rid body ifMatch =
     (case body of
        VObj patch \<Rightarrow>
          (case ifMatch of
             None \<Rightarrow> pfail PRECONDITION_FAILED ''If-Match is required''
           | Some v \<Rightarrow>
               if \<not> isRid rid then pthrow (App (app_error NOT_FOUND))
               else pthn (tenant_repos (ctx_tid ctx))
                 (pbind (gq (og_get (ctx_tid ctx) rid)) (\<lambda>found.
                  pbind (gschema E ctx) (\<lambda>schema.
                  case found of
                    None \<Rightarrow> pthrow (App (app_error NOT_FOUND))
                  | Some cur \<Rightarrow> patch_found E ctx schema cur patch v))))
      | _ \<Rightarrow> pfail VALIDATION_FAILED ''Body must be a JSON object'')"

subsection \<open>clear\_workspace.ts\<close>

definition clearWorkspace :: "genv \<Rightarrow> CallCtx \<Rightarrow> ('z, nat \<times> nat) gp" where
  "clearWorkspace E ctx =
     (let actor = actorLabel ctx; tid = ctx_tid ctx in
      if actor \<notin> {''owner'', ''admin''} then pfail FORBIDDEN ''This principal cannot clear a workspace''
      else pthn (tenant_repos tid)
        (pbind (gq (og_counts tid)) (\<lambda>counts.
         pthn (ensureNotTombstoned (gc_tombstoned counts))
         (pbind gclock (\<lambda>nowMs.
          pbind (gulid E nowMs) (\<lambda>i.
          gdo (clearAll tid
            \<lparr>ca_id = i, ca_actor = actor,
             ca_actorUserId = (if act_role (ctx_actor ctx) = Human Admin then act_userId (ctx_actor ctx) else None),
             ca_executedAt = nowMs\<rparr>)))))))"

subsection \<open>get\_object.ts and list\_action\_log.ts\<close>

definition getObject :: "genv \<Rightarrow> CallCtx \<Rightarrow> string \<Rightarrow> ('z, ObjectDto option) gp" where
  "getObject E ctx rid =
     (if \<not> isRid rid then pret None
      else pthn (tenant_repos (ctx_tid ctx))
        (pbind (gq (og_get (ctx_tid ctx) rid)) (\<lambda>row.
         case row of
           None \<Rightarrow> pret None
         | Some r \<Rightarrow> pbind (gschema E ctx) (\<lambda>schema. pret (Some (toObjectDto (ge_plat E) schema r))))))"

definition getObjects :: "genv \<Rightarrow> CallCtx \<Rightarrow> string list \<Rightarrow> ('z, ObjectDto list) gp" where
  "getObjects E ctx rids =
     (let unique = dedup (filter isRid rids) in
      if GRAPH_subgraphNodesMax < int (length unique)
      then pfail VALIDATION_FAILED ''At most 300 rids per call''
      else if unique = [] then pret []
      else pthn (tenant_repos (ctx_tid ctx))
        (pbind (gq (og_getMany (ctx_tid ctx) unique)) (\<lambda>rows.
         pbind (gschema E ctx) (\<lambda>schema.
         let byRid = (\<lambda>r. map_of (rev (map (\<lambda>so. (so_rid so, so)) rows)) r)
         in pret (map (\<lambda>r. toObjectDto (ge_plat E) schema (the (byRid r)))
                   (filter (\<lambda>r. byRid r \<noteq> None) unique))))))"

end
