(* ===== verification/GraphSteps.thy ===== *)
theory GraphSteps
  imports GraphCalls
begin

section \<open>Interleaved calls on the object graph\<close>

text \<open>
  What the batches of the object graph promise (\<open>commitAction_spec\<close>, \<open>commitPatch_spec\<close>,
  \<open>clearAll_spec\<close>), the invariant \<open>graph_ok\<close> they keep (unique rids, idempotency keys used once, no two
  actions on one version of an object) and the relation \<open>graph_moves\<close> along which every piece of every
  call moves the database, which interprets the locale \<open>rely\<close>. The properties hold for every
  interleaving of any number of calls.
\<close>

subsection \<open>The guarded batches\<close>

definition object_key :: "string \<times> StoredObject \<Rightarrow> string \<times> string" where
  "object_key r = (fst r, so_rid (snd r))"

text \<open>Statements that leave objects, log and outbox as they are, and do nothing without the guard.\<close>

definition side_stmt :: "string \<Rightarrow> GuardedUpdate \<Rightarrow> gstmt \<Rightarrow> bool" where
  "side_stmt tid u s \<longleftrightarrow>
     (\<forall>db n db'. s db = Inr (n, db') \<longrightarrow>
        g_objects db' = g_objects db \<and> g_log db' = g_log db \<and> g_outbox db' = g_outbox db
        \<and> g_tombs db' = g_tombs db \<and> (\<not> guard tid u db \<longrightarrow> db' = db))"

lemma del_none: "(\<And>r. r \<in> set t \<Longrightarrow> \<not> p r) \<Longrightarrow> del p t = t"
  by (simp add: del_def)

lemma side_index_delete: "side_stmt tid u (index_delete tid u)"
  by (auto simp: side_stmt_def index_delete_def Let_def del_none)

lemma side_index_insert: "side_stmt tid u (index_insert tid u es)"
  by (auto simp: side_stmt_def index_insert_def Let_def split: if_splits)

lemma side_links_remove: "side_stmt tid u (links_remove tid u ls)"
  by (auto simp: side_stmt_def links_remove_def Let_def del_none)

lemma side_links_add: "side_stmt tid u (links_add tid u ls)"
  by (auto simp: side_stmt_def links_add_def Let_def split: if_splits)

lemma side_indexStmts: "list_all (side_stmt tid u) (indexStmts tid u)"
  by (auto simp: indexStmts_def side_index_delete side_index_insert split: option.splits list.splits)

lemma guard_cong: "g_objects db' = g_objects db \<Longrightarrow> guard tid u db' = guard tid u db"
  by (simp add: guard_def)

lemma g_run_side:
  assumes "list_all (side_stmt tid u) ss" "g_run ss db = Inr (ns, db')"
  shows "g_objects db' = g_objects db \<and> g_log db' = g_log db \<and> g_outbox db' = g_outbox db
    \<and> g_tombs db' = g_tombs db \<and> (\<not> guard tid u db \<longrightarrow> db' = db)"
  using assms
proof (induction ss arbitrary: db ns)
  case (Cons s ss)
  from Cons.prems(2) obtain n db1 ms where s: "s db = Inr (n, db1)" "g_run ss db1 = Inr (ms, db')"
    by (auto split: sum.splits prod.splits)
  from Cons.prems(1) have "side_stmt tid u s" by simp
  with s(1) have 1: "g_objects db1 = g_objects db" "g_log db1 = g_log db"
      "g_outbox db1 = g_outbox db" "g_tombs db1 = g_tombs db" "\<not> guard tid u db \<longrightarrow> db1 = db"
    unfolding side_stmt_def by blast+
  with Cons.IH[OF _ s(2)] Cons.prems(1) guard_cong[OF 1(1), of tid u] show ?case by auto
qed auto

lemma g_run_append:
  "g_run (ss @ ts) db = (case g_run ss db of Inl e \<Rightarrow> Inl e
     | Inr (ns, db1) \<Rightarrow> (case g_run ts db1 of Inl e \<Rightarrow> Inl e | Inr (ms, db2) \<Rightarrow> Inr (ns @ ms, db2)))"
  by (induction ss arbitrary: db) (auto split: sum.splits prod.splits)

text \<open>With unique rids the guard finds at most one object.\<close>

lemma guarded_hits:
  assumes "keyed object_key (g_objects db)"
  shows "hits (guarded tid u) (g_objects db) = (if guard tid u db then 1 else 0)"
proof -
  have "guarded tid u = (\<lambda>r. object_key r = (tid, gu_rid u) \<and> so_version (snd r) = gu_expectedVersion u)"
    by (auto simp: guarded_def object_key_def fun_eq_iff)
  with keyed_hits_le1[OF assms, of "(tid, gu_rid u)" "\<lambda>r. so_version (snd r) = gu_expectedVersion u"]
  have "hits (guarded tid u) (g_objects db) \<le> 1" by simp
  moreover have "hits (guarded tid u) (g_objects db) = 0 \<longleftrightarrow> \<not> guard tid u db"
    by (simp add: hits_0 guard_def list_ex_iff)
  ultimately show ?thesis by auto
qed

definition bumped :: "string \<Rightarrow> GuardedUpdate \<Rightarrow> (string \<times> StoredObject) list \<Rightarrow> (string \<times> StoredObject) list" where
  "bumped tid u rows = upd (guarded tid u) (\<lambda>r. (fst r, apply_update u (snd r))) rows"

lemma updateStmt_eq:
  assumes "keyed object_key (g_objects db)"
  shows "updateStmt tid u db = Inr (if guard tid u db then 1 else 0, db\<lparr>g_objects := bumped tid u (g_objects db)\<rparr>)"
  by (simp add: updateStmt_def guarded_hits[OF assms] bumped_def)

lemma bumped_none: "\<not> guard tid u db \<Longrightarrow> bumped tid u (g_objects db) = g_objects db"
  unfolding bumped_def by (rule upd_id) (simp add: hits_0 guard_def list_ex_iff)

definition action_done :: "string \<Rightarrow> ActionCommit \<Rightarrow> gdb \<Rightarrow> gdb \<Rightarrow> bool" where
  "action_done tid c db db' \<longleftrightarrow>
     guard tid (cm_update c) db \<and> \<not> log_clash tid (cm_log c) db
     \<and> al_actor (cm_log c) \<in> {''owner'', ''admin'', ''svc:decision-engine''}
     \<and> g_objects db' = bumped tid (cm_update c) (g_objects db)
     \<and> g_log db' = g_log db @ [(tid, log_image (cm_log c))]
     \<and> g_outbox db' = g_outbox db @ [(tid, cm_outbox c)]
     \<and> g_tombs db' = g_tombs db"

lemma log_clash_cong: "g_log db' = g_log db \<Longrightarrow> log_clash tid r db' = log_clash tid r db"
  by (simp add: log_clash_def)

lemma tail_guarded:
  assumes "keyed object_key (g_objects db)" "guard tid u db"
    and "g_run [log_insert tid u r, guardedOutbox tid u row, updateStmt tid u] db = Inr (ns, db')"
  shows "last ns = 1 \<and> \<not> log_clash tid r db \<and> al_actor r \<in> {''owner'', ''admin'', ''svc:decision-engine''}
    \<and> g_objects db' = bumped tid u (g_objects db) \<and> g_log db' = g_log db @ [(tid, log_image r)]
    \<and> g_outbox db' = g_outbox db @ [(tid, row)] \<and> g_tombs db' = g_tombs db"
proof -
  let ?db1 = "db\<lparr>g_log := g_log db @ [(tid, log_image r)]\<rparr>"
  let ?db2 = "?db1\<lparr>g_outbox := g_outbox db @ [(tid, row)]\<rparr>"
  have g: "guard tid u ?db1" "guard tid u ?db2" using assms(2) by (simp_all add: guard_def)
  have u: "updateStmt tid u ?db2 = Inr (1, ?db2\<lparr>g_objects := bumped tid u (g_objects db)\<rparr>)"
    using updateStmt_eq[of ?db2 tid u] g assms(1) by simp
  show ?thesis
    using assms(2,3) g u
    by (auto simp: log_insert_def guardedOutbox_def split: if_splits sum.splits prod.splits)
qed

lemma tail_unguarded:
  assumes "keyed object_key (g_objects db)" "\<not> guard tid u db"
  shows "g_run [log_insert tid u r, guardedOutbox tid u row, updateStmt tid u] db = Inr ([0, 0, 0], db)"
  using assms updateStmt_eq[OF assms(1), of tid u] bumped_none[OF assms(2)]
  by (simp add: log_insert_def guardedOutbox_def)

lemma action_stmts_split:
  "\<exists>ss. list_all (side_stmt tid (cm_update c)) ss \<and> action_stmts tid c = ss
     @ [log_insert tid (cm_update c) (cm_log c), guardedOutbox tid (cm_update c) (cm_outbox c),
        updateStmt tid (cm_update c)]"
  by (rule exI[of _ "indexStmts tid (cm_update c)
      @ (if cm_removeLinks c = [] then [] else [links_remove tid (cm_update c) (cm_removeLinks c)])
      @ (if cm_addLinks c = [] then [] else [links_add tid (cm_update c) (cm_addLinks c)])"])
    (auto simp: action_stmts_def Let_def side_indexStmts side_links_remove side_links_add)

lemma commitAction_spec:
  assumes "keyed object_key (g_objects db)" "commitAction tid c db = (r, db')"
  shows "if r = Inr CommitOk then action_done tid c db db' else db' = db"
proof -
  let ?u = "cm_update c"
  let ?tail = "[log_insert tid ?u (cm_log c), guardedOutbox tid ?u (cm_outbox c), updateStmt tid ?u]"
  obtain ss where ss: "list_all (side_stmt tid ?u) ss" "action_stmts tid c = ss @ ?tail"
    using action_stmts_split by blast
  show ?thesis
  proof (cases "g_run (action_stmts tid c) db")
    case (Inl e)
    with assms(2) show ?thesis by (auto simp: commitAction_def g_batch_def split: if_splits)
  next
    case (Inr p)
    then obtain ns where run: "g_run (action_stmts tid c) db = Inr (ns, db')"
      and r: "r = Inr (if last ns = 1 then CommitOk else CommitStale)"
      using assms(2) by (cases p) (auto simp: commitAction_def g_batch_def)
    from run obtain ns1 db1 ns2 where 1: "g_run ss db = Inr (ns1, db1)"
      and 2: "g_run ?tail db1 = Inr (ns2, db')" and ns: "ns = ns1 @ ns2"
      unfolding ss(2) g_run_append by (auto split: sum.splits prod.splits simp del: g_run.simps)
    note side = g_run_side[OF ss(1) 1]
    have k: "keyed object_key (g_objects db1)" using side assms(1) by simp
    show ?thesis
    proof (cases "guard tid ?u db")
      case True
      with side guard_cong[of db1 db tid ?u] have g: "guard tid ?u db1" by simp
      from tail_guarded[OF k g 2] side have "last ns2 = 1" "action_done tid c db db'" "ns2 \<noteq> []"
        using True 2 log_clash_cong[of db1 db tid "cm_log c"]
        by (auto simp: action_done_def split: sum.splits prod.splits)
      with r ns show ?thesis by simp
    next
      case False
      with side have db1: "db1 = db" by simp
      from 2 tail_unguarded[OF assms(1) False] have "ns2 = [0, 0, 0]" "db' = db" unfolding db1 by auto
      with r ns show ?thesis by simp
    qed
  qed
qed

definition patch_done :: "string \<Rightarrow> GuardedUpdate \<Rightarrow> OutboxRow \<Rightarrow> gdb \<Rightarrow> gdb \<Rightarrow> bool" where
  "patch_done tid u row db db' \<longleftrightarrow>
     guard tid u db \<and> g_objects db' = bumped tid u (g_objects db) \<and> g_log db' = g_log db
     \<and> g_outbox db' = g_outbox db @ [(tid, row)] \<and> g_tombs db' = g_tombs db"

lemma commitPatch_spec:
  assumes "keyed object_key (g_objects db)" "commitPatch tid u row db = (r, db')"
  shows "if r = Inr CommitOk then patch_done tid u row db db' else db' = db"
proof (cases "g_run (indexStmts tid u @ [guardedOutbox tid u row, updateStmt tid u]) db")
  case (Inl e)
  with assms(2) show ?thesis by (auto simp: commitPatch_def g_batch_def)
next
  case (Inr p)
  let ?tail = "[guardedOutbox tid u row, updateStmt tid u]"
  obtain ns where run: "g_run (indexStmts tid u @ ?tail) db = Inr (ns, db')"
    and r: "r = Inr (if last ns = 1 then CommitOk else CommitStale)"
    using assms(2) Inr by (cases p) (auto simp: commitPatch_def g_batch_def)
  from run obtain ns1 db1 ns2 where 1: "g_run (indexStmts tid u) db = Inr (ns1, db1)"
    and 2: "g_run ?tail db1 = Inr (ns2, db')" and ns: "ns = ns1 @ ns2"
    unfolding g_run_append by (auto split: sum.splits prod.splits simp del: g_run.simps)
  note side = g_run_side[OF side_indexStmts 1]
  show ?thesis
  proof (cases "guard tid u db")
    case True
    let ?db2 = "db1\<lparr>g_outbox := g_outbox db @ [(tid, row)]\<rparr>"
    from True side have g: "guard tid u db1" "guard tid u ?db2" by (simp_all add: guard_def)
    have "updateStmt tid u ?db2 = Inr (1, ?db2\<lparr>g_objects := bumped tid u (g_objects db)\<rparr>)"
      using updateStmt_eq[of ?db2 tid u] g side assms(1) by simp
    with 2 g side have "last ns2 = 1 \<and> ns2 \<noteq> [] \<and> patch_done tid u row db db'"
      using True by (auto simp: guardedOutbox_def patch_done_def split: if_splits sum.splits prod.splits)
    with r ns show ?thesis by simp
  next
    case False
    with side have db1: "db1 = db" by simp
    from 2 False updateStmt_eq[OF assms(1), of tid u] bumped_none[OF False] have "ns2 = [0, 0] \<and> db' = db"
      unfolding db1 by (auto simp: guardedOutbox_def)
    with r ns show ?thesis by simp
  qed
qed

lemma clearAll_spec:
  assumes "clearAll tid a db = (r, db')"
  shows "db' = db \<or>
    (\<exists>row. g_log db' = g_log db @ [(tid, row)] \<and> \<not> log_clash tid row db \<and> al_targetRid row = []
      \<and> g_objects db' = del (of_tenant tid) (g_objects db)
      \<and> g_outbox db' = del (of_tenant tid) (g_outbox db) \<and> g_tombs db' = g_tombs db)"
proof (cases "clear_log tid a db")
  case (Inl e)
  with assms show ?thesis by (auto simp: clearAll_def g_batch_def)
next
  case (Inr p)
  then obtain row where "clear_log tid a db = Inr (1, db\<lparr>g_log := g_log db @ [(tid, row)]\<rparr>)"
    "\<not> log_clash tid row db" "al_targetRid row = []"
    by (auto simp: clear_log_def Let_def split: if_splits)
  with assms show ?thesis by (auto simp: clearAll_def g_batch_def Let_def)
qed

subsection \<open>The invariant\<close>

definition log_key :: "string \<times> ActionLogRow \<Rightarrow> string \<times> string" where
  "log_key r = (fst r, al_idempotencyKey (snd r))"

definition version_key :: "string \<times> ActionLogRow \<Rightarrow> string \<times> string \<times> int" where
  "version_key r = (fst r, al_targetRid (snd r), ar_version (al_result (snd r)))"

definition on_object :: "string \<times> ActionLogRow \<Rightarrow> bool" where
  "on_object r \<longleftrightarrow> al_targetRid (snd r) \<noteq> []"

definition logged_below :: "gdb \<Rightarrow> bool" where
  "logged_below db \<longleftrightarrow>
     list_all (\<lambda>r. on_object r \<longrightarrow>
       list_all (\<lambda>x. object_key x = (fst r, al_targetRid (snd r))
          \<longrightarrow> ar_version (al_result (snd r)) \<le> so_version (snd x)) (g_objects db)) (g_log db)"

definition graph_ok :: "gdb \<Rightarrow> bool" where
  "graph_ok db \<longleftrightarrow>
     keyed object_key (g_objects db) \<and> keyed log_key (g_log db)
     \<and> keyed version_key (filter on_object (g_log db)) \<and> logged_below db"

definition graph_moves :: "gdb \<Rightarrow> gdb \<Rightarrow> bool" where
  "graph_moves db db' \<longleftrightarrow>
     (graph_ok db \<longrightarrow> graph_ok db' \<and> (\<exists>rows. g_log db' = g_log db @ rows))"

lemma object_key_apply [simp]: "object_key (fst r, apply_update u (snd r)) = object_key r"
  by (simp add: object_key_def apply_update_def)

lemma set_bumped:
  assumes "x \<in> set (bumped tid u rows)"
  shows "\<exists>y \<in> set rows. object_key x = object_key y \<and> so_version (snd y) \<le> so_version (snd x)
      \<and> (guarded tid u y \<longrightarrow> so_version (snd x) = so_version (snd y) + 1)"
proof -
  from assms obtain y where "y \<in> set rows"
    "x = (if guarded tid u y then (fst y, apply_update u (snd y)) else y)"
    unfolding bumped_def set_upd by blast
  then show ?thesis by (intro bexI[of _ y]) (auto simp: apply_update_def object_key_def)
qed

lemma keyed_bumped [simp]: "keyed object_key (bumped tid u rows) = keyed object_key rows"
  by (simp add: bumped_def)

lemma logged_below_bumped:
  assumes "logged_below db" "g_log db' = g_log db" "g_objects db' = bumped tid u (g_objects db)"
  shows "logged_below db'"
  unfolding logged_below_def list_all_iff
proof (intro ballI impI)
  fix r x assume "r \<in> set (g_log db')" "on_object r" "x \<in> set (g_objects db')"
    "object_key x = (fst r, al_targetRid (snd r))"
  moreover from this(3) obtain y where "y \<in> set (g_objects db)" "object_key x = object_key y"
    "so_version (snd y) \<le> so_version (snd x)"
    unfolding assms(3) by (blast dest: set_bumped)
  ultimately show "ar_version (al_result (snd r)) \<le> so_version (snd x)"
    using assms(1,2) unfolding logged_below_def list_all_iff by fastforce
qed

lemma graph_ok_patch:
  assumes "graph_ok db" "patch_done tid u row db db'"
  shows "graph_ok db'"
  using assms logged_below_bumped[of db db' tid u] by (simp add: graph_ok_def patch_done_def)

definition coherent_commit :: "ActionCommit \<Rightarrow> bool" where
  "coherent_commit c \<longleftrightarrow>
     al_targetRid (cm_log c) = gu_rid (cm_update c)
     \<and> ar_version (al_result (cm_log c)) = gu_expectedVersion (cm_update c) + 1"

lemma guard_object:
  "guard tid u db \<Longrightarrow> \<exists>x \<in> set (g_objects db). object_key x = (tid, gu_rid u) \<and> so_version (snd x) = gu_expectedVersion u"
  by (auto simp: guard_def list_ex_iff guarded_def object_key_def)

lemma log_image_keys [simp]:
  "al_targetRid (log_image r) = al_targetRid r" "al_idempotencyKey (log_image r) = al_idempotencyKey r"
  "al_id (log_image r) = al_id r" "al_actionType (log_image r) = al_actionType r"
  "ar_version (al_result (log_image r)) = ar_version (al_result r)"
  by (simp_all add: log_image_def)

lemma log_key_fresh:
  "\<not> log_clash tid r db \<Longrightarrow> al_idempotencyKey row = al_idempotencyKey r \<Longrightarrow> log_key (tid, row) \<notin> log_key ` set (g_log db)"
  by (auto simp: log_clash_def list_ex_iff log_key_def)

lemma graph_ok_action:
  assumes "graph_ok db" "action_done tid c db db'" "coherent_commit c"
  shows "graph_ok db'"
proof -
  let ?u = "cm_update c" and ?row = "(tid, log_image (cm_log c))"
  have ok: "keyed object_key (g_objects db)" "keyed log_key (g_log db)"
      "keyed version_key (filter on_object (g_log db))" "logged_below db"
    using assms(1) by (simp_all add: graph_ok_def)
  have did: "guard tid ?u db" "\<not> log_clash tid (cm_log c) db"
      "g_objects db' = bumped tid ?u (g_objects db)" "g_log db' = g_log db @ [?row]"
    using assms(2) by (simp_all add: action_done_def)
  obtain x where x: "x \<in> set (g_objects db)" "object_key x = (tid, gu_rid ?u)"
      "so_version (snd x) = gu_expectedVersion ?u"
    using guard_object[OF did(1)] by blast
  have ver: "version_key ?row = (tid, gu_rid ?u, gu_expectedVersion ?u + 1)"
    using assms(3) by (simp add: version_key_def coherent_commit_def)
  have "version_key r \<noteq> version_key ?row" if r: "r \<in> set (g_log db)" "on_object r" for r
  proof
    assume e: "version_key r = version_key ?row"
    then have "object_key x = (fst r, al_targetRid (snd r))" using x(2) ver by (simp add: version_key_def)
    with r x(1) ok(4) have "ar_version (al_result (snd r)) \<le> so_version (snd x)"
      unfolding logged_below_def list_all_iff by blast
    with e ver x(3) show False by (simp add: version_key_def)
  qed
  then have "version_key ?row \<notin> version_key ` set (filter on_object (g_log db))" by fastforce
  with ok(3) have v: "keyed version_key (filter on_object (g_log db'))"
    unfolding did(4) by (simp add: keyed_append)
  have k: "keyed log_key (g_log db')"
    unfolding did(4) keyed_append using ok(2) log_key_fresh[OF did(2)] by simp
  have "ar_version (al_result (snd ?row)) \<le> so_version (snd z)"
    if z: "z \<in> set (g_objects db')" "object_key z = (tid, gu_rid ?u)" for z
  proof -
    from z(1) obtain y where y: "y \<in> set (g_objects db)" "object_key z = object_key y"
        "guarded tid ?u y \<longrightarrow> so_version (snd z) = so_version (snd y) + 1"
      unfolding did(3) by (blast dest: set_bumped)
    with z(2) x ok(1) have "y = x" by (metis keyed_eqD)
    moreover have "guarded tid ?u x" using x(2,3) by (simp add: guarded_def object_key_def)
    ultimately show ?thesis using y(3) x(3) assms(3) by (simp add: coherent_commit_def)
  qed
  moreover have "logged_below (db'\<lparr>g_log := g_log db\<rparr>)"
    by (rule logged_below_bumped[OF ok(4)]) (simp_all add: did(3))
  ultimately have "logged_below db'"
    using assms(3) unfolding logged_below_def did(4) by (simp add: list_all_iff coherent_commit_def)
  with ok(1) v k show ?thesis by (simp add: graph_ok_def did(3))
qed

lemma graph_ok_clear:
  assumes "graph_ok db" "clearAll tid a db = (r, db')"
  shows "graph_ok db' \<and> (\<exists>rows. g_log db' = g_log db @ rows)"
  using clearAll_spec[OF assms(2)]
proof
  assume "\<exists>row. g_log db' = g_log db @ [(tid, row)] \<and> \<not> log_clash tid row db \<and> al_targetRid row = []
      \<and> g_objects db' = del (of_tenant tid) (g_objects db)
      \<and> g_outbox db' = del (of_tenant tid) (g_outbox db) \<and> g_tombs db' = g_tombs db"
  then obtain row where row: "g_log db' = g_log db @ [(tid, row)]" "\<not> log_clash tid row db" "al_targetRid row = []"
      "g_objects db' = del (of_tenant tid) (g_objects db)" by blast
  have "keyed log_key (g_log db')"
    unfolding row(1) keyed_append using assms(1) log_key_fresh[OF row(2) refl] by (simp add: graph_ok_def)
  moreover have "logged_below db'"
    using assms(1) row(3) unfolding logged_below_def graph_ok_def row(1,4) list_all_iff on_object_def
    by (simp del: split_paired_All)
  ultimately show ?thesis using assms(1) row by (simp add: graph_ok_def on_object_def)
qed (use assms in simp)

subsection \<open>Along it moves every piece of every call\<close>

definition gw_moves :: "'z gworld_scheme \<Rightarrow> 'z gworld_scheme \<Rightarrow> bool" where
  "gw_moves w w' \<longleftrightarrow> graph_moves (gw_db w) (gw_db w')"

definition gw_ok :: "'z gworld_scheme \<Rightarrow> bool" where
  "gw_ok w \<longleftrightarrow> graph_ok (gw_db w)"

lemma graph_moves_refl [simp]: "graph_moves db db"
  by (simp add: graph_moves_def)

lemma graph_moves_trans: "graph_moves a b \<Longrightarrow> graph_moves b c \<Longrightarrow> graph_moves a c"
  unfolding graph_moves_def by (metis append.assoc)

lemma graph_moves_outbox_delete [simp]: "graph_moves db (outbox_delete tid i db)"
  by (simp add: graph_moves_def outbox_delete_def graph_ok_def logged_below_def)

lemma graph_moves_patch: "graph_moves db (snd (commitPatch tid u row db))"
  using commitPatch_spec[of db tid u row] graph_ok_patch[of db tid u row]
  by (cases "commitPatch tid u row db")
    (fastforce simp: graph_moves_def graph_ok_def patch_done_def split: if_splits)

lemma graph_moves_clear: "graph_moves db (snd (clearAll tid a db))"
  using graph_ok_clear[of db tid a] by (cases "clearAll tid a db") (simp add: graph_moves_def)

lemma graph_moves_action: "coherent_commit c \<Longrightarrow> graph_moves db (snd (commitAction tid c db))"
  using commitAction_spec[of db tid c] graph_ok_action[of db tid c]
  by (cases "commitAction tid c db")
    (fastforce simp: graph_moves_def graph_ok_def action_done_def split: if_splits)

lemma json_image_idem [simp]: "json_image (json_image v) = json_image v"
proof (induction v)
  case (VObj kvs)
  have "json_image v \<noteq> VUndef" for v by (cases v) auto
  with VObj show ?case by (auto simp: filter_map comp_def intro: snds.intros)
qed auto

lemma obj_image_idem [simp]: "obj_image (obj_image props) = obj_image props"
  using json_image_idem[of "VObj props"] by (simp add: obj_image_def)

definition answer_image :: "ActionResult \<Rightarrow> ActionResult" where
  "answer_image r =
     r\<lparr>ar_before := obj_image (ar_before r), ar_after := obj_image (ar_after r), ar_replayed := False\<rparr>"

definition backed :: "string \<Rightarrow> ApplyActionCmd \<Rightarrow> ActionResult \<Rightarrow> gdb \<Rightarrow> bool" where
  "backed tid cmd r db \<longleftrightarrow>
     list_ex (\<lambda>x. fst x = tid \<and> al_idempotencyKey (snd x) = ac_idempotencyKey cmd
        \<and> al_targetRid (snd x) = ac_target cmd
        \<and> answer_image (al_result (snd x)) = answer_image r) (g_log db)"

definition answered :: "string \<Rightarrow> ApplyActionCmd \<Rightarrow> exn + ActionResult \<Rightarrow> 'z gworld_scheme \<Rightarrow> bool" where
  "answered tid cmd res w \<longleftrightarrow> (\<forall>r. res = Inr r \<longrightarrow> backed tid cmd r (gw_db w))"

lemma backed_stable:
  assumes "backed tid cmd r (gw_db w)" "gw_ok w" "gw_moves w w'"
  shows "backed tid cmd r (gw_db w')"
  using assms unfolding backed_def gw_moves_def graph_moves_def gw_ok_def by auto

lemma answered_Inl [simp]: "answered tid cmd (Inl e) w"
  by (simp add: answered_def)

definition replayed_ok :: "string \<Rightarrow> ApplyActionCmd \<Rightarrow> exn + ActionResult option \<Rightarrow> 'z gworld_scheme \<Rightarrow> bool" where
  "replayed_ok tid cmd res w \<longleftrightarrow> (\<forall>r. res = Inr (Some r) \<longrightarrow> backed tid cmd r (gw_db w))"

lemma coherent_action_commit: "coherent_commit (action_commit E ctx cmd key action type target params plan t i row)"
  by (simp add: coherent_commit_def action_commit_def Let_def)

lemma commit_backed:
  assumes "action_done tid (action_commit E ctx cmd key action type target params plan t i row) db db'"
    and "key = ac_idempotencyKey cmd" "so_rid target = ac_target cmd"
  shows "backed tid cmd (al_result (cm_log (action_commit E ctx cmd key action type target params plan t i row))) db'"
  using assms by (simp add: action_done_def backed_def action_commit_def Let_def log_image_def answer_image_def)

lemma og_get_rid: "og_get tid rid db = Some so \<Longrightarrow> so_rid so = rid"
  by (auto simp: og_get_def dest: sel1_Some)

text \<open>
  The contract of whoever calls the object graph: the relation and the invariant are those of the graph and
  perhaps more, and a piece that changes nothing else but moves the graph along its own relation keeps to it.
\<close>

locale graph_rely = rely R I
  for R :: "'z gworld_scheme \<Rightarrow> 'z gworld_scheme \<Rightarrow> bool" and I +
  assumes R_graph: "R w w' \<Longrightarrow> gw_moves w w'"
    and I_graph: "I w \<Longrightarrow> gw_ok w"
    and R_local: "I w \<Longrightarrow> gw_moves w w' \<Longrightarrow> gworld.more w' = gworld.more w \<Longrightarrow> R w w'"
begin

lemma backed_keeps: "backed tid cmd r (gw_db w) \<Longrightarrow> I w \<Longrightarrow> R w w' \<Longrightarrow> backed tid cmd r (gw_db w')"
  by (rule backed_stable[OF _ I_graph R_graph])

lemma calm_local:
  "(\<And>w. I w \<Longrightarrow> graph_moves (gw_db w) (gw_db (snd (m w))) \<and> gworld.more (snd (m w)) = gworld.more w)
    \<Longrightarrow> calm (atomic m)"
  by (rule calm_atomic) (simp add: R_local gw_moves_def)

lemma calm_gq: "calm (gq f)"
  unfolding gq_def by (rule calm_atomic) (simp add: R_refl)

lemma calm_gclock: "calm gclock"
  unfolding gclock_def by (rule calm_atomic) (simp add: R_refl)

lemma calm_gext: "calm (gext f)"
  unfolding gext_def by (rule calm_local) simp

lemma calm_gbytes: "calm (gbytes E n)"
  unfolding gbytes_def by (rule calm_local) simp

lemma calm_gulid: "calm (gulid E t)"
  unfolding gulid_def by (intro calm_rules calm_gbytes)

lemma calm_queue_send: "calm (queue_send E part)"
  unfolding queue_send_def by (rule calm_local) (simp split: sum.splits)

lemma calm_pfail: "calm (pfail c d)"
  unfolding pfail_def by (rule calm_pthrow)

lemma calm_plift: "calm (plift r)"
  unfolding plift_def by (intro calm_rules)

lemma calm_gdo: "(\<And>db. graph_ok db \<Longrightarrow> graph_moves db (snd (m db))) \<Longrightarrow> calm (gdo m)"
  unfolding gdo_def
  by (rule calm_local) (auto simp: case_prod_beta gw_ok_def dest!: I_graph)

lemmas calm_intros = calm_rules calm_gq calm_gclock calm_gext calm_gulid calm_queue_send calm_pfail calm_plift

lemma calm_gschema: "calm (gschema E ctx)"
  unfolding gschema_def by (rule calm_gext)

lemma calm_tenant_repos: "calm (tenant_repos tid)"
  unfolding tenant_repos_def by (intro calm_intros)

lemma calm_ensure: "calm (ensureNotTombstoned b)"
  unfolding ensureNotTombstoned_def by (intro calm_intros)

lemma calm_outboxRow: "calm (outboxRow E tid nowMs kind changes j a r)"
  unfolding outboxRow_def by (intro calm_intros)

lemma calm_deliver: "calm (deliver E tid row)"
  unfolding deliver_def publish_def by (intro calm_intros calm_gdo) simp

lemma calm_load_refs: "calm (load_refs tid refs)"
  unfolding load_refs_def Let_def by (intro calm_intros)

lemma calm_ifMatch: "calm (check_ifMatch ctx m v)"
  unfolding check_ifMatch_def by (intro calm_intros)

lemma calm_replay: "calm (action_replay tid cmd key)"
  unfolding action_replay_def by (intro calm_intros)

lemmas calm_parts = calm_intros calm_gschema calm_tenant_repos calm_ensure calm_outboxRow calm_deliver
  calm_load_refs calm_ifMatch calm_replay

lemma calm_patch: "calm (patchObject E ctx rid body m)"
  unfolding patchObject_def patch_found_def commit_patch_def Let_def
  by (cases body; cases m; simp only: jv.case option.case)
    (intro calm_parts calm_gdo graph_moves_patch)+

lemma calm_clear: "calm (clearWorkspace E ctx)"
  unfolding clearWorkspace_def Let_def by (intro calm_parts calm_gdo graph_moves_clear)

lemma calm_getObject: "calm (getObject E ctx rid)"
  unfolding getObject_def by (intro calm_parts)

lemma calm_getObjects: "calm (getObjects E ctx rids)"
  unfolding getObjects_def Let_def by (intro calm_parts)

lemma rg_answered_ret:
  "backed tid cmd r (gw_db w) \<Longrightarrow> I w \<Longrightarrow> rg R (answered tid cmd) (pret r) w"
  by (rule rg_pret) (auto simp: answered_def intro: backed_keeps)

lemma rg_answered_throw: "rg R (answered tid cmd) (pthrow e) w"
  by (rule rg_pthrow) simp

lemma rg_answered_fail: "rg R (answered tid cmd) (pfail c d) w"
  unfolding pfail_def by (rule rg_answered_throw)

lemma answered_bind:
  assumes "calm p" "I w" "\<And>x w'. I w' \<Longrightarrow> rg R (answered tid cmd) (k x) w'"
  shows "rg R (answered tid cmd) (pbind p k) w"
  using assms answered_Inl by (rule rg_calm_bind)

lemma answered_thn:
  assumes "calm p" "I w" "\<And>w'. I w' \<Longrightarrow> rg R (answered tid cmd) q w'"
  shows "rg R (answered tid cmd) (pthn p q) w"
  using assms answered_Inl by (rule rg_calm_thn)

lemma rg_replay:
  assumes "I w" "key = ac_idempotencyKey cmd"
  shows "rg R (\<lambda>r w. I w \<and> replayed_ok tid cmd r w) (action_replay tid cmd key) w"
  unfolding action_replay_def gq_def
proof (rule rg_bind, rule rg_atomic)
  let ?found = "\<lambda>res w. I w \<and> (\<forall>x. res = Inr (Some x) \<longrightarrow> (tid, x) \<in> set (g_log (gw_db w)) \<and> al_idempotencyKey x = key)"
  fix w' w'' assume 1: "R w w'" "R (snd (gets (\<lambda>w. og_findByKey tid key (gw_db w)) w')) w''"
  then have "I w'" "I w''" using assms(1) by (auto intro: I_stable)
  with 1 show "?found (fst (gets (\<lambda>w. og_findByKey tid key (gw_db w)) w')) w''"
    by (auto simp: og_findByKey_def rows_of_def gw_moves_def graph_moves_def gw_ok_def
        dest!: sel1_Some R_graph I_graph)
next
  fix prior w'
  assume found: "I w' \<and> (\<forall>x. Inr prior = Inr (Some x) \<longrightarrow> (tid, x) \<in> set (g_log (gw_db w')) \<and> al_idempotencyKey x = key)"
  show "rg R (\<lambda>r w. I w \<and> replayed_ok tid cmd r w) (case prior of None \<Rightarrow> pret None
       | Some r \<Rightarrow> if al_actionType r \<noteq> ac_actionType cmd \<or> al_targetRid r \<noteq> ac_target cmd
           then pfail CONFLICT ''Idempotency-Key was used for another request''
           else pret (Some ((al_result r)\<lparr>ar_replayed := True\<rparr>))) w'"
  proof (cases prior)
    case None
    with found show ?thesis by (auto simp: replayed_ok_def intro!: rg_pret intro: I_stable)
  next
    case (Some x)
    have "backed tid cmd ((al_result x)\<lparr>ar_replayed := True\<rparr>) (gw_db w')" if "al_targetRid x = ac_target cmd"
      using found that assms(2) Some by (force simp: backed_def list_ex_iff answer_image_def)
    with Some found show ?thesis
      by (auto simp: replayed_ok_def pfail_def intro!: rg_pret rg_pthrow intro: I_stable backed_keeps)
  qed
qed (auto simp: replayed_ok_def R_refl)

lemma rg_commit_plan:
  assumes "I w" "key = ac_idempotencyKey cmd" "so_rid target = ac_target cmd"
  shows "rg R (answered (ctx_tid ctx) cmd) (commit_plan E ctx cmd key action type target params plan) w"
  unfolding commit_plan_def Let_def
proof (rule answered_bind[OF calm_gclock assms(1)], rule answered_bind[OF calm_gulid], assumption,
    rule answered_bind[OF calm_outboxRow], assumption)
  fix t i row and w1 :: "'z gworld_scheme"
  let ?tid = "ctx_tid ctx" and ?c = "action_commit E ctx cmd key action type target params plan t i row"
  let ?M = "\<lambda>r w. I w \<and> (r = Inr CommitOk \<longrightarrow> backed ?tid cmd (al_result (cm_log ?c)) (gw_db w))"
  assume ok: "I w1"
  show "rg R (answered ?tid cmd)
     (pbind (gdo (commitAction ?tid ?c)) (\<lambda>outcome. case outcome of
        CommitOk \<Rightarrow> pthn (deliver E ?tid row) (pret (al_result (cm_log ?c)))
      | CommitStale \<Rightarrow> pthrow (version_mismatch None)
      | CommitDuplicate \<Rightarrow> pbind (action_replay ?tid cmd key) (\<lambda>again.
          case again of None \<Rightarrow> pfail CONFLICT ''Concurrent execution'' | Some r \<Rightarrow> pret r))) w1"
  proof (rule rg_bind[where M = ?M])
    let ?m = "\<lambda>w. case commitAction ?tid ?c (gw_db w) of (r, db) \<Rightarrow> (r, w\<lparr>gw_db := db\<rparr>)"
    show "rg R ?M (gdo (commitAction ?tid ?c)) w1"
      unfolding gdo_def
    proof (rule rg_atomic)
      fix w' assume w': "R w1 w'"
      show step: "R w' (snd (?m w'))"
        using graph_moves_action[OF coherent_action_commit, of "gw_db w'" ?tid] I_stable[OF ok w']
        by (intro R_local) (simp_all add: gw_moves_def case_prod_beta)
      fix w'' assume w'': "R (snd (?m w')) w''"
      have ok': "I w'" "I (snd (?m w'))" "I w''"
        using ok w' step w'' by (blast intro: I_stable)+
      obtain r db' where c: "commitAction ?tid ?c (gw_db w') = (r, db')" by fastforce
      have "keyed object_key (g_objects (gw_db w'))" using I_graph[OF ok'(1)] by (simp add: gw_ok_def graph_ok_def)
      from commitAction_spec[OF this c] commit_backed[OF _ assms(2,3)]
      have "r = Inr CommitOk \<longrightarrow> backed ?tid cmd (al_result (cm_log ?c)) (gw_db (snd (?m w')))"
        using c by auto
      then have "r = Inr CommitOk \<longrightarrow> backed ?tid cmd (al_result (cm_log ?c)) (gw_db w'')"
        using backed_keeps[OF _ ok'(2) w''] by blast
      with ok' c show "?M (fst (?m w')) w''" by simp
    qed
  next
    fix outcome w2 assume m: "?M (Inr outcome) w2"
    show "rg R (answered ?tid cmd) (case outcome of
        CommitOk \<Rightarrow> pthn (deliver E ?tid row) (pret (al_result (cm_log ?c)))
      | CommitStale \<Rightarrow> pthrow (version_mismatch None)
      | CommitDuplicate \<Rightarrow> pbind (action_replay ?tid cmd key) (\<lambda>again.
          case again of None \<Rightarrow> pfail CONFLICT ''Concurrent execution'' | Some r \<Rightarrow> pret r)) w2"
    proof (cases outcome)
      case CommitOk
      have "rg R (\<lambda>_ w. backed ?tid cmd (al_result (cm_log ?c)) (gw_db w) \<and> I w) (deliver E ?tid row) w2"
        using m CommitOk by (intro calm_kept calm_deliver) (auto intro: backed_keeps)
      then show ?thesis unfolding CommitOk pthn_def CommitOutcome.case
        by (rule rg_bind) (auto intro: rg_answered_ret)
    next
      case CommitDuplicate
      have "rg R (\<lambda>r w. I w \<and> replayed_ok ?tid cmd r w) (action_replay ?tid cmd key) w2"
        using m assms(2) by (intro rg_replay) auto
      then show ?thesis unfolding CommitDuplicate CommitOutcome.case
        by (rule rg_bind)
          (auto simp: replayed_ok_def split: option.splits intro: rg_answered_ret rg_answered_fail)
    qed (simp add: rg_answered_throw)
  qed simp
qed

lemma answered_if:
  "(b \<Longrightarrow> rg R (answered tid cmd) p w) \<Longrightarrow> (\<not> b \<Longrightarrow> rg R (answered tid cmd) q w)
    \<Longrightarrow> rg R (answered tid cmd) (if b then p else q) w"
  by simp

lemma answered_prod:
  "(\<And>a b. rg R (answered tid cmd) (f a b) w) \<Longrightarrow> rg R (answered tid cmd) (case v of (a, b) \<Rightarrow> f a b) w"
  by (cases v) simp

lemmas answered_rules = answered_bind answered_thn answered_if answered_prod rg_answered_fail rg_answered_throw

lemma rg_plan_action:
  assumes "I w" "key = ac_idempotencyKey cmd" "\<And>target. found = Some target \<Longrightarrow> so_rid target = ac_target cmd"
  shows "rg R (answered (ctx_tid ctx) cmd) (plan_action E ctx cmd key schema found counts) w"
  unfolding plan_action_def Let_def
proof (rule answered_thn[OF calm_ensure assms(1)])
  fix w1 :: "'z gworld_scheme" assume ok: "I w1"
  show "rg R (answered (ctx_tid ctx) cmd)
      (case (map_of (cs_actionTypes schema) (ac_actionType cmd), found) of
         (None, _) \<Rightarrow> pfail NOT_FOUND ''Unknown action type''
       | (Some _, None) \<Rightarrow> pthrow (App (app_error NOT_FOUND))
       | (Some action, Some target) \<Rightarrow>
           (case map_of (cs_objectTypes schema) (so_type target) of
              None \<Rightarrow> pfail VALIDATION_FAILED ''Target type does not match''
            | Some type \<Rightarrow>
                if so_type target \<noteq> at_targetType action
                then pfail VALIDATION_FAILED ''Target type does not match''
                else
                pthn (check_ifMatch ctx (ac_ifMatch cmd) (so_version target))
                (pbind (plift (resolveParams (ge_plat E) action (case ac_params cmd of None \<Rightarrow> [] | Some ps \<Rightarrow> ps)))
                (\<lambda>(params, refs).
                pbind (load_refs (ctx_tid ctx) refs) (\<lambda>refTypes.
                pbind (plift (unmetPreconditions (ge_plat E) (at_preconditions action) (actionData target params)
                         (locale_name (ctx_locale ctx)))) (\<lambda>unmet.
                if unmet \<noteq> [] then pthrow (unmet_error unmet)
                else
                pbind (if touchedLinkTypes action = [] then pret []
                       else gq (og_linksOf (ctx_tid ctx) (so_rid target) (touchedLinkTypes action))) (\<lambda>links.
                pbind (plift (applyEffects (ge_plat E)
                         \<lparr>ei_schema = schema, ei_action = action, ei_type = type, ei_target = target,
                          ei_params = params, ei_links = links, ei_refTypes = refTypes\<rparr>)) (\<lambda>plan.
                if exceeds_links E counts plan then pfail QUOTA_EXCEEDED ''LINK_LIMIT''
                else commit_plan E ctx cmd key action type target params plan)))))))) w1"
  proof (cases "map_of (cs_actionTypes schema) (ac_actionType cmd)"; cases found)
    fix action target
    assume 1: "map_of (cs_actionTypes schema) (ac_actionType cmd) = Some action" "found = Some target"
    then show ?thesis
      by (cases "map_of (cs_objectTypes schema) (so_type target)"; simp only: prod.case option.case)
        (intro answered_rules calm_parts ok rg_commit_plan assms(2) assms(3)[OF 1(2)]; assumption)+
  qed (simp_all add: rg_answered_fail rg_answered_throw)
qed

lemma rg_apply_reads:
  assumes "I w" "key = ac_idempotencyKey cmd"
  shows "rg R (answered (ctx_tid ctx) cmd)
      (pbind (gschema E ctx) (\<lambda>schema. pbind (gq (og_get (ctx_tid ctx) (ac_target cmd))) (\<lambda>target.
         pbind (gq (og_counts (ctx_tid ctx))) (\<lambda>counts. plan_action E ctx cmd key schema target counts)))) w"
proof (rule answered_bind[OF calm_gschema assms(1)])
  fix schema and w1 :: "'z gworld_scheme"
  assume "I w1"
  let ?M = "\<lambda>r w. I w \<and> (\<forall>so. r = Inr (Some so) \<longrightarrow> so_rid so = ac_target cmd)"
  have "rg R ?M (gq (og_get (ctx_tid ctx) (ac_target cmd))) w1"
    unfolding gq_def
    by (rule rg_atomic) (use \<open>I w1\<close> in \<open>auto simp: R_refl dest: og_get_rid I_stable\<close>)
  then show "rg R (answered (ctx_tid ctx) cmd)
      (pbind (gq (og_get (ctx_tid ctx) (ac_target cmd))) (\<lambda>target.
         pbind (gq (og_counts (ctx_tid ctx))) (\<lambda>counts. plan_action E ctx cmd key schema target counts))) w1"
    by (rule rg_bind) (auto intro!: answered_bind[OF calm_gq] rg_plan_action assms(2))
qed

lemma rg_apply_after_key:
  assumes "I w" "key = ac_idempotencyKey cmd"
  shows "rg R (answered (ctx_tid ctx) cmd) (pbind (action_replay (ctx_tid ctx) cmd key) (\<lambda>first.
        case first of
          Some r \<Rightarrow> pret r
        | None \<Rightarrow>
            pbind (gschema E ctx) (\<lambda>schema.
            pbind (gq (og_get (ctx_tid ctx) (ac_target cmd))) (\<lambda>target.
            pbind (gq (og_counts (ctx_tid ctx))) (\<lambda>counts.
            plan_action E ctx cmd key schema target counts))))) w"
proof (rule rg_bind[OF rg_replay[OF assms]])
  fix first and w' :: "'z gworld_scheme"
  assume "I w' \<and> replayed_ok (ctx_tid ctx) cmd (Inr first) w'"
  then show "rg R (answered (ctx_tid ctx) cmd) (case first of
          Some r \<Rightarrow> pret r
        | None \<Rightarrow>
            pbind (gschema E ctx) (\<lambda>schema.
            pbind (gq (og_get (ctx_tid ctx) (ac_target cmd))) (\<lambda>target.
            pbind (gq (og_counts (ctx_tid ctx))) (\<lambda>counts.
            plan_action E ctx cmd key schema target counts)))) w'"
    by (cases first) (auto simp: replayed_ok_def intro: rg_answered_ret rg_apply_reads[OF _ assms(2)])
qed simp

lemma rg_applyAction:
  assumes "I w"
  shows "rg R (answered (ctx_tid ctx) cmd) (applyAction E ctx cmd) w"
proof -
  have key: "rg R (\<lambda>r w. I w \<and> (\<forall>k. r = Inr k \<longrightarrow> k = ac_idempotencyKey cmd))
      (plift (checkKey ctx (ac_idempotencyKey cmd))) w"
    using assms by (auto simp: plift_def checkKey_def Let_def intro!: rg_pret rg_pthrow intro: I_stable)
  show ?thesis
    unfolding applyAction_def
    by (rule rg_bind[OF key])
      (intro answered_if rg_answered_fail answered_thn[OF calm_tenant_repos] rg_apply_after_key, auto)
qed

lemma calm_applyAction: "calm (applyAction E ctx cmd)"
  by (rule calmI, rule rg_applyAction)

end

interpretation gm: graph_rely "gw_moves :: 'z gworld_scheme \<Rightarrow> 'z gworld_scheme \<Rightarrow> bool" gw_ok
  by unfold_locales (auto simp: gw_moves_def gw_ok_def graph_moves_def intro: graph_moves_trans)

subsection \<open>Pools of calls\<close>

datatype graph_call =
    CallApply CallCtx ApplyActionCmd
  | CallPatch CallCtx string jv "int option"
  | CallClear CallCtx
  | CallGet CallCtx string
  | CallGetMany CallCtx "string list"

primrec start_call :: "genv \<Rightarrow> graph_call \<Rightarrow> ('z, ActionResult option) gp" where
  "start_call E (CallApply ctx cmd) = pbind (applyAction E ctx cmd) (\<lambda>r. pret (Some r))"
| "start_call E (CallPatch ctx rid body m) = pthn (pvoid (patchObject E ctx rid body m)) (pret None)"
| "start_call E (CallClear ctx) = pthn (pvoid (clearWorkspace E ctx)) (pret None)"
| "start_call E (CallGet ctx rid) = pthn (pvoid (getObject E ctx rid)) (pret None)"
| "start_call E (CallGetMany ctx rids) = pthn (pvoid (getObjects E ctx rids)) (pret None)"

text \<open>From outside only the clock, the random bytes and the remote services move.\<close>

definition gw_outside :: "'z gworld_scheme \<Rightarrow> 'z gworld_scheme \<Rightarrow> bool" where
  "gw_outside w w' \<longleftrightarrow> gw_db w' = gw_db w"

abbreviation graph_steps where
  "graph_steps E \<equiv> (pool_step (start_call E) (\<lambda>_. True) gw_outside)\<^sup>*\<^sup>*"

definition call_answered :: "graph_call \<Rightarrow> exn + ActionResult option \<Rightarrow> 'z gworld_scheme \<Rightarrow> bool" where
  "call_answered c res w \<longleftrightarrow>
     (case c of CallApply ctx cmd \<Rightarrow> \<forall>r. res = Inr (Some r) \<longrightarrow> backed (ctx_tid ctx) cmd r (gw_db w) | _ \<Rightarrow> True)"

lemma calm_others:
  "gm.calm (start_call E (CallPatch ctx rid body m))" "gm.calm (start_call E (CallClear ctx))"
  "gm.calm (start_call E (CallGet ctx rid))" "gm.calm (start_call E (CallGetMany ctx rids))"
  unfolding start_call.simps
  by (intro gm.calm_intros gm.calm_patch gm.calm_clear gm.calm_getObject gm.calm_getObjects)+

lemma rg_any: "gm.calm p \<Longrightarrow> gw_ok w \<Longrightarrow> (\<And>r w. Q r w) \<Longrightarrow> rg gw_moves Q p w"
  by (auto simp: gm.calm_def intro: gm.rg_weaken)

lemma rg_start_call:
  assumes "gw_ok w"
  shows "rg gw_moves (call_answered c) (start_call E c) w"
proof (cases c)
  case (CallApply ctx cmd)
  show ?thesis
    unfolding CallApply start_call.simps
  proof (rule gm.rg_bind[OF gm.rg_inv[OF gm.rg_applyAction[OF assms] assms]])
    fix r and w' :: "'a gworld_scheme"
    assume "answered (ctx_tid ctx) cmd (Inr r) w' \<and> gw_ok w'"
    then show "rg gw_moves (call_answered (CallApply ctx cmd)) (pret (Some r)) w'"
      by (intro gm.rg_pret) (auto simp: call_answered_def answered_def intro: backed_stable)
  qed (simp add: call_answered_def)
qed (auto simp: call_answered_def simp del: start_call.simps intro!: rg_any calm_others assms)

lemma graph_pool_good:
  assumes "graph_steps E (w, []) (w', ps)" "gw_ok w"
  shows "gw_moves w w' \<and> gm.pool_good call_answered (w', ps)"
  using gm.pool_steps_good[OF assms(1) gm.pool_good_empty[of w call_answered, OF assms(2)]] rg_start_call
  by (auto simp: gw_outside_def gw_moves_def)

end
