(* ===== verification/GraphProps.thy ===== *)
theory GraphProps
  imports GraphSteps
begin

section \<open>What the object graph promises under interleaving\<close>

text \<open>
  The properties of the guarded batches and of pools of calls, over the facts of \<open>GraphSteps\<close>, with the
  concrete database on which they are witnessed.
\<close>

definition demo_rid :: string where
  "demo_rid = ''ri.A.00000000000000000000000000''"

definition demo_result :: ActionResult where
  "demo_result =
     \<lparr>ar_actionLogId = ''L1'', ar_actionType = ''move'', ar_rid = demo_rid, ar_version = 2, ar_before = [],
      ar_after = [], ar_executedAt = ''1970-01-01T00:00:00.000Z'', ar_replayed = False\<rparr>"

definition demo_logged :: ActionLogRow where
  "demo_logged =
     \<lparr>al_id = ''L1'', al_actionType = ''move'', al_targetRid = demo_rid, al_params = [], al_before = [],
      al_after = [], al_actor = ''owner'', al_actorUserId = None, al_recommendationId = None,
      al_idempotencyKey = ''key-0123456789abcdef'', al_result = demo_result, al_executedAt = 0\<rparr>"

definition demo_gdb :: gdb where
  "demo_gdb =
     \<lparr>g_objects = [(''t'', demo_object\<lparr>so_rid := demo_rid, so_version := 2\<rparr>)], g_index = [], g_links = [],
      g_log = [(''t'', demo_logged)], g_outbox = [], g_tombs = []\<rparr>"

definition demo_gworld :: gworld where
  "demo_gworld = \<lparr>gw_db = demo_gdb, gw_now = 0, gw_pos = 0, gw_calls = 0, gw_sent = []\<rparr>"

definition demo_genv :: genv where
  "demo_genv =
     \<lparr>ge_schema = (\<lambda>_ _. Inr demo_schema), ge_send = (\<lambda>_. Inr ()), ge_rand = (\<lambda>_. 0), ge_sha = id,
      ge_plat = demo_platform, ge_maxObjects = 300, ge_maxLinks = 900, ge_maxEventBytes = 65536\<rparr>"

definition demo_caller :: CallCtx where
  "demo_caller =
     \<lparr>ctx_tid = ''t'', ctx_sub = ''u'', ctx_actor = \<lparr>act_role = Human Owner, act_userId = None, act_actingAs = False\<rparr>,
      ctx_requestId = ''r'', ctx_locale = EnUS, ctx_sid = None\<rparr>"

definition demo_cmd :: ApplyActionCmd where
  "demo_cmd =
     \<lparr>ac_actionType = ''move'', ac_target = demo_rid, ac_params = None, ac_ifMatch = Some 1,
      ac_idempotencyKey = ''key-0123456789abcdef'', ac_recommendationId = None\<rparr>"

definition demo_update :: GuardedUpdate where
  "demo_update =
     \<lparr>gu_rid = demo_rid, gu_expectedVersion = 2, gu_state = \<lparr>ps_props = [], ps_provenance = []\<rparr>, gu_title = ''x'',
      gu_hash = [], gu_index = None, gu_nowMs = 1\<rparr>"

definition demo_commit :: ActionCommit where
  "demo_commit =
     \<lparr>cm_update = demo_update, cm_removeLinks = [], cm_addLinks = [],
      cm_log = demo_logged\<lparr>al_id := ''L2'', al_idempotencyKey := ''key-2'', al_result := demo_result\<lparr>ar_version := 3\<rparr>\<rparr>,
      cm_outbox = \<lparr>ob_id = ''e'', ob_msg = demo_event\<rparr>\<rparr>"

text \<open>C11: the batch of an action is all or nothing: when it reports success the object was at the version
  the plan was made from, its update, the one log row and the outbox row are written, and in every other
  outcome (stale version, key already used, any database error) the database is as before.\<close>

theorem commit_all_or_nothing:
  assumes "keyed object_key (g_objects db)" "commitAction tid c db = (r, db')"
  shows "if r = Inr CommitOk then action_done tid c db db' else db' = db"
  using assms by (rule commitAction_spec)

lemma demo_commit_ok: "fst (commitAction ''t'' demo_commit demo_gdb) = Inr CommitOk"
  by (simp add: commitAction_def action_stmts_def demo_commit_def demo_update_def indexStmts_def Let_def
      g_batch_def log_insert_def guardedOutbox_def updateStmt_def guard_def guarded_def demo_gdb_def
      log_clash_def demo_logged_def demo_result_def hits_def)

lemma commit_all_or_nothing_witness:
  "action_done ''t'' demo_commit demo_gdb (snd (commitAction ''t'' demo_commit demo_gdb))"
  using commit_all_or_nothing[of demo_gdb "''t''" demo_commit] demo_commit_ok
  by (cases "commitAction ''t'' demo_commit demo_gdb") (simp add: demo_gdb_def)


lemma demo_graph_ok: "graph_ok demo_gdb"
  by code_simp

lemma demo_rid_ok: "isRid demo_rid"
  by code_simp

lemma demo_replay:
  "solo (start_call demo_genv (CallApply demo_caller demo_cmd)) demo_gworld
     = (Inr (Some (demo_result\<lparr>ar_replayed := True\<rparr>)), demo_gworld)"
  by code_simp

lemma demo_two_replays:
  "graph_steps demo_genv (demo_gworld, [])
     (demo_gworld, [(CallApply demo_caller demo_cmd, Done (Inr (Some (demo_result\<lparr>ar_replayed := True\<rparr>)))),
                    (CallApply demo_caller demo_cmd, Done (Inr (Some (demo_result\<lparr>ar_replayed := True\<rparr>))))])"
proof -
  let ?done = "(CallApply demo_caller demo_cmd, Done (Inr (Some (demo_result\<lparr>ar_replayed := True\<rparr>))))"
  have "graph_steps demo_genv (demo_gworld, ps) (demo_gworld, ps @ [?done])" for ps
    by (rule pool_call) (simp_all only: demo_replay)
  from this[of "[]"] this[of "[?done]"] show ?thesis by (simp add: rtranclp_trans)
qed

lemma demo_clear:
  "length (g_log (gw_db (snd (solo (start_call demo_genv (CallClear demo_caller)) demo_gworld)))) = 2"
proof -
  have fresh: "''L1'' \<noteq> ulid n bs" for n bs
  proof -
    have "length (ulid n bs) \<noteq> length ''L1''" by simp
    then show ?thesis by metis
  qed
  show ?thesis
    by (simp add: pvoid_def thn_def bnd_app clearWorkspace_def demo_caller_def actorLabel_def tenant_repos_def gq_def og_counts_def
        rows_of_def demo_gworld_def demo_gdb_def ensureNotTombstoned_def gclock_def gulid_def gbytes_def
        gdo_def clearAll_def g_batch_def clear_log_def log_clash_def demo_logged_def fresh Let_def del: length_ulid)
qed


text \<open>C5: an action runs at most once for a key: under every interleaving, two calls of a workspace with
  one idempotency key that both return a result return the same target and the same logged execution,
  whatever was lost, retried or run at the same time.\<close>

theorem action_idempotent:
  fixes w w' :: "'z gworld_scheme"
  assumes "graph_steps E (w, []) (w', ps)" "graph_ok (gw_db w)"
    and "(CallApply ctx1 cmd1, Done (Inr (Some r1))) \<in> set ps"
    and "(CallApply ctx2 cmd2, Done (Inr (Some r2))) \<in> set ps"
    and "ctx_tid ctx1 = ctx_tid ctx2" "ac_idempotencyKey cmd1 = ac_idempotencyKey cmd2"
  shows "ac_target cmd1 = ac_target cmd2 \<and> answer_image r1 = answer_image r2"
proof -
  have good: "gm.pool_good call_answered (w', ps)" "graph_ok (gw_db w')"
    using graph_pool_good[OF assms(1)] assms(2) by (auto simp: gw_ok_def gw_moves_def graph_moves_def)
  have b: "backed (ctx_tid ctx1) cmd1 r1 (gw_db w')" "backed (ctx_tid ctx2) cmd2 r2 (gw_db w')"
    using gm.pool_good_done[OF good(1) assms(3)] gm.pool_good_done[OF good(1) assms(4)]
    by (simp_all add: call_answered_def)
  then obtain x y where x: "x \<in> set (g_log (gw_db w'))" "log_key x = (ctx_tid ctx1, ac_idempotencyKey cmd1)"
      "al_targetRid (snd x) = ac_target cmd1" "answer_image (al_result (snd x)) = answer_image r1"
    and y: "y \<in> set (g_log (gw_db w'))" "log_key y = (ctx_tid ctx2, ac_idempotencyKey cmd2)"
      "al_targetRid (snd y) = ac_target cmd2" "answer_image (al_result (snd y)) = answer_image r2"
    unfolding backed_def list_ex_iff log_key_def by blast
  have "x = y" using good(2) x(1,2) y(1,2) assms(5,6) by (auto simp: graph_ok_def dest: keyed_eqD)
  with x y show ?thesis by simp
qed

lemma action_idempotent_witness:
  "ac_target demo_cmd = ac_target demo_cmd
    \<and> answer_image (demo_result\<lparr>ar_replayed := True\<rparr>) = answer_image (demo_result\<lparr>ar_replayed := True\<rparr>)"
  by (rule action_idempotent[OF demo_two_replays, of demo_caller demo_cmd _ demo_caller demo_cmd])
    (use demo_graph_ok in \<open>simp_all add: demo_gworld_def\<close>)

end
