(* ===== verification/DecisionRules.thy ===== *)
theory DecisionRules
  imports GraphProps
begin

section \<open>The rules of the decision engine\<close>

text \<open>
  \<^verbatim>\<open>packages/decision/domain\<close> and the types of \<^verbatim>\<open>contract/types.ts\<close>: neurons, propagation of impacts,
  the simulator, candidate actions, the focus of a recommendation and the recommendation itself. A
  \<^verbatim>\<open>Map\<close> from rids to numbers is the list of its entries in insertion order. A comparator of \<^verbatim>\<open>sort\<close> is a
  function to numbers, sorting is stable.
\<close>

subsection \<open>contract/types.ts\<close>

record Perturbation =
  pt_rid :: string
  pt_property :: string
  pt_change :: jsnum

type_synonym KpiSet = "(string \<times> jsnum) list"

record KpiMeta =
  km_apiName :: string
  km_displayName :: I18nText
  km_unit :: "string option"
  km_higherIsBetter :: bool

record Candidate =
  cd_id :: string
  cd_actionType :: string
  cd_displayName :: I18nText
  cd_target :: string
  cd_targetTitle :: string
  cd_params :: obj
  cd_expectedImpact :: jsnum
  cd_affectedCount :: int

record AffectedObject =
  af_rid :: string
  af_type :: string
  af_title :: string
  af_delta :: jsnum
  af_hop :: int

datatype RiskLevel = RiskLow | RiskMedium | RiskHigh

record ScenarioResult =
  sr_baseline :: KpiSet
  sr_scenario :: KpiSet
  sr_withActions :: "(string \<times> KpiSet) list option"
  sr_affected :: "AffectedObject list"
  sr_riskLevel :: RiskLevel
  sr_kpis :: "KpiMeta list"
  sr_nodeCount :: int
  sr_computedAt :: string

record ScenarioDto =
  sc_id :: string
  sc_name :: string
  sc_perturbations :: "Perturbation list"
  sc_candidates :: "Candidate list"
  sc_result :: ScenarioResult
  sc_createdAt :: string

datatype RecStatus = RecProposed | RecConfirmed | RecRejected | RecExpired | RecExecuted | RecExecFailed

record Evidence =
  evd_rid :: string
  evd_prop :: string
  evd_value :: jv

record ExecutionRecord =
  xr_candidateId :: string
  xr_executed :: bool
  xr_actionLogId :: "string option"
  xr_error :: "string option"

datatype RankedBy = RankedByAi | RankedByRules

record RecommendationDto =
  rd_id :: string
  rd_status :: RecStatus
  rd_focus :: string
  rd_alertId :: "string option"
  rd_scenarioId :: "string option"
  rd_summary :: string
  rd_rationale :: string
  rd_candidates :: "Candidate list"
  rd_ranking :: "string list"
  rd_evidence :: "Evidence list"
  rd_risks :: "string list"
  rd_confidence :: jsnum
  rd_rankedBy :: RankedBy
  rd_model :: "string option"
  rd_simulation :: "ScenarioResult option"
  rd_decidedBy :: "UserRole option"
  rd_decidedAt :: "string option"
  rd_rejectReason :: "string option"
  rd_execution :: "ExecutionRecord list option"
  rd_locale :: Locale
  rd_createdAt :: string
  rd_expiresAt :: string
  rd_version :: int

datatype Decision = Confirm | Reject

record DecisionInput =
  di_decision :: Decision
  di_reason :: "string option"

definition DECISION_gamma :: jsnum where "DECISION_gamma = fl (9 / 10)"
definition DECISION_pruneBelow :: jsnum where "DECISION_pruneBelow = fl (5 / 1000)"
definition DECISION_maxHops :: nat where "DECISION_maxHops = 2"
definition DECISION_execAttemptsMax :: int where "DECISION_execAttemptsMax = 3"
definition DECISION_candidatesMax :: nat where "DECISION_candidatesMax = 3"
definition DECISION_recExpireHours :: int where "DECISION_recExpireHours = 24"

subsection \<open>Sorting and small numbers\<close>

text \<open>\<^verbatim>\<open>a || b\<close> on numbers, and a stable sort by a comparator.\<close>

definition num_or :: "jsnum \<Rightarrow> jsnum \<Rightarrow> jsnum" where
  "num_or a b = (if a = Fin 0 \<or> a = NaN then b else a)"

fun sort_insert :: "('a \<Rightarrow> 'a \<Rightarrow> jsnum) \<Rightarrow> 'a \<Rightarrow> 'a list \<Rightarrow> 'a list" where
  "sort_insert cmp x [] = [x]"
| "sort_insert cmp x (y # ys) = (if num_lt (Fin 0) (cmp x y) then y # sort_insert cmp x ys else x # y # ys)"

definition js_sort :: "('a \<Rightarrow> 'a \<Rightarrow> jsnum) \<Rightarrow> 'a list \<Rightarrow> 'a list" where
  "js_sort cmp xs = foldr (sort_insert cmp) xs []"

lemma set_sort_insert [simp]: "set (sort_insert cmp x ys) = insert x (set ys)"
  by (induction ys) auto

lemma set_js_sort [simp]: "set (js_sort cmp xs) = set xs"
  unfolding js_sort_def by (induction xs) auto

definition str_cmp :: "string \<Rightarrow> string \<Rightarrow> jsnum" where
  "str_cmp a b = (if a < b then Fin (- 1) else if b < a then Fin 1 else Fin 0)"

text \<open>\<^verbatim>\<open>round(v, digits)\<close> of \<^verbatim>\<open>simulation.ts\<close> and \<^verbatim>\<open>clamp\<close> of \<^verbatim>\<open>propagation.ts\<close>.\<close>

definition round_to :: "jsnum \<Rightarrow> nat \<Rightarrow> jsnum" where
  "round_to v digits = (let f = Fin (10 ^ digits) in num_div (num_round (num_mul v f)) f)"

definition clamp :: "jsnum \<Rightarrow> jsnum \<Rightarrow> jsnum \<Rightarrow> jsnum" where
  "clamp v lo hi = (if num_lt v lo then lo else if num_lt hi v then hi else v)"

definition num_ceil :: "jsnum \<Rightarrow> jsnum" where
  "num_ceil n = (case n of Fin r \<Rightarrow> Fin (of_int \<lceil>r\<rceil>) | _ \<Rightarrow> n)"

subsection \<open>neurons.ts\<close>

record NeuronRate =
  nr_input :: int
  nr_output :: int

record TokenUsage =
  tu_inputTokens :: jsnum
  tu_outputTokens :: jsnum

text \<open>\<^verbatim>\<open>AI_MODELS\<close> of the shared kernel.\<close>

definition AI_PRIMARY :: string where
  "AI_PRIMARY = ''@cf/qwen/qwen3-30b-a3b-fp8''"

definition AI_FALLBACK :: string where
  "AI_FALLBACK = ''@cf/openai/gpt-oss-20b''"

definition NEURON_RATES :: "(string \<times> NeuronRate) list" where
  "NEURON_RATES =
     [(AI_PRIMARY, \<lparr>nr_input = 4625, nr_output = 30455\<rparr>),
      (AI_FALLBACK, \<lparr>nr_input = 18182, nr_output = 27273\<rparr>)]"

definition neuron_rate :: "string \<Rightarrow> NeuronRate" where
  "neuron_rate model =
     (case map_of NEURON_RATES model of Some r \<Rightarrow> r | None \<Rightarrow> the (map_of NEURON_RATES AI_FALLBACK))"

definition neuronsFor :: "string \<Rightarrow> TokenUsage \<Rightarrow> jsnum" where
  "neuronsFor model u =
     (let r = neuron_rate model
      in num_ceil (num_div
           (num_add (num_mul (num_max (Fin 0) (tu_inputTokens u)) (num_of_int (nr_input r)))
                    (num_mul (num_max (Fin 0) (tu_outputTokens u)) (num_of_int (nr_output r))))
           (Fin 1000000)))"

definition estimateTokens :: "string \<Rightarrow> jsnum" where
  "estimateTokens s = num_ceil (num_div (num_of_int (int (length s))) (Fin 3))"

definition estimateNeurons :: "string \<Rightarrow> jsnum \<Rightarrow> jsnum \<Rightarrow> jsnum" where
  "estimateNeurons model promptChars maxOutput =
     neuronsFor model \<lparr>tu_inputTokens = num_ceil (num_div promptChars (Fin 3)), tu_outputTokens = maxOutput\<rparr>"

definition reservation :: "jsnum \<Rightarrow> jsnum \<Rightarrow> jsnum" where
  "reservation estimate factor = num_max (Fin 1) (num_ceil (num_mul estimate factor))"

subsection \<open>propagation.ts\<close>

record Impact =
  im_delta :: "(string \<times> jsnum) list"
  im_hop :: "(string \<times> nat) list"

text \<open>\<^verbatim>\<open>delta.get(rid) ?? 0\<close>.\<close>

definition delta_of :: "(string \<times> jsnum) list \<Rightarrow> string \<Rightarrow> jsnum" where
  "delta_of m rid = (case map_of m rid of Some v \<Rightarrow> v | None \<Rightarrow> Fin 0)"

definition propagatingLinkTypes :: "(string \<times> LinkTypeDef) list \<Rightarrow> string list" where
  "propagatingLinkTypes linkTypes =
     sort (map lt_apiName (filter (\<lambda>l. lt_propagation l \<noteq> None) (map snd linkTypes)))"

type_synonym WeightedEdge = "StoredLink \<times> jsnum"

text \<open>The edges of propagating types with their weights; the adjacency of a node is their filter by source.\<close>

definition outAdjacency :: "StoredLink list \<Rightarrow> (string \<times> LinkTypeDef) list \<Rightarrow> WeightedEdge list" where
  "outAdjacency edges linkTypes =
     concat (map (\<lambda>e.
       case Option.bind (map_of linkTypes (sl_type e)) lt_propagation of
         None \<Rightarrow> []
       | Some dw \<Rightarrow>
           [(e, case sl_weight e of Some w \<Rightarrow> (if isFinite w then w else dw) | None \<Rightarrow> dw)]) edges)"

record PropagationOptions =
  po_gamma :: jsnum
  po_maxHops :: nat
  po_pruneBelow :: jsnum

type_synonym wave = "(string \<times> jsnum) list \<times> (string \<times> nat) list \<times> string list"

text \<open>Reaching a node: at distance \<open>d\<close> and queued the first time.\<close>

definition reach :: "string \<Rightarrow> nat \<Rightarrow> jsnum \<Rightarrow> wave \<Rightarrow> wave" where
  "reach rid d v st =
     (case st of (delta, hop, queue) \<Rightarrow>
        (obj_put rid (clamp (num_add (delta_of delta rid) v) (Fin (- 1)) (Fin 1)) delta,
         if rid \<in> fst ` set hop then hop else hop @ [(rid, d)],
         if rid \<in> fst ` set hop then queue else queue @ [rid]))"

definition seed :: "Perturbation \<Rightarrow> wave \<Rightarrow> wave" where
  "seed p st = reach (pt_rid p) 0 (pt_change p) st"

definition visit_edge :: "platform \<Rightarrow> PropagationOptions \<Rightarrow> nat \<Rightarrow> jsnum \<Rightarrow> WeightedEdge \<Rightarrow> wave \<Rightarrow> wave" where
  "visit_edge P opts d di we st =
     (let contrib = num_mul (num_mul (snd we) di) (js_pow P (po_gamma opts) (num_of_int (int d + 1)))
      in if num_lt (num_abs contrib) (po_pruneBelow opts) then st
         else reach (sl_dst (fst we)) (d + 1) contrib st)"

definition visit_node :: "platform \<Rightarrow> PropagationOptions \<Rightarrow> WeightedEdge list \<Rightarrow> string \<Rightarrow> wave \<Rightarrow> wave" where
  "visit_node P opts adj i st =
     (let d = (case map_of (fst (snd st)) i of Some d \<Rightarrow> d | None \<Rightarrow> 0);
          di = delta_of (fst st) i
      in if po_maxHops opts \<le> d then st
         else fold (visit_edge P opts d di) (filter (\<lambda>we. sl_src (fst we) = i) adj) st)"

text \<open>The nodes not reached yet bound the rounds of the loop over the queue.\<close>

definition wave_measure :: "WeightedEdge list \<Rightarrow> wave \<Rightarrow> nat" where
  "wave_measure adj st =
     2 * card ((\<lambda>we. sl_dst (fst we)) ` set adj - fst ` set (fst (snd st))) + length (snd (snd st))"

lemma reach_measure:
  assumes "rid \<in> (\<lambda>we. sl_dst (fst we)) ` set adj"
  shows "wave_measure adj (reach rid d v st) \<le> wave_measure adj st"
proof -
  obtain delta hop queue where st: "st = (delta, hop, queue)" by (cases st)
  show ?thesis
  proof (cases "rid \<in> fst ` set hop")
    case False
    let ?D = "(\<lambda>we. sl_dst (fst we)) ` set adj" and ?H = "fst ` set hop"
    have "card (?D - insert rid ?H) = card (?D - ?H) - 1"
      using assms False by (subst Diff_insert) (rule card_Diff_singleton, simp)
    moreover have "0 < card (?D - ?H)" unfolding card_gt_0_iff using assms False by blast
    ultimately show ?thesis using False by (simp add: st wave_measure_def reach_def)
  qed (simp add: st wave_measure_def reach_def)
qed

lemma visit_edge_measure: "we \<in> set adj \<Longrightarrow> wave_measure adj (visit_edge P opts d di we st) \<le> wave_measure adj st"
  by (auto simp: visit_edge_def Let_def intro: reach_measure)

lemma visit_edges_measure:
  assumes "set wes \<subseteq> set adj"
  shows "wave_measure adj (fold (visit_edge P opts d di) wes st) \<le> wave_measure adj st"
  using assms
proof (induction wes arbitrary: st)
  case (Cons we wes)
  have "wave_measure adj (fold (visit_edge P opts d di) wes (visit_edge P opts d di we st))
      \<le> wave_measure adj (visit_edge P opts d di we st)"
    by (rule Cons.IH) (use Cons.prems in simp)
  also have "\<dots> \<le> wave_measure adj st" by (rule visit_edge_measure) (use Cons.prems in simp)
  finally show ?case by simp
qed simp

lemma visit_node_measure: "wave_measure adj (visit_node P opts adj i st) \<le> wave_measure adj st"
  by (auto simp: visit_node_def Let_def intro: visit_edges_measure)

lemma spread_shrinks:
  assumes "(delta', hop', queue') = visit_node P opts adj i (delta, hop, queue)"
  shows "wave_measure adj (delta', hop', queue') < wave_measure adj (delta, hop, i # queue)"
  using visit_node_measure[of adj P opts i "(delta, hop, queue)"] assms[symmetric]
  by (simp add: wave_measure_def)

function (sequential) spread ::
  "platform \<Rightarrow> PropagationOptions \<Rightarrow> WeightedEdge list \<Rightarrow> (string \<times> jsnum) list \<Rightarrow> (string \<times> nat) list
    \<Rightarrow> string list \<Rightarrow> (string \<times> jsnum) list \<times> (string \<times> nat) list" where
  "spread P opts adj delta hop [] = (delta, hop)"
| "spread P opts adj delta hop (i # queue) =
     (case visit_node P opts adj i (delta, hop, queue) of
        (delta', hop', queue') \<Rightarrow> spread P opts adj delta' hop' queue')"
  by pat_completeness auto

termination
  by (relation "measure (\<lambda>(P, opts, adj, delta, hop, queue). wave_measure adj (delta, hop, queue))")
    (use spread_shrinks in auto)

definition propagate_with ::
  "platform \<Rightarrow> PropagationOptions \<Rightarrow> StoredLink list \<Rightarrow> (string \<times> LinkTypeDef) list \<Rightarrow> Perturbation list \<Rightarrow> Impact" where
  "propagate_with P opts edges linkTypes perturbations =
     (case fold seed perturbations ([], [], []) of
        (delta, hop, queue) \<Rightarrow>
          (case spread P opts (outAdjacency edges linkTypes) delta hop queue of
             (delta', hop') \<Rightarrow> \<lparr>im_delta = delta', im_hop = hop'\<rparr>))"

definition default_options :: PropagationOptions where
  "default_options =
     \<lparr>po_gamma = DECISION_gamma, po_maxHops = DECISION_maxHops, po_pruneBelow = DECISION_pruneBelow\<rparr>"

definition propagate ::
  "platform \<Rightarrow> StoredLink list \<Rightarrow> (string \<times> LinkTypeDef) list \<Rightarrow> Perturbation list \<Rightarrow> Impact" where
  "propagate P = propagate_with P default_options"

subsection \<open>simulation.ts\<close>

definition COUNT_AFFECTED_THRESHOLD :: jsnum where
  "COUNT_AFFECTED_THRESHOLD = fl (- 1 / 10)"

definition FALLBACK_KPI :: string where
  "FALLBACK_KPI = ''unaffectedObjects''"

text \<open>The Chinese name is its UTF-8 bytes.\<close>

definition FALLBACK_KPI_DEF :: SimulationKpiDef where
  "FALLBACK_KPI_DEF =
     \<lparr>sk_apiName = FALLBACK_KPI,
      sk_displayName = PerLocale
        (Some (map char_of [230::nat, 156, 170, 229, 143, 151, 229, 189, 177, 229, 147, 141, 229, 175, 185,
                            232, 177, 161, 230, 149, 176]))
        (Some ''Unaffected objects''),
      sk_objectType = ''*'', sk_property = None, sk_agg = ''count'', sk_unit = None,
      sk_higherIsBetter = True\<rparr>"

definition simulationKpis :: "CompiledSchema \<Rightarrow> SimulationKpiDef list" where
  "simulationKpis schema = (if cs_simulationKpis schema \<noteq> [] then cs_simulationKpis schema else [FALLBACK_KPI_DEF])"

definition primaryKpi :: "CompiledSchema \<Rightarrow> SimulationKpiDef" where
  "primaryKpi schema = hd (simulationKpis schema)"

definition kpiMeta :: "SimulationKpiDef list \<Rightarrow> KpiMeta list" where
  "kpiMeta defs =
     map (\<lambda>d. \<lparr>km_apiName = sk_apiName d, km_displayName = sk_displayName d,
              km_unit = (if sk_unit d = Some [] then None else sk_unit d),
              km_higherIsBetter = sk_higherIsBetter d\<rparr>) defs"

definition num_value :: "jv \<Rightarrow> jsnum option" where
  "num_value v =
     (case v of
        VNum n \<Rightarrow> if isFinite n then Some n else None
      | VStr s \<Rightarrow> if trim s \<noteq> [] \<and> isFinite (str_num s) then Some (str_num s) else None
      | _ \<Rightarrow> None)"

text \<open>One pass over the nodes of a \<^verbatim>\<open>sum\<close> or \<^verbatim>\<open>avg\<close> KPI: the sum and the number of values.\<close>

definition kpi_add :: "SimulationKpiDef \<Rightarrow> (string \<times> jsnum) list \<Rightarrow> GraphNode \<Rightarrow> jsnum \<times> nat \<Rightarrow> jsnum \<times> nat" where
  "kpi_add kd delta node acc =
     (case (case sk_property kd of Some (c # cs) \<Rightarrow> num_value (lookup (c # cs) (gn_props node)) | _ \<Rightarrow> None) of
        None \<Rightarrow> acc
      | Some v \<Rightarrow> (num_add (fst acc) (num_mul v (num_add (Fin 1) (delta_of delta (gn_rid node)))), snd acc + 1))"

definition kpi_value :: "GraphNode list \<Rightarrow> (string \<times> jsnum) list \<Rightarrow> SimulationKpiDef \<Rightarrow> jsnum" where
  "kpi_value all_nodes delta kd =
     (let nodes = (if sk_objectType kd = ''*'' then all_nodes
                   else filter (\<lambda>n. gn_type n = sk_objectType kd) all_nodes)
      in if sk_agg kd = ''count''
         then num_of_int (int (length (filter (\<lambda>n. num_lt COUNT_AFFECTED_THRESHOLD (delta_of delta (gn_rid n))) nodes)))
         else case fold (kpi_add kd delta) nodes (Fin 0, 0) of
           (total_v, n) \<Rightarrow>
             round_to (if sk_agg kd = ''avg'' then (if n \<noteq> 0 then num_div total_v (num_of_int (int n)) else Fin 0)
                       else total_v) 6)"

definition computeKpis :: "GraphNode list \<Rightarrow> SimulationKpiDef list \<Rightarrow> (string \<times> jsnum) list \<Rightarrow> KpiSet" where
  "computeKpis nodes defs delta = fold (\<lambda>kd out. obj_put (sk_apiName kd) (kpi_value nodes delta kd) out) defs []"

definition riskLevel :: "jsnum list \<Rightarrow> RiskLevel" where
  "riskLevel deltas =
     (let m = fold (\<lambda>d mx. num_max mx (num_abs d)) deltas (Fin 0)
      in if num_le (fl (3 / 10)) m then RiskHigh else if num_le (fl (1 / 10)) m then RiskMedium else RiskLow)"

text \<open>\<^verbatim>\<open>new Map(nodes.map(n => [n.rid, n]))\<close>: the last node of a rid.\<close>

definition node_of :: "GraphNode list \<Rightarrow> string \<Rightarrow> GraphNode option" where
  "node_of nodes rid = map_of (rev (map (\<lambda>n. (gn_rid n, n)) nodes)) rid"

definition affected_cmp :: "AffectedObject \<Rightarrow> AffectedObject \<Rightarrow> jsnum" where
  "affected_cmp a b =
     num_or (num_sub (num_abs (af_delta b)) (num_abs (af_delta a)))
       (num_or (num_of_int (af_hop a - af_hop b)) (str_cmp (af_rid a) (af_rid b)))"

definition affectedList :: "GraphNode list \<Rightarrow> Impact \<Rightarrow> AffectedObject list" where
  "affectedList nodes impact =
     js_sort affected_cmp (map (\<lambda>(rid, d).
       \<lparr>af_rid = rid,
        af_type = (case node_of nodes rid of Some n \<Rightarrow> gn_type n | None \<Rightarrow> rid_type rid),
        af_title = (case node_of nodes rid of Some n \<Rightarrow> gn_title n | None \<Rightarrow> rid),
        af_delta = round_to d 6,
        af_hop = (case map_of (im_hop impact) rid of Some h \<Rightarrow> int h | None \<Rightarrow> 0)\<rparr>)
       (filter (\<lambda>rd. snd rd \<noteq> Fin 0) (im_delta impact)))"

definition expectedImpact :: "SimulationKpiDef \<Rightarrow> KpiSet \<Rightarrow> KpiSet \<Rightarrow> KpiSet \<Rightarrow> jsnum" where
  "expectedImpact primary baseline scenario withAction =
     (let k = sk_apiName primary;
          denom = num_max (num_abs (delta_of baseline k)) (fl (1 / 10 ^ 9));
          raw = num_div (num_sub (delta_of withAction k) (delta_of scenario k)) denom
      in round_to (if sk_higherIsBetter primary then raw else num_neg raw) 4)"

definition changedCount :: "Impact \<Rightarrow> Impact \<Rightarrow> int" where
  "changedCount a b =
     int (length (filter
       (\<lambda>rid. num_le DECISION_pruneBelow
                (num_abs (num_sub (delta_of (im_delta a) rid) (delta_of (im_delta b) rid))))
       (dedup (map fst (im_delta a) @ map fst (im_delta b)))))"

record Simulation =
  si_impact :: Impact
  si_baseline :: KpiSet
  si_scenario :: KpiSet
  si_kpis :: "SimulationKpiDef list"

definition simulate ::
  "platform \<Rightarrow> CompiledSchema \<Rightarrow> GraphNode list \<Rightarrow> StoredLink list \<Rightarrow> Perturbation list \<Rightarrow> Simulation" where
  "simulate P schema nodes edges perturbations =
     (let kpis = simulationKpis schema;
          impact = propagate P edges (cs_linkTypes schema) perturbations
      in \<lparr>si_impact = impact, si_baseline = computeKpis nodes kpis [],
          si_scenario = computeKpis nodes kpis (im_delta impact), si_kpis = kpis\<rparr>)"

definition simulateWith ::
  "platform \<Rightarrow> CompiledSchema \<Rightarrow> GraphNode list \<Rightarrow> StoredLink list \<Rightarrow> Perturbation list \<Rightarrow> Perturbation list
    \<Rightarrow> KpiSet \<times> Impact" where
  "simulateWith P schema nodes edges base extra =
     (let impact = propagate P edges (cs_linkTypes schema) (base @ extra)
      in (computeKpis nodes (simulationKpis schema) (im_delta impact), impact))"

definition scenarioResult ::
  "GraphNode list \<Rightarrow> Simulation \<Rightarrow> (string \<times> KpiSet) list option \<Rightarrow> int \<Rightarrow> ScenarioResult" where
  "scenarioResult nodes sim withActions nowMs =
     \<lparr>sr_baseline = si_baseline sim, sr_scenario = si_scenario sim,
      sr_withActions = (if withActions = Some [] then None else withActions),
      sr_affected = affectedList nodes (si_impact sim),
      sr_riskLevel = riskLevel (map snd (im_delta (si_impact sim))),
      sr_kpis = kpiMeta (si_kpis sim), sr_nodeCount = int (length nodes), sr_computedAt = iso_full nowMs\<rparr>"

subsection \<open>candidates.ts\<close>

definition TARGETS_PER_ACTION_TYPE :: nat where "TARGETS_PER_ACTION_TYPE = 3"

text \<open>An \<^verbatim>\<open>ObjectLike\<close> is a graph node; a slot pairs an action type with a target.\<close>

type_synonym CandidateSlot = "ActionTypeDef \<times> GraphNode"

definition slot_targets :: "string \<Rightarrow> GraphNode option \<Rightarrow> GraphNode list \<Rightarrow> GraphNode list" where
  "slot_targets type focusNode affected =
     fold (\<lambda>n ts. if TARGETS_PER_ACTION_TYPE \<le> length ts then ts
                  else if gn_type n = type \<and> n \<notin> set ts then ts @ [n] else ts)
       affected
       (case focusNode of Some f \<Rightarrow> (if gn_type f = type then [f] else []) | None \<Rightarrow> [])"

definition affected_nodes :: "GraphNode list \<Rightarrow> Impact \<Rightarrow> GraphNode list" where
  "affected_nodes nodes impact =
     js_sort (\<lambda>a b. num_or (num_sub (num_abs (delta_of (im_delta impact) (gn_rid b)))
                                   (num_abs (delta_of (im_delta impact) (gn_rid a))))
                       (str_cmp (gn_rid a) (gn_rid b)))
       (filter (\<lambda>n. delta_of (im_delta impact) (gn_rid n) \<noteq> Fin 0) nodes)"

definition candidateSlots ::
  "(string \<times> ActionTypeDef) list \<Rightarrow> GraphNode list \<Rightarrow> Impact \<Rightarrow> string option \<Rightarrow> CandidateSlot list" where
  "candidateSlots actionTypes nodes impact focus =
     (let affected = affected_nodes nodes impact;
          focusNode = (case focus of Some (c # cs) \<Rightarrow> find (\<lambda>n. gn_rid n = c # cs) nodes | _ \<Rightarrow> None);
          types = map gn_type affected @ (case focusNode of Some f \<Rightarrow> [gn_type f] | None \<Rightarrow> []);
          defs = js_sort (\<lambda>a b. if at_apiName a < at_apiName b then Fin (- 1) else Fin 1)
                   (filter (\<lambda>d. at_targetType d \<in> set types) (map snd actionTypes))
      in concat (map (\<lambda>d. map (Pair d) (slot_targets (at_targetType d) focusNode affected)) defs))"

definition compareValues :: "jv \<Rightarrow> jv \<Rightarrow> jsnum" where
  "compareValues a b =
     (case (num_value a, num_value b) of
        (Some x, Some y) \<Rightarrow> num_sub x y
      | _ \<Rightarrow>
          if is_nullish a then (if is_nullish b then Fin 0 else Fin 1)
          else if is_nullish b then Fin (- 1)
          else str_cmp (val_str a) (val_str b))"

definition suggestion_cmp :: "string \<times> bool \<Rightarrow> GraphNode \<Rightarrow> GraphNode \<Rightarrow> jsnum" where
  "suggestion_cmp orderBy a b =
     (let va = lookup (fst orderBy) (gn_props a); vb = lookup (fst orderBy) (gn_props b)
      in if is_nullish va \<noteq> is_nullish vb then (if is_nullish va then Fin 1 else Fin (- 1))
         else num_or (num_mul (if snd orderBy then Fin (- 1) else Fin 1) (compareValues va vb))
                (str_cmp (gn_rid a) (gn_rid b)))"

definition pickSuggestion :: "ParamSuggestDef \<Rightarrow> GraphNode list \<Rightarrow> string list \<Rightarrow> string option" where
  "pickSuggestion suggest pool exclude =
     (case js_sort (suggestion_cmp (sg_orderBy suggest))
         (filter (\<lambda>n. gn_type n = sg_objectType suggest \<and> gn_rid n \<notin> set exclude
                    \<and> matchFilter (sg_filter suggest) (gn_props n)) pool) of
        [] \<Rightarrow> None
      | n # _ \<Rightarrow> Some (gn_rid n))"

definition prefill_one ::
  "(string \<times> string option) list \<Rightarrow> ParamDef \<Rightarrow> obj \<times> string list \<Rightarrow> obj \<times> string list" where
  "prefill_one suggestions p acc =
     (let params1 = (if pa_defaultValue p \<noteq> VUndef then obj_put (pa_apiName p) (pa_defaultValue p) (fst acc) else fst acc);
          params2 = (case (pa_suggest p, map_of suggestions (pa_apiName p)) of
                       (Some _, Some (Some r)) \<Rightarrow> obj_put (pa_apiName p) (VStr r) params1
                     | _ \<Rightarrow> params1)
      in (params2, if pa_required p \<and> lookup (pa_apiName p) params2 = VUndef
                   then snd acc @ [pa_apiName p] else snd acc))"

definition prefillParams :: "ActionTypeDef \<Rightarrow> (string \<times> string option) list \<Rightarrow> obj \<times> string list" where
  "prefillParams d suggestions = fold (prefill_one suggestions) (at_parameters d) ([], [])"

definition preconditionsMet :: "platform \<Rightarrow> ActionTypeDef \<Rightarrow> obj \<Rightarrow> obj \<Rightarrow> bool" where
  "preconditionsMet P d targetProps params =
     list_all (\<lambda>pre. case evalLogic P (pre_expr pre) (VObj [(''target'', VObj targetProps), (''params'', VObj params)]) of
        Inl _ \<Rightarrow> False | Inr v \<Rightarrow> truthy v) (at_preconditions d)"

definition effect_hint :: "platform \<Rightarrow> GraphNode \<Rightarrow> obj \<Rightarrow> EffectDef \<Rightarrow> Perturbation list" where
  "effect_hint P target params e =
     (let data = VObj [(''target'', VObj (gn_props target)), (''params'', VObj params)];
          hint = (\<lambda>p x change_of.
            case num_value (lookup p (gn_props target)) of
              None \<Rightarrow> []
            | Some current \<Rightarrow>
                if current = Fin 0 then []
                else case (case evalLogic P x data of Inl _ \<Rightarrow> None | Inr v \<Rightarrow> num_value v) of
                  None \<Rightarrow> []
                | Some v \<Rightarrow>
                    (let change = num_div (change_of v current) (num_abs current)
                     in if change = Fin 0 then []
                        else [\<lparr>pt_rid = gn_rid target, pt_property = p,
                               pt_change = round_to (clamp change (Fin (- 1)) (Fin 1)) 4\<rparr>]))
      in case e of
           ESet p x \<Rightarrow> hint p x num_sub
         | EIncrement p x \<Rightarrow> hint p x (\<lambda>v _. v)
         | _ \<Rightarrow> [])"

definition actionHints :: "platform \<Rightarrow> ActionTypeDef \<Rightarrow> GraphNode \<Rightarrow> obj \<Rightarrow> Perturbation list" where
  "actionHints P d target params =
     (case at_impact d of
        Some (h # hs) \<Rightarrow>
          map (\<lambda>h. \<lparr>pt_rid = gn_rid target, pt_property = ih_property h,
                   pt_change = clamp (ih_change h) (Fin (- 1)) (Fin 1)\<rparr>) (h # hs)
      | _ \<Rightarrow> concat (map (effect_hint P target params) (at_effects d)))"

text \<open>A scored candidate has no id yet; with it come its KPIs.\<close>

type_synonym ScoredCandidate = "Candidate \<times> KpiSet"

definition scoreCandidate ::
  "platform \<Rightarrow> CompiledSchema \<Rightarrow> GraphNode list \<Rightarrow> StoredLink list \<Rightarrow> Perturbation list \<Rightarrow> Simulation
    \<Rightarrow> CandidateSlot \<Rightarrow> obj \<Rightarrow> ScoredCandidate" where
  "scoreCandidate P schema nodes edges base sim slot params =
     (let d = fst slot; target = snd slot;
          w = simulateWith P schema nodes edges base (actionHints P d target params)
      in (\<lparr>cd_id = [], cd_actionType = at_apiName d, cd_displayName = at_displayName d,
           cd_target = gn_rid target, cd_targetTitle = gn_title target, cd_params = params,
           cd_expectedImpact = expectedImpact (primaryKpi schema) (si_baseline sim) (si_scenario sim) (fst w),
           cd_affectedCount = changedCount (snd w) (si_impact sim)\<rparr>, fst w))"

definition compareByRules :: "Candidate \<Rightarrow> Candidate \<Rightarrow> jsnum" where
  "compareByRules a b =
     num_or (num_sub (cd_expectedImpact b) (cd_expectedImpact a))
       (num_or (num_of_int (cd_affectedCount a - cd_affectedCount b))
         (num_or (str_cmp (cd_actionType a) (cd_actionType b)) (str_cmp (cd_target a) (cd_target b))))"

definition candidate_id :: "nat \<Rightarrow> string" where
  "candidate_id i = ''c'' @ nat_str (i + 1)"

definition withIds :: "ScoredCandidate list \<Rightarrow> Candidate list \<times> (string \<times> KpiSet) list" where
  "withIds scored =
     (let numbered = map (\<lambda>(i, c, k). (c\<lparr>cd_id := candidate_id i\<rparr>, k)) (enumerate 0 scored)
      in (map fst numbered, map (\<lambda>(c, k). (cd_id c, k)) numbered))"

definition selectCandidates :: "ScoredCandidate list \<Rightarrow> Candidate list \<times> (string \<times> KpiSet) list" where
  "selectCandidates scored =
     withIds (take DECISION_candidatesMax (js_sort (\<lambda>a b. compareByRules (fst a) (fst b)) scored))"

definition numberCandidates :: "ScoredCandidate list \<Rightarrow> Candidate list \<times> (string \<times> KpiSet) list" where
  "numberCandidates scored = withIds scored"

definition ruleRanking :: "Candidate list \<Rightarrow> string list" where
  "ruleRanking candidates = map cd_id (js_sort compareByRules candidates)"

subsection \<open>focus.ts\<close>

definition DEFAULT_FOCUS_CHANGE :: jsnum where "DEFAULT_FOCUS_CHANGE = Fin (- 1 / 2)"
definition MIN_FOCUS_CHANGE :: jsnum where "MIN_FOCUS_CHANGE = fl (1 / 10)"
definition GENERIC_RISK_PROPERTY :: string where "GENERIC_RISK_PROPERTY = ''risk''"

definition riskProperty :: "CompiledObjectType option \<Rightarrow> string option" where
  "riskProperty ot =
     (case ot of
        None \<Rightarrow> None
      | Some t \<Rightarrow>
          (let numeric = filter (\<lambda>p. pd_dataType p \<in> {DtInteger, DtDouble}) (ot_properties t);
               tagged = find (\<lambda>p. case pd_semanticTags p of None \<Rightarrow> False
                                  | Some ts \<Rightarrow> list_ex (\<lambda>s. to_lower s = ''risk'') ts) numeric;
               named = find (\<lambda>p. has_sub ''risk'' (to_lower (pd_apiName p))) numeric
           in map_option pd_apiName (case tagged of Some p \<Rightarrow> Some p | None \<Rightarrow> named)))"

definition focusPerturbation :: "CompiledObjectType option \<Rightarrow> GraphNode \<Rightarrow> Perturbation" where
  "focusPerturbation ot focus =
     (let p = riskProperty ot;
          v = (case p of Some (c # cs) \<Rightarrow> num_value (lookup (c # cs) (gn_props focus)) | _ \<Rightarrow> None)
      in case (p, v) of
           (Some (c # cs), Some n) \<Rightarrow>
             (let fraction = (if num_lt (Fin 1) (num_abs n) then num_div n (Fin 100) else n)
              in \<lparr>pt_rid = gn_rid focus, pt_property = c # cs,
                  pt_change = num_neg (round_to (clamp (num_abs fraction) MIN_FOCUS_CHANGE (Fin 1)) 4)\<rparr>)
         | _ \<Rightarrow> \<lparr>pt_rid = gn_rid focus, pt_property = (case p of Some q \<Rightarrow> q | None \<Rightarrow> GENERIC_RISK_PROPERTY),
                 pt_change = DEFAULT_FOCUS_CHANGE\<rparr>)"

end
