(* ===== verification/DecisionDb.thy ===== *)
theory DecisionDb
  imports DecisionRules
begin

section \<open>Recommendations and their database\<close>

text \<open>
  \<^verbatim>\<open>domain/recommendation.ts\<close> and the repositories of \<^verbatim>\<open>packages/decision/infrastructure\<close> over the
  tables of \<^verbatim>\<open>migrations/decision-engine\<close>. Every change of a recommendation is one conditional UPDATE.
  A column of JSON text holds the value that parsing it gives back.
\<close>

subsection \<open>recommendation.ts\<close>

record RecRecord = RecommendationDto +
  rr_decisionKey :: "string option"
  rr_execAttempts :: int

definition isDue :: "platform \<Rightarrow> RecRecord \<Rightarrow> int \<Rightarrow> bool" where
  "isDue P rec nowMs \<longleftrightarrow>
     rd_status rec = RecProposed
     \<and> (case dateParse P (rd_expiresAt rec) of None \<Rightarrow> False | Some t \<Rightarrow> t \<le> nowMs)"

definition DECIDED :: "RecStatus list" where
  "DECIDED = [RecConfirmed, RecRejected, RecExecuted, RecExecFailed]"

definition canRetryExecution :: "RecRecord \<Rightarrow> bool" where
  "canRetryExecution rec \<longleftrightarrow>
     rd_status rec = RecExecFailed \<and> rr_execAttempts rec < DECISION_execAttemptsMax"

definition decidedByRole :: "CallCtx \<Rightarrow> AppError + UserRole" where
  "decidedByRole ctx =
     (case act_role (ctx_actor ctx) of
        Human Owner \<Rightarrow> Inr Owner
      | Human Admin \<Rightarrow> Inr Admin
      | _ \<Rightarrow> Inl (app_error_d FORBIDDEN ''Only a person can decide''))"

definition toDto :: "RecRecord \<Rightarrow> RecommendationDto" where
  "toDto rec = RecommendationDto.truncate rec"

definition bestCandidate :: "string list \<Rightarrow> Candidate list \<Rightarrow> Candidate option" where
  "bestCandidate ranking candidates =
     (case ranking of [] \<Rightarrow> None | i # _ \<Rightarrow> find (\<lambda>c. cd_id c = i) candidates)"

record RecommendationSummary =
  rs_id :: string
  rs_status :: RecStatus
  rs_summary :: string
  rs_confidence :: jsnum
  rs_rankedBy :: RankedBy
  rs_focus :: string
  rs_expectedImpact :: jsnum
  rs_createdAt :: string
  rs_expiresAt :: string
  rs_impacted :: "AffectedObject list option"

definition toSummary :: "RecommendationDto \<Rightarrow> RecommendationSummary" where
  "toSummary d =
     \<lparr>rs_id = rd_id d, rs_status = rd_status d, rs_summary = rd_summary d, rs_confidence = rd_confidence d,
      rs_rankedBy = rd_rankedBy d, rs_focus = rd_focus d,
      rs_expectedImpact =
        (case bestCandidate (rd_ranking d) (rd_candidates d) of Some c \<Rightarrow> cd_expectedImpact c | None \<Rightarrow> Fin 0),
      rs_createdAt = rd_createdAt d, rs_expiresAt = rd_expiresAt d,
      rs_impacted = map_option (\<lambda>s. take 5 (sr_affected s)) (rd_simulation d)\<rparr>"

definition withValues :: "(string \<times> string) list \<Rightarrow> (string \<Rightarrow> string \<Rightarrow> jv) \<Rightarrow> Evidence list" where
  "withValues refs look =
     map (\<lambda>(r, p). \<lparr>evd_rid = r, evd_prop = p, evd_value = or_null (look r p)\<rparr>)
       (fold (\<lambda>rp seen. if fst rp @ ''|'' @ snd rp \<in> set (map (\<lambda>x. fst x @ ''|'' @ snd x) seen)
                         then seen else seen @ [rp]) refs [])"

subsection \<open>Rows\<close>

record RecRow =
  rw_id :: string
  rw_focus :: string
  rw_alert_id :: "string option"
  rw_scenario_id :: "string option"
  rw_status :: RecStatus
  rw_summary :: "string option"
  rw_rationale :: "string option"
  rw_locale :: "Locale option"
  rw_candidates :: "Candidate list"
  rw_ranking :: "string list"
  rw_evidence :: "Evidence list"
  rw_risks :: "string list"
  rw_simulation :: "ScenarioResult option"
  rw_confidence :: "jsnum option"
  rw_ranked_by :: RankedBy
  rw_model :: "string option"
  rw_decision_key :: "string option"
  rw_decided_by :: "UserRole option"
  rw_decided_at :: "int option"
  rw_reject_reason :: "string option"
  rw_execution :: "ExecutionRecord list option"
  rw_exec_attempts :: int
  rw_created_at :: int
  rw_expires_at :: int
  rw_version :: int

text \<open>\<^verbatim>\<open>x ? {k: x} : {}\<close> drops an empty text.\<close>

definition non_empty :: "string option \<Rightarrow> string option" where
  "non_empty x = (if x = Some [] then None else x)"

definition toRecord :: "RecRow \<Rightarrow> RecRecord" where
  "toRecord r =
     \<lparr>rd_id = rw_id r, rd_status = rw_status r, rd_focus = rw_focus r,
      rd_alertId = non_empty (rw_alert_id r), rd_scenarioId = non_empty (rw_scenario_id r),
      rd_summary = (case rw_summary r of Some s \<Rightarrow> s | None \<Rightarrow> []),
      rd_rationale = (case rw_rationale r of Some s \<Rightarrow> s | None \<Rightarrow> []),
      rd_candidates = rw_candidates r, rd_ranking = rw_ranking r, rd_evidence = rw_evidence r,
      rd_risks = rw_risks r, rd_confidence = (case rw_confidence r of Some c \<Rightarrow> c | None \<Rightarrow> Fin 0),
      rd_rankedBy = rw_ranked_by r, rd_model = non_empty (rw_model r), rd_simulation = rw_simulation r,
      rd_decidedBy = rw_decided_by r, rd_decidedAt = map_option iso_full (rw_decided_at r),
      rd_rejectReason = non_empty (rw_reject_reason r), rd_execution = rw_execution r,
      rd_locale = (case rw_locale r of Some l \<Rightarrow> l | None \<Rightarrow> ZhCN),
      rd_createdAt = iso_full (rw_created_at r), rd_expiresAt = iso_full (rw_expires_at r),
      rd_version = rw_version r, rr_decisionKey = non_empty (rw_decision_key r),
      rr_execAttempts = rw_exec_attempts r\<rparr>"

record ddb =
  d_recs :: "(string \<times> RecRow) list"
  d_scenarios :: "(string \<times> ScenarioDto) list"
  d_usage :: counter_rows
  d_tombs :: "(string \<times> int) list"

subsection \<open>d1\_recommendation\_repository.ts\<close>

definition rec_at :: "string \<Rightarrow> string \<Rightarrow> string \<times> RecRow \<Rightarrow> bool" where
  "rec_at tid i r \<longleftrightarrow> fst r = tid \<and> rw_id (snd r) = i"

definition candidate_image :: "Candidate \<Rightarrow> Candidate" where
  "candidate_image c = c\<lparr>cd_params := obj_image (cd_params c)\<rparr>"

definition evidence_image :: "Evidence \<Rightarrow> Evidence" where
  "evidence_image e = e\<lparr>evd_value := json_image (evd_value e)\<rparr>"

text \<open>The columns of the INSERT; \<open>P\<close> parses the two times.\<close>

definition rec_row :: "platform \<Rightarrow> RecRecord \<Rightarrow> RecRow option" where
  "rec_row P rec =
     (case (dateParse P (rd_createdAt rec), dateParse P (rd_expiresAt rec)) of
        (Some c, Some x) \<Rightarrow> Some
          \<lparr>rw_id = rd_id rec, rw_focus = rd_focus rec, rw_alert_id = rd_alertId rec,
           rw_scenario_id = rd_scenarioId rec, rw_status = rd_status rec, rw_summary = Some (rd_summary rec),
           rw_rationale = Some (rd_rationale rec), rw_locale = Some (rd_locale rec),
           rw_candidates = map candidate_image (rd_candidates rec), rw_ranking = rd_ranking rec,
           rw_evidence = map evidence_image (rd_evidence rec), rw_risks = rd_risks rec,
           rw_simulation = rd_simulation rec, rw_confidence = Some (rd_confidence rec),
           rw_ranked_by = rd_rankedBy rec, rw_model = rd_model rec, rw_decision_key = None,
           rw_decided_by = None, rw_decided_at = None, rw_reject_reason = None, rw_execution = None,
           rw_exec_attempts = 0, rw_created_at = c, rw_expires_at = x, rw_version = rd_version rec\<rparr>
      | _ \<Rightarrow> None)"

definition rec_insert :: "platform \<Rightarrow> string \<Rightarrow> RecRecord \<Rightarrow> ddb \<Rightarrow> (exn + unit) \<times> ddb" where
  "rec_insert P tid rec db =
     (case rec_row P rec of
        None \<Rightarrow> (Inl (Ext ''NOT NULL constraint failed''), db)
      | Some row \<Rightarrow>
          if list_ex (rec_at tid (rw_id row)) (d_recs db)
          then (Inl (unique_failed ''dec_recommendation''), db)
          else (Inr (), db\<lparr>d_recs := d_recs db @ [(tid, row)]\<rparr>))"

definition rec_get :: "string \<Rightarrow> string \<Rightarrow> ddb \<Rightarrow> RecRecord option" where
  "rec_get tid i db = map_option (\<lambda>r. toRecord (snd r)) (sel1 (rec_at tid i) (d_recs db))"

definition rec_after :: "(int \<times> string) option \<Rightarrow> RecRow \<Rightarrow> bool" where
  "rec_after cur r =
     (case cur of None \<Rightarrow> True
      | Some (c, i) \<Rightarrow> rw_created_at r < c \<or> rw_created_at r = c \<and> rw_id r < i)"

text \<open>The rows of a page and one more; \<open>cur\<close> is the decoded cursor.\<close>

definition rec_page :: "string \<Rightarrow> RecStatus option \<Rightarrow> (int \<times> string) option \<Rightarrow> nat \<Rightarrow> ddb \<Rightarrow> RecRow list" where
  "rec_page tid status cur n db =
     order_desc (\<lambda>r. (rw_created_at r, rw_id r)) n
       (filter (\<lambda>r. (case status of None \<Rightarrow> True | Some s \<Rightarrow> rw_status r = s) \<and> rec_after cur r)
         (rows_of tid (d_recs db)))"

definition rec_list ::
  "string \<Rightarrow> RecStatus option \<Rightarrow> (int \<times> string) option \<Rightarrow> jsnum option \<Rightarrow> ddb
    \<Rightarrow> RecRecord list \<times> (int \<times> string) option" where
  "rec_list tid status cur limit db =
     (let n = nat (clampLimit limit); rows = rec_page tid status cur (n + 1) db
      in (map toRecord (take n rows),
          if n < length rows then Some (rw_created_at (rows ! (n - 1)), rw_id (rows ! (n - 1))) else None))"

definition rec_deleteUnexecuted :: "string \<Rightarrow> ddb \<Rightarrow> nat \<times> ddb" where
  "rec_deleteUnexecuted tid db =
     (let p = (\<lambda>r. fst r = tid \<and> rw_status (snd r) \<noteq> RecExecuted)
      in (hits p (d_recs db), db\<lparr>d_recs := del p (d_recs db)\<rparr>))"

definition on_row :: "(RecRow \<Rightarrow> RecRow) \<Rightarrow> string \<times> RecRow \<Rightarrow> string \<times> RecRow" where
  "on_row f r = (fst r, f (snd r))"

definition due_row :: "string \<Rightarrow> int \<Rightarrow> string option \<Rightarrow> string \<times> RecRow \<Rightarrow> bool" where
  "due_row tid nowMs i r \<longleftrightarrow>
     fst r = tid \<and> rw_status (snd r) = RecProposed \<and> rw_expires_at (snd r) \<le> nowMs
     \<and> (case i of None \<Rightarrow> True | Some x \<Rightarrow> rw_id (snd r) = x)"

definition expire_row :: "RecRow \<Rightarrow> RecRow" where
  "expire_row r = r\<lparr>rw_status := RecExpired, rw_version := rw_version r + 1\<rparr>"

definition rec_expireDue :: "string \<Rightarrow> int \<Rightarrow> string option \<Rightarrow> ddb \<Rightarrow> nat \<times> ddb" where
  "rec_expireDue tid nowMs i db =
     (hits (due_row tid nowMs i) (d_recs db),
      db\<lparr>d_recs := upd (due_row tid nowMs i) (on_row expire_row) (d_recs db)\<rparr>)"

record DecisionClaim =
  dc_confirmed :: bool
  dc_key :: string
  dc_decidedBy :: UserRole
  dc_decidedAtMs :: int
  dc_rejectReason :: "string option"

definition claimable :: "string \<Rightarrow> string \<Rightarrow> int \<Rightarrow> string \<times> RecRow \<Rightarrow> bool" where
  "claimable tid i nowMs r \<longleftrightarrow>
     rec_at tid i r \<and> rw_status (snd r) = RecProposed \<and> nowMs < rw_expires_at (snd r)
     \<and> rw_decision_key (snd r) = None"

definition claim_row :: "DecisionClaim \<Rightarrow> RecRow \<Rightarrow> RecRow" where
  "claim_row c r =
     r\<lparr>rw_status := (if dc_confirmed c then RecConfirmed else RecRejected), rw_decision_key := Some (dc_key c),
       rw_decided_by := Some (dc_decidedBy c), rw_decided_at := Some (dc_decidedAtMs c),
       rw_reject_reason := dc_rejectReason c, rw_version := rw_version r + 1\<rparr>"

text \<open>\<^verbatim>\<open>UNIQUE (tenant_id, decision_key)\<close>: another row of the workspace with the key.\<close>

definition rec_claim :: "string \<Rightarrow> string \<Rightarrow> DecisionClaim \<Rightarrow> int \<Rightarrow> ddb \<Rightarrow> (exn + bool) \<times> ddb" where
  "rec_claim tid i c nowMs db =
     (if \<not> list_ex (claimable tid i nowMs) (d_recs db) then (Inr False, db)
      else if list_ex (\<lambda>r. fst r = tid \<and> rw_decision_key (snd r) = Some (dc_key c)) (d_recs db)
      then (Inl (App (app_error_d CONFLICT ''Idempotency-Key already used for another recommendation'')), db)
      else (Inr (hits (claimable tid i nowMs) (d_recs db) = 1),
            db\<lparr>d_recs := upd (claimable tid i nowMs) (on_row (claim_row c)) (d_recs db)\<rparr>))"

definition beginnable :: "string \<Rightarrow> string \<Rightarrow> string \<Rightarrow> int \<Rightarrow> string \<times> RecRow \<Rightarrow> bool" where
  "beginnable tid i key maxAttempts r \<longleftrightarrow>
     rec_at tid i r \<and> rw_decision_key (snd r) = Some key \<and> rw_exec_attempts (snd r) < maxAttempts
     \<and> (rw_status (snd r) = RecConfirmed \<and> rw_exec_attempts (snd r) = 0 \<or> rw_status (snd r) = RecExecFailed)"

definition begin_row :: "RecRow \<Rightarrow> RecRow" where
  "begin_row r =
     r\<lparr>rw_status := RecConfirmed, rw_exec_attempts := rw_exec_attempts r + 1, rw_version := rw_version r + 1\<rparr>"

definition rec_begin :: "string \<Rightarrow> string \<Rightarrow> string \<Rightarrow> int \<Rightarrow> ddb \<Rightarrow> bool \<times> ddb" where
  "rec_begin tid i key maxAttempts db =
     (hits (beginnable tid i key maxAttempts) (d_recs db) = 1,
      db\<lparr>d_recs := upd (beginnable tid i key maxAttempts) (on_row begin_row) (d_recs db)\<rparr>)"

definition running :: "string \<Rightarrow> string \<Rightarrow> string \<times> RecRow \<Rightarrow> bool" where
  "running tid i r \<longleftrightarrow> rec_at tid i r \<and> rw_status (snd r) = RecConfirmed"

definition finish_row :: "bool \<Rightarrow> ExecutionRecord list \<Rightarrow> RecRow \<Rightarrow> RecRow" where
  "finish_row executed entries r =
     r\<lparr>rw_status := (if executed then RecExecuted else RecExecFailed), rw_execution := Some entries,
       rw_version := rw_version r + 1\<rparr>"

definition rec_finish :: "string \<Rightarrow> string \<Rightarrow> bool \<Rightarrow> ExecutionRecord list \<Rightarrow> ddb \<Rightarrow> ddb" where
  "rec_finish tid i executed entries db =
     db\<lparr>d_recs := upd (running tid i) (on_row (finish_row executed entries)) (d_recs db)\<rparr>"

subsection \<open>d1\_scenario\_repository.ts, d1\_usage\_counter.ts, d1\_lifecycle\_repository.ts\<close>

definition scenario_insert :: "string \<Rightarrow> ScenarioDto \<Rightarrow> ddb \<Rightarrow> (exn + unit) \<times> ddb" where
  "scenario_insert tid s db =
     (if list_ex (\<lambda>r. fst r = tid \<and> sc_id (snd r) = sc_id s) (d_scenarios db)
      then (Inl (unique_failed ''dec_scenario''), db)
      else (Inr (), db\<lparr>d_scenarios := d_scenarios db @ [(tid, s\<lparr>sc_candidates := map candidate_image (sc_candidates s)\<rparr>)]\<rparr>))"

definition scenario_get :: "string \<Rightarrow> string \<Rightarrow> ddb \<Rightarrow> ScenarioDto option" where
  "scenario_get tid i db = sel1 (\<lambda>s. sc_id s = i) (rows_of tid (d_scenarios db))"

definition scenario_deleteAll :: "string \<Rightarrow> ddb \<Rightarrow> nat \<times> ddb" where
  "scenario_deleteAll tid db =
     (hits (of_tenant tid) (d_scenarios db), db\<lparr>d_scenarios := del (of_tenant tid) (d_scenarios db)\<rparr>)"

definition dec_key :: "string \<Rightarrow> string \<Rightarrow> string \<Rightarrow> CounterKey" where
  "dec_key day scope key = \<lparr>ctr_table = ''dec_usage'', ctr_day = day, ctr_scope = scope, ctr_key = key\<rparr>"

definition dec_tryTake :: "string \<Rightarrow> string \<Rightarrow> string \<Rightarrow> int \<Rightarrow> int \<Rightarrow> ddb \<Rightarrow> bool \<times> ddb" where
  "dec_tryTake day scope key n cap db =
     (case counter_tryTake (dec_key day scope key) n cap (d_usage db) of
        None \<Rightarrow> (False, db) | Some (ok, rows) \<Rightarrow> (ok, db\<lparr>d_usage := rows\<rparr>))"

definition dec_adjust :: "string \<Rightarrow> string \<Rightarrow> string \<Rightarrow> int \<Rightarrow> ddb \<Rightarrow> ddb" where
  "dec_adjust day scope key delta db =
     (case adjustCounter (dec_key day scope key) delta (d_usage db) of
        None \<Rightarrow> db | Some rows \<Rightarrow> db\<lparr>d_usage := rows\<rparr>)"

definition dec_read :: "string \<Rightarrow> string \<Rightarrow> string \<Rightarrow> ddb \<Rightarrow> int" where
  "dec_read day scope key db =
     (case sel1 (\<lambda>r. fst r = dec_key day scope key) (d_usage db) of None \<Rightarrow> 0 | Some r \<Rightarrow> snd r)"

text \<open>The \<^verbatim>\<open>rec_ai\<close> rows of a workspace: scope \<^verbatim>\<open>{tid}:{sub}\<close>.\<close>

definition usage_of :: "string \<Rightarrow> CounterKey \<times> int \<Rightarrow> bool" where
  "usage_of tid r \<longleftrightarrow> take (length tid + 1) (ctr_scope (fst r)) = tid @ '':''"

definition dec_count :: "string \<Rightarrow> ddb \<Rightarrow> nat" where
  "dec_count tid db =
     hits (of_tenant tid) (d_recs db) + hits (of_tenant tid) (d_scenarios db) + hits (usage_of tid) (d_usage db)"

text \<open>Deleting at most \<open>n\<close> of the rows a predicate picks.\<close>

fun del_max :: "('r \<Rightarrow> bool) \<Rightarrow> nat \<Rightarrow> 'r list \<Rightarrow> 'r list" where
  "del_max p n [] = []"
| "del_max p 0 rows = rows"
| "del_max p (Suc n) (r # rows) = (if p r then del_max p n rows else r # del_max p (Suc n) rows)"

definition dec_purge :: "string \<Rightarrow> nat \<Rightarrow> ddb \<Rightarrow> nat \<times> ddb" where
  "dec_purge tid maxRows db =
     (let recs = del_max (of_tenant tid) maxRows (d_recs db);
          n1 = length (d_recs db) - length recs;
          scenarios = del_max (of_tenant tid) (maxRows - n1) (d_scenarios db);
          n2 = length (d_scenarios db) - length scenarios;
          usage_rows = del_max (usage_of tid) (maxRows - n1 - n2) (d_usage db);
          n3 = length (d_usage db) - length usage_rows
      in (n1 + n2 + n3, db\<lparr>d_recs := recs, d_scenarios := scenarios, d_usage := usage_rows\<rparr>))"

end
