(* ===== verification/DecisionCalls.thy ===== *)
theory DecisionCalls
  imports DecisionDb
begin

section \<open>The calls of the decision engine\<close>

text \<open>
  \<^verbatim>\<open>packages/decision/application\<close>: \<^verbatim>\<open>recommendations.ts\<close>, \<^verbatim>\<open>push.ts\<close>, \<^verbatim>\<open>clear_workspace.ts\<close> and the
  life cycle, as interleavable programs over the world of the object graph extended with the engine's
  own database, the log of the requests it has sent to the object graph and the summaries it has pushed.
  A remote call of \<^verbatim>\<open>applyAction\<close> runs the object graph's own program between the two crossings of the
  network, each of which may fail; a request that was sent may also arrive later, or again.
\<close>

record dworld = gworld +
  dw_d :: ddb
  dw_net :: "(CallCtx \<times> ApplyActionCmd) list"
  dw_pushed :: "(string \<times> RecommendationSummary) list"
  dw_ids :: "(string \<times> string) list"

record denv = genv +
  de_rpc :: "nat \<Rightarrow> exn option"
  de_reply :: "nat \<Rightarrow> exn option"
  de_push :: "nat \<Rightarrow> exn + unit"
  de_recAiUserDailyLimit :: int

type_synonym 'a dp = "(dworld, exn, 'a) prog"

definition dq :: "(ddb \<Rightarrow> 'a) \<Rightarrow> 'a dp" where
  "dq f = atomic (gets (\<lambda>w. f (dw_d w)))"

definition ddo :: "(ddb \<Rightarrow> (exn + 'a) \<times> ddb) \<Rightarrow> 'a dp" where
  "ddo m = atomic (\<lambda>w. case m (dw_d w) of (r, db) \<Rightarrow> (r, w\<lparr>dw_d := db\<rparr>))"

text \<open>A statement that cannot fail.\<close>

definition drun :: "(ddb \<Rightarrow> 'a \<times> ddb) \<Rightarrow> 'a dp" where
  "drun m = ddo (\<lambda>db. case m db of (x, db') \<Rightarrow> (Inr x, db'))"

subsection \<open>The remote object graph\<close>

definition net_send :: "CallCtx \<Rightarrow> ApplyActionCmd \<Rightarrow> unit dp" where
  "net_send ctx cmd = atomic (\<lambda>w. (Inr (), w\<lparr>dw_net := dw_net w @ [(ctx, cmd)]\<rparr>))"

definition net_cross :: "(nat \<Rightarrow> exn option) \<Rightarrow> unit dp" where
  "net_cross lost = gext (\<lambda>i. case lost i of Some e \<Rightarrow> Inl e | None \<Rightarrow> Inr ())"

definition remote_applyAction :: "denv \<Rightarrow> CallCtx \<Rightarrow> ApplyActionCmd \<Rightarrow> ActionResult dp" where
  "remote_applyAction E ctx cmd =
     pthn (net_send ctx cmd)
     (pthn (net_cross (de_rpc E))
     (pbind (applyAction (genv.truncate E) ctx cmd) (\<lambda>r.
      pthn (net_cross (de_reply E)) (pret r))))"

subsection \<open>push.ts\<close>

definition pushSummary :: "denv \<Rightarrow> CallCtx \<Rightarrow> RecommendationDto \<Rightarrow> unit dp" where
  "pushSummary E ctx dto =
     ptry (atomic (\<lambda>w. case de_push E (gw_calls w) of
         Inl e \<Rightarrow> (Inl e, w\<lparr>gw_calls := Suc (gw_calls w)\<rparr>)
       | Inr _ \<Rightarrow> (Inr (), w\<lparr>gw_calls := Suc (gw_calls w),
                             dw_pushed := dw_pushed w @ [(ctx_tid ctx, toSummary dto)]\<rparr>)))
       (\<lambda>_. pret ())"

subsection \<open>recommendations.ts\<close>

definition EXECUTOR :: string where "EXECUTOR = ''decision-engine''"

text \<open>An unknown status is \<open>None\<close> inside \<open>status\<close>; \<open>cur\<close> is the decoded cursor.\<close>

definition listRecommendations ::
  "CallCtx \<Rightarrow> RecStatus option option \<Rightarrow> (int \<times> string) option \<Rightarrow> jsnum option
    \<Rightarrow> (RecommendationDto list \<times> (int \<times> string) option) dp" where
  "listRecommendations ctx status cur limit =
     (if status = Some None then pfail VALIDATION_FAILED ''Unknown status''
      else pthn (tenant_repos (ctx_tid ctx))
       (pbind gclock (\<lambda>t.
        pthn (drun (rec_expireDue (ctx_tid ctx) t None))
        (pbind (dq (rec_list (ctx_tid ctx) (Option.bind status id) cur limit)) (\<lambda>(items, next_cursor).
         pret (map toDto items, next_cursor))))))"

definition getRecommendation :: "CallCtx \<Rightarrow> string \<Rightarrow> RecommendationDto dp" where
  "getRecommendation ctx i =
     pthn (tenant_repos (ctx_tid ctx))
     (pbind gclock (\<lambda>t.
      pthn (drun (rec_expireDue (ctx_tid ctx) t (Some i)))
      (pbind (dq (rec_get (ctx_tid ctx) i)) (\<lambda>found.
       case found of
         None \<Rightarrow> pfail NOT_FOUND ''Recommendation not found''
       | Some r \<Rightarrow> pret (toDto r)))))"

text \<open>\<^verbatim>\<open>(await repo.get(id))!\<close>: a missing row is a \<^verbatim>\<open>TypeError\<close> where its fields are read.\<close>

definition get_now :: "string \<Rightarrow> string \<Rightarrow> RecRecord dp" where
  "get_now tid i =
     pbind (dq (rec_get tid i)) (\<lambda>found. case found of None \<Rightarrow> pthrow TypeErr | Some r \<Rightarrow> pret r)"

definition exec_command :: "string \<Rightarrow> string \<Rightarrow> Candidate \<Rightarrow> ApplyActionCmd" where
  "exec_command i key c =
     \<lparr>ac_actionType = cd_actionType c, ac_target = cd_target c, ac_params = Some (cd_params c), ac_ifMatch = None,
      ac_idempotencyKey = key @ '':0'', ac_recommendationId = Some i\<rparr>"

definition failed_entry :: "Candidate \<Rightarrow> exn \<Rightarrow> ExecutionRecord" where
  "failed_entry c e =
     (let err = AppError_from e
      in \<lparr>xr_candidateId = cd_id c, xr_executed = False, xr_actionLogId = None,
          xr_error = Some (take 300 (error_code_name (err_code err)
            @ (case err_detail err of Some (d # ds) \<Rightarrow> '': '' @ d # ds | _ \<Rightarrow> [])))\<rparr>)"

definition execute_best :: "denv \<Rightarrow> CallCtx \<Rightarrow> string \<Rightarrow> RecRecord \<Rightarrow> ExecutionRecord dp" where
  "execute_best E ctx key rec =
     (case bestCandidate (rd_ranking rec) (rd_candidates rec) of
        None \<Rightarrow> pret \<lparr>xr_candidateId = (case rd_ranking rec of i # _ \<Rightarrow> i | [] \<Rightarrow> []), xr_executed = False,
                      xr_actionLogId = None, xr_error = Some ''NO_CANDIDATE''\<rparr>
      | Some c \<Rightarrow>
          ptry (pbind (remote_applyAction E
                   (serviceCtx (ctx_tid ctx) EXECUTOR (Some (ctx_requestId ctx)) (Some (ctx_locale ctx)))
                   (exec_command (rd_id rec) key c)) (\<lambda>res.
                pret \<lparr>xr_candidateId = cd_id c, xr_executed = True, xr_actionLogId = Some (ar_actionLogId res),
                      xr_error = None\<rparr>))
            (\<lambda>e. pret (failed_entry c e)))"

definition record_outcome ::
  "denv \<Rightarrow> CallCtx \<Rightarrow> string \<Rightarrow> RecRecord \<Rightarrow> ExecutionRecord \<Rightarrow> RecommendationDto dp" where
  "record_outcome E ctx i rec entry =
     pthn (drun (\<lambda>db. ((), rec_finish (ctx_tid ctx) i (xr_executed entry)
                            ((case rd_execution rec of Some xs \<Rightarrow> xs | None \<Rightarrow> []) @ [entry]) db)))
     (pbind (get_now (ctx_tid ctx) i) (\<lambda>r.
      pthn (pushSummary E ctx (toDto r)) (pret (toDto r))))"

definition run_decision :: "denv \<Rightarrow> CallCtx \<Rightarrow> string \<Rightarrow> string \<Rightarrow> RecommendationDto dp" where
  "run_decision E ctx i key =
     pbind (drun (rec_begin (ctx_tid ctx) i key DECISION_execAttemptsMax)) (\<lambda>started.
     pbind (get_now (ctx_tid ctx) i) (\<lambda>rec.
     if \<not> started then pret (toDto rec)
     else pbind (execute_best E ctx key rec) (\<lambda>entry. record_outcome E ctx i rec entry)))"

definition replay_decision :: "denv \<Rightarrow> CallCtx \<Rightarrow> RecRecord \<Rightarrow> string \<Rightarrow> RecommendationDto dp" where
  "replay_decision E ctx rec key =
     (let stalled = (rd_status rec = RecConfirmed \<and> rr_execAttempts rec = 0)
      in if canRetryExecution rec \<or> stalled then run_decision E ctx (rd_id rec) key else pret (toDto rec))"

definition decision_claim :: "DecisionInput \<Rightarrow> string \<Rightarrow> UserRole \<Rightarrow> int \<Rightarrow> DecisionClaim" where
  "decision_claim input key decidedBy t =
     \<lparr>dc_confirmed = (di_decision input = Confirm), dc_key = key, dc_decidedBy = decidedBy, dc_decidedAtMs = t,
      dc_rejectReason = (if di_decision input = Reject then di_reason input else None)\<rparr>"

definition take_decision ::
  "denv \<Rightarrow> CallCtx \<Rightarrow> DecisionInput \<Rightarrow> string \<Rightarrow> UserRole \<Rightarrow> int \<Rightarrow> RecRecord \<Rightarrow> RecommendationDto dp" where
  "take_decision E ctx input key decidedBy t rec =
     pbind (ddo (rec_claim (ctx_tid ctx) (rd_id rec) (decision_claim input key decidedBy t) t)) (\<lambda>claimed.
     if \<not> claimed then
       pbind (dq (rec_get (ctx_tid ctx) (rd_id rec))) (\<lambda>current.
         case current of
           Some r \<Rightarrow> if rr_decisionKey r = Some key then replay_decision E ctx r key
                      else pfail CONFLICT ''Recommendation already decided''
         | None \<Rightarrow> pfail CONFLICT ''Recommendation already decided'')
     else if di_decision input = Reject then
       pbind (get_now (ctx_tid ctx) (rd_id rec)) (\<lambda>r.
       pthn (pushSummary E ctx (toDto r)) (pret (toDto r)))
     else run_decision E ctx (rd_id rec) key)"

text \<open>\<open>raw\<close> is what the schema of the input makes of the body.\<close>

definition decide :: "denv \<Rightarrow> CallCtx \<Rightarrow> string \<Rightarrow> AppError + DecisionInput \<Rightarrow> string \<Rightarrow> RecommendationDto dp" where
  "decide E ctx i raw key =
     (if \<not> isIdempotencyKey key then pfail VALIDATION_FAILED ''Idempotency-Key is required''
      else
      pbind (plift raw) (\<lambda>input.
      pbind (plift (decidedByRole ctx)) (\<lambda>decidedBy.
      pthn (tenant_repos (ctx_tid ctx))
      (pbind gclock (\<lambda>t.
      pbind (dq (rec_get (ctx_tid ctx) i)) (\<lambda>found.
        case found of
          None \<Rightarrow> pfail NOT_FOUND ''Recommendation not found''
        | Some rec \<Rightarrow>
            if rr_decisionKey rec = Some key then replay_decision E ctx rec key
            else if rr_decisionKey rec \<noteq> None then pfail CONFLICT ''Recommendation already decided''
            else if isDue (ge_plat E) rec t
            then pthn (drun (rec_expireDue (ctx_tid ctx) t (Some (rd_id rec))))
                   (pfail CONFLICT ''Recommendation expired'')
            else if rd_status rec \<noteq> RecProposed then pfail CONFLICT ''Recommendation is not proposed''
            else take_decision E ctx input key decidedBy t rec))))))"

definition recommendationUsage :: "denv \<Rightarrow> CallCtx \<Rightarrow> (QuotaKey \<times> Used) list dp" where
  "recommendationUsage E ctx =
     pbind gclock (\<lambda>t.
     pbind (dq (dec_read (utcDay t) (ctx_tid ctx @ '':'' @ ctx_sub ctx) ''rec_ai'')) (\<lambda>used.
     let limit = de_recAiUserDailyLimit E in pret [(Q_aiRecsToday, \<lparr>q_used = min used limit, q_limit = limit\<rparr>)]))"

subsection \<open>clear\_workspace.ts and scenarios.ts\<close>

definition clearDecisions :: "CallCtx \<Rightarrow> (nat \<times> nat) dp" where
  "clearDecisions ctx =
     (if actorLabel ctx \<notin> {''owner'', ''admin''} then pfail FORBIDDEN ''This principal cannot clear a workspace''
      else pthn (tenant_repos (ctx_tid ctx))
        (pbind (drun (rec_deleteUnexecuted (ctx_tid ctx))) (\<lambda>recommendations.
         pbind (drun (scenario_deleteAll (ctx_tid ctx))) (\<lambda>scenarios.
         pret (scenarios, recommendations)))))"

definition getScenario :: "CallCtx \<Rightarrow> string \<Rightarrow> ScenarioDto dp" where
  "getScenario ctx i =
     pthn (tenant_repos (ctx_tid ctx))
     (pbind (dq (scenario_get (ctx_tid ctx) i)) (\<lambda>found.
      case found of None \<Rightarrow> pfail NOT_FOUND ''Scenario not found'' | Some s \<Rightarrow> pret s))"

subsection \<open>lifecycle.ts\<close>

definition purgeDecisions :: "string \<Rightarrow> int \<Rightarrow> PurgeResult dp" where
  "purgeDecisions tid maxRows =
     (let n = min (max 1 (maxRows)) (lc_purgeBatchRows LIFECYCLE)
      in pbind (drun (dec_purge tid (nat n))) (\<lambda>deleted.
         pbind (dq (dec_count tid)) (\<lambda>rest.
         if rest = 0 then
           pbind gclock (\<lambda>t.
           pthn (drun (\<lambda>db. ((), db\<lparr>d_tombs := (if list_ex (\<lambda>x. fst x = tid) (d_tombs db) then d_tombs db
                                                else d_tombs db @ [(tid, t)])\<rparr>)))
             (pret \<lparr>purge_deleted = int deleted, purge_done = True\<rparr>))
         else pret \<lparr>purge_deleted = int deleted, purge_done = False\<rparr>)))"

end
