(* ===== verification/DecisionSteps.thy ===== *)
theory DecisionSteps
  imports DecisionCalls
begin

section \<open>Interleaved decisions\<close>

text \<open>
  The invariant \<open>d_ok\<close> of the decision engine together with the object graph it calls, the relation
  \<open>d_moves\<close> along which every piece of every call moves both, and the interpretation of the contract
  \<open>graph_rely\<close> on them: the facts of the object graph's calls hold inside a call of the engine.
\<close>

subsection \<open>One row\<close>

definition rec_key :: "string \<times> RecRow \<Rightarrow> string \<times> string" where
  "rec_key x = (fst x, rw_id (snd x))"

definition row_best :: "RecRow \<Rightarrow> Candidate option" where
  "row_best r = bestCandidate (rw_ranking r) (rw_candidates r)"

text \<open>The state machine: the decision key is set by the decision, the attempts count the executions.\<close>

definition row_ok :: "RecRow \<Rightarrow> bool" where
  "row_ok r \<longleftrightarrow>
     (rw_decision_key r = None \<longleftrightarrow> rw_status r \<in> {RecProposed, RecExpired})
     \<and> (rw_decision_key r \<noteq> None \<longrightarrow> rw_decided_by r \<noteq> None)
     \<and> 0 \<le> rw_exec_attempts r \<and> rw_exec_attempts r \<le> DECISION_execAttemptsMax
     \<and> (rw_status r \<in> {RecProposed, RecExpired, RecRejected} \<longrightarrow> rw_exec_attempts r = 0)
     \<and> (rw_status r \<in> {RecExecuted, RecExecFailed} \<longrightarrow> 1 \<le> rw_exec_attempts r)"

text \<open>An execution of a candidate under a key is in the action log of the object graph.\<close>

definition logged_run :: "gdb \<Rightarrow> string \<Rightarrow> string \<Rightarrow> Candidate \<Rightarrow> bool" where
  "logged_run db tid key c \<longleftrightarrow>
     list_ex (\<lambda>x. fst x = tid \<and> al_idempotencyKey (snd x) = key @ '':0'' \<and> al_targetRid (snd x) = cd_target c)
       (g_log db)"

definition executed_ok :: "gdb \<Rightarrow> string \<times> RecRow \<Rightarrow> bool" where
  "executed_ok db x \<longleftrightarrow>
     (rw_status (snd x) = RecExecuted \<longrightarrow>
        (\<exists>key c. rw_decision_key (snd x) = Some key \<and> row_best (snd x) = Some c \<and> logged_run db (fst x) key c))"

definition final_status :: "RecStatus \<Rightarrow> bool" where
  "final_status s \<longleftrightarrow> s \<in> {RecRejected, RecExpired, RecExecuted}"

definition row_moves :: "RecRow \<Rightarrow> RecRow \<Rightarrow> bool" where
  "row_moves r r' \<longleftrightarrow>
     rw_id r' = rw_id r \<and> rw_candidates r' = rw_candidates r \<and> rw_ranking r' = rw_ranking r
     \<and> (rw_decision_key r \<noteq> None \<longrightarrow>
          rw_decision_key r' = rw_decision_key r \<and> rw_decided_by r' = rw_decided_by r)
     \<and> rw_exec_attempts r \<le> rw_exec_attempts r' \<and> (final_status (rw_status r) \<longrightarrow> r' = r)"

lemma row_moves_refl [simp]: "row_moves r r"
  by (simp add: row_moves_def)

lemma row_moves_trans: "row_moves a b \<Longrightarrow> row_moves b c \<Longrightarrow> row_moves a c"
  unfolding row_moves_def by auto

subsection \<open>Requests\<close>

definition issued :: "RecRow \<Rightarrow> ApplyActionCmd \<Rightarrow> bool" where
  "issued r cmd \<longleftrightarrow>
     1 \<le> rw_exec_attempts r
     \<and> (\<exists>key c. rw_decision_key r = Some key \<and> row_best r = Some c \<and> cmd = exec_command (rw_id r) key c)"

definition by_executor :: "CallCtx \<Rightarrow> bool" where
  "by_executor ctx \<longleftrightarrow> act_role (ctx_actor ctx) = ServiceRole \<and> ctx_sub ctx = ''svc:'' @ EXECUTOR"

definition request_ok :: "(string \<times> string) list \<Rightarrow> (string \<times> RecRow) list \<Rightarrow> CallCtx \<times> ApplyActionCmd \<Rightarrow> bool" where
  "request_ok ids recs q \<longleftrightarrow>
     by_executor (fst q)
     \<and> (\<exists>i. ac_recommendationId (snd q) = Some i \<and> (ctx_tid (fst q), i) \<in> set ids
            \<and> (\<forall>x \<in> set recs. rec_key x = (ctx_tid (fst q), i) \<longrightarrow> issued (snd x) (snd q)))"

lemma issued_moves: "issued r cmd \<Longrightarrow> row_moves r r' \<Longrightarrow> issued r' cmd"
  by (auto simp: issued_def row_moves_def row_best_def)

subsection \<open>The invariant and the relation\<close>

definition keys_used_once :: "(string \<times> RecRow) list \<Rightarrow> bool" where
  "keys_used_once recs \<longleftrightarrow>
     (\<forall>x \<in> set recs. \<forall>y \<in> set recs. rw_decision_key (snd x) \<noteq> None \<and> fst x = fst y
        \<and> rw_decision_key (snd x) = rw_decision_key (snd y) \<longrightarrow> x = y)"

definition recs_ok :: "gdb \<Rightarrow> (string \<times> string) list \<Rightarrow> (string \<times> RecRow) list \<Rightarrow> bool" where
  "recs_ok db ids recs \<longleftrightarrow>
     keyed rec_key recs \<and> keys_used_once recs
     \<and> (\<forall>x \<in> set recs. rec_key x \<in> set ids \<and> row_ok (snd x) \<and> executed_ok db x)"

definition d_ok :: "dworld \<Rightarrow> bool" where
  "d_ok w \<longleftrightarrow>
     graph_ok (gw_db w) \<and> recs_ok (gw_db w) (dw_ids w) (d_recs (dw_d w))
     \<and> (\<forall>q \<in> set (dw_net w). request_ok (dw_ids w) (d_recs (dw_d w)) q)"

definition recs_move :: "(string \<times> string) list \<Rightarrow> (string \<times> RecRow) list \<Rightarrow> (string \<times> RecRow) list \<Rightarrow> bool" where
  "recs_move ids recs recs' \<longleftrightarrow>
     (\<forall>x' \<in> set recs'. rec_key x' \<in> set ids \<longrightarrow>
        (\<exists>x \<in> set recs. rec_key x = rec_key x' \<and> row_moves (snd x) (snd x')))
     \<and> (\<forall>x \<in> set recs. rw_status (snd x) = RecExecuted \<longrightarrow> x \<in> set recs')"

definition d_moves :: "dworld \<Rightarrow> dworld \<Rightarrow> bool" where
  "d_moves w w' \<longleftrightarrow>
     gw_moves w w' \<and> (d_ok w \<longrightarrow> d_ok w')
     \<and> (\<exists>qs. dw_net w' = dw_net w @ qs) \<and> (\<exists>is. dw_ids w' = dw_ids w @ is)
     \<and> recs_move (dw_ids w) (d_recs (dw_d w)) (d_recs (dw_d w'))"

lemma recs_move_refl [simp]: "recs_move ids recs recs"
  by (auto simp: recs_move_def intro: bexI)

lemma recs_move_trans:
  assumes "recs_move ids a b" "recs_move ids' b c" "set ids \<subseteq> set ids'"
  shows "recs_move ids a c"
  unfolding recs_move_def
proof (intro conjI ballI impI)
  fix x' assume "x' \<in> set c" "rec_key x' \<in> set ids"
  with assms(2,3) obtain y where "y \<in> set b" "rec_key y = rec_key x'" "row_moves (snd y) (snd x')"
    unfolding recs_move_def by blast
  moreover with \<open>rec_key x' \<in> set ids\<close> assms(1) obtain x where
    "x \<in> set a" "rec_key x = rec_key y" "row_moves (snd x) (snd y)"
    unfolding recs_move_def by metis
  ultimately show "\<exists>x \<in> set a. rec_key x = rec_key x' \<and> row_moves (snd x) (snd x')"
    by (metis row_moves_trans)
next
  fix x assume "x \<in> set a" "rw_status (snd x) = RecExecuted"
  with assms(1,2) show "x \<in> set c" unfolding recs_move_def by blast
qed

lemma d_moves_refl: "d_moves w w"
  by (simp add: d_moves_def gw_moves_def)

lemma d_moves_trans:
  assumes ab: "d_moves a b" and bc: "d_moves b c"
  shows "d_moves a c"
proof -
  have g: "gw_moves a c" using ab bc by (auto simp: d_moves_def gw_moves_def intro: graph_moves_trans)
  have ids: "set (dw_ids a) \<subseteq> set (dw_ids b)" using ab by (auto simp: d_moves_def)
  have r: "recs_move (dw_ids a) (d_recs (dw_d a)) (d_recs (dw_d c))"
    using ab bc ids by (auto simp: d_moves_def intro: recs_move_trans)
  have "\<exists>qs. dw_net c = dw_net a @ qs" "\<exists>is. dw_ids c = dw_ids a @ is"
    using ab bc unfolding d_moves_def by (metis append.assoc)+
  with g r ab bc show ?thesis unfolding d_moves_def by blast
qed

lemma logged_run_moves: "logged_run db tid key c \<Longrightarrow> graph_ok db \<Longrightarrow> graph_moves db db' \<Longrightarrow> logged_run db' tid key c"
  by (auto simp: logged_run_def graph_moves_def)

lemma executed_ok_moves: "executed_ok db x \<Longrightarrow> graph_ok db \<Longrightarrow> graph_moves db db' \<Longrightarrow> executed_ok db' x"
  unfolding executed_ok_def by (blast intro: logged_run_moves)

lemma dw_more:
  fixes w w' :: dworld
  assumes "gworld.more w' = gworld.more w"
  shows "dw_d w' = dw_d w" "dw_net w' = dw_net w" "dw_ids w' = dw_ids w"
  using assms by (cases w; cases w'; simp)+

lemma d_moves_graph:
  assumes "d_ok w" "gw_moves w w'" "gworld.more w' = gworld.more w"
  shows "d_moves w w'"
proof -
  have "graph_ok (gw_db w')" using assms(1,2) by (simp add: d_ok_def gw_moves_def graph_moves_def)
  with assms dw_more[OF assms(3)] show ?thesis
    by (auto simp: d_moves_def d_ok_def recs_ok_def gw_moves_def intro: executed_ok_moves)
qed

lemma d_moves_ok: "d_ok w \<Longrightarrow> d_moves w w' \<Longrightarrow> d_ok w'"
  by (simp add: d_moves_def)

lemma d_moves_gw: "d_moves w w' \<Longrightarrow> gw_moves w w'"
  by (simp add: d_moves_def)

lemma d_ok_gw: "d_ok w \<Longrightarrow> gw_ok w"
  by (simp add: d_ok_def gw_ok_def)

interpretation dm: graph_rely d_moves d_ok
  by unfold_locales (rule d_moves_refl, erule (1) d_moves_trans, erule (1) d_moves_ok, erule d_moves_gw,
    erule d_ok_gw, erule (2) d_moves_graph)

subsection \<open>Pieces that change the engine's own database\<close>

text \<open>
  An UPDATE of the rows a predicate picks: each of them moves along \<open>row_moves\<close>, stays correct, was not
  executed before, and no decision key comes to be used twice.
\<close>

lemma rec_key_on_row [simp]: "rw_id (f (snd x)) = rw_id (snd x) \<Longrightarrow> rec_key (on_row f x) = rec_key x"
  by (simp add: rec_key_def on_row_def)

lemma on_row_sel [simp]: "fst (on_row f x) = fst x" "snd (on_row f x) = f (snd x)"
  by (simp_all add: on_row_def)

lemma keyed_upd_in:
  assumes "\<And>x. x \<in> set t \<Longrightarrow> p x \<Longrightarrow> k (f x) = k x"
  shows "keyed k (upd p f t) = keyed k t"
proof -
  have "map k (upd p f t) = map k t" using assms by (induction t) auto
  then show ?thesis by (simp add: keyed_def)
qed

lemma in_updE:
  assumes "x' \<in> set (upd p g t)"
  obtains x where "x \<in> set t" "x' = (if p x then g x else x)"
  using assms by (auto simp: set_upd simp del: split_paired_All split_paired_Ex)

definition recs_step :: "gdb \<Rightarrow> (string \<times> RecRow) list \<Rightarrow> (string \<times> RecRow \<Rightarrow> bool) \<Rightarrow> (RecRow \<Rightarrow> RecRow) \<Rightarrow> bool" where
  "recs_step db recs p f \<longleftrightarrow>
     (\<forall>x \<in> set recs. p x \<longrightarrow>
        row_moves (snd x) (f (snd x)) \<and> row_ok (f (snd x)) \<and> executed_ok db (on_row f x)
        \<and> rw_status (snd x) \<noteq> RecExecuted)
     \<and> keys_used_once (upd p (on_row f) recs)"

lemma recs_step_id: "recs_step db recs p f \<Longrightarrow> x \<in> set recs \<Longrightarrow> p x \<Longrightarrow> rw_id (f (snd x)) = rw_id (snd x)"
  by (auto simp: recs_step_def row_moves_def)

lemma recs_ok_step:
  assumes "recs_step db recs p f" "recs_ok db ids recs"
  shows "recs_ok db ids (upd p (on_row f) recs)"
proof -
  have "keyed rec_key (upd p (on_row f) recs)"
    using assms recs_step_id[OF assms(1)] by (subst keyed_upd_in) (auto simp: recs_ok_def)
  with assms recs_step_id[OF assms(1)] show ?thesis
    by (auto simp: recs_ok_def recs_step_def set_upd)
qed

lemma recs_move_step:
  assumes "recs_step db recs p f"
  shows "recs_move ids recs (upd p (on_row f) recs)"
  unfolding recs_move_def
proof (intro conjI ballI impI)
  fix x' assume "x' \<in> set (upd p (on_row f) recs)"
  then obtain x where "x \<in> set recs" "x' = (if p x then on_row f x else x)" by (rule in_updE)
  with assms recs_step_id[OF assms] show "\<exists>x \<in> set recs. rec_key x = rec_key x' \<and> row_moves (snd x) (snd x')"
    by (intro bexI[of _ x]) (auto simp: recs_step_def)
next
  fix x assume "x \<in> set recs" "rw_status (snd x) = RecExecuted"
  with assms show "x \<in> set (upd p (on_row f) recs)" by (force simp: recs_step_def set_upd)
qed

lemma request_ok_move:
  assumes "request_ok ids recs q" "recs_move ids recs recs'"
  shows "request_ok ids recs' q"
proof -
  from assms(1) obtain i where i: "ac_recommendationId (snd q) = Some i" "(ctx_tid (fst q), i) \<in> set ids"
    "\<forall>x \<in> set recs. rec_key x = (ctx_tid (fst q), i) \<longrightarrow> issued (snd x) (snd q)" and ex: "by_executor (fst q)"
    by (auto simp: request_ok_def)
  have "issued (snd x') (snd q)" if "x' \<in> set recs'" "rec_key x' = (ctx_tid (fst q), i)" for x'
  proof -
    from assms(2) that i(2) obtain x where x: "x \<in> set recs" "rec_key x = rec_key x'" "row_moves (snd x) (snd x')"
      unfolding recs_move_def by metis
    with i(3) that(2) have "issued (snd x) (snd q)" by simp
    with x(3) show ?thesis by (rule issued_moves[rotated])
  qed
  with i(1,2) ex show ?thesis by (auto simp: request_ok_def)
qed

lemma d_moves_recs:
  assumes "d_ok w" "recs_ok (gw_db w) (dw_ids w) (d_recs db)" "recs_move (dw_ids w) (d_recs (dw_d w)) (d_recs db)"
  shows "d_moves w (w\<lparr>dw_d := db\<rparr>)"
  using assms by (auto simp: d_moves_def d_ok_def gw_moves_def intro: request_ok_move)

lemma d_moves_same: "d_ok w \<Longrightarrow> d_recs db = d_recs (dw_d w) \<Longrightarrow> d_moves w (w\<lparr>dw_d := db\<rparr>)"
  by (rule d_moves_recs) (auto simp: d_ok_def)

lemma d_moves_upd:
  assumes "d_ok w" "recs_step (gw_db w) (d_recs (dw_d w)) p f" "d_recs db = upd p (on_row f) (d_recs (dw_d w))"
  shows "d_moves w (w\<lparr>dw_d := db\<rparr>)"
  using assms by (intro d_moves_recs) (auto simp: d_ok_def intro: recs_ok_step recs_move_step)

lemma keys_used_once_sub: "keys_used_once recs \<Longrightarrow> set recs' \<subseteq> set recs \<Longrightarrow> keys_used_once recs'"
  unfolding keys_used_once_def by blast

lemma d_moves_del:
  assumes "d_ok w" "\<And>x. p x \<Longrightarrow> rw_status (snd x) \<noteq> RecExecuted" "d_recs db = del p (d_recs (dw_d w))"
  shows "d_moves w (w\<lparr>dw_d := db\<rparr>)"
proof (rule d_moves_recs[OF assms(1)])
  show "recs_ok (gw_db w) (dw_ids w) (d_recs db)"
    using assms by (auto simp: d_ok_def recs_ok_def elim: keys_used_once_sub)
  show "recs_move (dw_ids w) (d_recs (dw_d w)) (d_recs db)"
    using assms(2,3) by (auto simp: recs_move_def intro: bexI)
qed

text \<open>An UPDATE that leaves the decision keys as they are.\<close>

lemma keys_kept:
  assumes "keys_used_once recs" "\<And>r. rw_decision_key (f r) = rw_decision_key r"
  shows "keys_used_once (upd p (on_row f) recs)"
  unfolding keys_used_once_def
proof (intro ballI impI)
  fix x' y' assume in': "x' \<in> set (upd p (on_row f) recs)" "y' \<in> set (upd p (on_row f) recs)"
    and same: "rw_decision_key (snd x') \<noteq> None \<and> fst x' = fst y' \<and> rw_decision_key (snd x') = rw_decision_key (snd y')"
  obtain x y where xy: "x \<in> set recs" "x' = (if p x then on_row f x else x)"
    "y \<in> set recs" "y' = (if p y then on_row f y else y)" using in' by (elim in_updE)
  with same assms(2) have "rw_decision_key (snd x) \<noteq> None" "fst x = fst y" "rw_decision_key (snd x) = rw_decision_key (snd y)"
    by (auto split: if_splits)
  with assms(1) xy(1,3) have "x = y" unfolding keys_used_once_def by blast
  with xy show "x' = y'" by simp
qed

lemma recs_step_keep:
  assumes "d_ok w" "\<And>r. rw_decision_key (f r) = rw_decision_key r"
    and "\<And>x. x \<in> set (d_recs (dw_d w)) \<Longrightarrow> p x \<Longrightarrow> row_ok (snd x) \<Longrightarrow>
      row_moves (snd x) (f (snd x)) \<and> row_ok (f (snd x)) \<and> executed_ok (gw_db w) (on_row f x)
      \<and> rw_status (snd x) \<noteq> RecExecuted"
  shows "recs_step (gw_db w) (d_recs (dw_d w)) p f"
  using assms by (auto simp: recs_step_def d_ok_def recs_ok_def intro: keys_kept)

subsection \<open>Each statement of the repositories\<close>

lemma calm_dq: "dm.calm (dq f)"
  unfolding dq_def by (rule dm.calm_atomic) (simp add: d_moves_refl)

lemma calm_ddo:
  assumes "\<And>w. d_ok w \<Longrightarrow> d_moves w (w\<lparr>dw_d := snd (m (dw_d w))\<rparr>)"
  shows "dm.calm (ddo m)"
  unfolding ddo_def by (rule dm.calm_atomic) (simp add: assms case_prod_beta)

lemma calm_drun:
  assumes "\<And>w. d_ok w \<Longrightarrow> d_moves w (w\<lparr>dw_d := snd (m (dw_d w))\<rparr>)"
  shows "dm.calm (drun m)"
  unfolding drun_def by (rule calm_ddo) (simp add: assms case_prod_beta)

lemma executed_ok_open: "rw_status (snd x) \<noteq> RecExecuted \<Longrightarrow> executed_ok db x"
  by (simp add: executed_ok_def)

text \<open>What a statement does to one row it picks.\<close>

definition open_step :: "RecRow \<Rightarrow> RecRow \<Rightarrow> bool" where
  "open_step r r' \<longleftrightarrow>
     row_moves r r' \<and> row_ok r' \<and> rw_status r \<noteq> RecExecuted \<and> rw_status r' \<noteq> RecExecuted"

lemma open_expire: "row_ok r \<Longrightarrow> rw_status r = RecProposed \<Longrightarrow> open_step r (expire_row r)"
  by (simp add: open_step_def row_moves_def row_ok_def final_status_def expire_row_def)

lemma open_begin:
  assumes "row_ok r" "rw_status r \<in> {RecConfirmed, RecExecFailed}" "rw_exec_attempts r < DECISION_execAttemptsMax"
  shows "open_step r (begin_row r)"
  using assms
  by (cases "rw_status r") (simp_all add: open_step_def row_moves_def row_ok_def final_status_def begin_row_def)

lemma open_claim:
  assumes "row_ok r" "rw_status r = RecProposed"
  shows "open_step r (claim_row c r)"
  using assms by (simp add: open_step_def row_moves_def row_ok_def final_status_def claim_row_def
      DECISION_execAttemptsMax_def)

lemma recs_step_open:
  assumes "d_ok w" "\<And>x. p x \<Longrightarrow> row_ok (snd x) \<Longrightarrow> open_step (snd x) (f (snd x))"
    and "keys_used_once (upd p (on_row f) (d_recs (dw_d w)))"
  shows "recs_step (gw_db w) (d_recs (dw_d w)) p f"
  unfolding recs_step_def
proof (intro conjI ballI impI assms(3))
  fix x assume "x \<in> set (d_recs (dw_d w))" "p x"
  with assms(1,2) have "open_step (snd x) (f (snd x))" by (auto simp: d_ok_def recs_ok_def simp del: split_paired_All)
  then show "row_moves (snd x) (f (snd x))" "row_ok (f (snd x))" "executed_ok (gw_db w) (on_row f x)"
    "rw_status (snd x) \<noteq> RecExecuted"
    by (simp_all add: open_step_def executed_ok_open)
qed

lemma d_moves_open:
  assumes "d_ok w" "\<And>x. p x \<Longrightarrow> row_ok (snd x) \<Longrightarrow> open_step (snd x) (f (snd x))"
    and "\<And>r. rw_decision_key (f r) = rw_decision_key r" "d_recs db = upd p (on_row f) (d_recs (dw_d w))"
  shows "d_moves w (w\<lparr>dw_d := db\<rparr>)"
proof (rule d_moves_upd[OF assms(1) recs_step_open[OF assms(1)] assms(4)])
  show "keys_used_once (upd p (on_row f) (d_recs (dw_d w)))"
    using assms(1,3) by (intro keys_kept) (simp_all add: d_ok_def recs_ok_def)
qed (rule assms(2))

lemma step_expire: "d_ok w \<Longrightarrow> d_moves w (w\<lparr>dw_d := snd (rec_expireDue tid t i (dw_d w))\<rparr>)"
  by (erule d_moves_open[where p = "due_row tid t i" and f = expire_row])
    (simp_all add: rec_expireDue_def open_expire due_row_def, simp add: expire_row_def)

lemma step_begin: "d_ok w \<Longrightarrow> d_moves w (w\<lparr>dw_d := snd (rec_begin tid i key DECISION_execAttemptsMax (dw_d w))\<rparr>)"
  by (erule d_moves_open[where p = "beginnable tid i key DECISION_execAttemptsMax" and f = begin_row])
    (auto simp: rec_begin_def beginnable_def intro: open_begin, simp add: begin_row_def)

lemma step_clear: "d_ok w \<Longrightarrow> d_moves w (w\<lparr>dw_d := snd (rec_deleteUnexecuted tid (dw_d w))\<rparr>)"
  by (rule d_moves_del[where p = "\<lambda>r. fst r = tid \<and> rw_status (snd r) \<noteq> RecExecuted"])
    (simp_all add: rec_deleteUnexecuted_def Let_def)

lemma step_scenarios: "d_ok w \<Longrightarrow> d_moves w (w\<lparr>dw_d := snd (scenario_deleteAll tid (dw_d w))\<rparr>)"
  by (rule d_moves_same) (simp_all add: scenario_deleteAll_def)

lemma keys_claimed:
  assumes "keyed rec_key recs" "keys_used_once recs"
    and "\<forall>x \<in> set recs. \<not> (fst x = tid \<and> rw_decision_key (snd x) = Some (dc_key c))"
  shows "keys_used_once (upd (claimable tid i t) (on_row (claim_row c)) recs)"
  unfolding keys_used_once_def
proof (intro ballI impI)
  let ?g = "\<lambda>x. if claimable tid i t x then on_row (claim_row c) x else x"
  fix x' y' assume in': "x' \<in> set (upd (claimable tid i t) (on_row (claim_row c)) recs)"
      "y' \<in> set (upd (claimable tid i t) (on_row (claim_row c)) recs)"
    and same: "rw_decision_key (snd x') \<noteq> None \<and> fst x' = fst y' \<and> rw_decision_key (snd x') = rw_decision_key (snd y')"
  obtain x y where xy: "x \<in> set recs" "x' = ?g x" "y \<in> set recs" "y' = ?g y" using in' by (elim in_updE)
  have k: "rw_decision_key (snd (?g z)) = (if claimable tid i t z then Some (dc_key c) else rw_decision_key (snd z))" for z
    by (simp add: claim_row_def)
  show "x' = y'"
  proof (cases "claimable tid i t x \<or> claimable tid i t y")
    case True
    have other: "\<not> (claimable tid i t u \<and> \<not> claimable tid i t v)"
      if "u \<in> set recs" "v \<in> set recs" "fst u = fst v" "rw_decision_key (snd (?g u)) = rw_decision_key (snd (?g v))"
      for u v
    proof
      assume a: "claimable tid i t u \<and> \<not> claimable tid i t v"
      with that(4) have "rw_decision_key (snd v) = Some (dc_key c)" by (simp add: claim_row_def)
      moreover from a that(3) have "fst v = tid" by (simp add: claimable_def rec_at_def)
      ultimately show False using assms(3) that(2) by blast
    qed
    have "fst x = fst y" using same xy(2,4) by (simp split: if_splits)
    with same xy other[of x y] other[of y x] True have "claimable tid i t x" "claimable tid i t y" by metis+
    then have "rec_key x = rec_key y" by (simp add: claimable_def rec_at_def rec_key_def)
    with assms(1) xy show ?thesis by (auto dest: keyed_eqD)
  next
    case False
    with xy same assms(2) show ?thesis unfolding keys_used_once_def by auto
  qed
qed

lemma step_claim:
  assumes "d_ok w"
  shows "d_moves w (w\<lparr>dw_d := snd (rec_claim tid i c t (dw_d w))\<rparr>)"
proof (cases "list_ex (claimable tid i t) (d_recs (dw_d w))
    \<and> \<not> list_ex (\<lambda>r. fst r = tid \<and> rw_decision_key (snd r) = Some (dc_key c)) (d_recs (dw_d w))")
  case True
  show ?thesis
  proof (rule d_moves_upd[OF assms])
    show "d_recs (snd (rec_claim tid i c t (dw_d w)))
        = upd (claimable tid i t) (on_row (claim_row c)) (d_recs (dw_d w))"
      using True by (simp add: rec_claim_def)
    show "recs_step (gw_db w) (d_recs (dw_d w)) (claimable tid i t) (claim_row c)"
      using assms True keys_claimed[of "d_recs (dw_d w)" tid c i t]
      by (intro recs_step_open) (auto simp: d_ok_def recs_ok_def list_ex_iff claimable_def intro: open_claim)
  qed
next
  case False
  with assms show ?thesis by (intro d_moves_same) (auto simp: rec_claim_def)
qed

subsection \<open>What an execution knows while it runs\<close>

text \<open>The attempt is counted under the key; later also: the record read is still what the row says.\<close>

definition begun :: "string \<Rightarrow> string \<Rightarrow> string \<Rightarrow> dworld \<Rightarrow> bool" where
  "begun tid i key w \<longleftrightarrow>
     (tid, i) \<in> set (dw_ids w)
     \<and> (\<forall>x \<in> set (d_recs (dw_d w)). rec_key x = (tid, i) \<longrightarrow>
          rw_decision_key (snd x) = Some key \<and> 1 \<le> rw_exec_attempts (snd x))"

definition bound_to :: "string \<Rightarrow> string \<Rightarrow> string \<Rightarrow> RecRecord \<Rightarrow> dworld \<Rightarrow> bool" where
  "bound_to tid i key rec w \<longleftrightarrow>
     begun tid i key w \<and> rd_id rec = i
     \<and> (\<forall>x \<in> set (d_recs (dw_d w)). rec_key x = (tid, i) \<longrightarrow>
          row_best (snd x) = bestCandidate (rd_ranking rec) (rd_candidates rec))"

lemma moved_row:
  assumes "d_moves w w'" "(tid, i) \<in> set (dw_ids w)" "x' \<in> set (d_recs (dw_d w'))" "rec_key x' = (tid, i)"
  obtains x where "x \<in> set (d_recs (dw_d w))" "rec_key x = (tid, i)" "row_moves (snd x) (snd x')"
  using assms unfolding d_moves_def recs_move_def by metis

lemma moved_ids: "d_moves w w' \<Longrightarrow> set (dw_ids w) \<subseteq> set (dw_ids w')"
  by (auto simp: d_moves_def)

lemma begun_stable:
  assumes "begun tid i key w" "d_moves w w'"
  shows "begun tid i key w'"
  unfolding begun_def
proof (intro conjI ballI impI)
  have i: "(tid, i) \<in> set (dw_ids w)" using assms(1) by (simp add: begun_def)
  with moved_ids[OF assms(2)] show "(tid, i) \<in> set (dw_ids w')" by blast
  fix x' assume "x' \<in> set (d_recs (dw_d w'))" "rec_key x' = (tid, i)"
  with assms(2) i obtain x where x: "x \<in> set (d_recs (dw_d w))" "rec_key x = (tid, i)" "row_moves (snd x) (snd x')"
    by (rule moved_row)
  with assms(1) have "rw_decision_key (snd x) = Some key" "1 \<le> rw_exec_attempts (snd x)" by (simp_all add: begun_def)
  with x(3) show "rw_decision_key (snd x') = Some key" "1 \<le> rw_exec_attempts (snd x')"
    by (simp_all add: row_moves_def)
qed

lemma bound_to_stable:
  assumes "bound_to tid i key rec w" "d_moves w w'"
  shows "bound_to tid i key rec w'"
proof -
  have b: "begun tid i key w" and best: "\<And>x. x \<in> set (d_recs (dw_d w)) \<Longrightarrow> rec_key x = (tid, i) \<Longrightarrow>
      row_best (snd x) = bestCandidate (rd_ranking rec) (rd_candidates rec)" and rid: "rd_id rec = i"
    using assms(1) by (simp_all add: bound_to_def)
  have "row_best (snd x') = bestCandidate (rd_ranking rec) (rd_candidates rec)"
    if "x' \<in> set (d_recs (dw_d w'))" "rec_key x' = (tid, i)" for x'
  proof -
    from b have "(tid, i) \<in> set (dw_ids w)" by (simp add: begun_def)
    with assms(2) that obtain x where "x \<in> set (d_recs (dw_d w))" "rec_key x = (tid, i)" "row_moves (snd x) (snd x')"
      using moved_row by metis
    with best show ?thesis by (simp add: row_moves_def row_best_def)
  qed
  with begun_stable[OF b assms(2)] rid show ?thesis by (simp add: bound_to_def)
qed

lemma rg_drun:
  assumes "d_ok w" "B w" "\<And>u v. B u \<Longrightarrow> d_moves u v \<Longrightarrow> B v"
    and "\<And>v. d_ok v \<Longrightarrow> B v \<Longrightarrow> d_moves v (v\<lparr>dw_d := snd (m (dw_d v))\<rparr>)"
    and "\<And>v. d_ok v \<Longrightarrow> B v \<Longrightarrow> F (fst (m (dw_d v))) (v\<lparr>dw_d := snd (m (dw_d v))\<rparr>)"
    and "\<And>x u v. F x u \<Longrightarrow> d_moves u v \<Longrightarrow> F x v"
  shows "rg d_moves (\<lambda>r v. d_ok v \<and> (\<exists>x. r = Inr x \<and> F x v)) (drun m) w"
  unfolding drun_def ddo_def
proof (rule dm.rg_atomic)
  let ?m = "\<lambda>w. case (case m (dw_d w) of (x, db') \<Rightarrow> (Inr x, db')) of (r, db) \<Rightarrow> (r, w\<lparr>dw_d := db\<rparr>)"
  have m: "?m v = (Inr (fst (m (dw_d v))), v\<lparr>dw_d := snd (m (dw_d v))\<rparr>)" for v
    by (simp add: case_prod_beta)
  fix w' assume w': "d_moves w w'"
  have ok: "d_ok w'" "B w'" using assms(1,2,3) w' by (auto intro: d_moves_ok)
  then show "d_moves w' (snd (?m w'))" by (simp only: m snd_conv) (rule assms(4))
  fix w'' assume w'': "d_moves (snd (?m w')) w''"
  then have "F (fst (m (dw_d w'))) w''" using assms(5)[OF ok] by (simp only: m snd_conv) (rule assms(6))
  moreover have "d_ok w''" using assms(4)[OF ok] ok(1) w'' by (simp only: m snd_conv) (blast intro: d_moves_ok)
  ultimately show "d_ok w'' \<and> (\<exists>x. fst (?m w') = Inr x \<and> F x w'')" by (simp only: m fst_conv) blast
qed

lemma rg_dq:
  assumes "d_ok w" "B w" "\<And>u v. B u \<Longrightarrow> d_moves u v \<Longrightarrow> B v"
    and "\<And>v. d_ok v \<Longrightarrow> B v \<Longrightarrow> F (f (dw_d v)) v" "\<And>x u v. F x u \<Longrightarrow> d_moves u v \<Longrightarrow> F x v"
  shows "rg d_moves (\<lambda>r v. d_ok v \<and> (\<exists>x. r = Inr x \<and> F x v)) (dq f) w"
  unfolding dq_def
proof (rule dm.rg_atomic)
  fix u v assume u: "d_moves w u" and v: "d_moves (snd (gets (\<lambda>w. f (dw_d w)) u)) v"
  then have "d_ok u" "B u" using assms(1,2,3) by (auto intro: d_moves_ok)
  with v assms(4,5) show "d_ok v \<and> (\<exists>x. fst (gets (\<lambda>w. f (dw_d w)) u) = Inr x \<and> F x v)"
    by (simp add: d_moves_ok) blast
qed (simp add: d_moves_refl)

lemma rec_at_key: "rec_at tid i x \<longleftrightarrow> rec_key x = (tid, i)"
  by (cases x) (simp add: rec_at_def rec_key_def)

lemma begin_begun:
  assumes "d_ok v" "fst (rec_begin tid i key n (dw_d v))"
  shows "begun tid i key (v\<lparr>dw_d := snd (rec_begin tid i key n (dw_d v))\<rparr>)"
proof -
  let ?p = "beginnable tid i key n"
  have k: "keyed rec_key (d_recs (dw_d v))" and ids: "\<And>x. x \<in> set (d_recs (dw_d v)) \<Longrightarrow> rec_key x \<in> set (dw_ids v)"
    and ok: "\<And>x. x \<in> set (d_recs (dw_d v)) \<Longrightarrow> row_ok (snd x)"
    using assms(1) by (auto simp: d_ok_def recs_ok_def)
  from assms(2) have "hits ?p (d_recs (dw_d v)) \<noteq> 0" by (simp add: rec_begin_def)
  then obtain y where y: "y \<in> set (d_recs (dw_d v))" "?p y" unfolding hits_0 by blast
  then have key: "rec_key y = (tid, i)" by (simp add: beginnable_def rec_at_key)
  have "rw_decision_key (snd x') = Some key \<and> 1 \<le> rw_exec_attempts (snd x')"
    if "x' \<in> set (upd ?p (on_row begin_row) (d_recs (dw_d v)))" "rec_key x' = (tid, i)" for x'
  proof -
    from that(1) obtain x where x: "x \<in> set (d_recs (dw_d v))" "x' = (if ?p x then on_row begin_row x else x)"
      by (rule in_updE)
    then have "rec_key x = (tid, i)" using that(2) by (simp add: begin_row_def split: if_splits)
    with k x(1) y(1) key have "x = y" by (metis keyed_eqD)
    with x y ok[OF y(1)] show ?thesis by (simp add: begin_row_def beginnable_def row_ok_def)
  qed
  with ids[OF y(1)] key show ?thesis by (simp add: begun_def rec_begin_def)
qed

lemma rg_get_now:
  assumes "d_ok w" "begun tid i key w"
  shows "rg d_moves (\<lambda>r v. d_ok v \<and> (\<forall>rec. r = Inr rec \<longrightarrow> bound_to tid i key rec v)) (get_now tid i) w"
  unfolding get_now_def
proof (rule dm.rg_bind[OF rg_dq[where F = "\<lambda>x v. \<forall>rec. x = Some rec \<longrightarrow> bound_to tid i key rec v"]])
  fix v assume v: "d_ok v" "begun tid i key v"
  then have k: "keyed rec_key (d_recs (dw_d v))" by (simp add: d_ok_def recs_ok_def)
  have "bound_to tid i key rec v" if "rec_get tid i (dw_d v) = Some rec" for rec
  proof -
    from that obtain x where x: "sel1 (rec_at tid i) (d_recs (dw_d v)) = Some x" "rec = toRecord (snd x)"
      by (auto simp: rec_get_def)
    from sel1_Some[OF x(1)] have in': "x \<in> set (d_recs (dw_d v))" "rec_key x = (tid, i)" by (simp_all add: rec_at_key)
    have "y = x" if "y \<in> set (d_recs (dw_d v))" "rec_key y = (tid, i)" for y
      using keyed_eqD[OF k that(1) in'(1)] that(2) in'(2) by simp
    moreover have "rd_id rec = i" using in'(2) x(2) by (simp add: toRecord_def rec_key_def)
    ultimately show ?thesis using v(2) x(2) by (auto simp: bound_to_def row_best_def toRecord_def)
  qed
  then show "\<forall>rec. rec_get tid i (dw_d v) = Some rec \<longrightarrow> bound_to tid i key rec v" by blast
next
  fix found v
  assume f: "d_ok v \<and> (\<exists>x. Inr found = Inr x \<and> (\<forall>rec. x = Some rec \<longrightarrow> bound_to tid i key rec v))"
  then show "rg d_moves (\<lambda>r v. d_ok v \<and> (\<forall>rec. r = Inr rec \<longrightarrow> bound_to tid i key rec v))
      (case found of None \<Rightarrow> pthrow TypeErr | Some r \<Rightarrow> pret r) v"
    by (cases found) (auto intro!: dm.rg_pret dm.rg_pthrow intro: d_moves_ok bound_to_stable)
qed (use assms in \<open>auto intro: begun_stable bound_to_stable\<close>)

subsection \<open>The remote call and the execution\<close>

definition executor :: "CallCtx \<Rightarrow> CallCtx" where
  "executor ctx = serviceCtx (ctx_tid ctx) EXECUTOR (Some (ctx_requestId ctx)) (Some (ctx_locale ctx))"

lemma executor_sel [simp]: "ctx_tid (executor ctx) = ctx_tid ctx" "by_executor (executor ctx)"
  by (simp_all add: executor_def serviceCtx_def by_executor_def)

definition ran :: "string \<Rightarrow> string \<Rightarrow> RecRecord \<Rightarrow> dworld \<Rightarrow> bool" where
  "ran tid key rec w \<longleftrightarrow>
     (\<exists>c. bestCandidate (rd_ranking rec) (rd_candidates rec) = Some c \<and> logged_run (gw_db w) tid key c)"

lemma ran_stable: "ran tid key rec w \<Longrightarrow> d_ok w \<Longrightarrow> d_moves w w' \<Longrightarrow> ran tid key rec w'"
  unfolding ran_def d_moves_def gw_moves_def d_ok_def by (blast intro: logged_run_moves)

lemma backed_logged: "backed tid (exec_command i key c) r db \<Longrightarrow> logged_run db tid key c"
  by (auto simp: backed_def logged_run_def list_ex_iff exec_command_def)

lemma send_moves:
  assumes "d_ok v" "bound_to (ctx_tid ctx) i key rec v"
    and "bestCandidate (rd_ranking rec) (rd_candidates rec) = Some c"
  shows "d_moves v (v\<lparr>dw_net := dw_net v @ [(executor ctx, exec_command (rd_id rec) key c)]\<rparr>)"
proof -
  have "request_ok (dw_ids v) (d_recs (dw_d v)) (executor ctx, exec_command (rd_id rec) key c)"
    using assms by (auto simp: request_ok_def bound_to_def begun_def issued_def exec_command_def rec_key_def)
  with assms(1) show ?thesis by (simp add: d_moves_def d_ok_def gw_moves_def)
qed

lemma rg_net_send:
  assumes "d_ok w" "bound_to (ctx_tid ctx) i key rec w"
    and "bestCandidate (rd_ranking rec) (rd_candidates rec) = Some c"
  shows "rg d_moves (\<lambda>r v. bound_to (ctx_tid ctx) i key rec v \<and> d_ok v)
    (net_send (executor ctx) (exec_command (rd_id rec) key c)) w"
  unfolding net_send_def
proof (rule dm.rg_atomic)
  let ?m = "\<lambda>w. (Inr () :: exn + unit, w\<lparr>dw_net := dw_net w @ [(executor ctx, exec_command (rd_id rec) key c)]\<rparr>)"
  fix u assume u: "d_moves w u"
  then have ok: "d_ok u" "bound_to (ctx_tid ctx) i key rec u" using assms by (auto intro: d_moves_ok bound_to_stable)
  from send_moves[OF this assms(3)] show step: "d_moves u (snd (?m u))" by simp
  fix v assume "d_moves (snd (?m u)) v"
  with step have "d_moves u v" by (rule d_moves_trans)
  with ok show "bound_to (ctx_tid ctx) i key rec v \<and> d_ok v" by (blast intro: d_moves_ok bound_to_stable)
qed

lemma calm_net_cross: "dm.calm (net_cross lost)"
  unfolding net_cross_def by (rule dm.calm_gext)

lemma rg_then_ret:
  assumes "dm.calm p" "d_ok w" "F w" "\<And>u v. F u \<Longrightarrow> d_ok u \<Longrightarrow> d_moves u v \<Longrightarrow> F v"
  shows "rg d_moves (\<lambda>_ v. F v \<and> d_ok v) (pbind p (\<lambda>_. pret x)) w"
  by (rule dm.rg_bind[OF dm.calm_kept[where F = F, OF assms(1-3)]])
    (use assms(4) in \<open>auto intro!: dm.rg_pret intro: d_moves_ok\<close>)

lemma rg_remote:
  assumes "d_ok w" "bound_to (ctx_tid ctx) i key rec w"
    and "bestCandidate (rd_ranking rec) (rd_candidates rec) = Some c"
  shows "rg d_moves (\<lambda>r v. bound_to (ctx_tid ctx) i key rec v \<and> d_ok v
      \<and> (\<forall>x. r = Inr x \<longrightarrow> logged_run (gw_db v) (ctx_tid ctx) key c))
    (remote_applyAction E (executor ctx) (exec_command (rd_id rec) key c)) w"
    (is "rg _ ?Q _ _")
  unfolding remote_applyAction_def pthn_def
proof (rule dm.rg_bind[OF rg_net_send[OF assms]])
  let ?B = "bound_to (ctx_tid ctx) i key rec" and ?cmd = "exec_command (rd_id rec) key c"
  note st = bound_to_stable[of "ctx_tid ctx" i key rec]
  fix w1 assume w1: "?B w1 \<and> d_ok w1"
  show "rg d_moves ?Q (pbind (net_cross (de_rpc E)) (\<lambda>_. pbind (applyAction (genv.truncate E) (executor ctx) ?cmd)
      (\<lambda>r. pbind (net_cross (de_reply E)) (\<lambda>_. pret r)))) w1"
  proof (rule dm.rg_bind[OF dm.calm_kept[OF calm_net_cross, of w1 ?B]])
    fix w2 assume w2: "?B w2 \<and> d_ok w2"
    show "rg d_moves ?Q (pbind (applyAction (genv.truncate E) (executor ctx) ?cmd)
        (\<lambda>r. pbind (net_cross (de_reply E)) (\<lambda>_. pret r))) w2"
    proof (rule dm.rg_bind[OF dm.rg_kept[where F = ?B, OF dm.rg_applyAction]])
      fix r w3 assume w3: "answered (ctx_tid (executor ctx)) ?cmd (Inr r) w3 \<and> ?B w3 \<and> d_ok w3"
      let ?L = "\<lambda>v. ?B v \<and> logged_run (gw_db v) (ctx_tid ctx) key c"
      have lst: "?L v'" if "?L v" "d_ok v" "d_moves v v'" for v v'
        using that st by (auto simp: d_moves_def gw_moves_def d_ok_def intro: logged_run_moves)
      have L3: "?L w3" using w3 by (auto simp: answered_def dest: backed_logged)
      show "rg d_moves ?Q (pbind (net_cross (de_reply E)) (\<lambda>_. pret r)) w3"
        by (rule dm.rg_weaken[OF rg_then_ret[where F = ?L, OF calm_net_cross]]) (use w3 L3 lst in blast)+
    qed (use w2 st in auto)
  qed (use w1 st in auto)
qed auto

lemma rg_execute_best:
  assumes "d_ok w" "bound_to (ctx_tid ctx) i key rec w"
  shows "rg d_moves (\<lambda>r v. d_ok v \<and> (\<forall>e. r = Inr e \<longrightarrow>
      bound_to (ctx_tid ctx) i key rec v \<and> (xr_executed e \<longrightarrow> ran (ctx_tid ctx) key rec v)))
    (execute_best E ctx key rec) w"
proof (cases "bestCandidate (rd_ranking rec) (rd_candidates rec)")
  case None
  with assms show ?thesis
    by (auto simp: execute_best_def intro!: dm.rg_pret intro: d_moves_ok bound_to_stable)
next
  case (Some c)
  note best = Some
  let ?L = "\<lambda>v. bound_to (ctx_tid ctx) i key rec v \<and> ran (ctx_tid ctx) key rec v"
  let ?Q = "\<lambda>r v. d_ok v \<and> (\<forall>e. r = Inr e \<longrightarrow>
      bound_to (ctx_tid ctx) i key rec v \<and> (xr_executed e \<longrightarrow> ran (ctx_tid ctx) key rec v))"
  let ?M = "\<lambda>r v. d_ok v \<and> bound_to (ctx_tid ctx) i key rec v
      \<and> (\<forall>e. r = Inr e \<longrightarrow> xr_executed e \<longrightarrow> ran (ctx_tid ctx) key rec v)"
  show ?thesis
    unfolding execute_best_def best option.case executor_def[symmetric]
  proof (rule dm.rg_try[where M = ?M], rule dm.rg_bind[OF rg_remote[OF assms best, of E]])
    fix x :: ActionResult and v
    assume "bound_to (ctx_tid ctx) i key rec v \<and> d_ok v \<and> (\<forall>y. Inr x = Inr y \<longrightarrow> logged_run (gw_db v) (ctx_tid ctx) key c)"
    then have "?L v" "d_ok v" using best by (auto simp: ran_def)
    then show "rg d_moves ?M (pret \<lparr>xr_candidateId = cd_id c, xr_executed = True,
        xr_actionLogId = Some (ar_actionLogId x), xr_error = None\<rparr>) v"
      by (intro dm.rg_pret) (blast intro: d_moves_ok bound_to_stable ran_stable)
  next
    fix e :: exn and v assume "?M (Inl e) v"
    then show "rg d_moves ?Q (pret (failed_entry c e)) v"
      by (intro dm.rg_pret) (auto simp: failed_entry_def Let_def intro: d_moves_ok bound_to_stable)
  qed auto
qed

lemma calm_pushSummary: "dm.calm (pushSummary E ctx dto)"
  unfolding pushSummary_def
  by (intro dm.calm_try dm.calm_pret dm.calm_atomic)
    (auto simp: d_moves_def d_ok_def gw_moves_def split: sum.splits)

lemma calm_get_now: "dm.calm (get_now tid i)"
  unfolding get_now_def by (intro dm.calm_parts calm_dq)

lemma step_finish:
  assumes "d_ok v" "bound_to tid i key rec v" "executed \<Longrightarrow> ran tid key rec v"
  shows "d_moves v (v\<lparr>dw_d := rec_finish tid i executed es (dw_d v)\<rparr>)"
proof (rule d_moves_upd[OF assms(1)])
  show "d_recs (rec_finish tid i executed es (dw_d v))
      = upd (running tid i) (on_row (finish_row executed es)) (d_recs (dw_d v))"
    by (simp add: rec_finish_def)
  show "recs_step (gw_db v) (d_recs (dw_d v)) (running tid i) (finish_row executed es)"
  proof (rule recs_step_keep[OF assms(1)])
    fix x assume x: "x \<in> set (d_recs (dw_d v))" "running tid i x" "row_ok (snd x)"
    then have key: "rec_key x = (tid, i)" and st: "rw_status (snd x) = RecConfirmed"
      by (simp_all add: running_def rec_at_key)
    with assms(2) x(1) have b: "rw_decision_key (snd x) = Some key" "1 \<le> rw_exec_attempts (snd x)"
        "row_best (snd x) = bestCandidate (rd_ranking rec) (rd_candidates rec)"
      by (simp_all add: bound_to_def begun_def)
    from st x(3) b(1,2) have "row_moves (snd x) (finish_row executed es (snd x))" "row_ok (finish_row executed es (snd x))"
      by (simp_all add: row_moves_def row_ok_def final_status_def finish_row_def)
    moreover have "executed_ok (gw_db v) (on_row (finish_row executed es) x)"
    proof (cases executed)
      case True
      with assms(3) b key show ?thesis
        by (auto simp: executed_ok_def ran_def finish_row_def row_best_def rec_key_def)
    qed (simp add: executed_ok_def finish_row_def)
    ultimately show "row_moves (snd x) (finish_row executed es (snd x)) \<and> row_ok (finish_row executed es (snd x))
        \<and> executed_ok (gw_db v) (on_row (finish_row executed es) x) \<and> rw_status (snd x) \<noteq> RecExecuted"
      using st by simp
  qed (simp add: finish_row_def)
qed

lemma rg_record_outcome:
  assumes "d_ok w" "bound_to (ctx_tid ctx) i key rec w" "xr_executed e \<Longrightarrow> ran (ctx_tid ctx) key rec w"
  shows "rg d_moves (\<lambda>_ _. True) (record_outcome E ctx i rec e) w"
  unfolding record_outcome_def pthn_def
proof (rule dm.rg_bind[OF rg_drun[where F = "\<lambda>_ _. True"
      and B = "\<lambda>v. d_ok v \<and> bound_to (ctx_tid ctx) i key rec v \<and> (xr_executed e \<longrightarrow> ran (ctx_tid ctx) key rec v)"]])
  fix v assume "d_ok v" "d_ok v \<and> bound_to (ctx_tid ctx) i key rec v \<and> (xr_executed e \<longrightarrow> ran (ctx_tid ctx) key rec v)"
  then show "d_moves v (v\<lparr>dw_d := snd ((), rec_finish (ctx_tid ctx) i (xr_executed e)
      ((case rd_execution rec of None \<Rightarrow> [] | Some xs \<Rightarrow> xs) @ [e]) (dw_d v))\<rparr>)"
    using step_finish[of v "ctx_tid ctx" i key rec "xr_executed e"] by simp
next
  fix x v assume "d_ok v \<and> (\<exists>y. Inr x = Inr y \<and> True)"
  then have "d_ok v" ..
  moreover have "dm.calm (pbind (get_now (ctx_tid ctx) i)
      (\<lambda>r. pbind (pushSummary E ctx (toDto r)) (\<lambda>_. pret (toDto r))))"
    by (intro dm.calm_parts calm_get_now calm_pushSummary)
  ultimately show "rg d_moves (\<lambda>_ _. True) (pbind (get_now (ctx_tid ctx) i)
      (\<lambda>r. pbind (pushSummary E ctx (toDto r)) (\<lambda>_. pret (toDto r)))) v"
    by (simp add: dm.calm_def)
qed (use assms in \<open>auto intro: d_moves_ok bound_to_stable ran_stable\<close>)

lemma calm_run: "dm.calm (run_decision E ctx i key)"
  unfolding run_decision_def
proof (rule dm.calmI, rule dm.rg_bind[OF rg_drun[where B = "\<lambda>_. True"
      and F = "\<lambda>ok v. ok \<longrightarrow> begun (ctx_tid ctx) i key v"]])
  fix w started v
  assume v: "d_ok v \<and> (\<exists>ok. Inr started = Inr ok \<and> (ok \<longrightarrow> begun (ctx_tid ctx) i key v))"
  let ?k = "\<lambda>rec. if \<not> started then pret (toDto rec)
      else pbind (execute_best E ctx key rec) (\<lambda>entry. record_outcome E ctx i rec entry)"
  show "rg d_moves (\<lambda>_ _. True) (pbind (get_now (ctx_tid ctx) i) ?k) v"
  proof (cases started)
    case False
    have "dm.calm (pbind (get_now (ctx_tid ctx) i) ?k)" using False by (auto intro!: dm.calm_bind calm_get_now dm.calm_pret)
    with v show ?thesis by (simp add: dm.calm_def)
  next
    case True
    with v have b: "d_ok v" "begun (ctx_tid ctx) i key v" by auto
    show ?thesis
    proof (rule dm.rg_bind[OF rg_get_now[OF b]])
      fix rec u assume "d_ok u \<and> (\<forall>r. Inr rec = Inr r \<longrightarrow> bound_to (ctx_tid ctx) i key r u)"
      then have "d_ok u" "bound_to (ctx_tid ctx) i key rec u" by auto
      from dm.rg_bind[OF rg_execute_best[OF this, of E], of "\<lambda>_ _. True" "record_outcome E ctx i rec"] True
      show "rg d_moves (\<lambda>_ _. True) (?k rec) u" by (auto intro: rg_record_outcome)
    qed simp
  qed
qed (auto intro: step_begin begin_begun begun_stable)

subsection \<open>Every call\<close>

lemmas d_calm = dm.calm_parts calm_dq calm_drun calm_get_now calm_pushSummary calm_run
  step_expire step_clear step_scenarios

lemma calm_replay_decision: "dm.calm (replay_decision E ctx rec key)"
  unfolding replay_decision_def Let_def by (intro d_calm)

lemma calm_take: "dm.calm (take_decision E ctx input key decidedBy t rec)"
  unfolding take_decision_def by (intro d_calm calm_ddo step_claim calm_replay_decision)

lemma calm_decide: "dm.calm (decide E ctx i raw key)"
  unfolding decide_def by (intro d_calm calm_replay_decision calm_take)

lemma calm_list: "dm.calm (listRecommendations ctx status cur limit)"
  unfolding listRecommendations_def by (intro d_calm)

lemma calm_get: "dm.calm (getRecommendation ctx i)"
  unfolding getRecommendation_def by (intro d_calm)

lemma calm_usage: "dm.calm (recommendationUsage E ctx)"
  unfolding recommendationUsage_def Let_def by (intro d_calm)

lemma calm_clearDecisions: "dm.calm (clearDecisions ctx)"
  unfolding clearDecisions_def by (intro d_calm)

lemma calm_getScenario: "dm.calm (getScenario ctx i)"
  unfolding getScenario_def by (intro d_calm)

datatype dec_call =
    DecDecide CallCtx string "AppError + DecisionInput" string
  | DecGet CallCtx string
  | DecList CallCtx "RecStatus option option" "(int \<times> string) option" "jsnum option"
  | DecUsage CallCtx
  | DecClear CallCtx
  | DecScenario CallCtx string
  | DecLate nat
  | DecGraph graph_call

text \<open>\<open>DecLate j\<close> is the arrival of the request number \<open>j\<close> the engine once sent: late, or a second time.\<close>

primrec start_dec :: "denv \<Rightarrow> dec_call \<Rightarrow> unit dp" where
  "start_dec E (DecDecide ctx i raw key) = pvoid (decide E ctx i raw key)"
| "start_dec E (DecGet ctx i) = pvoid (getRecommendation ctx i)"
| "start_dec E (DecList ctx status cur limit) = pvoid (listRecommendations ctx status cur limit)"
| "start_dec E (DecUsage ctx) = pvoid (recommendationUsage E ctx)"
| "start_dec E (DecClear ctx) = pvoid (clearDecisions ctx)"
| "start_dec E (DecScenario ctx i) = pvoid (getScenario ctx i)"
| "start_dec E (DecLate j) =
     pbind (atomic (gets (\<lambda>w. if j < length (dw_net w) then Some (dw_net w ! j) else None))) (\<lambda>q.
       case q of None \<Rightarrow> pret () | Some (ctx, cmd) \<Rightarrow> pvoid (applyAction (genv.truncate E) ctx cmd))"
| "start_dec E (DecGraph c) = pvoid (start_call (genv.truncate E) c)"

text \<open>
  From outside: the clock, the random bytes, the remote services and pushed summaries, and a new
  recommendation, \<open>Proposed\<close> under an id not used before (\<^verbatim>\<open>generate_recommendation.ts\<close>).
\<close>

definition dw_outside :: "dworld \<Rightarrow> dworld \<Rightarrow> bool" where
  "dw_outside w w' \<longleftrightarrow>
     gw_db w' = gw_db w \<and> dw_net w' = dw_net w
     \<and> (dw_ids w' = dw_ids w \<and> d_recs (dw_d w') = d_recs (dw_d w)
        \<or> (\<exists>P tid rec. rd_status rec = RecProposed \<and> (tid, rd_id rec) \<notin> set (dw_ids w)
             \<and> rec_insert P tid rec (dw_d w) = (Inr (), dw_d w') \<and> dw_ids w' = dw_ids w @ [(tid, rd_id rec)]))"

abbreviation dec_steps where
  "dec_steps E \<equiv> (pool_step (start_dec E) (\<lambda>_. True) dw_outside)\<^sup>*\<^sup>*"

lemma calm_start_dec: "dm.calm (start_dec E c)"
proof (cases c)
  case (DecLate j)
  show ?thesis
    unfolding DecLate start_dec.simps
    by (intro d_calm dm.calm_applyAction dm.calm_atomic) (simp add: d_moves_refl)
next
  case (DecGraph g)
  have "dm.calm (start_call (genv.truncate E) g)"
    by (cases g; simp only: start_call.simps;
        intro d_calm dm.calm_applyAction dm.calm_patch dm.calm_clear dm.calm_getObject dm.calm_getObjects)
  with DecGraph show ?thesis by (simp add: dm.calm_void)
qed (simp_all add: dm.calm_void calm_decide calm_get calm_list calm_usage calm_clearDecisions calm_getScenario)

lemma request_ok_new:
  assumes "request_ok ids recs q" "rec_key x \<notin> set ids"
  shows "request_ok (ids @ [rec_key x]) (recs @ [x]) q"
  using assms by (auto simp: request_ok_def)

lemma recs_ok_new:
  assumes "recs_ok db ids recs" "rec_key x \<notin> set ids" "rw_status (snd x) = RecProposed"
    "rw_decision_key (snd x) = None" "rw_exec_attempts (snd x) = 0"
  shows "recs_ok db (ids @ [rec_key x]) (recs @ [x])"
proof -
  have "keyed rec_key (recs @ [x])" using assms(1,2) by (auto simp: recs_ok_def keyed_append)
  moreover have "keys_used_once (recs @ [x])"
    using assms(1,4) by (auto simp: recs_ok_def keys_used_once_def)
  moreover have "row_ok (snd x)" "executed_ok db x"
    using assms(3-5) by (simp_all add: row_ok_def executed_ok_def DECISION_execAttemptsMax_def)
  ultimately show ?thesis using assms(1) by (simp add: recs_ok_def)
qed

lemma dw_outside_moves:
  assumes "d_ok w" "dw_outside w w'"
  shows "d_moves w w'"
proof (cases "dw_ids w' = dw_ids w \<and> d_recs (dw_d w') = d_recs (dw_d w)")
  case True
  with assms show ?thesis by (simp add: dw_outside_def d_moves_def d_ok_def gw_moves_def)
next
  case False
  with assms(2) obtain P tid rec where new: "rd_status rec = RecProposed" "(tid, rd_id rec) \<notin> set (dw_ids w)"
      "rec_insert P tid rec (dw_d w) = (Inr (), dw_d w')" "dw_ids w' = dw_ids w @ [(tid, rd_id rec)]"
    and same: "gw_db w' = gw_db w" "dw_net w' = dw_net w"
    unfolding dw_outside_def by blast
  from new(3) obtain row where row: "rec_row P rec = Some row" "d_recs (dw_d w') = d_recs (dw_d w) @ [(tid, row)]"
    by (auto simp: rec_insert_def split: option.splits if_splits dest!: sym[where t = "dw_d w'"])
  from row(1) new(1) have r: "rw_id row = rd_id rec" "rw_status row = RecProposed" "rw_decision_key row = None"
      "rw_exec_attempts row = 0"
    by (auto simp: rec_row_def split: option.splits)
  let ?x = "(tid, row)"
  have k: "rec_key ?x = (tid, rd_id rec)" using r(1) by (simp add: rec_key_def)
  have "recs_ok (gw_db w) (dw_ids w @ [rec_key ?x]) (d_recs (dw_d w) @ [?x])"
    using assms(1) new(2) r k by (intro recs_ok_new) (simp_all add: d_ok_def)
  moreover have "request_ok (dw_ids w @ [rec_key ?x]) (d_recs (dw_d w) @ [?x]) q" if "q \<in> set (dw_net w)" for q
    using assms(1) that new(2) k by (intro request_ok_new) (simp_all add: d_ok_def)
  ultimately have "d_ok w'" using assms(1) same new(4) row(2) k by (simp add: d_ok_def)
  moreover have "recs_move (dw_ids w) (d_recs (dw_d w)) (d_recs (dw_d w'))"
    using new(2) k row(2) by (auto simp: recs_move_def intro: bexI)
  ultimately show ?thesis using same new(4) by (simp add: d_moves_def gw_moves_def)
qed

lemma dec_pool_good:
  assumes "dec_steps E (w, []) (w', ps)" "d_ok w"
  shows "d_moves w w' \<and> d_ok w'"
proof -
  have start: "rg d_moves (\<lambda>_ _. True) (start_dec E c) v" if "d_ok v" for c v
    using calm_start_dec that by (simp add: dm.calm_def)
  show ?thesis
    using dm.pool_steps_good[OF assms(1) dm.pool_good_empty[of w "\<lambda>_ _ _. True", OF assms(2)]]
      start dw_outside_moves assms(2)
    by (auto intro: d_moves_ok)
qed

end
