(* ===== verification/DecisionProps.thy ===== *)
theory DecisionProps
  imports DecisionSteps
begin

section \<open>What the decision engine promises\<close>

text \<open>
  The properties of interleaved decisions, over the facts of \<open>DecisionSteps\<close>, with the concrete run on
  which they are witnessed: an owner confirms a recommendation whose action the object graph has logged.
\<close>

definition demo_candidate :: Candidate where
  "demo_candidate =
     \<lparr>cd_id = ''c1'', cd_actionType = ''move'', cd_displayName = Plain ''Move'', cd_target = demo_rid,
      cd_targetTitle = ''x'', cd_params = [], cd_expectedImpact = Fin 0, cd_affectedCount = 0\<rparr>"

definition demo_row :: RecRow where
  "demo_row =
     \<lparr>rw_id = ''R1'', rw_focus = demo_rid, rw_alert_id = None, rw_scenario_id = None, rw_status = RecProposed,
      rw_summary = None, rw_rationale = None, rw_locale = None, rw_candidates = [demo_candidate],
      rw_ranking = [''c1''], rw_evidence = [], rw_risks = [], rw_simulation = None, rw_confidence = None,
      rw_ranked_by = RankedByRules, rw_model = None, rw_decision_key = None, rw_decided_by = None,
      rw_decided_at = None, rw_reject_reason = None, rw_execution = None, rw_exec_attempts = 0,
      rw_created_at = 0, rw_expires_at = 86400000, rw_version = 1\<rparr>"

definition demo_key16 :: string where
  "demo_key16 = ''key-0123456789abcdef''"

definition demo_dgdb :: gdb where
  "demo_dgdb = demo_gdb\<lparr>g_log := [(''t'', demo_logged\<lparr>al_idempotencyKey := demo_key16 @ '':0''\<rparr>)]\<rparr>"

definition demo_dworld :: "RecRow \<Rightarrow> (CallCtx \<times> ApplyActionCmd) list \<Rightarrow> dworld" where
  "demo_dworld row qs =
     \<lparr>gw_db = demo_dgdb, gw_now = 1000, gw_pos = 0, gw_calls = 0, gw_sent = [],
      dw_d = \<lparr>d_recs = [(''t'', row)], d_scenarios = [], d_usage = [], d_tombs = []\<rparr>, dw_net = qs, dw_pushed = [],
      dw_ids = [(''t'', ''R1'')]\<rparr>"

definition demo_denv :: denv where
  "demo_denv =
     genv.extend (demo_genv\<lparr>ge_plat := demo_platform\<lparr>dateParse := (\<lambda>_. Some 86400000)\<rparr>\<rparr>)
       \<lparr>de_rpc = (\<lambda>_. None), de_reply = (\<lambda>_. None), de_push = (\<lambda>_. Inl TypeErr), de_recAiUserDailyLimit = 3\<rparr>"

definition demo_done :: RecRow where
  "demo_done = demo_row\<lparr>rw_status := RecExecuted, rw_decision_key := Some demo_key16, rw_decided_by := Some Owner,
     rw_decided_at := Some 1000, rw_exec_attempts := 1, rw_version := 4,
     rw_execution := Some [\<lparr>xr_candidateId = ''c1'', xr_executed = True, xr_actionLogId = Some ''L1'', xr_error = None\<rparr>]\<rparr>"

definition demo_request :: "CallCtx \<times> ApplyActionCmd" where
  "demo_request = (serviceCtx ''t'' EXECUTOR (Some ''r'') (Some EnUS), exec_command ''R1'' demo_key16 demo_candidate)"

text \<open>The request arrives a second time.\<close>

lemma demo_late:
  "solo (start_dec demo_denv (DecLate 0)) (demo_dworld demo_done [demo_request])
     = (Inr (), demo_dworld demo_done [demo_request])"
  by code_simp

lemma demo_late_run:
  "dec_steps demo_denv (demo_dworld demo_done [demo_request], [])
     (demo_dworld demo_done [demo_request], [(DecLate 0, Done (Inr ()))])"
  using pool_call[of "\<lambda>_. True" "DecLate 0" "start_dec demo_denv" _ "Inr ()" _ dw_outside "[]"] demo_late
  by simp

lemma keyed_filter_one: "keyed k t \<Longrightarrow> r \<in> set t \<Longrightarrow> filter (\<lambda>x. k x = k r) t = [r]"
  by (induction t) (auto simp: filter_empty_conv image_iff)

lemma demo_dgraph_ok: "graph_ok demo_dgdb"
  by code_simp

lemma demo_best: "row_best demo_done = Some demo_candidate"
  by (simp add: row_best_def bestCandidate_def demo_done_def demo_row_def demo_candidate_def)

lemma demo_d_ok: "d_ok (demo_dworld demo_done [demo_request])"
proof -
  have "row_ok demo_done" by (simp add: row_ok_def demo_done_def demo_row_def DECISION_execAttemptsMax_def)
  moreover have "logged_run demo_dgdb ''t'' demo_key16 demo_candidate"
    by (simp add: logged_run_def demo_dgdb_def demo_logged_def demo_candidate_def)
  then have "executed_ok demo_dgdb (''t'', demo_done)"
    using demo_best by (auto simp: executed_ok_def demo_done_def)
  moreover have "issued demo_done (snd demo_request)"
    using demo_best by (simp add: issued_def demo_request_def demo_done_def demo_row_def)
  ultimately show ?thesis
    using demo_dgraph_ok
    by (simp add: d_ok_def recs_ok_def demo_dworld_def keys_used_once_def rec_key_def request_ok_def demo_request_def
        by_executor_def serviceCtx_def exec_command_def demo_done_def demo_row_def)
qed

text \<open>C12: whatever calls run interleaved, are lost, answered late or delivered twice, each request the
  engine has sent for a stored recommendation comes from its service principal and runs exactly the best
  candidate, with its fixed parameters, under the one key of a decision a person took; a recommendation
  that is proposed, rejected or expired has sent none, and none is started more than three times.\<close>

theorem only_decided_run:
  assumes "dec_steps E (w, []) (w', ps)" "d_ok w"
    and "(ctx, cmd) \<in> set (dw_net w')" "(ctx_tid ctx, r) \<in> set (d_recs (dw_d w'))"
    and "ac_recommendationId cmd = Some (rw_id r)"
  shows "by_executor ctx \<and> rw_decided_by r \<noteq> None
    \<and> rw_status r \<in> {RecConfirmed, RecExecuted, RecExecFailed}
    \<and> 1 \<le> rw_exec_attempts r \<and> rw_exec_attempts r \<le> DECISION_execAttemptsMax
    \<and> (\<exists>key c. rw_decision_key r = Some key \<and> row_best r = Some c \<and> cmd = exec_command (rw_id r) key c)"
proof -
  have ok: "d_ok w'" using dec_pool_good[OF assms(1,2)] ..
  with assms(3) have q: "request_ok (dw_ids w') (d_recs (dw_d w')) (ctx, cmd)" by (simp add: d_ok_def)
  have "row_ok r" using ok assms(4) by (auto simp: d_ok_def recs_ok_def)
  moreover have "issued r cmd" using q assms(4,5) by (fastforce simp: request_ok_def rec_key_def)
  moreover have "by_executor ctx" using q by (simp add: request_ok_def)
  ultimately show ?thesis by (cases "rw_status r") (simp_all add: row_ok_def issued_def)
qed

lemma only_decided_run_witness:
  "rw_decided_by demo_done \<noteq> None \<and> rw_exec_attempts demo_done \<le> DECISION_execAttemptsMax"
  using only_decided_run[OF demo_late_run demo_d_ok, of "fst demo_request" "snd demo_request" demo_done]
  by (simp add: demo_dworld_def demo_request_def serviceCtx_def exec_command_def demo_done_def demo_row_def)

text \<open>C13: an executed recommendation has run exactly once: under every interleaving the action log holds
  exactly one row under its key, it is for the target of the best candidate, and the key belongs to no
  other recommendation of the workspace.\<close>

theorem executed_once:
  assumes "dec_steps E (w, []) (w', ps)" "d_ok w"
    and "(tid, r) \<in> set (d_recs (dw_d w'))" "rw_status r = RecExecuted"
  shows "\<exists>key c. rw_decision_key r = Some key \<and> row_best r = Some c
    \<and> (\<exists>l. filter (\<lambda>x. fst x = tid \<and> al_idempotencyKey (snd x) = key @ '':0'') (g_log (gw_db w')) = [(tid, l)]
          \<and> al_targetRid l = cd_target c)
    \<and> (\<forall>r'. (tid, r') \<in> set (d_recs (dw_d w')) \<and> rw_decision_key r' = Some key \<longrightarrow> r' = r)"
proof -
  have ok: "d_ok w'" using dec_pool_good[OF assms(1,2)] ..
  then have recs: "recs_ok (gw_db w') (dw_ids w') (d_recs (dw_d w'))" and g: "keyed log_key (g_log (gw_db w'))"
    by (simp_all add: d_ok_def graph_ok_def)
  from recs assms(3) have "executed_ok (gw_db w') (tid, r)" by (auto simp: recs_ok_def)
  with assms(4) obtain key c where kc: "rw_decision_key r = Some key" "row_best r = Some c"
    "logged_run (gw_db w') tid key c" by (auto simp: executed_ok_def)
  then obtain l where l: "(tid, l) \<in> set (g_log (gw_db w'))" "al_idempotencyKey l = key @ '':0''"
    "al_targetRid l = cd_target c" by (auto simp: logged_run_def list_ex_iff)
  have "(\<lambda>x. fst x = tid \<and> al_idempotencyKey (snd x) = key @ '':0'') = (\<lambda>x. log_key x = log_key (tid, l))"
    using l(2) by (auto simp: log_key_def fun_eq_iff)
  with keyed_filter_one[OF g l(1)]
  have "filter (\<lambda>x. fst x = tid \<and> al_idempotencyKey (snd x) = key @ '':0'') (g_log (gw_db w')) = [(tid, l)]" by simp
  moreover have "r' = r" if "(tid, r') \<in> set (d_recs (dw_d w'))" "rw_decision_key r' = Some key" for r'
    using recs that assms(3) kc(1) unfolding recs_ok_def keys_used_once_def by fastforce
  ultimately show ?thesis using kc l(3) by blast
qed

lemma executed_once_witness:
  "\<exists>l. filter (\<lambda>x. fst x = ''t'' \<and> al_idempotencyKey (snd x) = demo_key16 @ '':0'') (g_log demo_dgdb) = [(''t'', l)]
     \<and> al_targetRid l = demo_rid"
  using executed_once[OF demo_late_run demo_d_ok, of "''t''" demo_done] demo_best
  by (simp add: demo_dworld_def demo_done_def demo_candidate_def)



subsection \<open>Impact propagation\<close>

definition in_unit :: "jsnum \<Rightarrow> bool" where
  "in_unit v \<longleftrightarrow> v = NaN \<or> num_le (Fin (- 1)) v \<and> num_le v (Fin 1)"

text \<open>The impacts are clamped, the distances bounded, each reached object has both.\<close>

definition wave_ok :: "PropagationOptions \<Rightarrow> (string \<times> jsnum) list \<Rightarrow> (string \<times> nat) list \<Rightarrow> bool" where
  "wave_ok opts delta hop \<longleftrightarrow>
     (\<forall>x \<in> set delta. in_unit (snd x)) \<and> (\<forall>x \<in> set hop. snd x \<le> po_maxHops opts)
     \<and> fst ` set delta = fst ` set hop \<and> distinct (map fst hop)"

lemma in_unit_clamp: "in_unit (clamp v (Fin (- 1)) (Fin 1))"
  by (cases v) (auto simp: in_unit_def clamp_def num_le_def num_eq_def)

lemma reach_ok:
  assumes "wave_ok opts (fst st) (fst (snd st))" "d \<le> po_maxHops opts"
  shows "wave_ok opts (fst (reach rid d v st)) (fst (snd (reach rid d v st)))"
  using assms set_put_subset[of rid "clamp (num_add (delta_of (fst st) rid) v) (Fin (- 1)) (Fin 1)" "fst st"]
  by (cases st) (auto simp: reach_def wave_ok_def in_unit_clamp insert_absorb)

lemma fold_wave:
  assumes "\<And>x st. x \<in> set xs \<Longrightarrow> P st \<Longrightarrow> P (f x st)" "P st"
  shows "P (fold f xs st)"
  using assms by (induction xs arbitrary: st) auto

lemma visit_node_ok:
  assumes "wave_ok opts (fst st) (fst (snd st))"
  shows "wave_ok opts (fst (visit_node P opts adj i st)) (fst (snd (visit_node P opts adj i st)))"
proof -
  have "wave_ok opts (fst (fold (visit_edge P opts d di) wes st)) (fst (snd (fold (visit_edge P opts d di) wes st)))"
    if "d < po_maxHops opts" for d di wes
    by (rule fold_wave) (use that assms in \<open>auto simp: visit_edge_def Let_def intro!: reach_ok\<close>)
  with assms show ?thesis by (auto simp: visit_node_def Let_def)
qed

lemma spread_ok:
  "wave_ok opts delta hop \<Longrightarrow> spread P opts adj delta hop queue = (delta', hop') \<Longrightarrow> wave_ok opts delta' hop'"
proof (induction P opts adj delta hop queue rule: spread.induct)
  case (2 P opts adj delta hop i queue)
  obtain d1 h1 q1 where v: "visit_node P opts adj i (delta, hop, queue) = (d1, h1, q1)"
    by (cases "visit_node P opts adj i (delta, hop, queue)")
  with visit_node_ok[of opts "(delta, hop, queue)" P adj i] "2.prems"(1) have "wave_ok opts d1 h1" by simp
  with "2.IH"[OF v[symmetric]] "2.prems"(2) v show ?case by simp
qed simp

text \<open>C40: impact propagation always ends; whatever the weights and the perturbations, every impact lies in
  [-1, 1] (or is not a number), an object is at most two hops from a perturbed one, and exactly the
  objects reached have an impact and, once each, a distance.\<close>

theorem propagate_bounded:
  "let im = propagate P edges linkTypes perturbations in
     list_all (\<lambda>x. in_unit (snd x)) (im_delta im) \<and> list_all (\<lambda>x. snd x \<le> DECISION_maxHops) (im_hop im)
     \<and> fst ` set (im_delta im) = fst ` set (im_hop im) \<and> distinct (map fst (im_hop im))"
proof -
  let ?st = "fold seed perturbations ([], [], [])"
  have "wave_ok default_options (fst ?st) (fst (snd ?st))"
    by (rule fold_wave) (auto simp: seed_def wave_ok_def intro!: reach_ok[unfolded wave_ok_def])
  then show ?thesis
    using spread_ok[of default_options "fst ?st" "fst (snd ?st)" P "outAdjacency edges linkTypes" "snd (snd ?st)"]
    by (auto simp: propagate_def propagate_with_def wave_ok_def default_options_def list_all_iff
        split: prod.splits)
qed

end
