(* ===== verification/Spec2Isabelle.thy ===== *)
theory Spec2Isabelle
  imports OpsProps DecisionProps
begin

section \<open>OntoDecide CE: a verification development\<close>

text \<open>
  \<^bold>\<open>The program.\<close> OntoDecide CE is a decision-support system of Cloudflare Workers, one per bounded
  context. Each context is a package (\<^verbatim>\<open>packages/<context>\<close>: \<^verbatim>\<open>domain\<close> rules, \<^verbatim>\<open>application\<close> services,
  \<^verbatim>\<open>infrastructure\<close> adapters, \<^verbatim>\<open>interface\<close> entry points) deployed by a thin worker under \<^verbatim>\<open>apps\<close>, with
  a D1 (SQLite) database of its own. The contexts share \<^verbatim>\<open>packages/shared-kernel\<close> and call each other
  through typed RPC. This development models the shared kernel, the identity context (accounts,
  trials, sign-up, one-time codes, sessions, passkeys, the administrator's console, the audit trail
  and the archive saga, which ends a trial by exporting, mailing and purging the workspace in the
  other contexts before it deletes the account), the write side of the object graph (actions, patches,
  the outbox of domain events) and the decision engine, which simulates impacts, proposes actions and
  executes the one a person confirms by a remote call of the object graph.

  \<^bold>\<open>Foundations.\<close>
  \<^item> \<open>Prelude\<close>: effects, functions from a world to an exception or result and the world
    after it, so that what was done before a \<^verbatim>\<open>throw\<close> stays done; \<open>keeps P\<close> says an effect keeps
    \<open>P\<close> however it ends, and the collection \<open>keeps_intros\<close> proves it along the code. Tables are lists
    of rows (\<open>sel1\<close>, \<open>upd\<close>, \<open>hits\<close>, \<open>del\<close>, \<open>keyed\<close>, \<open>order_by\<close>).
  \<^item> \<open>Text\<close>: the JavaScript string operations on strings as lists of UTF-8 bytes.
  \<^item> \<open>Kernel\<close>, \<open>KernelLimits\<close>: \<^verbatim>\<open>clock.ts\<close>, \<^verbatim>\<open>errors.ts\<close>, \<^verbatim>\<open>call_ctx.ts\<close>, \<^verbatim>\<open>ids.ts\<close>, \<^verbatim>\<open>limits.ts\<close>,
    \<^verbatim>\<open>quota.ts\<close>, \<^verbatim>\<open>queue.ts\<close>, \<^verbatim>\<open>i18n.ts\<close>, \<^verbatim>\<open>http.ts\<close>, \<^verbatim>\<open>lifecycle.ts\<close>.
  \<^item> \<open>Encoding\<close>: \<^verbatim>\<open>crypto.ts\<close> without WebCrypto, \<^verbatim>\<open>json.ts\<close>; \<open>Counters\<close>: \<^verbatim>\<open>d1/counters.ts\<close> and the
    locale \<open>capped_counter\<close>.

  \<^bold>\<open>The domain rules of identity.\<close> \<open>IdTypes\<close> holds the row types and enumerations, \<open>Policies\<close> the
  pure rules of \<^verbatim>\<open>packages/identity/domain\<close>, \<open>ArchiveRules\<close> its \<^verbatim>\<open>archive_saga.ts\<close>.

  \<^bold>\<open>The database of identity.\<close> \<open>DbBase\<close> states the migration as the predicate \<open>db_ok\<close> and the
  transaction \<open>batch\<close>: every statement runs, the constraints are checked on the result, and a
  violation rolls everything back. \<open>DbTenancy\<close>, \<open>DbIdentity\<close> and \<open>DbPlatform\<close> translate the
  repositories \<^verbatim>\<open>infrastructure/d1_*.ts\<close> statement by statement. \<open>DbFacts\<close> shows that each
  of them keeps \<open>db_ok\<close> (collection \<open>db_oks\<close>), \<open>DbProps\<close> interprets \<open>capped_counter\<close> and \<open>one_shot\<close> on
  them, \<open>DbLifecycle\<close> proves the promises of the sign-up, session, rotation and trial statements,
  \<open>DbSteps\<close> defines \<open>db_step\<close>, one writing repository call with any arguments, \<open>db_reachable\<close>, and what
  holds along every sequence of such calls.

  \<^bold>\<open>The services of identity.\<close> \<open>World\<close> is what a service method works on: the database, the
  object store, the clock, random bytes, the log of what was sent, and the environment (configuration
  and the outside services). Then, one theory per part, in the order they call each other:
  \<open>Tokens\<close> (\<^verbatim>\<open>jwt.ts\<close>, \<^verbatim>\<open>tokens.ts\<close>, \<^verbatim>\<open>secrets.ts\<close>), \<open>Mail\<close> (\<^verbatim>\<open>application/notification\<close>), \<open>Sessions\<close>
  (\<^verbatim>\<open>account_service.ts\<close>, \<^verbatim>\<open>session_service.ts\<close>), \<open>Otp\<close> and \<open>Auth\<close> (\<^verbatim>\<open>otp_service.ts\<close>,
  \<^verbatim>\<open>admission_service.ts\<close>, \<^verbatim>\<open>auth_service.ts\<close>), \<open>Blobs\<close> (\<^verbatim>\<open>in_memory_blob_store.ts\<close>), \<open>Trials\<close> and
  \<open>Saga\<close> (\<^verbatim>\<open>application/tenancy\<close>), \<open>AuditTrail\<close> (\<^verbatim>\<open>audit_service.ts\<close>), \<open>Passkeys\<close>
  (\<^verbatim>\<open>passkey_service.ts\<close>), \<open>Admin\<close> (\<^verbatim>\<open>admin_service.ts\<close>, \<^verbatim>\<open>ops_flags.ts\<close>), \<open>Ops\<close>
  (\<^verbatim>\<open>bootstrap_admin.ts\<close>, \<^verbatim>\<open>export_service.ts\<close>, \<^verbatim>\<open>maintenance_service.ts\<close>,
  \<^verbatim>\<open>housekeeping_service.ts\<close>, \<^verbatim>\<open>interface/cron.ts\<close>) and \<open>Rpc\<close> (\<^verbatim>\<open>interface/identity_rpc.ts\<close>).

  \<^bold>\<open>The object graph.\<close> \<open>JsVal\<close> holds JavaScript values, with numbers as doubles (rationals rounded by
  \<open>fl\<close>, \<^verbatim>\<open>NaN\<close> and the infinities), \<open>RuleLogic\<close> the rules of \<^verbatim>\<open>json_logic.ts\<close> and \<^verbatim>\<open>filter.ts\<close> with
  the proof that a checked expression always evaluates, \<open>PropRules\<close> and \<open>GraphRules\<close>
  \<^verbatim>\<open>packages/object-graph/domain\<close> with \<^verbatim>\<open>domain_event.ts\<close> (proved about in \<open>GraphFacts\<close>), \<open>GraphDb\<close> the
  D1 statements and batches, \<open>GraphCalls\<close> the calls \<^verbatim>\<open>apply_action.ts\<close>, \<^verbatim>\<open>patch_object.ts\<close>,
  \<^verbatim>\<open>clear_workspace.ts\<close> and \<^verbatim>\<open>get_object.ts\<close>.

  \<^bold>\<open>The decision engine.\<close> \<open>DecisionRules\<close> is \<^verbatim>\<open>packages/decision/domain\<close> (neurons, propagation,
  simulation, candidates, focus), \<open>DecisionDb\<close> \<^verbatim>\<open>recommendation.ts\<close> and the repositories, \<open>DecisionCalls\<close>
  \<^verbatim>\<open>recommendations.ts\<close>, \<^verbatim>\<open>push.ts\<close>, \<^verbatim>\<open>clear_workspace.ts\<close> and the purge.

  \<^bold>\<open>Interleaving.\<close> The calls of these two contexts are \<open>prog\<close>s of \<open>Interleave\<close>: a call runs in pieces, one
  per \<^verbatim>\<open>await\<close>, and between two pieces any other call may run, the clock may move, a remote service may
  answer or fail, and the call itself may never go on. \<open>GraphSteps\<close> and \<open>DecisionSteps\<close> prove, by rely and
  guarantee, that every piece of every call moves the world along a relation; \<open>GraphProps\<close> and
  \<open>DecisionProps\<close> draw the properties of all pools of calls from it. The engine's request to the object
  graph may be lost before or after it ran, and may arrive late or again (\<open>DecLate\<close>).
\<close>

text \<open>
  \<^bold>\<open>What the theorems show.\<close>
  \<^item> Of the kernel: ULIDs sort by time and parse back; the text encodings decode to what was
    encoded; constant-time comparison decides equality (\<open>Kernel\<close>, \<open>Encoding\<close>).
  \<^item> Of the repositories: the schema holds in every reachable database; sign-up admits within every
    limit or not at all; workspaces move only ACTIVE, EXPIRED, ARCHIVING; the administrator is never
    lost; sessions stay within their cap; a refresh rotation has one winner; counters are never
    overshot; challenges and recovery codes are used once (\<open>DbLifecycle\<close>, \<open>DbSteps\<close>, \<open>DbProps\<close>).
  \<^item> Of sign-in: a replayed refresh token ends its family; a code is accepted only
    while it is live and right, five guesses kill it, ten failures a day lock the address
    (\<open>Sessions\<close>, \<open>OtpProps\<close>); mail counters count what was accepted (\<open>Mail\<close>).
  \<^item> Of the archive saga: a tick refines a small abstract saga for every answer of the outside
    services (\<open>SagaProps\<close>), an account is deleted only when every service holds nothing, an export
    ends within its part budget and the purge within its row budget (\<open>SagaLimits\<close>), and what is stored
    is the archive of exactly the staged parts (\<open>SagaArchive\<close>).
  \<^item> Of the console: the audit chain stays verifiable, an idempotent write runs once
    (\<open>AuditTrail\<close>), the passkey gate lets through exactly what it should, an assertion proves
    possession of a key and is not replayable (\<open>PasskeyProps\<close>), an administrator's method refuses every other
    actor (\<open>Rpc\<close>), a change of the administrator waits out its cool-down, the stages of a cron
    run are isolated, housekeeping removes exactly what has lapsed (\<open>OpsProps\<close>).
  \<^item> Of the object graph: an action's batch is all or nothing, no update is lost under any interleaving,
    an action runs once for an idempotency key (\<open>GraphProps\<close>); effects change only what they name,
    accepted properties have their declared types, a split filter means the filter, a split event carries
    every change once (\<open>GraphFacts\<close>).
  \<^item> Of the decision engine: only what a person confirmed is executed, with the candidate fixed before and
    under one key, an executed recommendation has exactly one execution in the action log, decisions are
    final, and propagated impacts stay in their bounds (\<open>DecisionProps\<close>).
  \<^item> Of the whole worker: every sequence of RPC calls and cron runs moves the database by
    repository steps only, so every invariant of \<open>DbSteps\<close> holds of the service (\<open>Rpc\<close>).

  \<^bold>\<open>Interfaces.\<close> Each locale is a contract between a component and its clients, interpreted on
  the model of the provider:
  \<open>capped_counter\<close> (the shared counters, the usage table, the sends per address), \<open>one_shot\<close>
  (challenges, recovery codes, reminders, set-up flags), \<open>mail_store\<close> (what sending a mail may do to
  a database invariant) and its extension \<open>repo_inv\<close> (an invariant every repository step keeps is
  kept by every service method; interpreted on \<open>db_ok\<close> and on \<open>db_reachable\<close>), and \<open>saga_store\<close> (how one
  step of the saga may write the ledger; interpreted on the phase, the part budget and the accounts).
  \<open>rely\<close> is the contract between a call and the calls around it, and its extension \<open>graph_rely\<close> that of whoever
  calls the object graph: the facts of \<open>applyAction\<close> are proved once in it and interpreted on the object
  graph alone (\<open>gm\<close>) and on the object graph with the decision engine around it (\<open>dm\<close>).

  \<^bold>\<open>Bounds and termination.\<close> \<open>fitToBudget\<close> is a function with a measure, because each
  round shortens a file; \<open>generateCode\<close>, which rejects biased draws, is a \<open>partial_function\<close> and
  \<open>generateCode_returns\<close> shows when it returns; \<open>zip_rounds\<close> is the loop of the code with its own bound of
  three rounds, \<open>append_tries\<close> that of the audit trail with five. The breadth-first \<open>spread\<close> of impacts is a
  function whose measure counts the objects not reached yet and those queued. No other loop of the modelled code
  is unbounded, so no fuel is needed.
\<close>

text \<open>
  \<^bold>\<open>Modelling decisions.\<close>
  \<^item> A string is its UTF-8 bytes. A JSON number of identity is an integer, an analytics figure a whole
    number; the numbers of properties and simulations are doubles (\<open>jsnum\<close>).
  \<^item> The clock stands still during a call (the code reads it at the start of each method) and moves
    between calls. Randomness is a stream of bytes with a position.
  \<^item> Calls to an outside service (mail, object store failures, the other contexts, the link signer)
    are numbered and answered by a function of the environment, which may answer with an exception at
    any of them. The theorems hold for every such function.
  \<^item> The calls of identity run one after the other. What holds under any interleaving of repository calls
    is stated over \<open>db_step\<close>: each repository call is one statement or one batch, which D1 runs
    atomically.
  \<^item> Foreign keys are checked at the end of a statement or batch (the migration declares them
    deferred). Transient failures of D1 itself are not modelled; a constraint violation is.
  \<^item> Hashes, HMAC, AES-GCM, signatures, deflate and the WebAuthn checks are functions of the environment. Where
    a theorem needs a law of one of them (a signature verifies what was signed, decryption inverts encryption), it is a
    named hypothesis.
  \<^item> What \<^verbatim>\<open>zod\<close> makes of a request body is an argument: its issues or the parsed value.
  \<^item> An e-mail is its recipient, template and data; a forged cursor of another type is the bind error
    D1 raises; callers that share a bootstrap run in flight are one call.

  \<^bold>\<open>Not modelled.\<close>
  \<^item> The integration, ontology (but the schema it compiles) and situation contexts. Identity sees the other
    contexts only through \<^verbatim>\<open>LifecycleService\<close>, the object graph sees the ontology through its compiled
    schema; both are functions of the environment.
  \<^item> Of the object graph: searches, filtered queries and walks in SQL, the bulk upsert, the cron and the life
    cycle. Of the decision engine: generating a recommendation (it enters as a new \<open>Proposed\<close> row under an
    unused id), running a scenario, the AI ranker with its prompts and port, the texts of \<^verbatim>\<open>ruleTexts\<close>, the
    export. A JSON column is the value that parsing it gives back.
  \<^item> The gateway and the browser application, whose code is HTTP and rendering glue over their
    frameworks, and the workers that wire the packages.
  \<^item> Of identity: logging and \<^verbatim>\<open>maskEmail\<close>, the e-mail templates, the HTTP adapters (Resend, B2,
    Turnstile, Cloudflare analytics, the WebAuthn library), the \<^verbatim>\<open>zod\<close> schemas and key generation.
  \<^item> Of the kernel: \<^verbatim>\<open>logger.ts\<close> and the tenant-scoped statement builder.
\<close>

end
